(* ===== verification/Prelude.thy ===== *)
theory Prelude
  imports
    Complex_Main
    "HOL-Library.Word"
    "HOL-Library.AList"
    "HOL-Library.List_Lexorder"
    "HOL-Library.Char_ord"
    "HOL-Library.Sublist"
    "HOL-Library.Multiset"
begin

section \<open>Prelude: the Go vocabulary shared by every component\<close>

text \<open>
  What the manager's packages use of the Go language and its standard library, and the generic
  lemmas about it.
  \<^item> \<open>go_map\<close>: a Go map as an association list with distinct keys. \<open>mget\<close>, \<open>mput\<close> and
    \<open>mdel\<close> are \<open>m[k]\<close>, \<open>m[k] = v\<close> and \<open>delete(m, k)\<close>. Go iterates over a map in an
    unspecified order, so an operation whose result depends on that order takes the order (a list
    of keys) as an argument; operations whose result does not depend on it read the list.
  \<^item> Go strings are byte strings: \<open>string\<close>, a list of 8-bit \<open>char\<close>s. Comparison is the
    bytewise lexicographic order of HOL-Library.List\_Lexorder.
  \<^item> \<open>time.Time\<close> is the number of nanoseconds since Go's zero time, so \<open>IsZero\<close> is
    \<open>t = 0\<close>; \<open>time.Now()\<close> is an argument of the operations that call it.
  \<^item> \<open>uint64\<close> is \<open>64 word\<close>; \<open>int\<close> and \<open>int64\<close> are \<open>int\<close>, with
    \<open>wrap64\<close> written at every addition or subtraction that can leave the range.
  \<^item> \<open>sort.Slice\<close> and \<open>sort.SliceStable\<close> are \<open>go_sort\<close>, a stable insertion sort. The
    slices that the code sorts with \<open>sort.Slice\<close> come from a map in unspecified order or have a
    comparator that separates all their elements; with the order as an argument every outcome of
    the unstable sort is an outcome of the model.
\<close>

named_theorems go_map_simps \<open>lookup, update and deletion in Go maps\<close>
named_theorems wf_intros \<open>preservation of the well-formedness of the manager's state\<close>
named_theorems frame_simps \<open>what an operation leaves unchanged\<close>

subsection \<open>Machine integers and time\<close>

type_synonym u64 = "64 word"
type_synonym time = int
type_synonym id = string

definition wrap64 :: "int \<Rightarrow> int" where
  "wrap64 x = (x + 2 ^ 63) mod 2 ^ 64 - 2 ^ 63"

definition int64_range :: "int \<Rightarrow> bool" where
  "int64_range x \<longleftrightarrow> - (2 ^ 63) \<le> x \<and> x < 2 ^ 63"

lemma wrap64_id [simp]: "int64_range x \<Longrightarrow> wrap64 x = x"
  by (simp add: wrap64_def int64_range_def)

lemma wrap64_range [simp]: "int64_range (wrap64 x)"
proof -
  have "0 \<le> (x + 2 ^ 63) mod 2 ^ 64" and "(x + 2 ^ 63) mod 2 ^ 64 < (2::int) ^ 64"
    by (rule pos_mod_sign, simp, rule pos_mod_bound, simp)
  then show ?thesis unfolding wrap64_def int64_range_def by simp
qed

lemma wrap64_cases:
  assumes "int64_range a"
  shows "wrap64 (a + 1) = (if a = 2 ^ 63 - 1 then - (2 ^ 63) else a + 1)"
proof (cases "a = 2 ^ 63 - 1")
  case True
  then show ?thesis by (simp add: wrap64_def)
next
  case False
  with assms have "int64_range (a + 1)" by (auto simp: int64_range_def)
  with False show ?thesis by simp
qed

subsection \<open>Error returns\<close>

text \<open>\<open>if err := r; err != nil { return err }; k\<close>, for functions that return an error only.\<close>

definition err_seq :: "'e option \<Rightarrow> 'e option \<Rightarrow> 'e option" where
  "err_seq r k = (case r of Some err \<Rightarrow> Some err | None \<Rightarrow> k)"

lemma err_seq_None [simp]: "err_seq r k = None \<longleftrightarrow> r = None \<and> k = None"
  by (cases r) (auto simp: err_seq_def)

lemma err_seq_simps [simp]: "err_seq (Some e) k = Some e" "err_seq None k = k"
  by (simp_all add: err_seq_def)

lemma if_err_None [simp]: "(if c then Some e else k) = None \<longleftrightarrow> \<not> c \<and> k = None"
  by auto

subsection \<open>Go maps\<close>

type_synonym ('k, 'v) go_map = "('k \<times> 'v) list"

definition mget :: "('k, 'v) go_map \<Rightarrow> 'k \<Rightarrow> 'v option" where
  "mget m k = map_of m k"

definition mput :: "'k \<Rightarrow> 'v \<Rightarrow> ('k, 'v) go_map \<Rightarrow> ('k, 'v) go_map" where
  "mput k v m = AList.update k v m"

definition mdel :: "'k \<Rightarrow> ('k, 'v) go_map \<Rightarrow> ('k, 'v) go_map" where
  "mdel k m = AList.delete k m"

definition mkeys :: "('k, 'v) go_map \<Rightarrow> 'k list" where
  "mkeys m = map fst m"

definition mvals :: "('k, 'v) go_map \<Rightarrow> 'v list" where
  "mvals m = map snd m"

definition map_wf :: "('k, 'v) go_map \<Rightarrow> bool" where
  "map_wf m \<longleftrightarrow> distinct (map fst m)"

text \<open>An iteration order of a map: every key once.\<close>

definition order_of :: "'k list \<Rightarrow> ('k, 'v) go_map \<Rightarrow> bool" where
  "order_of ord m \<longleftrightarrow> distinct ord \<and> set ord = set (mkeys m)"

lemma mget_Nil [simp, go_map_simps]: "mget [] k = None"
  by (simp add: mget_def)

lemma mget_mput [simp, go_map_simps]: "mget (mput k v m) j = (if j = k then Some v else mget m j)"
  by (simp add: mget_def mput_def update_conv')

lemma mget_mput_fun: "mget (mput k v m) = (mget m)(k \<mapsto> v)"
  by (rule ext) simp

lemma mget_mdel [simp, go_map_simps]: "mget (mdel k m) j = (if j = k then None else mget m j)"
  by (simp add: mget_def mdel_def delete_conv')

lemma map_wf_Nil [simp, wf_intros]: "map_wf []"
  by (simp add: map_wf_def)

lemma map_wf_mput [simp, wf_intros]: "map_wf m \<Longrightarrow> map_wf (mput k v m)"
  by (simp add: map_wf_def mput_def distinct_update)

lemma map_wf_mdel [simp, wf_intros]: "map_wf m \<Longrightarrow> map_wf (mdel k m)"
  by (simp add: map_wf_def mdel_def distinct_delete)

lemma map_wf_filter [simp, wf_intros]: "map_wf m \<Longrightarrow> map_wf (filter P m)"
  unfolding map_wf_def by (induction m) auto

lemma mget_in_set: "mget m k = Some v \<Longrightarrow> (k, v) \<in> set m"
  by (simp add: mget_def map_of_SomeD)

lemma in_set_mget: "map_wf m \<Longrightarrow> (k, v) \<in> set m \<Longrightarrow> mget m k = Some v"
  by (simp add: map_wf_def mget_def)

lemma mget_iff_set: "map_wf m \<Longrightarrow> mget m k = Some v \<longleftrightarrow> (k, v) \<in> set m"
  using mget_in_set in_set_mget by fast

lemma mget_None_iff: "mget m k = None \<longleftrightarrow> k \<notin> set (mkeys m)"
  by (simp add: mget_def mkeys_def map_of_eq_None_iff)

lemma order_of_mem: "order_of ord m \<Longrightarrow> k \<in> set ord \<longleftrightarrow> mget m k \<noteq> None"
  unfolding order_of_def mget_None_iff by simp

lemma mvals_in: "v \<in> set (mvals m) \<longleftrightarrow> (\<exists>k. (k, v) \<in> set m)"
  by (force simp: mvals_def)

lemma set_mput: "set (mput k v m) \<subseteq> insert (k, v) (set m)"
  unfolding mput_def by (induction m) auto

lemma mget_filter:
  assumes "map_wf m"
  shows "mget (filter (\<lambda>(k, v). P k v) m) j =
    (case mget m j of Some v \<Rightarrow> if P j v then Some v else None | None \<Rightarrow> None)"
  using assms
proof (induction m)
  case Nil
  then show ?case by simp
next
  case (Cons kv m)
  obtain k v where kv: "kv = (k, v)" by force
  with Cons.prems have wf: "map_wf m" and k: "mget m k = None"
    by (auto simp: map_wf_def mget_None_iff mkeys_def)
  with Cons.IH kv k show ?case by (auto simp: mget_def)
qed

subsection \<open>Counting the values of a map\<close>

definition mcount :: "('v \<Rightarrow> bool) \<Rightarrow> ('k, 'v) go_map \<Rightarrow> nat" where
  "mcount P m = length (filter P (mvals m))"

lemma mcount_Nil [simp]: "mcount P [] = 0"
  by (simp add: mcount_def mvals_def)

lemma mcount_Cons [simp]: "mcount P ((k, v) # m) = (if P v then 1 else 0) + mcount P m"
  by (simp add: mcount_def mvals_def)

lemma mcount_mput_new: "mget m k = None \<Longrightarrow> mcount P (mput k v m) = mcount P m + (if P v then 1 else 0)"
  by (induction m) (auto simp: mput_def mget_def)

lemma mcount_mput_old:
  assumes "map_wf m" and "mget m k = Some w"
  shows "mcount P (mput k v m) + (if P w then 1 else 0) = mcount P m + (if P v then 1 else 0)"
  using assms
proof (induction m)
  case Nil
  then show ?case by simp
next
  case (Cons a m)
  obtain j u where a: "a = (j, u)" by force
  show ?case
  proof (cases "j = k")
    case True
    with Cons.prems a show ?thesis by (simp add: mput_def mget_def)
  next
    case False
    with Cons.prems a have "map_wf m" "mget m k = Some w"
      by (auto simp: map_wf_def mget_def)
    with Cons.IH have "mcount P (mput k v m) + (if P w then 1 else 0) = mcount P m + (if P v then 1 else 0)"
      by blast
    with False a show ?thesis by (simp add: mput_def)
  qed
qed

lemma mcount_mput_le: "map_wf m \<Longrightarrow> mcount P (mput k v m) \<le> mcount P m + (if P v then 1 else 0)"
  by (cases "mget m k") (use mcount_mput_new mcount_mput_old [of m k _ P v] in \<open>fastforce+\<close>)

subsection \<open>Strings\<close>

text \<open>
  The white space of \<open>unicode.IsSpace\<close>, each code point in its UTF-8 encoding. \<open>TrimSpace\<close>
  removes these sequences from both ends: decoding a rune at either end of a byte string gives one
  of them exactly when the string starts (or ends) with its encoding.
\<close>

definition space_runes :: "string list" where
  "space_runes = [[CHR 0x09], [CHR 0x0A], [CHR 0x0B], [CHR 0x0C], [CHR 0x0D], [CHR 0x20],
     [CHR 0xC2, CHR 0x85], [CHR 0xC2, CHR 0xA0], [CHR 0xE1, CHR 0x9A, CHR 0x80],
     [CHR 0xE2, CHR 0x80, CHR 0x80], [CHR 0xE2, CHR 0x80, CHR 0x81], [CHR 0xE2, CHR 0x80, CHR 0x82],
     [CHR 0xE2, CHR 0x80, CHR 0x83], [CHR 0xE2, CHR 0x80, CHR 0x84], [CHR 0xE2, CHR 0x80, CHR 0x85],
     [CHR 0xE2, CHR 0x80, CHR 0x86], [CHR 0xE2, CHR 0x80, CHR 0x87], [CHR 0xE2, CHR 0x80, CHR 0x88],
     [CHR 0xE2, CHR 0x80, CHR 0x89], [CHR 0xE2, CHR 0x80, CHR 0x8A], [CHR 0xE2, CHR 0x80, CHR 0xA8],
     [CHR 0xE2, CHR 0x80, CHR 0xA9], [CHR 0xE2, CHR 0x80, CHR 0xAF], [CHR 0xE2, CHR 0x81, CHR 0x9F],
     [CHR 0xE3, CHR 0x80, CHR 0x80]]"

fun strip_prefix :: "string \<Rightarrow> string \<Rightarrow> string option" where
  "strip_prefix [] s = Some s"
| "strip_prefix (p # ps) [] = None"
| "strip_prefix (p # ps) (c # s) = (if p = c then strip_prefix ps s else None)"

fun strip_any :: "string list \<Rightarrow> string \<Rightarrow> string option" where
  "strip_any [] s = None"
| "strip_any (p # ps) s = (case strip_prefix p s of Some t \<Rightarrow> Some t | None \<Rightarrow> strip_any ps s)"

text \<open>The loop removes at least one byte per turn, so the length bounds the number of turns.\<close>

fun trim_left_fuel :: "nat \<Rightarrow> string list \<Rightarrow> string \<Rightarrow> string" where
  "trim_left_fuel 0 ps s = s"
| "trim_left_fuel (Suc n) ps s =
     (case strip_any ps s of None \<Rightarrow> s | Some t \<Rightarrow> trim_left_fuel n ps t)"

definition trim_left :: "string list \<Rightarrow> string \<Rightarrow> string" where
  "trim_left ps s = trim_left_fuel (length s) ps s"

definition TrimSpace :: "string \<Rightarrow> string" where
  "TrimSpace s =
     rev (trim_left (map rev space_runes) (rev (trim_left space_runes s)))"

definition blank :: "string \<Rightarrow> bool" where
  "blank s \<longleftrightarrow> TrimSpace s = []"

lemma strip_prefix_Some: "strip_prefix p s = Some t \<longleftrightarrow> s = p @ t"
  by (induction p s rule: strip_prefix.induct) auto

lemma strip_any_Some: "strip_any ps s = Some t \<Longrightarrow> \<exists>p \<in> set ps. s = p @ t"
  by (induction ps) (auto simp: strip_prefix_Some split: option.splits)

lemma strip_any_None: "strip_any ps s = None \<longleftrightarrow> (\<forall>p \<in> set ps. \<forall>t. s \<noteq> p @ t)"
proof (induction ps)
  case Nil
  then show ?case by simp
next
  case (Cons p ps)
  have "strip_prefix p s = None \<longleftrightarrow> (\<forall>t. s \<noteq> p @ t)"
    using strip_prefix_Some [of p s] by (metis not_None_eq)
  with Cons show ?case by (auto split: option.splits)
qed

lemma trim_left_fuel_suffix: "suffix (trim_left_fuel n ps s) s"
proof (induction n arbitrary: s)
  case 0
  then show ?case by simp
next
  case (Suc n)
  show ?case
  proof (cases "strip_any ps s")
    case None
    then show ?thesis by simp
  next
    case (Some t)
    then have "suffix t s" by (auto dest: strip_any_Some simp: suffix_def)
    with Suc.IH [of t] Some show ?thesis by (auto intro: suffix_order.trans)
  qed
qed

lemma trim_left_fuel_done:
  assumes "[] \<notin> set ps" and "length s \<le> n"
  shows "strip_any ps (trim_left_fuel n ps s) = None"
  using assms(2)
proof (induction n arbitrary: s)
  case 0
  with assms(1) show ?case by (auto simp: strip_any_None)
next
  case (Suc n)
  show ?case
  proof (cases "strip_any ps s")
    case None
    then show ?thesis by simp
  next
    case (Some t)
    then obtain p where p: "p \<in> set ps" "s = p @ t" by (blast dest: strip_any_Some)
    with assms(1) have "length t < length s" by (cases p) auto
    with Suc.prems have "length t \<le> n" by simp
    with Suc.IH Some show ?thesis by simp
  qed
qed

lemma trim_left_suffix: "suffix (trim_left ps s) s"
  by (simp add: trim_left_def trim_left_fuel_suffix)

lemma trim_left_done: "[] \<notin> set ps \<Longrightarrow> strip_any ps (trim_left ps s) = None"
  by (simp add: trim_left_def trim_left_fuel_done)

lemma trim_left_id: "strip_any ps s = None \<Longrightarrow> trim_left ps s = s"
  by (cases s) (simp_all add: trim_left_def)

lemma space_runes_nonempty: "[] \<notin> set space_runes" "[] \<notin> set (map rev space_runes)"
  by (auto simp: space_runes_def)

lemma TrimSpace_prefix: "prefix (TrimSpace s) (trim_left space_runes s)"
  using trim_left_suffix [of "map rev space_runes" "rev (trim_left space_runes s)"]
  by (simp add: TrimSpace_def suffix_to_prefix)

lemma TrimSpace_left: "strip_any space_runes (TrimSpace s) = None"
proof -
  obtain z where z: "trim_left space_runes s = TrimSpace s @ z"
    using TrimSpace_prefix by (auto simp: prefix_def)
  have "strip_any space_runes (TrimSpace s @ z) = None"
    using trim_left_done [OF space_runes_nonempty(1), of s] z by simp
  then show ?thesis by (auto simp: strip_any_None)
qed

lemma TrimSpace_right: "strip_any (map rev space_runes) (rev (TrimSpace s)) = None"
  by (simp add: TrimSpace_def trim_left_done [OF space_runes_nonempty(2)])

lemma TrimSpace_id:
  "strip_any space_runes s = None \<Longrightarrow> strip_any (map rev space_runes) (rev s) = None \<Longrightarrow> TrimSpace s = s"
  by (simp add: TrimSpace_def trim_left_id)

lemma TrimSpace_idem [simp]: "TrimSpace (TrimSpace s) = TrimSpace s"
  by (rule TrimSpace_id [OF TrimSpace_left TrimSpace_right])

lemma TrimSpace_Nil [simp]: "TrimSpace [] = []"
  by (simp add: TrimSpace_def trim_left_def)

lemma blank_Nil [simp]: "blank []"
  by (simp add: blank_def)

lemma blank_TrimSpace [simp]: "blank (TrimSpace s) = blank s"
  by (simp add: blank_def)

lemma not_blank_nonempty: "\<not> blank s \<Longrightarrow> s \<noteq> []"
  by auto

fun Contains :: "string \<Rightarrow> string \<Rightarrow> bool" where
  "Contains [] sub \<longleftrightarrow> sub = []"
| "Contains (c # s) sub \<longleftrightarrow> strip_prefix sub (c # s) \<noteq> None \<or> Contains s sub"

lemma Contains_iff: "Contains s sub \<longleftrightarrow> (\<exists>u v. s = u @ sub @ v)"
proof (induction s)
  case Nil
  then show ?case by simp
next
  case (Cons c s)
  have pre: "strip_prefix sub (c # s) \<noteq> None \<longleftrightarrow> (\<exists>v. c # s = sub @ v)"
    by (auto simp: strip_prefix_Some [symmetric])
  have step: "(\<exists>u v. c # s = u @ sub @ v) \<longleftrightarrow> (\<exists>v. c # s = sub @ v) \<or> (\<exists>u v. s = u @ sub @ v)"
  proof
    assume "\<exists>u v. c # s = u @ sub @ v"
    then obtain u v where uv: "c # s = u @ sub @ v" by blast
    then show "(\<exists>v. c # s = sub @ v) \<or> (\<exists>u v. s = u @ sub @ v)"
      by (cases u) auto
  next
    assume "(\<exists>v. c # s = sub @ v) \<or> (\<exists>u v. s = u @ sub @ v)"
    then show "\<exists>u v. c # s = u @ sub @ v"
      by (metis append_Cons append_Nil)
  qed
  show ?case unfolding Contains.simps Cons.IH step pre ..
qed

fun Join :: "string list \<Rightarrow> string \<Rightarrow> string" where
  "Join [] sep = []"
| "Join [x] sep = x"
| "Join (x # y # zs) sep = x @ sep @ Join (y # zs) sep"

text \<open>\<open>strings.Split\<close> at a byte.\<close>

fun Split :: "char \<Rightarrow> string \<Rightarrow> string list" where
  "Split c [] = [[]]"
| "Split c (x # xs) = (if x = c then [] # Split c xs else (case Split c xs of p # ps \<Rightarrow> (x # p) # ps | [] \<Rightarrow> [[x]]))"

definition TrimSuffix :: "string \<Rightarrow> string \<Rightarrow> string" where
  "TrimSuffix s suf = (case strip_prefix (rev suf) (rev s) of Some t \<Rightarrow> rev t | None \<Rightarrow> s)"

text \<open>
  \<open>strings.ToLower\<close> and \<open>strings.ToUpper\<close> on the ASCII letters and on the only other runes
  that they map into ASCII (U+0130 and U+212A, U+0131 and U+017F). Every other byte is kept. The code compares their
  results with ASCII constants only, or with other results for sorting, and every comparison with an
  ASCII constant has the outcome it has in Go.
\<close>

definition lower_char :: "char \<Rightarrow> char" where
  "lower_char c = (if CHR ''A'' \<le> c \<and> c \<le> CHR ''Z'' then char_of (of_char c + 32 :: nat) else c)"

definition upper_char :: "char \<Rightarrow> char" where
  "upper_char c = (if CHR ''a'' \<le> c \<and> c \<le> CHR ''z'' then char_of (of_char c - 32 :: nat) else c)"

function ToLower :: "string \<Rightarrow> string" where
  "ToLower s = (case s of [] \<Rightarrow> []
     | c # cs \<Rightarrow>
        (case strip_prefix [CHR 0xC4, CHR 0xB0] s of Some t \<Rightarrow> CHR ''i'' # ToLower t
         | None \<Rightarrow> (case strip_prefix [CHR 0xE2, CHR 0x84, CHR 0xAA] s of Some t \<Rightarrow> CHR ''k'' # ToLower t
            | None \<Rightarrow> lower_char c # ToLower cs)))"
  by pat_completeness auto
termination
  by (relation "measure length") (auto simp: strip_prefix_Some simp del: strip_prefix.simps)

function ToUpper :: "string \<Rightarrow> string" where
  "ToUpper s = (case s of [] \<Rightarrow> []
     | c # cs \<Rightarrow>
        (case strip_prefix [CHR 0xC4, CHR 0xB1] s of Some t \<Rightarrow> CHR ''I'' # ToUpper t
         | None \<Rightarrow> (case strip_prefix [CHR 0xC5, CHR 0xBF] s of Some t \<Rightarrow> CHR ''S'' # ToUpper t
            | None \<Rightarrow> upper_char c # ToUpper cs)))"
  by pat_completeness auto
termination
  by (relation "measure length") (auto simp: strip_prefix_Some simp del: strip_prefix.simps)

declare ToLower.simps [simp del] ToUpper.simps [simp del]

function show_pos :: "int \<Rightarrow> string" where
  "show_pos n = (if n < 10 then [char_of (48 + n)] else show_pos (n div 10) @ [char_of (48 + n mod 10)])"
  by pat_completeness auto
termination
  by (relation "measure nat") auto

declare show_pos.simps [simp del]

text \<open>\<open>%d\<close>\<close>

definition show_int :: "int \<Rightarrow> string" where
  "show_int i = (if i < 0 then CHR ''-'' # show_pos (- i) else show_pos i)"

definition show_u64 :: "u64 \<Rightarrow> string" where
  "show_u64 w = show_pos (uint w)"

text \<open>\<open>hex.EncodeToString\<close>\<close>

definition hex_digit :: "nat \<Rightarrow> char" where
  "hex_digit n = (if n < 10 then char_of (48 + n) else char_of (87 + n))"

definition hex_encode :: "8 word list \<Rightarrow> string" where
  "hex_encode bs = concat (map (\<lambda>b. [hex_digit (unat b div 16), hex_digit (unat b mod 16)]) bs)"

subsection \<open>Evaluation of characters\<close>

text \<open>Code equations that read and write the bits of a character, for evaluation by the kernel.\<close>

definition int_char :: "int \<Rightarrow> char" where
  "int_char n = (let b = \<lambda>k. (n div k) mod 2 = 1 in Char (b 1) (b 2) (b 4) (b 8) (b 16) (b 32) (b 64) (b 128))"

lemma char_of_int: "char_of (n :: int) = int_char n"
  by (simp add: int_char_def char_of_def bit_iff_odd odd_iff_mod_2_eq_one)

lemma char_of_nat: "char_of (n :: nat) = int_char (int n)"
  unfolding char_of_int [symmetric] by (simp add: char_of_def bit_of_nat_iff_bit)

lemma of_char_bits:
  "(of_char (Char b0 b1 b2 b3 b4 b5 b6 b7) :: nat) = of_bool b0 + 2 * of_bool b1 + 4 * of_bool b2 + 8 * of_bool b3
     + 16 * of_bool b4 + 32 * of_bool b5 + 64 * of_bool b6 + 128 * of_bool b7"
  by simp

lemma bool_le_one: "of_bool b \<le> (1 :: nat)" by simp

lemma lower_char_code [code]:
  "lower_char (Char b0 b1 b2 b3 b4 b5 b6 b7) =
     (let c = Char b0 b1 b2 b3 b4 b5 b6 b7 in if CHR ''A'' \<le> c \<and> c \<le> CHR ''Z'' then Char b0 b1 b2 b3 b4 True b6 b7 else c)"
proof -
  have "\<not> b5" if "CHR ''A'' \<le> Char b0 b1 b2 b3 b4 b5 b6 b7 \<and> Char b0 b1 b2 b3 b4 b5 b6 b7 \<le> CHR ''Z''"
    using that bool_le_one [of b0] bool_le_one [of b1] bool_le_one [of b2] bool_le_one [of b3] bool_le_one [of b4]
    unfolding less_eq_char_def of_char_bits by (cases b5; cases b6; cases b7) simp_all
  moreover have "char_of (of_char (Char b0 b1 b2 b3 b4 False b6 b7) + 32 :: nat) = Char b0 b1 b2 b3 b4 True b6 b7"
  proof -
    have "of_char (Char b0 b1 b2 b3 b4 False b6 b7) + 32 = (of_char (Char b0 b1 b2 b3 b4 True b6 b7) :: nat)"
      unfolding of_char_bits by simp
    then show ?thesis by (simp only: char_of_char)
  qed
  ultimately show ?thesis by (auto simp: lower_char_def Let_def)
qed

lemma upper_char_code [code]:
  "upper_char (Char b0 b1 b2 b3 b4 b5 b6 b7) =
     (let c = Char b0 b1 b2 b3 b4 b5 b6 b7 in if CHR ''a'' \<le> c \<and> c \<le> CHR ''z'' then Char b0 b1 b2 b3 b4 False b6 b7 else c)"
proof -
  have "b5" if "CHR ''a'' \<le> Char b0 b1 b2 b3 b4 b5 b6 b7 \<and> Char b0 b1 b2 b3 b4 b5 b6 b7 \<le> CHR ''z''"
    using that bool_le_one [of b0] bool_le_one [of b1] bool_le_one [of b2] bool_le_one [of b3] bool_le_one [of b4]
    unfolding less_eq_char_def of_char_bits by (cases b5; cases b6; cases b7) simp_all
  moreover have "char_of (of_char (Char b0 b1 b2 b3 b4 True b6 b7) - 32 :: nat) = Char b0 b1 b2 b3 b4 False b6 b7"
  proof -
    have "of_char (Char b0 b1 b2 b3 b4 True b6 b7) - 32 = (of_char (Char b0 b1 b2 b3 b4 False b6 b7) :: nat)"
      unfolding of_char_bits by simp
    then show ?thesis by (simp only: char_of_char)
  qed
  ultimately show ?thesis by (auto simp: upper_char_def Let_def)
qed

lemma show_pos_code [code]:
  "show_pos n = (if n < 10 then [int_char (48 + n)] else show_pos (n div 10) @ [int_char (48 + n mod 10)])"
  by (subst show_pos.simps) (simp add: char_of_int)

lemma hex_digit_code [code]: "hex_digit n = (if n < 10 then int_char (48 + int n) else int_char (87 + int n))"
  by (simp add: hex_digit_def char_of_nat)

subsection \<open>Sorting with a comparator\<close>

text \<open>\<open>lt i j\<close> is the comparator of \<open>sort.Slice\<close>: the insertion moves an element left
  while it is less than its neighbour.\<close>

fun go_insert :: "('a \<Rightarrow> 'a \<Rightarrow> bool) \<Rightarrow> 'a \<Rightarrow> 'a list \<Rightarrow> 'a list" where
  "go_insert lt x [] = [x]"
| "go_insert lt x (y # ys) = (if lt y x then y # go_insert lt x ys else x # y # ys)"

definition go_sort :: "('a \<Rightarrow> 'a \<Rightarrow> bool) \<Rightarrow> 'a list \<Rightarrow> 'a list" where
  "go_sort lt xs = foldr (go_insert lt) xs []"

lemma mset_go_insert [simp]: "mset (go_insert lt x ys) = add_mset x (mset ys)"
  by (induction ys) auto

lemma mset_go_sort [simp]: "mset (go_sort lt xs) = mset xs"
  unfolding go_sort_def by (induction xs) auto

lemma set_go_sort [simp]: "set (go_sort lt xs) = set xs"
  by (metis mset_go_sort set_mset_mset)

lemma length_go_sort [simp]: "length (go_sort lt xs) = length xs"
  by (metis mset_go_sort size_mset)

lemma distinct_go_sort [simp]: "distinct (go_sort lt xs) = distinct xs"
  by (metis mset_go_sort distinct_count_atmost_1 mset_eq_imp_distinct_iff)

text \<open>
  A comparator that is transitive in the sense of a strict weak order leaves no pair out of order.
\<close>

locale strict_weak_order =
  fixes lt :: "'a \<Rightarrow> 'a \<Rightarrow> bool"
  assumes irrefl: "\<not> lt x x"
    and trans: "lt x y \<Longrightarrow> lt y z \<Longrightarrow> lt x z"
    and incomp_trans: "\<not> lt x y \<Longrightarrow> \<not> lt y z \<Longrightarrow> \<not> lt x z"
begin

lemma asym: "lt x y \<Longrightarrow> \<not> lt y x"
  using irrefl trans by blast

lemma go_insert_sorted:
  assumes "sorted_wrt (\<lambda>x y. \<not> lt y x) ys"
  shows "sorted_wrt (\<lambda>x y. \<not> lt y x) (go_insert lt x ys)"
  using assms
proof (induction ys)
  case Nil
  then show ?case by simp
next
  case (Cons y ys)
  have set_ins: "set (go_insert lt x ys) = insert x (set ys)"
    by (metis mset_go_insert set_mset_add_mset_insert set_mset_mset)
  show ?case
  proof (cases "lt y x")
    case True
    with Cons set_ins asym show ?thesis by auto
  next
    case False
    with Cons.prems show ?thesis using incomp_trans by auto
  qed
qed

lemma go_sort_sorted: "sorted_wrt (\<lambda>x y. \<not> lt y x) (go_sort lt xs)"
  unfolding go_sort_def by (induction xs) (auto intro: go_insert_sorted)

end

text \<open>The order of Go strings is such a comparator.\<close>

interpretation string_less: strict_weak_order "(<) :: string \<Rightarrow> string \<Rightarrow> bool"
  by unfold_locales auto

end
