(* ===== verification/Cdip.thy ===== *)
theory Cdip
  imports Prelude
begin

section \<open>The CDIP protocol (internal/cdip/types.go)\<close>

text \<open>
  The messages of the CMesh distributed inference protocol, their validation, the state machine of a
  pipeline stage and the layer arithmetic of a shard manifest. A string type with constants is a
  datatype with one constructor per constant and one for every other string; an error is a value
  of \<open>cdip_error\<close>, one constructor per message format, and \<open>Validate\<close> returns
  \<open>None\<close> for a nil error.
\<close>

subsection \<open>Envelopes\<close>

definition Protocol :: string where "Protocol = ''cdip''"
definition Version :: string where "Version = ''0.1''"

datatype MessageType =
    MessageNodeHello | MessagePlanProposal | MessageShardManifest | MessageStagePrepare
  | MessageStageReady | MessageStagePrefill | MessageStageDecode | MessageStageComplete
  | MessageStageAbort | MessageActivationChunk | MessageError | MessageOther string

record Envelope =
  e_Protocol :: string
  e_Version :: string
  e_Type :: MessageType

datatype cdip_error =
    UnsupportedProtocol string
  | UnsupportedVersion string
  | UnknownMessageType MessageType
  | UnexpectedMessage MessageType MessageType
  | Required string
  | NoResourceCapability
  | TotalLayersNotPositive
  | UnknownMaterialization string
  | NoShards
  | ShardRuntimeRequired int
  | ShardMaterializationInvalid int string
  | ShardExceedsLayers int int int
  | FirstShardStart int
  | LastShardEnd int int
  | StageRangeInvalid
  | NotStageCommand MessageType
  | StageIndexNegative
  | StageIndexMismatch int int
  | StageNodeRequired int
  | StageStartMismatch int int int
  | StageLayerRange int

definition NewEnvelope :: "MessageType \<Rightarrow> Envelope" where
  "NewEnvelope messageType = \<lparr>e_Protocol = Protocol, e_Version = Version, e_Type = messageType\<rparr>"

fun KnownMessageType :: "MessageType \<Rightarrow> bool" where
  "KnownMessageType (MessageOther _) = False"
| "KnownMessageType _ = True"

definition Envelope_Validate :: "Envelope \<Rightarrow> cdip_error option" where
  "Envelope_Validate e =
     (if e_Protocol e \<noteq> Protocol then Some (UnsupportedProtocol (e_Protocol e))
      else if e_Version e \<noteq> Version then Some (UnsupportedVersion (e_Version e))
      else if \<not> KnownMessageType (e_Type e) then Some (UnknownMessageType (e_Type e))
      else None)"

text \<open>The check every message starts with: a valid envelope of the expected type.\<close>

definition expect_type :: "Envelope \<Rightarrow> MessageType \<Rightarrow> cdip_error option" where
  "expect_type e t =
     err_seq (Envelope_Validate e)
       (if e_Type e \<noteq> t then Some (UnexpectedMessage t (e_Type e)) else None)"

lemma Envelope_Validate_None:
  "Envelope_Validate e = None \<longleftrightarrow>
     e_Protocol e = Protocol \<and> e_Version e = Version \<and> KnownMessageType (e_Type e)"
  by (simp add: Envelope_Validate_def)

lemma expect_type_None [simp]:
  "expect_type e t = None \<longleftrightarrow> e = NewEnvelope t \<and> KnownMessageType t"
  by (cases e) (auto simp: expect_type_def Envelope_Validate_None NewEnvelope_def)

subsection \<open>Node hello and capabilities\<close>

record RuntimeCapability =
  rc_Name :: string
  rc_Ready :: bool
  rc_Features :: "string list"

record ResourceCapability =
  rs_CPUCores :: int
  rs_MemoryBytes :: u64
  rs_DiskBytes :: u64
  rs_VRAMBytes :: u64

record NetworkCapability =
  nc_ListenEndpoint :: string
  nc_EstimatedRTTMS :: int

record NodeHello =
  nh_Envelope :: Envelope
  nh_NodeID :: string
  nh_Runtimes :: "RuntimeCapability list"
  nh_Resources :: ResourceCapability
  nh_Network :: NetworkCapability

definition NodeHello_Validate :: "NodeHello \<Rightarrow> cdip_error option" where
  "NodeHello_Validate m =
     err_seq (expect_type (nh_Envelope m) MessageNodeHello)
       (if blank (nh_NodeID m) then Some (Required ''node_id'')
        else if rs_CPUCores (nh_Resources m) \<le> 0 \<and> rs_MemoryBytes (nh_Resources m) = 0
          \<and> rs_DiskBytes (nh_Resources m) = 0 \<and> rs_VRAMBytes (nh_Resources m) = 0
        then Some NoResourceCapability
        else None)"

subsection \<open>Stages and stage chains\<close>

record Stage =
  s_Index :: int
  s_NodeID :: string
  s_NodeName :: string
  s_LayerStart :: int
  s_LayerEnd :: int

definition Layers :: "Stage \<Rightarrow> int" where
  "Layers s = (if s_LayerEnd s < s_LayerStart s then 0
     else wrap64 (wrap64 (s_LayerEnd s - s_LayerStart s) + 1))"

text \<open>The loop of \<open>ValidateStageChain\<close>: \<open>i\<close> is the position, \<open>expectedStart\<close> the layer
  at which the next stage has to start.\<close>

fun validate_chain_loop :: "int \<Rightarrow> int \<Rightarrow> Stage list \<Rightarrow> cdip_error option" where
  "validate_chain_loop i expectedStart [] = None"
| "validate_chain_loop i expectedStart (stage # stages) =
     (if s_Index stage \<noteq> i then Some (StageIndexMismatch (s_Index stage) i)
      else if blank (s_NodeID stage) then Some (StageNodeRequired i)
      else if s_LayerStart stage \<noteq> expectedStart
        then Some (StageStartMismatch i (s_LayerStart stage) expectedStart)
      else if s_LayerEnd stage < s_LayerStart stage then Some (StageLayerRange i)
      else validate_chain_loop (i + 1) (wrap64 (s_LayerEnd stage + 1)) stages)"

definition ValidateStageChain :: "Stage list \<Rightarrow> cdip_error option" where
  "ValidateStageChain stages =
     (case stages of [] \<Rightarrow> None | s # _ \<Rightarrow> validate_chain_loop 0 (s_LayerStart s) stages)"

record PlanProposal =
  pp_Envelope :: Envelope
  pp_ModelID :: string
  pp_Mode :: string
  pp_Runtime :: string
  pp_ExecutableNow :: bool
  pp_Stages :: "Stage list"
  pp_Blockers :: "string list"

definition PlanProposal_Validate :: "PlanProposal \<Rightarrow> cdip_error option" where
  "PlanProposal_Validate m =
     err_seq (expect_type (pp_Envelope m) MessagePlanProposal)
       (if blank (pp_ModelID m) then Some (Required ''model_id'')
        else if blank (pp_Mode m) then Some (Required ''mode'')
        else ValidateStageChain (pp_Stages m))"

subsection \<open>Shard manifests\<close>

datatype ShardMaterialization =
  ShardLogicalLayers | ShardPhysicalArtifact | ShardOther string

fun KnownShardMaterialization :: "ShardMaterialization \<Rightarrow> bool" where
  "KnownShardMaterialization (ShardOther _) = False"
| "KnownShardMaterialization _ = True"

fun show_materialization :: "ShardMaterialization \<Rightarrow> string" where
  "show_materialization ShardLogicalLayers = ''logical_layers''"
| "show_materialization ShardPhysicalArtifact = ''physical_artifact''"
| "show_materialization (ShardOther s) = s"

record ModelArtifact =
  ma_ModelID :: string
  ma_Runtime :: string
  ma_Repository :: string
  ma_File :: string
  ma_URL :: string
  ma_Quant :: string
  ma_Parameters :: string
  ma_Checksum :: string
  ma_Bytes :: u64

record ModelShard =
  sh_Stage :: Stage
  sh_Runtime :: string
  sh_RequiredMemoryBytes :: u64
  sh_RequiredDiskBytes :: u64
  sh_SourceArtifact :: string
  sh_TargetArtifact :: string
  sh_Materialization :: ShardMaterialization
  sh_Capabilities :: "string list"

record ShardManifest =
  sm_Envelope :: Envelope
  sm_Model :: ModelArtifact
  sm_Mode :: string
  sm_TotalLayers :: int
  sm_Materialization :: ShardMaterialization
  sm_Shards :: "ModelShard list"
  sm_Warnings :: "string list"

fun validate_shards_loop :: "int \<Rightarrow> int \<Rightarrow> ModelShard list \<Rightarrow> cdip_error option" where
  "validate_shards_loop totalLayers i [] = None"
| "validate_shards_loop totalLayers i (shard # shards) =
     (if blank (sh_Runtime shard) then Some (ShardRuntimeRequired i)
      else if \<not> KnownShardMaterialization (sh_Materialization shard)
        then Some (ShardMaterializationInvalid i (show_materialization (sh_Materialization shard)))
      else if s_LayerEnd (sh_Stage shard) \<ge> totalLayers
        then Some (ShardExceedsLayers i (s_LayerEnd (sh_Stage shard)) totalLayers)
      else validate_shards_loop totalLayers (i + 1) shards)"

text \<open>\<open>stages[0]\<close> and \<open>stages[len(stages)-1]\<close> are in range: the manifest has a shard.\<close>

definition ShardManifest_Validate :: "ShardManifest \<Rightarrow> cdip_error option" where
  "ShardManifest_Validate m =
     err_seq (expect_type (sm_Envelope m) MessageShardManifest)
       (if blank (ma_ModelID (sm_Model m)) then Some (Required ''model.model_id'')
        else if blank (ma_Runtime (sm_Model m)) then Some (Required ''model.runtime'')
        else if blank (sm_Mode m) then Some (Required ''mode'')
        else if sm_TotalLayers m \<le> 0 then Some TotalLayersNotPositive
        else if \<not> KnownShardMaterialization (sm_Materialization m)
          then Some (UnknownMaterialization (show_materialization (sm_Materialization m)))
        else if sm_Shards m = [] then Some NoShards
        else err_seq (validate_shards_loop (sm_TotalLayers m) 0 (sm_Shards m))
          (let stages = map sh_Stage (sm_Shards m)
           in err_seq (ValidateStageChain stages)
             (if s_LayerStart (hd stages) \<noteq> 0 then Some (FirstShardStart (s_LayerStart (hd stages)))
              else if s_LayerEnd (last stages) \<noteq> sm_TotalLayers m - 1
                then Some (LastShardEnd (sm_TotalLayers m - 1) (s_LayerEnd (last stages)))
              else None)))"

subsection \<open>Stage commands\<close>

record StagePrepare =
  sp_Envelope :: Envelope
  sp_ParentJobID :: string
  sp_StageJobID :: string
  sp_ModelID :: string
  sp_Stage :: Stage
  sp_UpstreamNodeID :: string
  sp_DownstreamNodeID :: string

definition StagePrepare_Validate :: "StagePrepare \<Rightarrow> cdip_error option" where
  "StagePrepare_Validate m =
     err_seq (expect_type (sp_Envelope m) MessageStagePrepare)
       (if blank (sp_ParentJobID m) then Some (Required ''parent_job_id'')
        else if blank (sp_StageJobID m) then Some (Required ''stage_job_id'')
        else if blank (sp_ModelID m) then Some (Required ''model_id'')
        else if blank (s_NodeID (sp_Stage m)) then Some (Required ''stage node_id'')
        else if Layers (sp_Stage m) \<le> 0 then Some StageRangeInvalid
        else None)"

record StageCommand =
  sc_Envelope :: Envelope
  sc_ParentJobID :: string
  sc_StageJobID :: string
  sc_StageIndex :: int
  sc_Step :: u64

fun stage_command_type :: "MessageType \<Rightarrow> bool" where
  "stage_command_type MessageStagePrefill = True"
| "stage_command_type MessageStageDecode = True"
| "stage_command_type MessageStageComplete = True"
| "stage_command_type MessageStageAbort = True"
| "stage_command_type _ = False"

definition StageCommand_Validate :: "StageCommand \<Rightarrow> MessageType \<Rightarrow> cdip_error option" where
  "StageCommand_Validate m expected =
     err_seq (expect_type (sc_Envelope m) expected)
       (if \<not> stage_command_type expected then Some (NotStageCommand expected)
        else if blank (sc_ParentJobID m) then Some (Required ''parent_job_id'')
        else if blank (sc_StageJobID m) then Some (Required ''stage_job_id'')
        else if sc_StageIndex m < 0 then Some StageIndexNegative
        else None)"

subsection \<open>The state machine of a stage\<close>

text \<open>\<open>StageOther ''''\<close> is the unset state of a job without a CDIP state.\<close>

datatype StageState =
    StagePlanned | StagePreparing | StageReady | StagePrefill | StageDecode
  | StageCompleted | StageFailed | StageAborted | StageOther string

abbreviation StageUnset :: StageState where "StageUnset \<equiv> StageOther []"

fun show_StageState :: "StageState \<Rightarrow> string" where
  "show_StageState StagePlanned = ''planned''"
| "show_StageState StagePreparing = ''preparing''"
| "show_StageState StageReady = ''ready''"
| "show_StageState StagePrefill = ''prefill''"
| "show_StageState StageDecode = ''decode''"
| "show_StageState StageCompleted = ''completed''"
| "show_StageState StageFailed = ''failed''"
| "show_StageState StageAborted = ''aborted''"
| "show_StageState (StageOther s) = s"

fun CanTransition :: "StageState \<Rightarrow> StageState \<Rightarrow> bool" where
  "CanTransition frm to =
     (if frm = to then True
      else case frm of
        StagePlanned \<Rightarrow> to = StagePreparing \<or> to = StageAborted \<or> to = StageFailed
      | StagePreparing \<Rightarrow> to = StageReady \<or> to = StageAborted \<or> to = StageFailed
      | StageReady \<Rightarrow> to = StagePrefill \<or> to = StageAborted \<or> to = StageFailed
      | StagePrefill \<Rightarrow> to = StageDecode \<or> to = StageAborted \<or> to = StageFailed
      | StageDecode \<Rightarrow> to = StageCompleted \<or> to = StageAborted \<or> to = StageFailed
      | StageCompleted \<Rightarrow> False
      | StageFailed \<Rightarrow> False
      | StageAborted \<Rightarrow> False
      | StageOther _ \<Rightarrow> False)"

subsection \<open>Activation chunks and protocol errors\<close>

record ActivationChunk =
  ac_Envelope :: Envelope
  ac_ParentJobID :: string
  ac_StageJobID :: string
  ac_Sequence :: u64
  ac_ContentType :: string
  ac_Encoding :: string
  ac_Shape :: "int list"
  ac_DType :: string
  ac_PayloadBytes :: u64
  ac_Checksum :: string

definition ActivationChunk_Validate :: "ActivationChunk \<Rightarrow> cdip_error option" where
  "ActivationChunk_Validate m =
     err_seq (expect_type (ac_Envelope m) MessageActivationChunk)
       (if blank (ac_ParentJobID m) then Some (Required ''parent_job_id'')
        else if blank (ac_StageJobID m) then Some (Required ''stage_job_id'')
        else if blank (ac_ContentType m) then Some (Required ''content_type'')
        else if ac_PayloadBytes m = 0 then Some (Required ''payload_bytes'')
        else None)"

datatype ErrorCode =
    ErrorRuntimeMissing | ErrorModelShardMissing | ErrorActivationTimeout
  | ErrorActivationChecksumFailed | ErrorWorkerOffline | ErrorProtocolVersionUnsupported
  | ErrorStageOrderInvalid | ErrorCodeOther string

fun show_ErrorCode :: "ErrorCode \<Rightarrow> string" where
  "show_ErrorCode ErrorRuntimeMissing = ''runtime_missing''"
| "show_ErrorCode ErrorModelShardMissing = ''model_shard_missing''"
| "show_ErrorCode ErrorActivationTimeout = ''activation_timeout''"
| "show_ErrorCode ErrorActivationChecksumFailed = ''activation_checksum_failed''"
| "show_ErrorCode ErrorWorkerOffline = ''worker_offline''"
| "show_ErrorCode ErrorProtocolVersionUnsupported = ''protocol_version_unsupported''"
| "show_ErrorCode ErrorStageOrderInvalid = ''stage_order_invalid''"
| "show_ErrorCode (ErrorCodeOther s) = s"

record ProtocolError =
  pe_Envelope :: Envelope
  pe_Code :: ErrorCode
  pe_Message :: string
  pe_Retryable :: bool
  pe_NodeID :: string
  pe_StageIndex :: "int option"

definition ProtocolError_Validate :: "ProtocolError \<Rightarrow> cdip_error option" where
  "ProtocolError_Validate m =
     err_seq (expect_type (pe_Envelope m) MessageError)
       (if blank (show_ErrorCode (pe_Code m)) then Some (Required ''code'')
        else if blank (pe_Message m) then Some (Required ''message'')
        else None)"

subsection \<open>Accepted stage chains\<close>

lemma validate_chain_loop_None:
  "validate_chain_loop i start ss = None \<longleftrightarrow>
     (\<forall>k < length ss. s_Index (ss ! k) = i + int k \<and> \<not> blank (s_NodeID (ss ! k))
        \<and> s_LayerStart (ss ! k) \<le> s_LayerEnd (ss ! k)
        \<and> s_LayerStart (ss ! k) = (if k = 0 then start else wrap64 (s_LayerEnd (ss ! (k - 1)) + 1)))"
proof (induction ss arbitrary: i start)
  case Nil
  then show ?case by simp
next
  case (Cons s ss)
  show ?case
    unfolding validate_chain_loop.simps
    by (auto simp: Cons.IH nth_Cons' All_less_Suc2 not_le algebra_simps)
qed

lemma ValidateStageChain_None:
  "ValidateStageChain ss = None \<longleftrightarrow>
     (\<forall>k < length ss. s_Index (ss ! k) = int k \<and> \<not> blank (s_NodeID (ss ! k))
        \<and> s_LayerStart (ss ! k) \<le> s_LayerEnd (ss ! k)
        \<and> (0 < k \<longrightarrow> s_LayerStart (ss ! k) = wrap64 (s_LayerEnd (ss ! (k - 1)) + 1)))"
proof (cases ss)
  case Nil
  then show ?thesis by (simp add: ValidateStageChain_def)
next
  case (Cons s rest)
  then have "ValidateStageChain ss = validate_chain_loop 0 (s_LayerStart (ss ! 0)) ss"
    by (simp add: ValidateStageChain_def)
  moreover have "s_LayerStart (ss ! k) = (if k = 0 then s_LayerStart (ss ! 0) else w) \<longleftrightarrow>
      (0 < k \<longrightarrow> s_LayerStart (ss ! k) = w)" for k w
    by (cases k) simp_all
  ultimately show ?thesis by (simp only: validate_chain_loop_None add_0)
qed

text \<open>Below a 64-bit layer count the expected start does not wrap.\<close>

definition layers_below :: "int \<Rightarrow> Stage list \<Rightarrow> bool" where
  "layers_below n ss \<longleftrightarrow> int64_range n
     \<and> (\<forall>s \<in> set ss. int64_range (s_LayerStart s) \<and> s_LayerEnd s < n)"

lemma validate_chain_loop_Cons:
  assumes "validate_chain_loop i start (s # ss) = None" and "layers_below n (s # ss)"
  shows "s_LayerStart s = start" and "start \<le> s_LayerEnd s" and "layers_below n ss"
    and "validate_chain_loop (i + 1) (s_LayerEnd s + 1) ss = None"
proof -
  from assms(1) show eq: "s_LayerStart s = start" and le: "start \<le> s_LayerEnd s"
    by (auto split: if_splits)
  from assms(2) show "layers_below n ss" by (simp add: layers_below_def)
  from assms(2) eq le have "wrap64 (s_LayerEnd s + 1) = s_LayerEnd s + 1"
    by (intro wrap64_id) (auto simp: layers_below_def int64_range_def)
  with assms(1) show "validate_chain_loop (i + 1) (s_LayerEnd s + 1) ss = None"
    by (simp split: if_splits)
qed

lemma chain_loop_bounds:
  assumes "validate_chain_loop i start ss = None" and "layers_below n ss" and "s \<in> set ss"
  shows "start \<le> s_LayerStart s \<and> s_LayerStart s \<le> s_LayerEnd s \<and> s_LayerEnd s \<le> s_LayerEnd (last ss)"
  using assms
proof (induction ss arbitrary: i start s)
  case (Cons t ss)
  note step = validate_chain_loop_Cons [OF Cons.prems(1,2)]
  show ?case
  proof (cases "ss = []")
    case True
    with Cons.prems(3) step show ?thesis by simp
  next
    case False
    then have "last ss \<in> set ss" by simp
    from Cons.IH [OF step(4,3) this] Cons.IH [OF step(4,3)] Cons.prems(3) step(1,2) False
    show ?thesis by fastforce
  qed
qed simp

lemma chain_loop_disjoint:
  assumes "validate_chain_loop i start ss = None" and "layers_below n ss"
  shows "sorted_wrt (\<lambda>a b. s_LayerEnd a < s_LayerStart b) ss"
  using assms
proof (induction ss arbitrary: i start)
  case (Cons t ss)
  note step = validate_chain_loop_Cons [OF Cons.prems]
  from Cons.IH [OF step(4,3)] chain_loop_bounds [OF step(4,3)] show ?case by fastforce
qed simp

lemma chain_loop_covers:
  assumes "validate_chain_loop i start ss = None" and "layers_below n ss" and "ss \<noteq> []"
    and "start \<le> l" and "l \<le> s_LayerEnd (last ss)"
  shows "\<exists>s \<in> set ss. s_LayerStart s \<le> l \<and> l \<le> s_LayerEnd s"
  using assms
proof (induction ss arbitrary: i start)
  case (Cons t ss)
  note step = validate_chain_loop_Cons [OF Cons.prems(1,2)]
  show ?case
  proof (cases "l \<le> s_LayerEnd t")
    case True
    with step Cons.prems(4) show ?thesis by auto
  next
    case False
    with Cons.prems(5) have "ss \<noteq> []" by auto
    with Cons.IH [OF step(4,3) this] Cons.prems(5) False show ?thesis by auto
  qed
qed simp

subsection \<open>Accepted manifests partition the layers of the model\<close>

lemma validate_shards_loop_None:
  "validate_shards_loop n i shs = None \<longleftrightarrow>
     (\<forall>sh \<in> set shs. \<not> blank (sh_Runtime sh) \<and> KnownShardMaterialization (sh_Materialization sh)
        \<and> s_LayerEnd (sh_Stage sh) < n)"
  by (induction shs arbitrary: i) auto

text \<open>What an accepted manifest guarantees, and nothing less is accepted.\<close>

lemma ShardManifest_Validate_None:
  "ShardManifest_Validate m = None \<longleftrightarrow>
     sm_Envelope m = NewEnvelope MessageShardManifest
     \<and> \<not> blank (ma_ModelID (sm_Model m)) \<and> \<not> blank (ma_Runtime (sm_Model m)) \<and> \<not> blank (sm_Mode m)
     \<and> 0 < sm_TotalLayers m \<and> KnownShardMaterialization (sm_Materialization m) \<and> sm_Shards m \<noteq> []
     \<and> (\<forall>sh \<in> set (sm_Shards m). \<not> blank (sh_Runtime sh)
          \<and> KnownShardMaterialization (sh_Materialization sh)
          \<and> s_LayerEnd (sh_Stage sh) < sm_TotalLayers m)
     \<and> ValidateStageChain (map sh_Stage (sm_Shards m)) = None
     \<and> s_LayerStart (sh_Stage (hd (sm_Shards m))) = 0
     \<and> s_LayerEnd (sh_Stage (last (sm_Shards m))) = sm_TotalLayers m - 1"
  by (cases "sm_Shards m = []")
    (auto simp: ShardManifest_Validate_def validate_shards_loop_None Let_def hd_map last_map)

text \<open>
  C1: in a shard manifest that passes validation every layer of the model, from 0 to the last one,
  is held by exactly one shard, and no shard holds a layer outside that range.
\<close>

theorem manifest_layers_partition:
  assumes "ShardManifest_Validate m = None" and "int64_range (sm_TotalLayers m)"
    and "\<forall>sh \<in> set (sm_Shards m). int64_range (s_LayerStart (sh_Stage sh))"
  shows "0 \<le> l \<and> l < sm_TotalLayers m \<longleftrightarrow>
    (\<exists>!k. k < length (sm_Shards m) \<and> s_LayerStart (sh_Stage (sm_Shards m ! k)) \<le> l
        \<and> l \<le> s_LayerEnd (sh_Stage (sm_Shards m ! k)))"
proof -
  define ss where "ss = map sh_Stage (sm_Shards m)"
  note ok = assms(1) [unfolded ShardManifest_Validate_None]
  from ok have ne: "ss \<noteq> []" and first: "s_LayerStart (hd ss) = 0"
    and lst: "s_LayerEnd (last ss) = sm_TotalLayers m - 1"
    by (auto simp: ss_def hd_map last_map)
  from ok have "ValidateStageChain ss = None" by (simp add: ss_def)
  with ne first have loop: "validate_chain_loop 0 0 ss = None"
    by (cases ss) (simp_all add: ValidateStageChain_def del: validate_chain_loop.simps)
  from ok assms(2,3) have below: "layers_below (sm_TotalLayers m) ss"
    by (auto simp: layers_below_def ss_def)
  have all: "0 \<le> s_LayerStart s \<and> s_LayerEnd s \<le> sm_TotalLayers m - 1" if "s \<in> set ss" for s
    using chain_loop_bounds [OF loop below that] lst by simp
  have holds: "0 \<le> l \<and> l < sm_TotalLayers m \<longleftrightarrow>
      (\<exists>s \<in> set ss. s_LayerStart s \<le> l \<and> l \<le> s_LayerEnd s)"
    using chain_loop_covers [OF loop below ne, of l] all lst by force
  have uniq: "j = k" if "j < length ss" "k < length ss"
    "s_LayerStart (ss ! j) \<le> l" "l \<le> s_LayerEnd (ss ! j)"
    "s_LayerStart (ss ! k) \<le> l" "l \<le> s_LayerEnd (ss ! k)" for j k
    using chain_loop_disjoint [OF loop below] that
    by (metis (no_types, lifting) linorder_neqE_nat not_less order_trans sorted_wrt_iff_nth_less)
  have nth: "sh_Stage (sm_Shards m ! k) = ss ! k" if "k < length ss" for k
    using that by (simp add: ss_def)
  have len: "length (sm_Shards m) = length ss" by (simp add: ss_def)
  show ?thesis
  proof
    assume "0 \<le> l \<and> l < sm_TotalLayers m"
    with holds obtain k where "k < length ss" "s_LayerStart (ss ! k) \<le> l" "l \<le> s_LayerEnd (ss ! k)"
      by (auto simp: in_set_conv_nth)
    with uniq show "\<exists>!k. k < length (sm_Shards m) \<and> s_LayerStart (sh_Stage (sm_Shards m ! k)) \<le> l
        \<and> l \<le> s_LayerEnd (sh_Stage (sm_Shards m ! k))"
      unfolding len using nth by (intro ex1I [of _ k]) auto
  next
    assume "\<exists>!k. k < length (sm_Shards m) \<and> s_LayerStart (sh_Stage (sm_Shards m ! k)) \<le> l
        \<and> l \<le> s_LayerEnd (sh_Stage (sm_Shards m ! k))"
    then obtain k where "k < length ss" "s_LayerStart (ss ! k) \<le> l" "l \<le> s_LayerEnd (ss ! k)"
      unfolding len using nth by auto
    with holds show "0 \<le> l \<and> l < sm_TotalLayers m" by (metis nth_mem)
  qed
qed

definition demo_shard :: "int \<Rightarrow> string \<Rightarrow> int \<Rightarrow> int \<Rightarrow> ModelShard" where
  "demo_shard i n a b =
     \<lparr>sh_Stage = \<lparr>s_Index = i, s_NodeID = n, s_NodeName = n, s_LayerStart = a, s_LayerEnd = b\<rparr>,
      sh_Runtime = ''llama.cpp'', sh_RequiredMemoryBytes = 0, sh_RequiredDiskBytes = 0,
      sh_SourceArtifact = [], sh_TargetArtifact = [], sh_Materialization = ShardLogicalLayers,
      sh_Capabilities = []\<rparr>"

definition demo_manifest :: ShardManifest where
  "demo_manifest =
     \<lparr>sm_Envelope = NewEnvelope MessageShardManifest,
      sm_Model = \<lparr>ma_ModelID = ''m'', ma_Runtime = ''llama.cpp'', ma_Repository = [], ma_File = [],
        ma_URL = [], ma_Quant = [], ma_Parameters = [], ma_Checksum = [], ma_Bytes = 0\<rparr>,
      sm_Mode = ''pipeline_layers'', sm_TotalLayers = 24, sm_Materialization = ShardLogicalLayers,
      sm_Shards = [demo_shard 0 ''node-a'' 0 15, demo_shard 1 ''node-b'' 16 23], sm_Warnings = []\<rparr>"

theorem manifest_layers_partition_witness:
  "\<exists>!k. k < length (sm_Shards demo_manifest)
     \<and> s_LayerStart (sh_Stage (sm_Shards demo_manifest ! k)) \<le> 16
     \<and> 16 \<le> s_LayerEnd (sh_Stage (sm_Shards demo_manifest ! k))"
proof -
  have "ShardManifest_Validate demo_manifest = None" by code_simp
  moreover have "int64_range (sm_TotalLayers demo_manifest)"
    by (simp add: demo_manifest_def int64_range_def)
  moreover have "\<forall>sh \<in> set (sm_Shards demo_manifest). int64_range (s_LayerStart (sh_Stage sh))"
    by (simp add: demo_manifest_def demo_shard_def int64_range_def)
  ultimately have "0 \<le> (16::int) \<and> 16 < sm_TotalLayers demo_manifest \<longleftrightarrow>
     (\<exists>!k. k < length (sm_Shards demo_manifest)
       \<and> s_LayerStart (sh_Stage (sm_Shards demo_manifest ! k)) \<le> 16
       \<and> 16 \<le> s_LayerEnd (sh_Stage (sm_Shards demo_manifest ! k)))"
    by (rule manifest_layers_partition)
  moreover have "sm_TotalLayers demo_manifest = 24" by (simp add: demo_manifest_def)
  ultimately show ?thesis by simp
qed

subsection \<open>The stage state machine\<close>

text \<open>The specification of the machine: a linear pipeline that can be left at any point before its
  end, by a failure or an abort.\<close>

fun stage_next :: "StageState \<Rightarrow> StageState option" where
  "stage_next StagePlanned = Some StagePreparing"
| "stage_next StagePreparing = Some StageReady"
| "stage_next StageReady = Some StagePrefill"
| "stage_next StagePrefill = Some StageDecode"
| "stage_next StageDecode = Some StageCompleted"
| "stage_next _ = None"

inductive stage_step :: "StageState \<Rightarrow> StageState \<Rightarrow> bool" where
  stay: "stage_step s s"
| advance: "stage_next s = Some t \<Longrightarrow> stage_step s t"
| abort: "stage_next s = Some t \<Longrightarrow> stage_step s StageAborted"
| fail: "stage_next s = Some t \<Longrightarrow> stage_step s StageFailed"

inductive_simps stage_step_simps: "stage_step s t"

definition stage_terminal :: "StageState \<Rightarrow> bool" where
  "stage_terminal s \<longleftrightarrow> s \<in> {StageCompleted, StageFailed, StageAborted}"

lemma CanTransition_stage_step: "CanTransition s t \<longleftrightarrow> stage_step s t"
  by (cases s) (auto simp: stage_step_simps)

lemma CanTransition_refl [simp]: "CanTransition s s"
  by simp

lemma terminal_absorbing: "stage_terminal s \<Longrightarrow> CanTransition s t \<Longrightarrow> t = s"
  by (auto simp: stage_terminal_def split: if_splits)

declare CanTransition.simps [simp del]

text \<open>The part of the pipeline from a state on.\<close>

fun pipeline_from :: "StageState \<Rightarrow> StageState list" where
  "pipeline_from StagePlanned =
     [StagePlanned, StagePreparing, StageReady, StagePrefill, StageDecode, StageCompleted]"
| "pipeline_from StagePreparing =
     [StagePreparing, StageReady, StagePrefill, StageDecode, StageCompleted]"
| "pipeline_from StageReady = [StageReady, StagePrefill, StageDecode, StageCompleted]"
| "pipeline_from StagePrefill = [StagePrefill, StageDecode, StageCompleted]"
| "pipeline_from StageDecode = [StageDecode, StageCompleted]"
| "pipeline_from s = [s]"

lemma remdups_adj_Cons_hd:
  "xs \<noteq> [] \<Longrightarrow> remdups_adj (x # xs) = (if x = hd xs then remdups_adj xs else x # remdups_adj xs)"
  by (cases xs) auto

lemma stage_run_from:
  assumes "successively CanTransition (s # ts)" and "last (s # ts) = StageCompleted"
  shows "remdups_adj (s # ts) = pipeline_from s"
  using assms
proof (induction ts arbitrary: s)
  case Nil
  then show ?case by simp
next
  case (Cons t ts)
  from Cons.prems have st: "CanTransition s t" and IH: "remdups_adj (t # ts) = pipeline_from t"
    using Cons.IH [of t] by auto
  show ?case
  proof (cases "stage_terminal s")
    case True
    with st terminal_absorbing IH show ?thesis by auto
  next
    case False
    from IH Cons.prems(2) have "t \<noteq> StageFailed" "t \<noteq> StageAborted"
      using last_in_set [of "remdups_adj (t # ts)"] last_remdups_adj [of "t # ts"] by auto
    with st IH False show ?thesis
      by (cases s) (auto simp: CanTransition.simps stage_terminal_def split: if_splits)
  qed
qed

text \<open>
  C2: a stage that starts planned and ends completed has passed through every state of the
  pipeline, in order, whatever messages were repeated on the way: \<open>CanTransition\<close> lets no stage
  be completed without having been prepared, reported ready, prefilled and decoded.
\<close>

theorem completed_stage_ran_the_pipeline:
  assumes "successively CanTransition (StagePlanned # ts)"
    and "last (StagePlanned # ts) = StageCompleted"
  shows "remdups_adj (StagePlanned # ts) =
    [StagePlanned, StagePreparing, StageReady, StagePrefill, StageDecode, StageCompleted]"
  using stage_run_from [OF assms] by simp

theorem completed_stage_ran_the_pipeline_witness:
  "remdups_adj [StagePlanned, StagePreparing, StagePreparing, StageReady, StagePrefill, StageDecode,
     StageDecode, StageCompleted] =
   [StagePlanned, StagePreparing, StageReady, StagePrefill, StageDecode, StageCompleted]"
  by (rule completed_stage_ran_the_pipeline) (simp_all add: CanTransition.simps)

end
