(* ===== verification/Float64.thy ===== *)
theory Float64
  imports Prelude
begin

section \<open>float64\<close>

text \<open>
  IEEE 754 binary64 as the code uses it: finite values are rationals, every operation rounds its exact
  result to the nearest representable value, ties to even, with the exponent range of the format
  (subnormal numbers below, infinities above). Positive and negative zero are one value: the code
  never divides by a zero of unknown sign and never prints one.
\<close>

datatype f64 = Fin rat | PInf | NInf | NaN

function bit_length :: "int \<Rightarrow> int" where
  "bit_length n = (if n \<le> 0 then 0 else 1 + bit_length (n div 2))"
  by pat_completeness auto
termination
  by (relation "measure nat") auto

declare bit_length.simps [simp del]

definition pow2 :: "int \<Rightarrow> rat" where
  "pow2 e = (if e < 0 then 1 / 2 ^ nat (- e) else 2 ^ nat e)"

text \<open>The exponent \<open>e\<close> with \<open>2 ^ e \<le> x < 2 ^ (e + 1)\<close>, for a positive \<open>x\<close>.\<close>

definition ilog2 :: "rat \<Rightarrow> int" where
  "ilog2 x = (case quotient_of x of (p, q) \<Rightarrow>
     let e = bit_length p - bit_length q
     in if pow2 e \<le> x then e else e - 1)"

definition round_half_even :: "rat \<Rightarrow> int" where
  "round_half_even x =
     (let f = \<lfloor>x\<rfloor>; d = x - of_int f
      in if d < 1 / 2 then f else if d > 1 / 2 then f + 1 else if even f then f else f + 1)"

definition round64 :: "rat \<Rightarrow> f64" where
  "round64 x =
     (if x = 0 then Fin 0
      else let u = pow2 (max (ilog2 \<bar>x\<bar> - 52) (- 1074));
               r = of_int (round_half_even (x / u)) * u
           in if r \<noteq> 0 \<and> ilog2 \<bar>r\<bar> \<ge> 1024 then (if r > 0 then PInf else NInf) else Fin r)"

fun fadd :: "f64 \<Rightarrow> f64 \<Rightarrow> f64" where
  "fadd NaN _ = NaN"
| "fadd _ NaN = NaN"
| "fadd PInf NInf = NaN"
| "fadd NInf PInf = NaN"
| "fadd PInf _ = PInf"
| "fadd _ PInf = PInf"
| "fadd NInf _ = NInf"
| "fadd _ NInf = NInf"
| "fadd (Fin x) (Fin y) = round64 (x + y)"

text \<open>Multiplication and division: the code applies them to finite values only, and divides by
  positive ones only.\<close>

fun fmul :: "f64 \<Rightarrow> f64 \<Rightarrow> f64" where
  "fmul (Fin x) (Fin y) = round64 (x * y)"
| "fmul (Fin x) PInf = (if x > 0 then PInf else if x < 0 then NInf else NaN)"
| "fmul (Fin x) NInf = (if x > 0 then NInf else if x < 0 then PInf else NaN)"
| "fmul PInf (Fin x) = (if x > 0 then PInf else if x < 0 then NInf else NaN)"
| "fmul NInf (Fin x) = (if x > 0 then NInf else if x < 0 then PInf else NaN)"
| "fmul PInf PInf = PInf"
| "fmul NInf NInf = PInf"
| "fmul PInf NInf = NInf"
| "fmul NInf PInf = NInf"
| "fmul _ _ = NaN"

fun fdiv :: "f64 \<Rightarrow> f64 \<Rightarrow> f64" where
  "fdiv (Fin x) (Fin y) =
     (if y \<noteq> 0 then round64 (x / y) else if x > 0 then PInf else if x < 0 then NInf else NaN)"
| "fdiv (Fin x) PInf = Fin 0"
| "fdiv (Fin x) NInf = Fin 0"
| "fdiv PInf (Fin y) = (if y < 0 then NInf else PInf)"
| "fdiv NInf (Fin y) = (if y < 0 then PInf else NInf)"
| "fdiv _ _ = NaN"

text \<open>\<open>a < b\<close>: false as soon as one side is not a number.\<close>

fun fless :: "f64 \<Rightarrow> f64 \<Rightarrow> bool" where
  "fless (Fin x) (Fin y) \<longleftrightarrow> x < y"
| "fless (Fin x) PInf \<longleftrightarrow> True"
| "fless NInf (Fin x) \<longleftrightarrow> True"
| "fless NInf PInf \<longleftrightarrow> True"
| "fless _ _ \<longleftrightarrow> False"

definition fzero :: f64 where "fzero = Fin 0"

definition f64_of_u64 :: "u64 \<Rightarrow> f64" where
  "f64_of_u64 w = round64 (of_int (uint w))"

definition f64_of_int :: "int \<Rightarrow> f64" where
  "f64_of_int i = round64 (of_int i)"

text \<open>\<open>math.Round\<close> (half away from zero) and \<open>math.Ceil\<close>.\<close>

fun f64_Round :: "f64 \<Rightarrow> f64" where
  "f64_Round (Fin x) = Fin (of_int (if x < 0 then - \<lfloor>- x + 1 / 2\<rfloor> else \<lfloor>x + 1 / 2\<rfloor>))"
| "f64_Round f = f"

fun f64_Ceil :: "f64 \<Rightarrow> f64" where
  "f64_Ceil (Fin x) = Fin (of_int \<lceil>x\<rceil>)"
| "f64_Ceil f = f"

text \<open>
  Conversions to integers truncate towards zero. The language leaves the result open when the value
  does not fit the type: the model takes the smallest \<open>int\<close> and the wrapped \<open>uint64\<close>, which is
  what the amd64 conversion gives for \<open>int\<close>.
\<close>

definition trunc :: "rat \<Rightarrow> int" where
  "trunc x = (if x < 0 then - \<lfloor>- x\<rfloor> else \<lfloor>x\<rfloor>)"

fun int_of_f64 :: "f64 \<Rightarrow> int" where
  "int_of_f64 (Fin x) = (if int64_range (trunc x) then trunc x else - (2 ^ 63))"
| "int_of_f64 _ = - (2 ^ 63)"

fun u64_of_f64 :: "f64 \<Rightarrow> u64" where
  "u64_of_f64 (Fin x) = word_of_int (trunc x)"
| "u64_of_f64 _ = 2 ^ 63"

lemma fless_irrefl [simp]: "\<not> fless a a"
  by (cases a) auto

lemma fless_trans: "fless a b \<Longrightarrow> fless b c \<Longrightarrow> fless a c"
  by (cases a; cases b; cases c) auto

lemma round64_3: "round64 3 = Fin 3" by code_simp

lemma f64_of_u64_odd: "f64_of_u64 9007199254740993 = Fin 9007199254740992" by code_simp

lemma fdiv_third: "fdiv (Fin 1) (Fin 3) = Fin (6004799503160661 / 18014398509481984)" by code_simp

end
