(* ===== verification/Json.thy ===== *)
theory Json
  imports Float64
begin

section \<open>encoding/json and the formatting of numbers and times\<close>

text \<open>
  The manager keeps job inputs and results as JSON text and decodes them in many places, so
  \<open>json.Marshal\<close> and \<open>json.Unmarshal\<close> are modelled on bytes: UTF-8 validation, the escapes
  that the encoder writes and the decoder reads, surrogate pairs, the number grammar, the nesting limit,
  and the decoding of an object into a struct (exact field name first, then the name up to case; the last
  occurrence wins; \<open>null\<close> leaves a field as it is; a value of the wrong type is an error of the whole
  call that still decodes the other fields).
\<close>

datatype json =
  JNull | JBool bool | JNum string | JStr string | JArr "json list" | JObj "(string \<times> json) list"

subsection \<open>UTF-8\<close>

definition byte :: "char \<Rightarrow> int" where
  "byte c = of_char c"

definition in_range :: "char \<Rightarrow> int \<Rightarrow> int \<Rightarrow> bool" where
  "in_range c lo hi \<longleftrightarrow> lo \<le> byte c \<and> byte c \<le> hi"

text \<open>The length of the valid encoding at the start of a string, 0 if there is none.\<close>

fun rune_len :: "string \<Rightarrow> nat" where
  "rune_len [] = 0"
| "rune_len [a] = (if byte a < 128 then 1 else 0)"
| "rune_len [a, b] =
     (if byte a < 128 then 1 else if in_range a 194 223 \<and> in_range b 128 191 then 2 else 0)"
| "rune_len [a, b, c] =
     (if byte a < 128 then 1
      else if in_range a 194 223 \<and> in_range b 128 191 then 2
      else if in_range a 224 239 \<and> in_range c 128 191
        \<and> in_range b (if byte a = 224 then 160 else 128) (if byte a = 237 then 159 else 191) then 3
      else 0)"
| "rune_len (a # b # c # d # cs) =
     (if byte a < 128 then 1
      else if in_range a 194 223 \<and> in_range b 128 191 then 2
      else if in_range a 224 239 \<and> in_range c 128 191
        \<and> in_range b (if byte a = 224 then 160 else 128) (if byte a = 237 then 159 else 191) then 3
      else if in_range a 240 244 \<and> in_range c 128 191 \<and> in_range d 128 191
        \<and> in_range b (if byte a = 240 then 144 else 128) (if byte a = 244 then 143 else 191) then 4
      else 0)"

definition replacement :: string where
  "replacement = [CHR 0xEF, CHR 0xBF, CHR 0xBD]"

definition chr :: "int \<Rightarrow> char" where
  "chr i = char_of i"

lemma chr_code [code]: "chr i = int_char i"
  by (simp add: chr_def char_of_int)

definition encode_rune :: "int \<Rightarrow> string" where
  "encode_rune r =
     (if r < 128 then [chr r]
      else if r < 2048 then [chr (192 + r div 64), chr (128 + r mod 64)]
      else if r < 65536 then [chr (224 + r div 4096), chr (128 + r div 64 mod 64), chr (128 + r mod 64)]
      else [chr (240 + r div 262144), chr (128 + r div 4096 mod 64), chr (128 + r div 64 mod 64),
            chr (128 + r mod 64)])"

subsection \<open>Marshal\<close>

abbreviation backslash :: char where "backslash \<equiv> CHR 0x5C"
abbreviation dquote :: char where "dquote \<equiv> CHR 0x22"

definition hex_chr :: "int \<Rightarrow> char" where
  "hex_chr i = chr (if i < 10 then 48 + i else 87 + i)"

definition escape_ascii :: "char \<Rightarrow> string" where
  "escape_ascii c =
     (if c = dquote then [backslash, dquote]
      else if c = backslash then [backslash, backslash]
      else if c = CHR 0x08 then [backslash, CHR ''b'']
      else if c = CHR 0x0C then [backslash, CHR ''f'']
      else if c = CHR 0x0A then [backslash, CHR ''n'']
      else if c = CHR 0x0D then [backslash, CHR ''r'']
      else if c = CHR 0x09 then [backslash, CHR ''t'']
      else if byte c < 32 \<or> c = CHR ''<'' \<or> c = CHR ''>'' \<or> c = CHR ''&''
        then backslash # ''u00'' @ [hex_chr (byte c div 16), hex_chr (byte c mod 16)]
      else [c])"

function json_escape :: "string \<Rightarrow> string" where
  "json_escape s =
     (case s of [] \<Rightarrow> []
      | c # cs \<Rightarrow>
        if byte c < 128 then escape_ascii c @ json_escape cs
        else let n = rune_len s
          in if n = 0 then backslash # ''ufffd'' @ json_escape cs
          else if take 3 s = [CHR 0xE2, CHR 0x80, CHR 0xA8] then backslash # ''u2028'' @ json_escape (drop n s)
          else if take 3 s = [CHR 0xE2, CHR 0x80, CHR 0xA9] then backslash # ''u2029'' @ json_escape (drop n s)
          else take n s @ json_escape (drop n s))"
  by pat_completeness auto
termination
  by (relation "measure length") auto

declare json_escape.simps [simp del]

definition json_string :: "string \<Rightarrow> string" where
  "json_string s = dquote # json_escape s @ [dquote]"

fun json_print :: "json \<Rightarrow> string" where
  "json_print JNull = ''null''"
| "json_print (JBool b) = (if b then ''true'' else ''false'')"
| "json_print (JNum n) = n"
| "json_print (JStr s) = json_string s"
| "json_print (JArr vs) = ''['' @ Join (map json_print vs) '','' @ '']''"
| "json_print (JObj kvs) =
     ''{'' @ Join (map (\<lambda>(k, v). json_string k @ '':'' @ json_print v) kvs) '','' @ ''}''"

text \<open>A map is written with its keys sorted.\<close>

definition json_map :: "(string, json) go_map \<Rightarrow> json" where
  "json_map m = JObj (go_sort (\<lambda>a b. fst a < fst b) m)"

text \<open>Struct fields with \<open>omitempty\<close>.\<close>

definition jstr :: "string \<Rightarrow> string \<Rightarrow> (string \<times> json) list" where
  "jstr k s = [(k, JStr s)]"

definition jstr_omit :: "string \<Rightarrow> string \<Rightarrow> (string \<times> json) list" where
  "jstr_omit k s = (if s = [] then [] else [(k, JStr s)])"

definition jint :: "string \<Rightarrow> int \<Rightarrow> (string \<times> json) list" where
  "jint k i = [(k, JNum (show_int i))]"

definition jint_omit :: "string \<Rightarrow> int \<Rightarrow> (string \<times> json) list" where
  "jint_omit k i = (if i = 0 then [] else [(k, JNum (show_int i))])"

definition ju64_omit :: "string \<Rightarrow> u64 \<Rightarrow> (string \<times> json) list" where
  "ju64_omit k w = (if w = 0 then [] else [(k, JNum (show_u64 w))])"

definition jarr_omit :: "string \<Rightarrow> json list \<Rightarrow> (string \<times> json) list" where
  "jarr_omit k vs = (if vs = [] then [] else [(k, JArr vs)])"

subsection \<open>Parsing\<close>

definition is_ws :: "char \<Rightarrow> bool" where
  "is_ws c \<longleftrightarrow> c = CHR 0x20 \<or> c = CHR 0x09 \<or> c = CHR 0x0A \<or> c = CHR 0x0D"

definition skip_ws :: "string \<Rightarrow> string" where
  "skip_ws s = dropWhile is_ws s"

definition is_digit :: "char \<Rightarrow> bool" where
  "is_digit c \<longleftrightarrow> in_range c 48 57"

definition hex_val :: "char \<Rightarrow> int option" where
  "hex_val c =
     (if in_range c 48 57 then Some (byte c - 48)
      else if in_range c 97 102 then Some (byte c - 87)
      else if in_range c 65 70 then Some (byte c - 55)
      else None)"

fun hex4 :: "string \<Rightarrow> (int \<times> string) option" where
  "hex4 (a # b # c # d # s) =
     (case (hex_val a, hex_val b, hex_val c, hex_val d) of
        (Some x, Some y, Some z, Some w) \<Rightarrow> Some (((x * 16 + y) * 16 + z) * 16 + w, s)
      | _ \<Rightarrow> None)"
| "hex4 _ = None"

lemma hex4_length: "hex4 s = Some (r, t) \<Longrightarrow> length t < length s"
  by (induction s rule: hex4.induct) (auto split: option.splits)

definition is_surrogate :: "int \<Rightarrow> bool" where
  "is_surrogate r \<longleftrightarrow> 55296 \<le> r \<and> r < 57344"

text \<open>A \<open>\\u\<close> escape that has been read as \<open>r\<close>: a high surrogate takes a following low one with it,
  a lone surrogate becomes the replacement character.\<close>

definition unescape_rune :: "int \<Rightarrow> string \<Rightarrow> string \<times> string" where
  "unescape_rune r s =
     (if \<not> is_surrogate r then (encode_rune r, s)
      else case s of
        a # b # s' \<Rightarrow>
          if a = backslash \<and> b = CHR ''u'' then
            (case hex4 s' of
               Some (r1, s'') \<Rightarrow>
                 if r < 56320 \<and> 56320 \<le> r1 \<and> r1 < 57344
                 then (encode_rune ((r - 55296) * 1024 + (r1 - 56320) + 65536), s'')
                 else (replacement, s)
             | None \<Rightarrow> (replacement, s))
          else (replacement, s)
      | _ \<Rightarrow> (replacement, s))"

lemma unescape_rune_length: "unescape_rune r s = (x, t) \<Longrightarrow> length t \<le> length s"
  unfolding unescape_rune_def by (auto dest!: hex4_length split: if_splits list.splits option.splits)

definition unescape_simple :: "char \<Rightarrow> char option" where
  "unescape_simple e =
     (if e = dquote \<or> e = backslash \<or> e = CHR ''/'' then Some e
      else if e = CHR ''b'' then Some (CHR 0x08)
      else if e = CHR ''f'' then Some (CHR 0x0C)
      else if e = CHR ''n'' then Some (CHR 0x0A)
      else if e = CHR ''r'' then Some (CHR 0x0D)
      else if e = CHR ''t'' then Some (CHR 0x09)
      else None)"

text \<open>The rest of a string literal after its opening quote: its value and what follows it. Each turn
  consumes a byte, so the length is enough fuel.\<close>

fun parse_str :: "nat \<Rightarrow> string \<Rightarrow> (string \<times> string) option" where
  "parse_str 0 s = None"
| "parse_str (Suc n) [] = None"
| "parse_str (Suc n) (c # s) =
     (if c = dquote then Some ([], s)
      else if c = backslash then
        (case s of [] \<Rightarrow> None
         | e # s' \<Rightarrow>
           if e = CHR ''u'' then
             (case hex4 s' of None \<Rightarrow> None
              | Some (r, s'') \<Rightarrow>
                (case unescape_rune r s'' of (x, t) \<Rightarrow>
                  map_option (\<lambda>(v, u). (x @ v, u)) (parse_str n t)))
           else (case unescape_simple e of None \<Rightarrow> None
              | Some d \<Rightarrow> map_option (\<lambda>(v, u). (d # v, u)) (parse_str n s')))
      else if byte c < 32 then None
      else if byte c < 128 then map_option (\<lambda>(v, u). (c # v, u)) (parse_str n s)
      else let k = rune_len (c # s)
        in if k = 0 then map_option (\<lambda>(v, u). (replacement @ v, u)) (parse_str n s)
        else map_option (\<lambda>(v, u). (take k (c # s) @ v, u)) (parse_str n (drop k (c # s))))"

definition parse_digits :: "string \<Rightarrow> (string \<times> string) option" where
  "parse_digits s =
     (let d = takeWhile is_digit s in if d = [] then None else Some (d, dropWhile is_digit s))"

definition parse_int_part :: "string \<Rightarrow> (string \<times> string) option" where
  "parse_int_part s =
     (case s of [] \<Rightarrow> None
      | c # cs \<Rightarrow> if c = CHR ''0'' then Some ([c], cs) else parse_digits s)"

definition parse_frac :: "string \<Rightarrow> (string \<times> string) option" where
  "parse_frac s =
     (case s of [] \<Rightarrow> Some ([], [])
      | c # cs \<Rightarrow> if c = CHR ''.'' then map_option (\<lambda>(d, t). (c # d, t)) (parse_digits cs) else Some ([], s))"

definition parse_exp :: "string \<Rightarrow> (string \<times> string) option" where
  "parse_exp s =
     (case s of [] \<Rightarrow> Some ([], [])
      | c # cs \<Rightarrow>
        if c = CHR ''e'' \<or> c = CHR ''E'' then
          (case cs of
             g # cs' \<Rightarrow>
               if g = CHR ''+'' \<or> g = CHR ''-''
               then map_option (\<lambda>(d, t). (c # g # d, t)) (parse_digits cs')
               else map_option (\<lambda>(d, t). (c # d, t)) (parse_digits cs)
           | [] \<Rightarrow> None)
        else Some ([], s))"

definition parse_number :: "string \<Rightarrow> (string \<times> string) option" where
  "parse_number s =
     (let (sign, s1) = (case s of c # cs \<Rightarrow> if c = CHR ''-'' then ([c], cs) else ([], s) | [] \<Rightarrow> ([], s))
      in case parse_int_part s1 of None \<Rightarrow> None
       | Some (i, s2) \<Rightarrow>
         (case parse_frac s2 of None \<Rightarrow> None
          | Some (f, s3) \<Rightarrow>
            (case parse_exp s3 of None \<Rightarrow> None
             | Some (e, s4) \<Rightarrow> Some (sign @ i @ f @ e, s4))))"

definition max_depth :: int where "max_depth = 10000"

text \<open>Values, the elements of an array and the members of an object after the first bracket. Every call
  consumes a byte before the next one, so the length bounds the fuel.\<close>

function parse_value :: "nat \<Rightarrow> int \<Rightarrow> string \<Rightarrow> (json \<times> string) option"
  and parse_elems :: "nat \<Rightarrow> int \<Rightarrow> string \<Rightarrow> (json list \<times> string) option"
  and parse_members :: "nat \<Rightarrow> int \<Rightarrow> string \<Rightarrow> ((string \<times> json) list \<times> string) option"
where
  "parse_value 0 d s = None"
| "parse_value (Suc n) d s =
     (case skip_ws s of [] \<Rightarrow> None
      | c # cs \<Rightarrow>
        if c = dquote then map_option (\<lambda>(v, t). (JStr v, t)) (parse_str (Suc (length cs)) cs)
        else if c = CHR ''['' then
          (if d \<ge> max_depth then None
           else case skip_ws cs of
             e # t \<Rightarrow> if e = CHR '']'' then Some (JArr [], t)
                else map_option (\<lambda>(vs, t). (JArr vs, t)) (parse_elems n (d + 1) cs)
           | [] \<Rightarrow> None)
        else if c = CHR ''{'' then
          (if d \<ge> max_depth then None
           else case skip_ws cs of
             e # t \<Rightarrow> if e = CHR ''}'' then Some (JObj [], t)
                else map_option (\<lambda>(kvs, t). (JObj kvs, t)) (parse_members n (d + 1) cs)
           | [] \<Rightarrow> None)
        else (case strip_prefix ''true'' (c # cs) of Some t \<Rightarrow> Some (JBool True, t)
          | None \<Rightarrow> (case strip_prefix ''false'' (c # cs) of Some t \<Rightarrow> Some (JBool False, t)
          | None \<Rightarrow> (case strip_prefix ''null'' (c # cs) of Some t \<Rightarrow> Some (JNull, t)
          | None \<Rightarrow> map_option (\<lambda>(v, t). (JNum v, t)) (parse_number (c # cs))))))"
| "parse_elems 0 d s = None"
| "parse_elems (Suc n) d s =
     (case parse_value n d s of None \<Rightarrow> None
      | Some (v, t) \<Rightarrow>
        (case skip_ws t of [] \<Rightarrow> None
         | c # cs \<Rightarrow>
           if c = CHR '']'' then Some ([v], cs)
           else if c = CHR '','' then map_option (\<lambda>(vs, u). (v # vs, u)) (parse_elems n d cs)
           else None))"
| "parse_members 0 d s = None"
| "parse_members (Suc n) d s =
     (case skip_ws s of [] \<Rightarrow> None
      | q # qs \<Rightarrow>
        if q \<noteq> dquote then None
        else case parse_str (Suc (length qs)) qs of None \<Rightarrow> None
         | Some (k, t) \<Rightarrow>
           (case skip_ws t of [] \<Rightarrow> None
            | c # cs \<Rightarrow>
              if c \<noteq> CHR '':'' then None
              else case parse_value n d cs of None \<Rightarrow> None
               | Some (v, u) \<Rightarrow>
                 (case skip_ws u of [] \<Rightarrow> None
                  | e # es \<Rightarrow>
                    if e = CHR ''}'' then Some ([(k, v)], es)
                    else if e = CHR '','' then map_option (\<lambda>(kvs, w). ((k, v) # kvs, w)) (parse_members n d es)
                    else None)))"
  by pat_completeness auto
termination
  by (relation "measure (case_sum (\<lambda>(n, d, s). n) (case_sum (\<lambda>(n, d, s). n) (\<lambda>(n, d, s). n)))") auto

definition json_parse :: "string \<Rightarrow> json option" where
  "json_parse s =
     (case parse_value (Suc (length s)) 0 s of None \<Rightarrow> None
      | Some (v, t) \<Rightarrow> if skip_ws t = [] then Some v else None)"

subsection \<open>Unmarshal into structs\<close>

text \<open>
  A field decoder takes the struct read so far and a JSON value and returns the updated struct, or
  \<open>None\<close> when the value has the wrong type. \<open>decode_fields\<close> runs over the members of an object and
  remembers whether some member had the wrong type.
\<close>

type_synonym 'a field_decoder = "'a \<Rightarrow> json \<Rightarrow> 'a option"

text \<open>Field names match up to simple case folding, which identifies two non-ASCII letters with
  ASCII ones (U+017F with s, U+212A with k).\<close>

function fold_name :: "string \<Rightarrow> string" where
  "fold_name s =
     (case s of [] \<Rightarrow> []
      | c # cs \<Rightarrow>
        (case strip_prefix [CHR 0xC5, CHR 0xBF] s of Some t \<Rightarrow> CHR ''s'' # fold_name t
         | None \<Rightarrow> (case strip_prefix [CHR 0xE2, CHR 0x84, CHR 0xAA] s of Some t \<Rightarrow> CHR ''k'' # fold_name t
            | None \<Rightarrow> lower_char c # fold_name cs)))"
  by pat_completeness auto
termination
  by (relation "measure length") (auto simp: strip_prefix_Some simp del: strip_prefix.simps)

declare fold_name.simps [simp del]

definition find_field :: "(string \<times> 'a field_decoder) list \<Rightarrow> string \<Rightarrow> 'a field_decoder option" where
  "find_field fields k =
     (case map_of fields k of Some f \<Rightarrow> Some f
      | None \<Rightarrow> map_option snd (List.find (\<lambda>(name, f). fold_name name = fold_name k) fields))"

fun decode_fields ::
  "(string \<times> 'a field_decoder) list \<Rightarrow> (string \<times> json) list \<Rightarrow> 'a \<times> bool \<Rightarrow> 'a \<times> bool" where
  "decode_fields fields [] st = st"
| "decode_fields fields ((k, v) # kvs) (a, ok) =
     (case find_field fields k of
        None \<Rightarrow> decode_fields fields kvs (a, ok)
      | Some f \<Rightarrow>
        (case f a v of Some b \<Rightarrow> decode_fields fields kvs (b, ok)
         | None \<Rightarrow> decode_fields fields kvs (a, False)))"

text \<open>The result of \<open>Unmarshal\<close> into a struct that starts as \<open>zero\<close>: \<open>None\<close> for an error.\<close>

definition decode_struct :: "(string \<times> 'a field_decoder) list \<Rightarrow> 'a \<Rightarrow> json \<Rightarrow> 'a option" where
  "decode_struct fields zero v =
     (case v of
        JObj kvs \<Rightarrow> (case decode_fields fields kvs (zero, True) of (a, ok) \<Rightarrow> if ok then Some a else None)
      | JNull \<Rightarrow> Some zero
      | _ \<Rightarrow> None)"

definition Unmarshal :: "(string \<times> 'a field_decoder) list \<Rightarrow> 'a \<Rightarrow> string \<Rightarrow> 'a option" where
  "Unmarshal fields zero text = Option.bind (json_parse text) (decode_struct fields zero)"

fun dstr :: "(string \<Rightarrow> 'a \<Rightarrow> 'a) \<Rightarrow> 'a field_decoder" where
  "dstr upd a (JStr s) = Some (upd s a)"
| "dstr upd a JNull = Some a"
| "dstr upd a _ = None"

fun dbool :: "(bool \<Rightarrow> 'a \<Rightarrow> 'a) \<Rightarrow> 'a field_decoder" where
  "dbool upd a (JBool b) = Some (upd b a)"
| "dbool upd a JNull = Some a"
| "dbool upd a _ = None"

definition digits_val :: "string \<Rightarrow> int" where
  "digits_val ds = foldl (\<lambda>n c. n * 10 + (byte c - 48)) 0 ds"

text \<open>\<open>strconv.ParseInt\<close> and \<open>ParseUint\<close> on a JSON number: an integer without fraction or exponent,
  in range.\<close>

definition parse_int_lit :: "string \<Rightarrow> int option" where
  "parse_int_lit s =
     (let (neg, ds) = (case s of c # cs \<Rightarrow> if c = CHR ''-'' then (True, cs) else (False, s) | [] \<Rightarrow> (False, s))
      in if ds = [] \<or> \<not> list_all is_digit ds then None
         else let n = (if neg then - digits_val ds else digits_val ds)
           in if int64_range n then Some n else None)"

definition parse_uint_lit :: "string \<Rightarrow> u64 option" where
  "parse_uint_lit s =
     (if s = [] \<or> \<not> list_all is_digit s \<or> digits_val s \<ge> 2 ^ 64 then None
      else Some (word_of_int (digits_val s)))"

fun dint :: "(int \<Rightarrow> 'a \<Rightarrow> 'a) \<Rightarrow> 'a field_decoder" where
  "dint upd a (JNum n) = map_option (\<lambda>i. upd i a) (parse_int_lit n)"
| "dint upd a JNull = Some a"
| "dint upd a _ = None"

fun du64 :: "(u64 \<Rightarrow> 'a \<Rightarrow> 'a) \<Rightarrow> 'a field_decoder" where
  "du64 upd a (JNum n) = map_option (\<lambda>w. upd w a) (parse_uint_lit n)"
| "du64 upd a JNull = Some a"
| "du64 upd a _ = None"

text \<open>A nested struct and a slice of values.\<close>

definition dstruct :: "(json \<Rightarrow> 'b option) \<Rightarrow> ('b \<Rightarrow> 'a \<Rightarrow> 'a) \<Rightarrow> 'a field_decoder" where
  "dstruct dec upd a v = (case v of JNull \<Rightarrow> Some a | _ \<Rightarrow> map_option (\<lambda>b. upd b a) (dec v))"

fun decode_all :: "(json \<Rightarrow> 'b option) \<Rightarrow> json list \<Rightarrow> 'b list option" where
  "decode_all dec [] = Some []"
| "decode_all dec (v # vs) =
     (case dec v of None \<Rightarrow> None | Some b \<Rightarrow> map_option ((#) b) (decode_all dec vs))"

fun dslice :: "(json \<Rightarrow> 'b option) \<Rightarrow> ('b list \<Rightarrow> 'a \<Rightarrow> 'a) \<Rightarrow> 'a field_decoder" where
  "dslice dec upd a (JArr vs) = map_option (\<lambda>bs. upd bs a) (decode_all dec vs)"
| "dslice dec upd a JNull = Some (upd [] a)"
| "dslice dec upd a _ = None"

fun dec_string :: "json \<Rightarrow> string option" where
  "dec_string (JStr s) = Some s"
| "dec_string JNull = Some []"
| "dec_string _ = None"

subsection \<open>Formatting floats and times\<close>

text \<open>\<open>10 ^ e\<close> for a possibly negative exponent.\<close>

definition pow10 :: "int \<Rightarrow> rat" where
  "pow10 e = (if e < 0 then 1 / 10 ^ nat (- e) else 10 ^ nat e)"

text \<open>The decimal exponent \<open>e\<close> with \<open>10 ^ e \<le> x < 10 ^ (e + 1)\<close> for a positive float: it lies
  between the exponents of the smallest and the largest float.\<close>

definition ilog10 :: "rat \<Rightarrow> int" where
  "ilog10 x = (case List.find (\<lambda>e. pow10 e \<le> x) (rev (map (\<lambda>k. int k - 325) [0..<640])) of Some e \<Rightarrow> e | None \<Rightarrow> 0)"

text \<open>The shortest decimal \<open>d * 10 ^ k\<close> that rounds to the float, the closest one of that length.\<close>

definition shortest_candidates :: "rat \<Rightarrow> int \<Rightarrow> int list" where
  "shortest_candidates x k =
     (let q = x / pow10 k; lo = \<lfloor>q\<rfloor>
      in filter (\<lambda>d. round64 (of_int d * pow10 k) = Fin x)
           (if q - of_int lo \<le> 1 / 2 then [lo, lo + 1] else [lo + 1, lo]))"

definition shortest_digits :: "rat \<Rightarrow> int \<times> int" where
  "shortest_digits x =
     (let e = ilog10 x
      in case List.find (\<lambda>n. shortest_candidates x (e - int n + 1) \<noteq> []) [1..<18] of
           Some n \<Rightarrow> (hd (shortest_candidates x (e - int n + 1)), e - int n + 1)
         | None \<Rightarrow> (0, 0))"

definition show_fixed :: "string \<Rightarrow> int \<Rightarrow> string" where
  "show_fixed ds k =
     (if k \<ge> 0 then ds @ replicate (nat k) (CHR ''0'')
      else if nat (- k) < length ds
        then take (length ds - nat (- k)) ds @ ''.'' @ drop (length ds - nat (- k)) ds
      else ''0.'' @ replicate (nat (- k) - length ds) (CHR ''0'') @ ds)"

definition show_exp :: "string \<Rightarrow> int \<Rightarrow> string" where
  "show_exp ds e =
     (hd ds # (if tl ds = [] then [] else CHR ''.'' # tl ds))
       @ ''e'' @ (if e < 0 then ''-'' else ''+'') @ (if \<bar>e\<bar> < 10 \<and> e \<ge> 0 then ''0'' else []) @ show_int \<bar>e\<bar>"

fun json_float :: "f64 \<Rightarrow> json option" where
  "json_float (Fin x) =
     (if x = 0 then Some (JNum ''0'')
      else let (d, k) = shortest_digits \<bar>x\<bar>; ds = show_int d; e = k + int (length ds) - 1;
               sign = (if x < 0 then ''-'' else [])
           in if \<bar>x\<bar> < 1 / 10 ^ 6 \<or> \<bar>x\<bar> \<ge> 10 ^ 21 then Some (JNum (sign @ show_exp ds e))
              else Some (JNum (sign @ show_fixed ds k)))"
| "json_float _ = None"

text \<open>The proleptic Gregorian date of a day counted from 1 January of year 1.\<close>

definition civil_from_days :: "int \<Rightarrow> int \<times> int \<times> int" where
  "civil_from_days days =
     (let z = days + 306; era = z div 146097; doe = z mod 146097;
          yoe = (doe - doe div 1460 + doe div 36524 - doe div 146096) div 365;
          doy = doe - (365 * yoe + yoe div 4 - yoe div 100);
          mp = (5 * doy + 2) div 153;
          d = doy - (153 * mp + 2) div 5 + 1;
          m = (if mp < 10 then mp + 3 else mp - 9);
          y = yoe + era * 400 + (if m \<le> 2 then 1 else 0)
      in (y, m, d))"

definition pad :: "nat \<Rightarrow> int \<Rightarrow> string" where
  "pad n i = (let s = show_int i in replicate (n - length s) (CHR ''0'') @ s)"

text \<open>RFC 3339 with the fraction of a second, trailing zeros dropped, in UTC; a year outside
  0..9999 is an error of \<open>MarshalJSON\<close>.\<close>

definition json_time :: "time \<Rightarrow> json option" where
  "json_time t =
     (let secs = t div 1000000000; ns = t mod 1000000000; days = secs div 86400; sod = secs mod 86400
      in case civil_from_days days of (y, m, d) \<Rightarrow>
        if y < 0 \<or> y > 9999 then None
        else Some (JStr (pad 4 y @ ''-'' @ pad 2 m @ ''-'' @ pad 2 d @ ''T'' @ pad 2 (sod div 3600) @ '':''
          @ pad 2 (sod div 60 mod 60) @ '':'' @ pad 2 (sod mod 60)
          @ (if ns = 0 then [] else ''.'' @ rev (dropWhile ((=) (CHR ''0'')) (rev (pad 9 ns)))) @ ''Z'')))"

end
