(* ===== verification/Types.thy ===== *)
theory Types
  imports Cdip Json
begin

section \<open>The shared data model (internal/cluster, jobs, membership, resources)\<close>

text \<open>
  The structs that the manager, its stores and its workers exchange, field by field, and the placement
  function of internal/scheduler. A field \<open>F\<close> of struct \<open>S\<close> is \<open>x_F\<close>, with a prefix \<open>x\<close> of
  its own for each struct.
\<close>

subsection \<open>Cluster nodes\<close>

datatype NodeRole = NodeRoleManager | NodeRoleWorker | NodeRoleOther string

datatype NodeStatus =
  NodeStatusJoining | NodeStatusOnline | NodeStatusOffline | NodeStatusDraining | NodeStatusOther string

record CPUResources =
  cpu_CoresTotal :: int
  cpu_CoresAllowed :: int

record MemoryResources =
  mem_TotalBytes :: u64
  mem_AllowedBytes :: u64

record GPUResources =
  gpu_Name :: string
  gpu_Vendor :: string
  gpu_TotalVRAMBytes :: u64
  gpu_AllowedVRAMBytes :: u64
  gpu_ComputeCompatible :: bool

record StorageResources =
  st_TotalBytes :: u64
  st_AllowedBytes :: u64
  st_FreeBytes :: u64
  st_UsedByModelsBytes :: u64
  st_UsedByRuntimesBytes :: u64
  st_UsedByCacheBytes :: u64
  st_PartialModelBytes :: u64
  st_PartialModelFiles :: int
  st_OrphanModelBytes :: u64
  st_OrphanModelDirs :: int

record ModelResource =
  mr_ID :: string
  mr_Name :: string
  mr_Family :: string
  mr_Runtime :: string
  mr_Path :: string
  mr_Bytes :: u64
  mr_Ready :: bool
  mr_Error :: string
  mr_InstalledAt :: time

record RPCRuntimeResource =
  rpc_Name :: string
  rpc_Ready :: bool
  rpc_ServerPath :: string
  rpc_Endpoint :: string
  rpc_Protocol :: string
  rpc_Blockers :: "string list"

record StageRuntimeResource =
  sr_Name :: string
  sr_Ready :: bool
  sr_CLIReady :: bool
  sr_BinaryPath :: string
  sr_RequiredHooks :: "string list"
  sr_Blockers :: "string list"

record RuntimeResource =
  rt_Name :: string
  rt_Ready :: bool
  rt_Version :: string
  rt_Platform :: string
  rt_BinaryPath :: string
  rt_Source :: string
  rt_Capabilities :: "string list"
  rt_RPCRuntimes :: "RPCRuntimeResource list"
  rt_StageRuntimes :: "StageRuntimeResource list"
  rt_Error :: string

record ResourceSnapshot =
  rs_CPU :: CPUResources
  rs_Memory :: MemoryResources
  rs_GPU :: "GPUResources list"
  rs_Storage :: StorageResources
  rs_JobSlots :: int
  rs_Models :: "ModelResource list"
  rs_Runtimes :: "RuntimeResource list"

record Node =
  n_ID :: id
  n_Name :: string
  n_Role :: NodeRole
  n_Status :: NodeStatus
  n_Endpoint :: string
  n_Resources :: ResourceSnapshot
  n_JoinedAt :: time
  n_UpdatedAt :: time

definition zero_storage :: StorageResources where
  "zero_storage = \<lparr>st_TotalBytes = 0, st_AllowedBytes = 0, st_FreeBytes = 0, st_UsedByModelsBytes = 0,
     st_UsedByRuntimesBytes = 0, st_UsedByCacheBytes = 0, st_PartialModelBytes = 0,
     st_PartialModelFiles = 0, st_OrphanModelBytes = 0, st_OrphanModelDirs = 0\<rparr>"

definition zero_resources :: ResourceSnapshot where
  "zero_resources = \<lparr>rs_CPU = \<lparr>cpu_CoresTotal = 0, cpu_CoresAllowed = 0\<rparr>,
     rs_Memory = \<lparr>mem_TotalBytes = 0, mem_AllowedBytes = 0\<rparr>, rs_GPU = [], rs_Storage = zero_storage,
     rs_JobSlots = 0, rs_Models = [], rs_Runtimes = []\<rparr>"

text \<open>A worker in the sense of every filter of the code: its role and its stored status.\<close>

definition online_worker :: "Node \<Rightarrow> bool" where
  "online_worker n \<longleftrightarrow> n_Role n = NodeRoleWorker \<and> n_Status n = NodeStatusOnline"

subsection \<open>Jobs\<close>

datatype Status =
    StatusQueued | StatusScheduled | StatusRunning | StatusSucceeded | StatusFailed | StatusCanceled
  | StatusOther string

definition DefaultMaxAttempts :: int where "DefaultMaxAttempts = 3"

record Requirements =
  req_CPUCores :: int
  req_MemoryBytes :: u64
  req_DiskBytes :: u64
  req_GPURequired :: bool
  req_VRAMBytes :: u64

record Job =
  j_ID :: id
  j_Type :: string
  j_Status :: Status
  j_RequestedBy :: string
  j_AssignedTo :: string
  j_Input :: string
  j_Requirements :: Requirements
  j_Result :: string
  j_Error :: string
  j_Attempts :: int
  j_MaxAttempts :: int
  j_LastFailure :: string
  j_CDIPState :: StageState
  j_CDIPParentJobID :: string
  j_CDIPStageIndex :: int
  j_CreatedAt :: time
  j_UpdatedAt :: time
  j_StartedAt :: time
  j_FinishedAt :: time

record CreateRequest =
  cr_Type :: string
  cr_Input :: string
  cr_RequestedBy :: string
  cr_AssignedTo :: string
  cr_Requirements :: Requirements
  cr_MaxAttempts :: int
  cr_NoAutoAssign :: bool
  cr_CDIPState :: StageState
  cr_CDIPParentJobID :: string
  cr_CDIPStageIndex :: int

record CompleteRequest =
  co_NodeID :: string
  co_Result :: string
  co_Error :: string

record ProgressRequest =
  pr_NodeID :: string
  pr_ProgressBytes :: int
  pr_TotalBytes :: int
  pr_ProgressPercent :: f64
  pr_ProgressLabel :: string

definition terminal :: "Status \<Rightarrow> bool" where
  "terminal s \<longleftrightarrow> s = StatusSucceeded \<or> s = StatusFailed \<or> s = StatusCanceled"

definition active :: "Status \<Rightarrow> bool" where
  "active s \<longleftrightarrow> s = StatusScheduled \<or> s = StatusRunning"

subsection \<open>Membership\<close>

record JoinRequest =
  jr_NodeName :: string
  jr_Role :: NodeRole
  jr_Endpoint :: string
  jr_JoinToken :: string
  jr_Resources :: ResourceSnapshot

record JoinResponse =
  jp_NodeID :: string
  jp_ManagerPeers :: "string list"
  jp_HeartbeatEvery :: int

record Heartbeat =
  hb_NodeID :: string
  hb_At :: time
  hb_Resources :: ResourceSnapshot

subsection \<open>Benchmarks and RPC health\<close>

datatype BenchmarkKind =
  BenchmarkCPU | BenchmarkMemory | BenchmarkDisk | BenchmarkNetwork | BenchmarkAI | BenchmarkOther string

record BenchmarkResult =
  br_NodeID :: string
  br_Kind :: BenchmarkKind
  br_Score :: f64
  br_Unit :: string
  br_Duration :: int
  br_CreatedAt :: time
  br_Metadata :: "(string, string) go_map"

record RPCHealthUpdate =
  hu_Endpoint :: string
  hu_NodeID :: string
  hu_NodeName :: string
  hu_Ready :: bool
  hu_LatencyMS :: int
  hu_Error :: string
  hu_CheckedAt :: time

record RPCHealthRecord =
  hr_Endpoint :: string
  hr_NodeID :: string
  hr_NodeName :: string
  hr_Ready :: bool
  hr_Successes :: int
  hr_Failures :: int
  hr_ConsecutiveFailures :: int
  hr_LastLatencyMS :: int
  hr_LastError :: string
  hr_UpdatedAt :: time

definition zero_health :: RPCHealthRecord where
  "zero_health = \<lparr>hr_Endpoint = [], hr_NodeID = [], hr_NodeName = [], hr_Ready = False, hr_Successes = 0,
     hr_Failures = 0, hr_ConsecutiveFailures = 0, hr_LastLatencyMS = 0, hr_LastError = [], hr_UpdatedAt = 0\<rparr>"

subsection \<open>The reference scheduler (internal/scheduler)\<close>

text \<open>\<open>PickWorker\<close> of internal/scheduler: the first online worker; \<open>None\<close> is
  \<open>ErrNoEligibleWorker\<close>.\<close>

fun PickWorker :: "Job \<Rightarrow> Node list \<Rightarrow> Node option" where
  "PickWorker job [] = None"
| "PickWorker job (worker # workers) =
     (if n_Role worker = NodeRoleWorker \<and> n_Status worker = NodeStatusOnline then Some worker
      else PickWorker job workers)"

lemma PickWorker_online: "PickWorker job ns = Some n \<Longrightarrow> n \<in> set ns \<and> online_worker n"
  by (induction ns) (auto simp: online_worker_def split: if_splits)

lemma PickWorker_None: "PickWorker job ns = None \<longleftrightarrow> (\<forall>n \<in> set ns. \<not> online_worker n)"
  by (induction ns) (auto simp: online_worker_def)

end
