(* ===== verification/Protocol.thy ===== *)
theory Protocol
  imports Json
begin

section \<open>The distributed RPC protocol (internal/protocol/distributed_rpc.go)\<close>

text \<open>
  The execution plan that the manager hands to a coordinator, the result it returns, and the two
  validations: a plan is accepted only if every back end is one of its endpoints, a result only if
  every endpoint it used is one of the plan's.
\<close>

definition DistributedRPCProtocol :: string where
  "DistributedRPCProtocol = ''cmesh.distributed-rpc''"
definition DistributedRPCProtocolVersion :: int where "DistributedRPCProtocolVersion = 1"
definition DistributedRPCPlanSchemaVersion :: int where "DistributedRPCPlanSchemaVersion = 1"

record DistributedRPCBackend =
  be_NodeID :: string
  be_NodeName :: string
  be_Runtime :: string
  be_Endpoint :: string
  be_HealthStatus :: string
  be_LatencyMS :: int
  be_Error :: string

record DistributedRPCExecutionPlan =
  ep_ID :: string
  ep_Protocol :: string
  ep_ProtocolVersion :: int
  ep_PlanSchemaVersion :: int
  ep_Mode :: string
  ep_ModelID :: string
  ep_CoordinatorNodeID :: string
  ep_CoordinatorNodeName :: string
  ep_RPCEndpoints :: "string list"
  ep_Backends :: "DistributedRPCBackend list"
  ep_HealthChecked :: bool
  ep_PlannedAt :: string

record DistributedRPCExecutionResult =
  er_Protocol :: string
  er_ProtocolVersion :: int
  er_PlanSchemaVersion :: int
  er_PlanID :: string
  er_Kind :: string
  er_ModelID :: string
  er_Output :: string
  er_Runtime :: string
  er_RuntimeVersion :: string
  er_WorkerRuntime :: string
  er_RPCEndpoints :: "string list"
  er_RPCEndpointCount :: int
  er_DurationMS :: int
  er_CompletedAt :: string

datatype protocol_error =
    PlanRequired string
  | PlanProtocolUnsupported string
  | PlanProtocolVersionUnsupported int
  | PlanSchemaUnsupported int
  | PlanModelMismatch string string
  | PlanCoordinatorMismatch string string
  | BackendEndpointEmpty
  | BackendNotListed string
  | BackendNodeEmpty string
  | ResultProtocolUnsupported string
  | ResultProtocolVersionUnsupported int
  | ResultSchemaUnsupported int
  | ResultRequired string
  | ResultPlanMismatch string string
  | ResultModelMismatch string string
  | ResultEndpointNotListed string

text \<open>The loop of \<open>cleanRPCEndpoints\<close> (and of \<open>cleanEndpointList\<close> in internal/manager/server.go):
  \<open>seen\<close> is the set of the endpoints already emitted.\<close>

fun clean_loop :: "string list \<Rightarrow> string list \<Rightarrow> string list" where
  "clean_loop seen [] = []"
| "clean_loop seen (endpoint # endpoints) =
     (let e = TrimSpace endpoint
      in if e = [] \<or> e \<in> set seen then clean_loop seen endpoints
         else e # clean_loop (e # seen) endpoints)"

definition cleanRPCEndpoints :: "string list \<Rightarrow> string list" where
  "cleanRPCEndpoints endpoints = clean_loop [] endpoints"

fun validate_backends :: "string list \<Rightarrow> DistributedRPCBackend list \<Rightarrow> protocol_error option" where
  "validate_backends endpoints [] = None"
| "validate_backends endpoints (backend # backends) =
     (let endpoint = TrimSpace (be_Endpoint backend)
      in if endpoint = [] then Some BackendEndpointEmpty
         else if endpoint \<notin> set endpoints then Some (BackendNotListed endpoint)
         else if blank (be_NodeID backend) then Some (BackendNodeEmpty endpoint)
         else validate_backends endpoints backends)"

definition ValidateDistributedRPCExecutionPlan ::
  "DistributedRPCExecutionPlan \<Rightarrow> string \<Rightarrow> string \<Rightarrow> protocol_error option" where
  "ValidateDistributedRPCExecutionPlan plan modelID coordinatorNodeID =
     (if blank (ep_Protocol plan) then Some (PlanRequired ''protocol'')
      else if ep_Protocol plan \<noteq> DistributedRPCProtocol then Some (PlanProtocolUnsupported (ep_Protocol plan))
      else if ep_ProtocolVersion plan \<noteq> DistributedRPCProtocolVersion
        then Some (PlanProtocolVersionUnsupported (ep_ProtocolVersion plan))
      else if ep_PlanSchemaVersion plan \<noteq> DistributedRPCPlanSchemaVersion
        then Some (PlanSchemaUnsupported (ep_PlanSchemaVersion plan))
      else if blank (ep_Mode plan) then Some (PlanRequired ''mode'')
      else if blank (ep_ModelID plan) then Some (PlanRequired ''model_id'')
      else if modelID \<noteq> [] \<and> ep_ModelID plan \<noteq> modelID then Some (PlanModelMismatch (ep_ModelID plan) modelID)
      else if blank (ep_CoordinatorNodeID plan) then Some (PlanRequired ''coordinator_node_id'')
      else if coordinatorNodeID \<noteq> [] \<and> ep_CoordinatorNodeID plan \<noteq> coordinatorNodeID
        then Some (PlanCoordinatorMismatch (ep_CoordinatorNodeID plan) coordinatorNodeID)
      else if cleanRPCEndpoints (ep_RPCEndpoints plan) = [] then Some (PlanRequired ''rpc_endpoints'')
      else if ep_Backends plan = [] then Some (PlanRequired ''backends'')
      else validate_backends (cleanRPCEndpoints (ep_RPCEndpoints plan)) (ep_Backends plan))"

fun validate_result_endpoints :: "string list \<Rightarrow> string list \<Rightarrow> protocol_error option" where
  "validate_result_endpoints planEndpoints [] = None"
| "validate_result_endpoints planEndpoints (endpoint # endpoints) =
     (if endpoint \<notin> set planEndpoints then Some (ResultEndpointNotListed endpoint)
      else validate_result_endpoints planEndpoints endpoints)"

definition ValidateDistributedRPCExecutionResult ::
  "DistributedRPCExecutionResult \<Rightarrow> DistributedRPCExecutionPlan \<Rightarrow> protocol_error option" where
  "ValidateDistributedRPCExecutionResult result plan =
     (if er_Protocol result \<noteq> DistributedRPCProtocol then Some (ResultProtocolUnsupported (er_Protocol result))
      else if er_ProtocolVersion result \<noteq> DistributedRPCProtocolVersion
        then Some (ResultProtocolVersionUnsupported (er_ProtocolVersion result))
      else if er_PlanSchemaVersion result \<noteq> DistributedRPCPlanSchemaVersion
        then Some (ResultSchemaUnsupported (er_PlanSchemaVersion result))
      else if blank (er_Kind result) then Some (ResultRequired ''kind'')
      else if blank (er_ModelID result) then Some (ResultRequired ''model_id'')
      else if blank (er_Output result) then Some (ResultRequired ''output'')
      else if cleanRPCEndpoints (er_RPCEndpoints result) = [] then Some (ResultRequired ''rpc_endpoints'')
      else if ep_ID plan \<noteq> [] \<and> er_PlanID result \<noteq> [] \<and> er_PlanID result \<noteq> ep_ID plan
        then Some (ResultPlanMismatch (er_PlanID result) (ep_ID plan))
      else if ep_ModelID plan \<noteq> [] \<and> er_ModelID result \<noteq> ep_ModelID plan
        then Some (ResultModelMismatch (er_ModelID result) (ep_ModelID plan))
      else validate_result_endpoints (cleanRPCEndpoints (ep_RPCEndpoints plan))
             (cleanRPCEndpoints (er_RPCEndpoints result)))"

subsection \<open>JSON\<close>

definition zero_backend :: DistributedRPCBackend where
  "zero_backend = \<lparr>be_NodeID = [], be_NodeName = [], be_Runtime = [], be_Endpoint = [],
     be_HealthStatus = [], be_LatencyMS = 0, be_Error = []\<rparr>"

definition backend_fields :: "(string \<times> DistributedRPCBackend field_decoder) list" where
  "backend_fields =
     [(''node_id'', dstr (\<lambda>s. be_NodeID_update (\<lambda>_. s))),
      (''node_name'', dstr (\<lambda>s. be_NodeName_update (\<lambda>_. s))),
      (''runtime'', dstr (\<lambda>s. be_Runtime_update (\<lambda>_. s))),
      (''endpoint'', dstr (\<lambda>s. be_Endpoint_update (\<lambda>_. s))),
      (''health_status'', dstr (\<lambda>s. be_HealthStatus_update (\<lambda>_. s))),
      (''latency_ms'', dint (\<lambda>i. be_LatencyMS_update (\<lambda>_. i))),
      (''error'', dstr (\<lambda>s. be_Error_update (\<lambda>_. s)))]"

definition zero_plan :: DistributedRPCExecutionPlan where
  "zero_plan = \<lparr>ep_ID = [], ep_Protocol = [], ep_ProtocolVersion = 0, ep_PlanSchemaVersion = 0,
     ep_Mode = [], ep_ModelID = [], ep_CoordinatorNodeID = [], ep_CoordinatorNodeName = [],
     ep_RPCEndpoints = [], ep_Backends = [], ep_HealthChecked = False, ep_PlannedAt = []\<rparr>"

definition plan_fields :: "(string \<times> DistributedRPCExecutionPlan field_decoder) list" where
  "plan_fields =
     [(''id'', dstr (\<lambda>s. ep_ID_update (\<lambda>_. s))),
      (''protocol'', dstr (\<lambda>s. ep_Protocol_update (\<lambda>_. s))),
      (''protocol_version'', dint (\<lambda>i. ep_ProtocolVersion_update (\<lambda>_. i))),
      (''plan_schema_version'', dint (\<lambda>i. ep_PlanSchemaVersion_update (\<lambda>_. i))),
      (''mode'', dstr (\<lambda>s. ep_Mode_update (\<lambda>_. s))),
      (''model_id'', dstr (\<lambda>s. ep_ModelID_update (\<lambda>_. s))),
      (''coordinator_node_id'', dstr (\<lambda>s. ep_CoordinatorNodeID_update (\<lambda>_. s))),
      (''coordinator_node_name'', dstr (\<lambda>s. ep_CoordinatorNodeName_update (\<lambda>_. s))),
      (''rpc_endpoints'', dslice dec_string (\<lambda>ss. ep_RPCEndpoints_update (\<lambda>_. ss))),
      (''backends'', dslice (decode_struct backend_fields zero_backend) (\<lambda>bs. ep_Backends_update (\<lambda>_. bs))),
      (''health_checked'', dbool (\<lambda>b. ep_HealthChecked_update (\<lambda>_. b))),
      (''planned_at'', dstr (\<lambda>s. ep_PlannedAt_update (\<lambda>_. s)))]"

subsection \<open>Properties\<close>

lemma clean_loop_set: "set (clean_loop seen es) = {e \<in> TrimSpace ` set es. e \<noteq> []} - set seen"
  by (induction es arbitrary: seen) (auto simp: Let_def)

lemma clean_loop_distinct: "distinct (clean_loop seen es)"
  by (induction es arbitrary: seen) (auto simp: Let_def clean_loop_set)

lemma cleanRPCEndpoints_set: "set (cleanRPCEndpoints es) = {e \<in> TrimSpace ` set es. e \<noteq> []}"
  by (simp add: cleanRPCEndpoints_def clean_loop_set)

lemma cleanRPCEndpoints_Nil: "cleanRPCEndpoints es = [] \<longleftrightarrow> (\<forall>e \<in> set es. blank e)"
proof -
  have "cleanRPCEndpoints es = [] \<longleftrightarrow> set (cleanRPCEndpoints es) = {}" by simp
  then show ?thesis by (auto simp: cleanRPCEndpoints_set blank_def)
qed

lemma clean_loop_id:
  assumes "distinct es" and "set es \<inter> set seen = {}" and "\<forall>e \<in> set es. TrimSpace e = e \<and> e \<noteq> []"
  shows "clean_loop seen es = es"
  using assms by (induction es arbitrary: seen) auto

lemma cleanRPCEndpoints_idem: "cleanRPCEndpoints (cleanRPCEndpoints es) = cleanRPCEndpoints es"
proof -
  have "distinct (cleanRPCEndpoints es)" by (simp add: cleanRPCEndpoints_def clean_loop_distinct)
  moreover have "\<forall>e \<in> set (cleanRPCEndpoints es). TrimSpace e = e \<and> e \<noteq> []"
    by (auto simp: cleanRPCEndpoints_set)
  ultimately show ?thesis
    using clean_loop_id [of "cleanRPCEndpoints es" "[]"] by (simp add: cleanRPCEndpoints_def)
qed

lemma validate_backends_None:
  "validate_backends es bs = None \<longleftrightarrow>
     (\<forall>b \<in> set bs. \<not> blank (be_Endpoint b) \<and> TrimSpace (be_Endpoint b) \<in> set es \<and> \<not> blank (be_NodeID b))"
  by (induction bs) (auto simp: Let_def blank_def)

lemma validate_result_endpoints_None:
  "validate_result_endpoints ps es = None \<longleftrightarrow> set es \<subseteq> set ps"
  by (induction es) auto


definition demo_plan :: DistributedRPCExecutionPlan where
  "demo_plan = zero_plan\<lparr>ep_Protocol := DistributedRPCProtocol, ep_ProtocolVersion := 1,
     ep_PlanSchemaVersion := 1, ep_Mode := ''rpc'', ep_ModelID := ''m'', ep_CoordinatorNodeID := ''node-a'',
     ep_RPCEndpoints := ['' 10.0.0.2:50052'', ''10.0.0.2:50052 '', ''10.0.0.3:50052''],
     ep_Backends := [zero_backend\<lparr>be_NodeID := ''node-b'', be_Endpoint := ''10.0.0.2:50052''\<rparr>]\<rparr>"



definition demo_result :: DistributedRPCExecutionResult where
  "demo_result = \<lparr>er_Protocol = DistributedRPCProtocol, er_ProtocolVersion = 1, er_PlanSchemaVersion = 1,
     er_PlanID = [], er_Kind = ''k'', er_ModelID = ''m'', er_Output = ''hi'', er_Runtime = [],
     er_RuntimeVersion = [], er_WorkerRuntime = [], er_RPCEndpoints = [''10.0.0.3:50052''],
     er_RPCEndpointCount = 1, er_DurationMS = 5, er_CompletedAt = []\<rparr>"


end
