(* ===== verification/Catalog.thy ===== *)
theory Catalog
  imports Types Protocol
begin

section \<open>The model catalog (internal/models/catalog.go)\<close>

text \<open>
  The fixed list of models, the lookup functions, the generation presets, and the inputs of the model
  jobs with their JSON encoding and decoding.
\<close>

definition JobInstall :: string where "JobInstall = ''model.install''"
definition JobDelete :: string where "JobDelete = ''model.delete''"
definition JobGenerate :: string where "JobGenerate = ''model.generate''"
definition JobGenerateDistributedRPC :: string where
  "JobGenerateDistributedRPC = ''model.generate.distributed_rpc''"
definition JobGenerateDistributed :: string where
  "JobGenerateDistributed = ''model.generate.distributed''"
definition JobGenerateStage :: string where "JobGenerateStage = ''model.generate.distributed.stage''"
definition JobRepair :: string where "JobRepair = ''model.repair''"
definition JobCleanup :: string where "JobCleanup = ''model.cleanup''"

lemmas job_type_defs = JobInstall_def JobDelete_def JobGenerate_def JobGenerateDistributedRPC_def
  JobGenerateDistributed_def JobGenerateStage_def JobRepair_def JobCleanup_def

definition RuntimeLlamaCPP :: string where "RuntimeLlamaCPP = ''llama.cpp''"

record Model =
  m_ID :: string
  m_Name :: string
  m_Family :: string
  m_Runtime :: string
  m_Repo :: string
  m_File :: string
  m_URL :: string
  m_Parameters :: string
  m_Quant :: string
  m_Context :: int
  m_DiskBytes :: u64
  m_MemoryBytes :: u64
  m_VRAMBytes :: u64
  m_License :: string
  m_Description :: string

record QualityPreset =
  qp_Temperature :: string
  qp_MaxTokens :: int
  qp_SystemPrompt :: string

record ChatMessage =
  cm_Role :: string
  cm_Content :: string

subsection \<open>Presets\<close>

definition base_prompt :: string where
  "base_prompt = ''You are CMesh's local AI assistant. Continue the conversation using the provided history. Answer the latest user message directly. If the user shared personal details earlier in this conversation, remember and use them. Do not print role names, chat template tokens, or hidden reasoning.''"

definition QualityPresetFor :: "Model \<Rightarrow> QualityPreset" where
  "QualityPresetFor model =
     (let base = base_prompt; id = ToLower (m_ID model); family = ToLower (m_Family model);
          preset = (\<lambda>t n suffix. \<lparr>qp_Temperature = t, qp_MaxTokens = n, qp_SystemPrompt = base @ suffix\<rparr>)
      in if Contains id ''deepseek''
         then preset ''0.3'' 768 '' Return only the final answer unless the user explicitly asks for reasoning.''
         else if Contains id ''coder''
         then preset ''0.2'' 768 '' Prefer precise code, commands, and short explanations.''
         else if family = ''qwen'' then preset ''0.5'' 768 '' Prefer concise, natural answers.''
         else if family = ''gemma'' then preset ''0.7'' 512 '' Keep answers clear and conversational.''
         else if family = ''mistral'' then preset ''0.4'' 768 '' Be practical and concise.''
         else if family = ''phi'' then preset ''0.3'' 512 '' Keep answers short unless more detail is needed.''
         else if family = ''llama'' then preset ''0.6'' 512 []
         else preset ''0.6'' 512 [])"

subsection \<open>The catalog\<close>

definition gb :: u64 where "gb = 1024 * 1024 * 1024"

definition catalog_small :: "Model list" where
  "catalog_small =
    [\<lparr>m_ID = ''qwen2.5-0.5b-instruct-q4-k-m'', m_Name = ''Qwen2.5 0.5B Instruct'', m_Family = ''Qwen'', m_Runtime = RuntimeLlamaCPP,
      m_Repo = ''Qwen/Qwen2.5-0.5B-Instruct-GGUF'', m_File = ''qwen2.5-0.5b-instruct-q4_k_m.gguf'',
      m_URL = ''https://huggingface.co/Qwen/Qwen2.5-0.5B-Instruct-GGUF/resolve/main/qwen2.5-0.5b-instruct-q4_k_m.gguf'',
      m_Parameters = ''0.5B'', m_Quant = ''Q4_K_M'', m_Context = 32768, m_DiskBytes = 1 * gb, m_MemoryBytes = 2 * gb,
      m_VRAMBytes = 0, m_License = ''Apache-2.0'',
      m_Description = ''Small default chat model for first cluster inference tests.''\<rparr>,
     \<lparr>m_ID = ''tinyllama-1.1b-chat-q4-k-m'', m_Name = ''TinyLlama 1.1B Chat'', m_Family = ''Llama'', m_Runtime = RuntimeLlamaCPP,
      m_Repo = ''TheBloke/TinyLlama-1.1B-Chat-v1.0-GGUF'', m_File = ''tinyllama-1.1b-chat-v1.0.Q4_K_M.gguf'',
      m_URL = ''https://huggingface.co/TheBloke/TinyLlama-1.1B-Chat-v1.0-GGUF/resolve/main/tinyllama-1.1b-chat-v1.0.Q4_K_M.gguf'',
      m_Parameters = ''1.1B'', m_Quant = ''Q4_K_M'', m_Context = 2048, m_DiskBytes = 2 * gb, m_MemoryBytes = 3 * gb,
      m_VRAMBytes = 0, m_License = ''Apache-2.0'',
      m_Description = ''Compact chat model with a tiny disk footprint.''\<rparr>,
     \<lparr>m_ID = ''gemma-2b-q4-k-m'', m_Name = ''Gemma 2B'', m_Family = ''Gemma'', m_Runtime = RuntimeLlamaCPP,
      m_Repo = ''MaziyarPanahi/gemma-2b-GGUF'', m_File = ''gemma-2b.Q4_K_M.gguf'',
      m_URL = ''https://huggingface.co/MaziyarPanahi/gemma-2b-GGUF/resolve/main/gemma-2b.Q4_K_M.gguf'',
      m_Parameters = ''2B'', m_Quant = ''Q4_K_M'', m_Context = 8192, m_DiskBytes = 3 * gb, m_MemoryBytes = 5 * gb,
      m_VRAMBytes = 0, m_License = ''Gemma'',
      m_Description = ''Larger first-run option for stronger local Macs.''\<rparr>,
     \<lparr>m_ID = ''phi-3.5-mini-instruct-q4-k-m'', m_Name = ''Phi-3.5 Mini Instruct'', m_Family = ''Phi'', m_Runtime = RuntimeLlamaCPP,
      m_Repo = ''bartowski/Phi-3.5-mini-instruct-GGUF'', m_File = ''Phi-3.5-mini-instruct-Q4_K_M.gguf'',
      m_URL = ''https://huggingface.co/bartowski/Phi-3.5-mini-instruct-GGUF/resolve/main/Phi-3.5-mini-instruct-Q4_K_M.gguf'',
      m_Parameters = ''3.8B'', m_Quant = ''Q4_K_M'', m_Context = 4096, m_DiskBytes = 3 * gb, m_MemoryBytes = 5 * gb,
      m_VRAMBytes = 0, m_License = ''MIT'',
      m_Description = ''Small instruct model that should be more useful than the tiny smoke-test models.''\<rparr>,
     \<lparr>m_ID = ''gemma-3-4b-it-q4-k-m'', m_Name = ''Gemma 3 4B IT'', m_Family = ''Gemma'', m_Runtime = RuntimeLlamaCPP,
      m_Repo = ''ggml-org/gemma-3-4b-it-GGUF'', m_File = ''gemma-3-4b-it-Q4_K_M.gguf'',
      m_URL = ''https://huggingface.co/ggml-org/gemma-3-4b-it-GGUF/resolve/main/gemma-3-4b-it-Q4_K_M.gguf'',
      m_Parameters = ''4B'', m_Quant = ''Q4_K_M'', m_Context = 8192, m_DiskBytes = 4 * gb, m_MemoryBytes = 6 * gb,
      m_VRAMBytes = 0, m_License = ''Gemma'',
      m_Description = ''Modern Gemma instruct model for better local chat tests.''\<rparr>,
     \<lparr>m_ID = ''mistral-7b-instruct-v0.3-q4-k-m'', m_Name = ''Mistral 7B Instruct v0.3'', m_Family = ''Mistral'', m_Runtime = RuntimeLlamaCPP,
      m_Repo = ''bartowski/Mistral-7B-Instruct-v0.3-GGUF'', m_File = ''Mistral-7B-Instruct-v0.3-Q4_K_M.gguf'',
      m_URL = ''https://huggingface.co/bartowski/Mistral-7B-Instruct-v0.3-GGUF/resolve/main/Mistral-7B-Instruct-v0.3-Q4_K_M.gguf'',
      m_Parameters = ''7B'', m_Quant = ''Q4_K_M'', m_Context = 32768, m_DiskBytes = 5 * gb, m_MemoryBytes = 8 * gb,
      m_VRAMBytes = 0, m_License = ''Apache-2.0'',
      m_Description = ''Reliable general-purpose 7B instruct baseline.''\<rparr>,
     \<lparr>m_ID = ''qwen2.5-7b-instruct-q4-k-m'', m_Name = ''Qwen2.5 7B Instruct'', m_Family = ''Qwen'', m_Runtime = RuntimeLlamaCPP,
      m_Repo = ''bartowski/Qwen2.5-7B-Instruct-GGUF'', m_File = ''Qwen2.5-7B-Instruct-Q4_K_M.gguf'',
      m_URL = ''https://huggingface.co/bartowski/Qwen2.5-7B-Instruct-GGUF/resolve/main/Qwen2.5-7B-Instruct-Q4_K_M.gguf'',
      m_Parameters = ''7B'', m_Quant = ''Q4_K_M'', m_Context = 32768, m_DiskBytes = 5 * gb, m_MemoryBytes = 8 * gb,
      m_VRAMBytes = 0, m_License = ''Apache-2.0'',
      m_Description = ''Stronger default chat candidate for a 48 GB Mac.''\<rparr>,
     \<lparr>m_ID = ''qwen2.5-coder-7b-instruct-q4-k-m'', m_Name = ''Qwen2.5 Coder 7B Instruct'', m_Family = ''Qwen'', m_Runtime = RuntimeLlamaCPP,
      m_Repo = ''Qwen/Qwen2.5-Coder-7B-Instruct-GGUF'', m_File = ''qwen2.5-coder-7b-instruct-q4_k_m.gguf'',
      m_URL = ''https://huggingface.co/Qwen/Qwen2.5-Coder-7B-Instruct-GGUF/resolve/main/qwen2.5-coder-7b-instruct-q4_k_m.gguf'',
      m_Parameters = ''7B'', m_Quant = ''Q4_K_M'', m_Context = 32768, m_DiskBytes = 5 * gb, m_MemoryBytes = 8 * gb,
      m_VRAMBytes = 0, m_License = ''Apache-2.0'',
      m_Description = ''Code-focused model for testing developer prompts on the cluster.''\<rparr>]"

definition catalog_large :: "Model list" where
  "catalog_large =
    [\<lparr>m_ID = ''gemma-3-12b-it-q4-k-m'', m_Name = ''Gemma 3 12B IT'', m_Family = ''Gemma'', m_Runtime = RuntimeLlamaCPP,
      m_Repo = ''ggml-org/gemma-3-12b-it-GGUF'', m_File = ''gemma-3-12b-it-Q4_K_M.gguf'',
      m_URL = ''https://huggingface.co/ggml-org/gemma-3-12b-it-GGUF/resolve/main/gemma-3-12b-it-Q4_K_M.gguf'',
      m_Parameters = ''12B'', m_Quant = ''Q4_K_M'', m_Context = 8192, m_DiskBytes = 8 * gb, m_MemoryBytes = 14 * gb,
      m_VRAMBytes = 0, m_License = ''Gemma'',
      m_Description = ''Heavier Gemma option for larger local machines.''\<rparr>,
     \<lparr>m_ID = ''qwen2.5-14b-instruct-q4-k-m'', m_Name = ''Qwen2.5 14B Instruct'', m_Family = ''Qwen'', m_Runtime = RuntimeLlamaCPP,
      m_Repo = ''bartowski/Qwen2.5-14B-Instruct-GGUF'', m_File = ''Qwen2.5-14B-Instruct-Q4_K_M.gguf'',
      m_URL = ''https://huggingface.co/bartowski/Qwen2.5-14B-Instruct-GGUF/resolve/main/Qwen2.5-14B-Instruct-Q4_K_M.gguf'',
      m_Parameters = ''14B'', m_Quant = ''Q4_K_M'', m_Context = 32768, m_DiskBytes = 10 * gb, m_MemoryBytes = 16 * gb,
      m_VRAMBytes = 0, m_License = ''Apache-2.0'',
      m_Description = ''Large local instruct model for high-memory Macs.''\<rparr>,
     \<lparr>m_ID = ''mistral-small-24b-instruct-2501-q4-k-m'', m_Name = ''Mistral Small 24B Instruct 2501'', m_Family = ''Mistral'', m_Runtime = RuntimeLlamaCPP,
      m_Repo = ''bartowski/Mistral-Small-24B-Instruct-2501-GGUF'', m_File = ''Mistral-Small-24B-Instruct-2501-Q4_K_M.gguf'',
      m_URL = ''https://huggingface.co/bartowski/Mistral-Small-24B-Instruct-2501-GGUF/resolve/main/Mistral-Small-24B-Instruct-2501-Q4_K_M.gguf'',
      m_Parameters = ''24B'', m_Quant = ''Q4_K_M'', m_Context = 32768, m_DiskBytes = 15 * gb, m_MemoryBytes = 26 * gb,
      m_VRAMBytes = 0, m_License = ''Apache-2.0'',
      m_Description = ''Heavy general-purpose instruct model for high-memory local workers.''\<rparr>,
     \<lparr>m_ID = ''gemma-3-27b-it-q4-k-m'', m_Name = ''Gemma 3 27B IT'', m_Family = ''Gemma'', m_Runtime = RuntimeLlamaCPP,
      m_Repo = ''bartowski/google_gemma-3-27b-it-GGUF'', m_File = ''google_gemma-3-27b-it-Q4_K_M.gguf'',
      m_URL = ''https://huggingface.co/bartowski/google_gemma-3-27b-it-GGUF/resolve/main/google_gemma-3-27b-it-Q4_K_M.gguf'',
      m_Parameters = ''27B'', m_Quant = ''Q4_K_M'', m_Context = 8192, m_DiskBytes = 18 * gb, m_MemoryBytes = 30 * gb,
      m_VRAMBytes = 0, m_License = ''Gemma'',
      m_Description = ''Large Gemma instruct model for stronger local reasoning tests.''\<rparr>,
     \<lparr>m_ID = ''qwen2.5-32b-instruct-q4-k-m'', m_Name = ''Qwen2.5 32B Instruct'', m_Family = ''Qwen'', m_Runtime = RuntimeLlamaCPP,
      m_Repo = ''bartowski/Qwen2.5-32B-Instruct-GGUF'', m_File = ''Qwen2.5-32B-Instruct-Q4_K_M.gguf'',
      m_URL = ''https://huggingface.co/bartowski/Qwen2.5-32B-Instruct-GGUF/resolve/main/Qwen2.5-32B-Instruct-Q4_K_M.gguf'',
      m_Parameters = ''32B'', m_Quant = ''Q4_K_M'', m_Context = 32768, m_DiskBytes = 21 * gb, m_MemoryBytes = 34 * gb,
      m_VRAMBytes = 0, m_License = ''Apache-2.0'',
      m_Description = ''Very large Qwen instruct model; recommended upper-end test for 48 GB Macs.''\<rparr>,
     \<lparr>m_ID = ''qwen2.5-coder-32b-instruct-q4-k-m'', m_Name = ''Qwen2.5 Coder 32B Instruct'', m_Family = ''Qwen'', m_Runtime = RuntimeLlamaCPP,
      m_Repo = ''bartowski/Qwen2.5-Coder-32B-Instruct-GGUF'', m_File = ''Qwen2.5-Coder-32B-Instruct-Q4_K_M.gguf'',
      m_URL = ''https://huggingface.co/bartowski/Qwen2.5-Coder-32B-Instruct-GGUF/resolve/main/Qwen2.5-Coder-32B-Instruct-Q4_K_M.gguf'',
      m_Parameters = ''32B'', m_Quant = ''Q4_K_M'', m_Context = 32768, m_DiskBytes = 21 * gb, m_MemoryBytes = 34 * gb,
      m_VRAMBytes = 0, m_License = ''Apache-2.0'',
      m_Description = ''Large code-focused model for serious local developer prompts.''\<rparr>,
     \<lparr>m_ID = ''deepseek-r1-distill-qwen-32b-q4-k-m'', m_Name = ''DeepSeek R1 Distill Qwen 32B'', m_Family = ''Qwen'', m_Runtime = RuntimeLlamaCPP,
      m_Repo = ''bartowski/DeepSeek-R1-Distill-Qwen-32B-GGUF'', m_File = ''DeepSeek-R1-Distill-Qwen-32B-Q4_K_M.gguf'',
      m_URL = ''https://huggingface.co/bartowski/DeepSeek-R1-Distill-Qwen-32B-GGUF/resolve/main/DeepSeek-R1-Distill-Qwen-32B-Q4_K_M.gguf'',
      m_Parameters = ''32B'', m_Quant = ''Q4_K_M'', m_Context = 32768, m_DiskBytes = 21 * gb, m_MemoryBytes = 34 * gb,
      m_VRAMBytes = 0, m_License = ''MIT'',
      m_Description = ''Experimental reasoning-oriented 32B model; expect slower responses.''\<rparr>]"

definition catalog :: "Model list" where
  "catalog = catalog_small @ catalog_large"

definition Catalog :: "Model list" where
  "Catalog = catalog"

fun find_model :: "Model list \<Rightarrow> string \<Rightarrow> Model option" where
  "find_model [] i = None"
| "find_model (model # models) i = (if m_ID model = i then Some model else find_model models i)"

definition Find :: "string \<Rightarrow> Model option" where
  "Find i = find_model catalog i"

datatype catalog_error = UnknownModel string

definition MustFind :: "string \<Rightarrow> catalog_error + Model" where
  "MustFind i = (case Find i of Some model \<Rightarrow> Inr model | None \<Rightarrow> Inl (UnknownModel i))"

subsection \<open>The catalog's own consistency\<close>

lemma find_model_Some: "find_model ms i = Some m \<Longrightarrow> m \<in> set ms \<and> m_ID m = i"
  by (induction ms) (auto split: if_splits)

lemma find_model_None: "find_model ms i = None \<longleftrightarrow> i \<notin> m_ID ` set ms"
  by (induction ms) auto

lemma find_model_distinct:
  "distinct (map m_ID ms) \<Longrightarrow> m \<in> set ms \<Longrightarrow> find_model ms (m_ID m) = Some m"
  by (induction ms) (auto simp: image_iff)

lemma catalog_ids:
  "map m_ID catalog =
     [''qwen2.5-0.5b-instruct-q4-k-m'', ''tinyllama-1.1b-chat-q4-k-m'', ''gemma-2b-q4-k-m'',
      ''phi-3.5-mini-instruct-q4-k-m'', ''gemma-3-4b-it-q4-k-m'', ''mistral-7b-instruct-v0.3-q4-k-m'',
      ''qwen2.5-7b-instruct-q4-k-m'', ''qwen2.5-coder-7b-instruct-q4-k-m'', ''gemma-3-12b-it-q4-k-m'',
      ''qwen2.5-14b-instruct-q4-k-m'', ''mistral-small-24b-instruct-2501-q4-k-m'',
      ''gemma-3-27b-it-q4-k-m'', ''qwen2.5-32b-instruct-q4-k-m'', ''qwen2.5-coder-32b-instruct-q4-k-m'',
      ''deepseek-r1-distill-qwen-32b-q4-k-m'']"
  by (simp add: catalog_def catalog_small_def catalog_large_def)

lemma catalog_ids_distinct: "distinct (map m_ID catalog)"
  unfolding catalog_ids by simp

text \<open>
  C5: the catalog is a table with its identifiers as keys: looking up the identifier of any of
  its models gives that model back, every successful lookup gives a catalog model with the identifier
  asked for, and \<open>MustFind\<close> fails, with the identifier in its error, exactly when there is none.
\<close>

theorem catalog_lookup:
  "(m \<in> set Catalog \<longleftrightarrow> Find (m_ID m) = Some m)
   \<and> (MustFind i = Inr m \<longleftrightarrow> m \<in> set Catalog \<and> m_ID m = i)
   \<and> (MustFind i = Inl e \<longleftrightarrow> i \<notin> m_ID ` set Catalog \<and> e = UnknownModel i)"
proof -
  have find: "Find j = Some n \<longleftrightarrow> n \<in> set catalog \<and> m_ID n = j" for j n
    unfolding Find_def using find_model_Some find_model_distinct [OF catalog_ids_distinct] by blast
  have none: "Find j = None \<longleftrightarrow> j \<notin> m_ID ` set catalog" for j
    by (simp add: Find_def find_model_None)
  show ?thesis
    unfolding Catalog_def MustFind_def
    using find [of "m_ID m" m] find [of i m] none [of i] by (auto split: option.splits)
qed

subsection \<open>Inputs of the model jobs\<close>

record DeleteInput =
  di_ModelID :: string
  di_CacheDir :: string

definition delete_fields :: "(string \<times> DeleteInput field_decoder) list" where
  "delete_fields =
     [(''model_id'', dstr (\<lambda>s. di_ModelID_update (\<lambda>_. s))),
      (''cache_dir'', dstr (\<lambda>s. di_CacheDir_update (\<lambda>_. s)))]"

definition decode_DeleteInput :: "string \<Rightarrow> DeleteInput option" where
  "decode_DeleteInput text = Unmarshal delete_fields \<lparr>di_ModelID = [], di_CacheDir = []\<rparr> text"

definition message_fields :: "(string \<times> ChatMessage field_decoder) list" where
  "message_fields =
     [(''role'', dstr (\<lambda>s. cm_Role_update (\<lambda>_. s))),
      (''content'', dstr (\<lambda>s. cm_Content_update (\<lambda>_. s)))]"

abbreviation dec_message :: "json \<Rightarrow> ChatMessage option" where
  "dec_message \<equiv> decode_struct message_fields \<lparr>cm_Role = [], cm_Content = []\<rparr>"

definition json_message :: "ChatMessage \<Rightarrow> json" where
  "json_message m = JObj (jstr ''role'' (cm_Role m) @ jstr ''content'' (cm_Content m))"

record GenerateInput =
  gi_ModelID :: string
  gi_Prompt :: string
  gi_Messages :: "ChatMessage list"
  gi_SystemPrompt :: string
  gi_ConversationID :: string
  gi_MaxTokens :: int
  gi_Temperature :: string
  gi_CacheDir :: string

definition generate_fields :: "(string \<times> GenerateInput field_decoder) list" where
  "generate_fields =
     [(''model_id'', dstr (\<lambda>s. gi_ModelID_update (\<lambda>_. s))),
      (''prompt'', dstr (\<lambda>s. gi_Prompt_update (\<lambda>_. s))),
      (''messages'', dslice dec_message (\<lambda>ms. gi_Messages_update (\<lambda>_. ms))),
      (''system_prompt'', dstr (\<lambda>s. gi_SystemPrompt_update (\<lambda>_. s))),
      (''conversation_id'', dstr (\<lambda>s. gi_ConversationID_update (\<lambda>_. s))),
      (''max_tokens'', dint (\<lambda>i. gi_MaxTokens_update (\<lambda>_. i))),
      (''temperature'', dstr (\<lambda>s. gi_Temperature_update (\<lambda>_. s))),
      (''cache_dir'', dstr (\<lambda>s. gi_CacheDir_update (\<lambda>_. s)))]"

definition decode_GenerateInput :: "string \<Rightarrow> GenerateInput option" where
  "decode_GenerateInput text = Unmarshal generate_fields
     \<lparr>gi_ModelID = [], gi_Prompt = [], gi_Messages = [], gi_SystemPrompt = [], gi_ConversationID = [],
      gi_MaxTokens = 0, gi_Temperature = [], gi_CacheDir = []\<rparr> text"

record DistributedRPCGenerateInput =
  rg_ModelID :: string
  rg_Prompt :: string
  rg_Messages :: "ChatMessage list"
  rg_SystemPrompt :: string
  rg_ConversationID :: string
  rg_MaxTokens :: int
  rg_Temperature :: string
  rg_RPCEndpoints :: "string list"
  rg_ExecutionPlan :: DistributedRPCExecutionPlan

definition rpc_generate_fields :: "(string \<times> DistributedRPCGenerateInput field_decoder) list" where
  "rpc_generate_fields =
     [(''model_id'', dstr (\<lambda>s. rg_ModelID_update (\<lambda>_. s))),
      (''prompt'', dstr (\<lambda>s. rg_Prompt_update (\<lambda>_. s))),
      (''messages'', dslice dec_message (\<lambda>ms. rg_Messages_update (\<lambda>_. ms))),
      (''system_prompt'', dstr (\<lambda>s. rg_SystemPrompt_update (\<lambda>_. s))),
      (''conversation_id'', dstr (\<lambda>s. rg_ConversationID_update (\<lambda>_. s))),
      (''max_tokens'', dint (\<lambda>i. rg_MaxTokens_update (\<lambda>_. i))),
      (''temperature'', dstr (\<lambda>s. rg_Temperature_update (\<lambda>_. s))),
      (''rpc_endpoints'', dslice dec_string (\<lambda>ss. rg_RPCEndpoints_update (\<lambda>_. ss))),
      (''execution_plan'', dstruct (decode_struct plan_fields zero_plan) (\<lambda>p. rg_ExecutionPlan_update (\<lambda>_. p)))]"

definition decode_DistributedRPCGenerateInput :: "string \<Rightarrow> DistributedRPCGenerateInput option" where
  "decode_DistributedRPCGenerateInput text = Unmarshal rpc_generate_fields
     \<lparr>rg_ModelID = [], rg_Prompt = [], rg_Messages = [], rg_SystemPrompt = [], rg_ConversationID = [],
      rg_MaxTokens = 0, rg_Temperature = [], rg_RPCEndpoints = [], rg_ExecutionPlan = zero_plan\<rparr> text"

record DistributedStageInput =
  dsi_Index :: int
  dsi_NodeID :: string
  dsi_NodeName :: string
  dsi_LayerStart :: int
  dsi_LayerEnd :: int
  dsi_Layers :: int

record DistributedGenerateInput =
  dgi_ModelID :: string
  dgi_Prompt :: string
  dgi_Messages :: "ChatMessage list"
  dgi_SystemPrompt :: string
  dgi_ConversationID :: string
  dgi_MaxTokens :: int
  dgi_Temperature :: string
  dgi_Mode :: string
  dgi_Stages :: "DistributedStageInput list"
  dgi_Shards :: "ModelShard list"

record DistributedStageJobInput =
  sji_ParentJobID :: string
  sji_ModelID :: string
  sji_ConversationID :: string
  sji_Stage :: DistributedStageInput
  sji_Shard :: ModelShard
  sji_UpstreamNodeID :: string
  sji_DownstreamNodeID :: string
  sji_Prompt :: string
  sji_Messages :: "ChatMessage list"
  sji_SystemPrompt :: string
  sji_MaxTokens :: int
  sji_Temperature :: string

subsection \<open>The JSON text of a stage job\<close>

definition json_cdip_stage :: "Stage \<Rightarrow> json" where
  "json_cdip_stage s = JObj (jint ''index'' (s_Index s) @ jstr ''node_id'' (s_NodeID s)
     @ jstr_omit ''node_name'' (s_NodeName s) @ jint ''layer_start'' (s_LayerStart s)
     @ jint ''layer_end'' (s_LayerEnd s))"

definition json_shard :: "ModelShard \<Rightarrow> json" where
  "json_shard sh = JObj ([(''stage'', json_cdip_stage (sh_Stage sh))] @ jstr ''runtime'' (sh_Runtime sh)
     @ ju64_omit ''required_memory_bytes'' (sh_RequiredMemoryBytes sh)
     @ ju64_omit ''required_disk_bytes'' (sh_RequiredDiskBytes sh)
     @ jstr_omit ''source_artifact'' (sh_SourceArtifact sh)
     @ jstr_omit ''target_artifact'' (sh_TargetArtifact sh)
     @ jstr ''materialization'' (show_materialization (sh_Materialization sh))
     @ jarr_omit ''capabilities'' (map JStr (sh_Capabilities sh)))"

definition json_stage_input :: "DistributedStageInput \<Rightarrow> json" where
  "json_stage_input s = JObj (jint ''index'' (dsi_Index s) @ jstr ''node_id'' (dsi_NodeID s)
     @ jstr_omit ''node_name'' (dsi_NodeName s) @ jint ''layer_start'' (dsi_LayerStart s)
     @ jint ''layer_end'' (dsi_LayerEnd s) @ jint ''layers'' (dsi_Layers s))"

definition json_stage_job_input :: "DistributedStageJobInput \<Rightarrow> json" where
  "json_stage_job_input i = JObj (jstr ''parent_job_id'' (sji_ParentJobID i) @ jstr ''model_id'' (sji_ModelID i)
     @ jstr_omit ''conversation_id'' (sji_ConversationID i)
     @ [(''stage'', json_stage_input (sji_Stage i)), (''shard'', json_shard (sji_Shard i))]
     @ jstr_omit ''upstream_node_id'' (sji_UpstreamNodeID i)
     @ jstr_omit ''downstream_node_id'' (sji_DownstreamNodeID i)
     @ jstr_omit ''prompt'' (sji_Prompt i)
     @ jarr_omit ''messages'' (map json_message (sji_Messages i))
     @ jstr_omit ''system_prompt'' (sji_SystemPrompt i)
     @ jint_omit ''max_tokens'' (sji_MaxTokens i)
     @ jstr_omit ''temperature'' (sji_Temperature i))"

definition marshal_stage_job_input :: "DistributedStageJobInput \<Rightarrow> string" where
  "marshal_stage_job_input i = json_print (json_stage_job_input i)"

definition zero_cdip_stage :: Stage where
  "zero_cdip_stage = \<lparr>s_Index = 0, s_NodeID = [], s_NodeName = [], s_LayerStart = 0, s_LayerEnd = 0\<rparr>"

definition cdip_stage_fields :: "(string \<times> Stage field_decoder) list" where
  "cdip_stage_fields =
     [(''index'', dint (\<lambda>i. s_Index_update (\<lambda>_. i))),
      (''node_id'', dstr (\<lambda>s. s_NodeID_update (\<lambda>_. s))),
      (''node_name'', dstr (\<lambda>s. s_NodeName_update (\<lambda>_. s))),
      (''layer_start'', dint (\<lambda>i. s_LayerStart_update (\<lambda>_. i))),
      (''layer_end'', dint (\<lambda>i. s_LayerEnd_update (\<lambda>_. i)))]"

definition materialization_of :: "string \<Rightarrow> ShardMaterialization" where
  "materialization_of s =
     (if s = ''logical_layers'' then ShardLogicalLayers
      else if s = ''physical_artifact'' then ShardPhysicalArtifact else ShardOther s)"

definition zero_shard :: ModelShard where
  "zero_shard = \<lparr>sh_Stage = zero_cdip_stage, sh_Runtime = [], sh_RequiredMemoryBytes = 0,
     sh_RequiredDiskBytes = 0, sh_SourceArtifact = [], sh_TargetArtifact = [],
     sh_Materialization = ShardOther [], sh_Capabilities = []\<rparr>"

definition shard_fields :: "(string \<times> ModelShard field_decoder) list" where
  "shard_fields =
     [(''stage'', dstruct (decode_struct cdip_stage_fields zero_cdip_stage) (\<lambda>s. sh_Stage_update (\<lambda>_. s))),
      (''runtime'', dstr (\<lambda>s. sh_Runtime_update (\<lambda>_. s))),
      (''required_memory_bytes'', du64 (\<lambda>w. sh_RequiredMemoryBytes_update (\<lambda>_. w))),
      (''required_disk_bytes'', du64 (\<lambda>w. sh_RequiredDiskBytes_update (\<lambda>_. w))),
      (''source_artifact'', dstr (\<lambda>s. sh_SourceArtifact_update (\<lambda>_. s))),
      (''target_artifact'', dstr (\<lambda>s. sh_TargetArtifact_update (\<lambda>_. s))),
      (''materialization'', dstr (\<lambda>s. sh_Materialization_update (\<lambda>_. materialization_of s))),
      (''capabilities'', dslice dec_string (\<lambda>ss. sh_Capabilities_update (\<lambda>_. ss)))]"

definition zero_stage_input :: DistributedStageInput where
  "zero_stage_input = \<lparr>dsi_Index = 0, dsi_NodeID = [], dsi_NodeName = [], dsi_LayerStart = 0,
     dsi_LayerEnd = 0, dsi_Layers = 0\<rparr>"

definition stage_input_fields :: "(string \<times> DistributedStageInput field_decoder) list" where
  "stage_input_fields =
     [(''index'', dint (\<lambda>i. dsi_Index_update (\<lambda>_. i))),
      (''node_id'', dstr (\<lambda>s. dsi_NodeID_update (\<lambda>_. s))),
      (''node_name'', dstr (\<lambda>s. dsi_NodeName_update (\<lambda>_. s))),
      (''layer_start'', dint (\<lambda>i. dsi_LayerStart_update (\<lambda>_. i))),
      (''layer_end'', dint (\<lambda>i. dsi_LayerEnd_update (\<lambda>_. i))),
      (''layers'', dint (\<lambda>i. dsi_Layers_update (\<lambda>_. i)))]"

definition stage_job_fields :: "(string \<times> DistributedStageJobInput field_decoder) list" where
  "stage_job_fields =
     [(''parent_job_id'', dstr (\<lambda>s. sji_ParentJobID_update (\<lambda>_. s))),
      (''model_id'', dstr (\<lambda>s. sji_ModelID_update (\<lambda>_. s))),
      (''conversation_id'', dstr (\<lambda>s. sji_ConversationID_update (\<lambda>_. s))),
      (''stage'', dstruct (decode_struct stage_input_fields zero_stage_input) (\<lambda>x. sji_Stage_update (\<lambda>_. x))),
      (''shard'', dstruct (decode_struct shard_fields zero_shard) (\<lambda>x. sji_Shard_update (\<lambda>_. x))),
      (''upstream_node_id'', dstr (\<lambda>s. sji_UpstreamNodeID_update (\<lambda>_. s))),
      (''downstream_node_id'', dstr (\<lambda>s. sji_DownstreamNodeID_update (\<lambda>_. s))),
      (''prompt'', dstr (\<lambda>s. sji_Prompt_update (\<lambda>_. s))),
      (''messages'', dslice dec_message (\<lambda>ms. sji_Messages_update (\<lambda>_. ms))),
      (''system_prompt'', dstr (\<lambda>s. sji_SystemPrompt_update (\<lambda>_. s))),
      (''max_tokens'', dint (\<lambda>i. sji_MaxTokens_update (\<lambda>_. i))),
      (''temperature'', dstr (\<lambda>s. sji_Temperature_update (\<lambda>_. s)))]"

definition zero_stage_job_input :: DistributedStageJobInput where
  "zero_stage_job_input = \<lparr>sji_ParentJobID = [], sji_ModelID = [], sji_ConversationID = [],
     sji_Stage = zero_stage_input, sji_Shard = zero_shard, sji_UpstreamNodeID = [],
     sji_DownstreamNodeID = [], sji_Prompt = [], sji_Messages = [], sji_SystemPrompt = [],
     sji_MaxTokens = 0, sji_Temperature = []\<rparr>"

definition decode_DistributedStageJobInput :: "string \<Rightarrow> DistributedStageJobInput option" where
  "decode_DistributedStageJobInput text = Unmarshal stage_job_fields zero_stage_job_input text"

end
