(* ===== verification/Conversations.thy ===== *)
theory Conversations
  imports Catalog
begin

section \<open>Conversations, prompt budgets and memories (internal/manager/conversations.go)\<close>

text \<open>
  The pure functions of conversations.go: normalising and trimming chat messages, choosing the part of a
  history that fits the context window, and extracting memories from a message with the seven regular
  expressions of the source. Random bytes are arguments (\<open>None\<close> for an error of \<open>rand.Read\<close>), and so is
  the full Unicode lower-casing that is used only to find repeated memories.
\<close>

definition maxConversationMessages :: int where "maxConversationMessages = 40"
definition defaultPromptContextTokens :: int where "defaultPromptContextTokens = 4096"
definition promptContextOverheadTokens :: int where "promptContextOverheadTokens = 128"
definition minPromptHistoryBudgetTokens :: int where "minPromptHistoryBudgetTokens = 256"

lemmas prompt_consts = maxConversationMessages_def defaultPromptContextTokens_def
  promptContextOverheadTokens_def minPromptHistoryBudgetTokens_def

record Conversation =
  cv_ID :: string
  cv_ModelID :: string
  cv_NodeID :: string
  cv_SystemPrompt :: string
  cv_Messages :: "ChatMessage list"
  cv_CreatedAt :: time
  cv_UpdatedAt :: time

record Memory =
  me_ID :: string
  me_ModelID :: string
  me_Key :: string
  me_Value :: string
  me_Source :: string
  me_ConversationID :: string
  me_CreatedAt :: time
  me_UpdatedAt :: time

record PromptContextPreview =
  pv_ModelID :: string
  pv_ContextTokens :: int
  pv_OutputReserveTokens :: int
  pv_SystemPromptTokens :: int
  pv_HistoryBudgetTokens :: int
  pv_IncludedMessageTokens :: int
  pv_TotalMessages :: int
  pv_IncludedMessages :: "ChatMessage list"
  pv_DroppedMessages :: int
  pv_EffectiveSystemPrompt :: string

definition newConversationID :: "8 word list option \<Rightarrow> string" where
  "newConversationID rnd = (case rnd of None \<Rightarrow> ''conv-unknown'' | Some buf \<Rightarrow> ''conv-'' @ hex_encode buf)"

definition newMemoryID :: "8 word list option \<Rightarrow> string" where
  "newMemoryID rnd = (case rnd of None \<Rightarrow> ''mem-unknown'' | Some buf \<Rightarrow> ''mem-'' @ hex_encode buf)"

subsection \<open>Messages\<close>

definition normalizeChatRole :: "string \<Rightarrow> string" where
  "normalizeChatRole role =
     (let r = ToLower (TrimSpace role)
      in if r = ''system'' \<or> r = ''assistant'' then r else ''user'')"

definition normalizeChatMessage :: "ChatMessage \<Rightarrow> ChatMessage" where
  "normalizeChatMessage message =
     \<lparr>cm_Role = normalizeChatRole (cm_Role message), cm_Content = TrimSpace (cm_Content message)\<rparr>"

definition trimConversationMessages :: "ChatMessage list \<Rightarrow> ChatMessage list" where
  "trimConversationMessages messages =
     (let filtered = filter (\<lambda>m. cm_Content m \<noteq> []) (map normalizeChatMessage messages)
      in if int (length filtered) \<le> maxConversationMessages then filtered
         else drop (nat (int (length filtered) - maxConversationMessages)) filtered)"

subsection \<open>Runes and token estimates\<close>

text \<open>\<open>[]rune(s)\<close>, each rune in its UTF-8 encoding; an invalid byte is the replacement character.\<close>

function runes :: "string \<Rightarrow> string list" where
  "runes s =
     (case s of [] \<Rightarrow> []
      | c # cs \<Rightarrow> let n = rune_len s
          in if n = 0 then replacement # runes cs else take n s # runes (drop n s))"
  by pat_completeness auto
termination
  by (relation "measure length") auto

declare runes.simps [simp del]

text \<open>A text as \<open>encoding/json\<close> writes it: an invalid byte becomes the replacement character.\<close>

definition utf8 :: "string \<Rightarrow> string" where
  "utf8 s = concat (runes s)"

definition estimateTextTokens :: "string \<Rightarrow> int" where
  "estimateTextTokens text =
     (let t = TrimSpace text
      in if t = [] then 0
         else let tokens = (int (length (runes t)) + 3) div 4
           in if tokens < 1 then 1 else tokens)"

definition estimateMessageTokens :: "ChatMessage \<Rightarrow> int" where
  "estimateMessageTokens message =
     4 + estimateTextTokens (cm_Role message) + estimateTextTokens (cm_Content message)"

definition truncateChatMessage :: "ChatMessage \<Rightarrow> int \<Rightarrow> ChatMessage" where
  "truncateChatMessage msg tokenBudget =
     (let message = normalizeChatMessage msg
      in if tokenBudget \<le> 0 then message\<lparr>cm_Content := []\<rparr>
         else let allowedRunes = tokenBudget * 4; rs = runes (cm_Content message)
           in if int (length rs) \<le> allowedRunes then message
              else message\<lparr>cm_Content :=
                TrimSpace (concat (drop (nat (int (length rs) - allowedRunes)) rs))\<rparr>)"

definition promptContextBudget :: "Model \<Rightarrow> string \<Rightarrow> int \<Rightarrow> int \<times> int \<times> int" where
  "promptContextBudget model systemPrompt maxTokens =
     (let ctxt = (if m_Context model \<le> 0 \<or> m_Context model > defaultPromptContextTokens
                  then defaultPromptContextTokens else m_Context model);
          reserve = (if maxTokens \<le> 0 then 256 else maxTokens);
          outputReserve = (if reserve > 2048 then 2048 else reserve);
          budget = ctxt - outputReserve - promptContextOverheadTokens - estimateTextTokens systemPrompt
      in (ctxt, outputReserve,
          if budget < minPromptHistoryBudgetTokens then minPromptHistoryBudgetTokens else budget))"

definition promptHistoryBudgetTokens :: "Model \<Rightarrow> string \<Rightarrow> int \<Rightarrow> int" where
  "promptHistoryBudgetTokens model systemPrompt maxTokens =
     snd (snd (promptContextBudget model systemPrompt maxTokens))"

subsection \<open>Choosing the history that fits\<close>

text \<open>The loop from the newest message back to the oldest one.\<close>

fun select_loop :: "int \<Rightarrow> ChatMessage list \<Rightarrow> ChatMessage list \<Rightarrow> int \<Rightarrow> ChatMessage list \<times> int" where
  "select_loop historyBudget [] selected used = (selected, used)"
| "select_loop historyBudget (message # older) selected used =
     (let cost = estimateMessageTokens message
      in if selected \<noteq> [] \<and> used + cost > historyBudget
         then select_loop historyBudget older selected used
         else if selected = [] \<and> cost > historyBudget
         then let message' = truncateChatMessage message historyBudget
           in select_loop historyBudget older (selected @ [message']) (used + estimateMessageTokens message')
         else select_loop historyBudget older (selected @ [message]) (used + cost))"

definition promptContextPreview :: "Model \<Rightarrow> string \<Rightarrow> ChatMessage list \<Rightarrow> int \<Rightarrow> PromptContextPreview" where
  "promptContextPreview model systemPrompt messages maxTokens =
     (let filtered = trimConversationMessages messages;
          (contextTokens, outputReserve, historyBudget) = promptContextBudget model systemPrompt maxTokens;
          preview = \<lparr>pv_ModelID = m_ID model, pv_ContextTokens = contextTokens,
            pv_OutputReserveTokens = outputReserve, pv_SystemPromptTokens = estimateTextTokens systemPrompt,
            pv_HistoryBudgetTokens = historyBudget, pv_IncludedMessageTokens = 0,
            pv_TotalMessages = int (length filtered), pv_IncludedMessages = [], pv_DroppedMessages = 0,
            pv_EffectiveSystemPrompt = systemPrompt\<rparr>
      in if filtered = [] then preview
         else let (selected, used) = select_loop historyBudget (rev filtered) [] 0
           in preview\<lparr>pv_IncludedMessages := rev selected, pv_IncludedMessageTokens := used,
                pv_DroppedMessages := int (length filtered) - int (length selected)\<rparr>)"

definition budgetConversationMessages :: "Model \<Rightarrow> string \<Rightarrow> ChatMessage list \<Rightarrow> int \<Rightarrow> ChatMessage list" where
  "budgetConversationMessages model systemPrompt messages maxTokens =
     pv_IncludedMessages (promptContextPreview model systemPrompt messages maxTokens)"

definition cloneConversations :: "(id, Conversation) go_map \<Rightarrow> (id, Conversation) go_map" where
  "cloneConversations m = foldl (\<lambda>out (key, value). mput key value out) [] m"

definition cloneMemories :: "(id, Memory) go_map \<Rightarrow> (id, Memory) go_map" where
  "cloneMemories m = foldl (\<lambda>out (key, value). mput key value out) [] m"

definition memoryContext :: "string \<Rightarrow> Memory list \<Rightarrow> string" where
  "memoryContext modelID memories =
     (let filtered = map (\<lambda>m. ''- '' @ me_Key m @ '': '' @ me_Value m)
            (filter (\<lambda>m. me_ModelID m = modelID \<and> \<not> blank (me_Value m)) memories)
      in if filtered = [] then []
         else ''Known memory for this model:'' @ [CHR 0x0A] @ Join filtered [CHR 0x0A])"

subsection \<open>Memory extraction\<close>

text \<open>
  The patterns of the source have one shape: an optional word boundary, a literal matched up to case, white
  space, and a group of 1 to \<open>n\<close> runes outside a small set. A literal is a list of runes, each a list of
  the encodings that \<open>(?i)\<close> accepts for it; \<open>Opt\<close> is a rune followed by \<open>?\<close>.
\<close>

datatype re_rune = Alt "string list" | Opt "string list"

record re_pattern =
  re_boundary :: bool
  re_literal :: "re_rune list"
  re_stop :: string
  re_max :: nat

fun match_literal :: "re_rune list \<Rightarrow> string \<Rightarrow> string option" where
  "match_literal [] s = Some s"
| "match_literal (Alt es # ps) s = (case strip_any es s of None \<Rightarrow> None | Some t \<Rightarrow> match_literal ps t)"
| "match_literal (Opt es # ps) s =
     (case strip_any es s of None \<Rightarrow> match_literal ps s
      | Some t \<Rightarrow> (case match_literal ps t of Some u \<Rightarrow> Some u | None \<Rightarrow> match_literal ps s))"

text \<open>The greedy group: at most \<open>n\<close> runes, none of them in \<open>stop\<close>.\<close>

fun take_group :: "nat \<Rightarrow> string \<Rightarrow> string \<Rightarrow> string" where
  "take_group 0 stop s = []"
| "take_group (Suc n) stop s =
     (case s of [] \<Rightarrow> []
      | c # cs \<Rightarrow> if c \<in> set stop then []
          else let k = max 1 (rune_len s) in take k s @ take_group n stop (drop k s))"

definition re_space :: "char \<Rightarrow> bool" where
  "re_space c \<longleftrightarrow> c \<in> {CHR 0x09, CHR 0x0A, CHR 0x0C, CHR 0x0D, CHR 0x20}"

definition word_char :: "char \<Rightarrow> bool" where
  "word_char c \<longleftrightarrow> is_digit c \<or> (CHR ''A'' \<le> c \<and> c \<le> CHR ''Z'') \<or> (CHR ''a'' \<le> c \<and> c \<le> CHR ''z'') \<or> c = CHR ''_''"

text \<open>\<open>\s+\<close> and the group: as much white space as possible that leaves the group a rune.\<close>

fun match_group :: "nat \<Rightarrow> string \<Rightarrow> string \<Rightarrow> string option" where
  "match_group n stop [] = None"
| "match_group n stop (c # cs) =
     (if \<not> re_space c then None
      else case match_group n stop cs of
        Some g \<Rightarrow> Some g
      | None \<Rightarrow> (let g = take_group n stop cs in if g = [] then None else Some g))"

definition match_at :: "re_pattern \<Rightarrow> string \<Rightarrow> string option" where
  "match_at p s = Option.bind (match_literal (re_literal p) s) (match_group (re_max p) (re_stop p))"

text \<open>The leftmost match; \<open>prev\<close> says whether the byte before is a word character.\<close>

fun FindStringSubmatch :: "re_pattern \<Rightarrow> bool \<Rightarrow> string \<Rightarrow> string option" where
  "FindStringSubmatch p prev [] = None"
| "FindStringSubmatch p prev (c # cs) =
     (case (if re_boundary p \<and> prev = word_char c then None else match_at p (c # cs)) of
        Some g \<Rightarrow> Some g
      | None \<Rightarrow> FindStringSubmatch p (word_char c) cs)"

definition ascii_rune :: "char \<Rightarrow> re_rune" where
  "ascii_rune c = Alt ([[c]] @ (if upper_char c \<noteq> c then [[upper_char c]] else [])
     @ (if c = CHR ''s'' then [[CHR 0xC5, CHR 0xBF]] else [])
     @ (if c = CHR ''k'' then [[CHR 0xE2, CHR 0x84, CHR 0xAA]] else []))"

text \<open>A lower-case Cyrillic letter by its code point: its capital, and the historic letter forms that
  fold to it.\<close>

definition cyrillic_rune :: "int \<Rightarrow> re_rune" where
  "cyrillic_rune r = Alt (map encode_rune ([r, if r < 0x450 then r - 0x20 else r - 0x50]
     @ (if r = 0x432 then [0x1C80] else if r = 0x434 then [0x1C81] else if r = 0x43E then [0x1C82]
        else if r = 0x441 then [0x1C83] else if r = 0x442 then [0x1C84, 0x1C85] else [])))"

definition space_rune :: re_rune where "space_rune = Alt ['' '']"

definition memory_patterns :: "(string \<times> re_pattern) list" where
  "memory_patterns =
     (let name_stop = ''.!?,'' @ [CHR 0x0A]; pref_stop = ''.!?'' @ [CHR 0x0A]; cyr = map cyrillic_rune
      in [(''user.name'', \<lparr>re_boundary = True, re_literal = map ascii_rune ''my name is'',
             re_stop = name_stop, re_max = 80\<rparr>),
          (''user.name'', \<lparr>re_boundary = True, re_literal = map ascii_rune ''i am called'',
             re_stop = name_stop, re_max = 80\<rparr>),
          (''user.name'', \<lparr>re_boundary = False,
             re_literal = cyr [0x43C, 0x435, 0x43D, 0x435] @ [space_rune] @ cyr [0x437, 0x432, 0x430, 0x442, 0x438],
             re_stop = name_stop, re_max = 80\<rparr>),
          (''user.name'', \<lparr>re_boundary = False,
             re_literal = cyr [0x43C, 0x43E, 0x454] @ [space_rune] @ cyr [0x456, 0x43C]
               @ [Opt [[CHR 0x27], encode_rune 0x2019]] @ cyr [0x44F],
             re_stop = name_stop, re_max = 80\<rparr>),
          (''user.preference'', \<lparr>re_boundary = True, re_literal = map ascii_rune ''i like'',
             re_stop = pref_stop, re_max = 120\<rparr>),
          (''user.preference'', \<lparr>re_boundary = False,
             re_literal = cyr [0x43C, 0x435, 0x43D, 0x456] @ [space_rune]
               @ cyr [0x43F, 0x43E, 0x434, 0x43E, 0x431, 0x430, 0x454, 0x442, 0x44C, 0x441, 0x44F],
             re_stop = pref_stop, re_max = 120\<rparr>),
          (''user.preference'', \<lparr>re_boundary = False,
             re_literal = cyr [0x44F] @ [space_rune] @ cyr [0x43B, 0x44E, 0x431, 0x43B, 0x44E],
             re_stop = pref_stop, re_max = 120\<rparr>)])"

text \<open>The cut set of \<open>strings.Trim\<close>: blank, quotes, U+201C, U+201D, U+00AB and U+00BB.\<close>

definition quote_runes :: "string list" where
  "quote_runes = [[CHR 0x20], [CHR 0x22], [CHR 0x27]] @ map encode_rune [0x201C, 0x201D, 0xAB, 0xBB]"

definition trim_quotes :: "string \<Rightarrow> string" where
  "trim_quotes s = rev (trim_left (map rev quote_runes) (rev (trim_left quote_runes s)))"

fun extract_loop ::
  "(string \<Rightarrow> string) \<Rightarrow> (nat \<Rightarrow> 8 word list option) \<Rightarrow> string \<Rightarrow> string \<Rightarrow> string \<Rightarrow> time \<Rightarrow>
   (string \<times> re_pattern) list \<Rightarrow> string list \<Rightarrow> Memory list \<Rightarrow> Memory list" where
  "extract_loop toLower rnd modelID conversationID content now [] seen out = out"
| "extract_loop toLower rnd modelID conversationID content now ((key, pattern) # candidates) seen out =
     (let next = extract_loop toLower rnd modelID conversationID content now candidates
      in case FindStringSubmatch pattern False content of
           None \<Rightarrow> next seen out
         | Some grp \<Rightarrow>
           (let value = trim_quotes (TrimSpace grp); lookup = key @ [CHR 0x00] @ toLower value
            in if value = [] \<or> lookup \<in> set seen then next seen out
               else next (lookup # seen) (out @ [\<lparr>me_ID = newMemoryID (rnd (length out)), me_ModelID = modelID,
                 me_Key = key, me_Value = value, me_Source = content, me_ConversationID = conversationID,
                 me_CreatedAt = now, me_UpdatedAt = now\<rparr>])))"

definition extractMemories ::
  "(string \<Rightarrow> string) \<Rightarrow> (nat \<Rightarrow> 8 word list option) \<Rightarrow> string \<Rightarrow> string \<Rightarrow> string \<Rightarrow> time \<Rightarrow> Memory list" where
  "extractMemories toLower rnd modelID conversationID text now =
     (let content = TrimSpace text
      in if modelID = [] \<or> content = [] then []
         else extract_loop toLower rnd modelID conversationID content now memory_patterns [] [])"

subsection \<open>Normalised histories\<close>

lemma normalizeChatRole_cases:
  "normalizeChatRole r = ''system'' \<or> normalizeChatRole r = ''assistant'' \<or> normalizeChatRole r = ''user''"
  by (auto simp: normalizeChatRole_def Let_def)

lemma normalizeChatRole_fixed:
  "normalizeChatRole ''system'' = ''system''" "normalizeChatRole ''assistant'' = ''assistant''"
  "normalizeChatRole ''user'' = ''user''"
  by code_simp+

lemma normalizeChatRole_idem [simp]: "normalizeChatRole (normalizeChatRole r) = normalizeChatRole r"
  using normalizeChatRole_cases [of r] normalizeChatRole_fixed by auto

lemma normalizeChatMessage_idem [simp]:
  "normalizeChatMessage (normalizeChatMessage m) = normalizeChatMessage m"
  by (simp add: normalizeChatMessage_def)

text \<open>A history as the code keeps it: every message normalised, none empty, at most 40 of them.\<close>

definition history_ok :: "ChatMessage list \<Rightarrow> bool" where
  "history_ok ms \<longleftrightarrow> int (length ms) \<le> maxConversationMessages
     \<and> (\<forall>m \<in> set ms. normalizeChatMessage m = m \<and> cm_Content m \<noteq> [])"

lemma history_ok_Nil [simp]: "history_ok []"
  by (simp add: history_ok_def prompt_consts)

lemma trim_history_ok [simp, wf_intros]: "history_ok (trimConversationMessages ms)"
  by (auto simp: history_ok_def trimConversationMessages_def Let_def prompt_consts dest!: in_set_dropD)

lemma trim_id:
  assumes "history_ok ms"
  shows "trimConversationMessages ms = ms"
proof -
  have "map normalizeChatMessage ms = ms"
    using assms by (auto simp: history_ok_def intro: map_idI)
  with assms show ?thesis
    by (auto simp: history_ok_def trimConversationMessages_def)
qed

subsection \<open>Rune counts\<close>

text \<open>A string that does not start with a continuation byte begins a rune wherever it is appended.\<close>

definition rune_start :: "string \<Rightarrow> bool" where
  "rune_start p \<longleftrightarrow> p \<noteq> [] \<and> \<not> in_range (hd p) 128 191"

lemma rune_len_le: "rune_len s \<le> length s"
  by (induction s rule: rune_len.induct) auto

lemma rune_len_append: "s \<noteq> [] \<Longrightarrow> rune_start p \<Longrightarrow> rune_len (s @ p) = rune_len s"
proof (cases s rule: rune_len.cases)
  case (2 a)
  assume "rune_start p"
  then obtain x xs where p: "p = x # xs" "\<not> in_range x 128 191" by (cases p) (auto simp: rune_start_def)
  show ?thesis
  proof (cases xs)
    case Nil
    with 2 p show ?thesis by simp
  next
    case (Cons y ys)
    with 2 p show ?thesis
      by (cases ys) (auto simp: in_range_def split: if_splits)
  qed
next
  case (3 a b)
  assume "rune_start p"
  then obtain x xs where p: "p = x # xs" "\<not> in_range x 128 191" by (cases p) (auto simp: rune_start_def)
  with 3 show ?thesis by (cases xs) auto
next
  case (4 a b c)
  assume "rune_start p"
  then obtain x xs where p: "p = x # xs" "\<not> in_range x 128 191" by (cases p) (auto simp: rune_start_def)
  with 4 show ?thesis by auto
qed auto

lemma runes_Nil [simp]: "runes [] = []"
  by (simp add: runes.simps)

lemma runes_unfold:
  "s \<noteq> [] \<Longrightarrow> runes s = (if rune_len s = 0 then replacement # runes (tl s)
     else take (rune_len s) s # runes (drop (rune_len s) s))"
  by (subst runes.simps) (auto simp: Let_def split: list.splits)

lemma runes_append: "rune_start p \<Longrightarrow> runes (s @ p) = runes s @ runes p"
proof (induction s rule: length_induct)
  case (1 s)
  show ?case
  proof (cases "s = []")
    case True
    then show ?thesis by simp
  next
    case False
    have len: "rune_len (s @ p) = rune_len s" using False 1 by (intro rune_len_append) auto
    have le: "rune_len s \<le> length s" by (rule rune_len_le)
    have "runes (tl s @ p) = runes (tl s) @ runes p"
      using 1 False by simp
    moreover have "rune_len s \<noteq> 0 \<Longrightarrow> runes (drop (rune_len s) s @ p) = runes (drop (rune_len s) s) @ runes p"
      using 1 False by simp
    ultimately show ?thesis
      using False le by (simp add: runes_unfold [of s] runes_unfold [of "s @ p"] len)
  qed
qed

lemma rune_start_ascii: "byte c < 128 \<Longrightarrow> rune_start (c # s)"
  by (simp add: rune_start_def in_range_def)

lemma rune_len_take: "rune_len (take (rune_len s) s) = rune_len s"
  by (cases s rule: rune_len.cases) simp_all

lemma rune_len_start: "rune_len s \<noteq> 0 \<Longrightarrow> rune_start s"
  by (cases s rule: rune_len.cases) (simp_all add: rune_start_def in_range_def split: if_splits)

lemma runes_take: "rune_len s \<noteq> 0 \<Longrightarrow> runes (take (rune_len s) s) = [take (rune_len s) s]"
  using rune_len_le [of s] by (subst runes_unfold) (auto simp: rune_len_take)

lemma runes_elem: "r \<in> set (runes s) \<Longrightarrow> rune_start r \<and> runes r = [r]"
proof (induction s rule: length_induct)
  case (1 s)
  have repl: "rune_start replacement \<and> runes replacement = [replacement]" by code_simp
  show ?case
  proof (cases "rune_len s = 0 \<or> s = []")
    case True
    have ne: "s \<noteq> []" using "1.prems" by auto
    with True "1.prems" have "r = replacement \<or> r \<in> set (runes (tl s))"
      by (simp add: runes_unfold [OF ne])
    moreover have "length (tl s) < length s" using ne by simp
    ultimately show ?thesis using "1.IH" repl by blast
  next
    case False
    with "1.prems" have "r = take (rune_len s) s \<or> r \<in> set (runes (drop (rune_len s) s))"
      by (auto simp: runes_unfold)
    moreover have "rune_start (take (rune_len s) s)"
      using False by (metis rune_len_start rune_len_take)
    moreover have "length (drop (rune_len s) s) < length s" using False by simp
    ultimately show ?thesis using "1.IH" False runes_take by blast
  qed
qed

lemma runes_concat: "set rs \<subseteq> set (runes s) \<Longrightarrow> runes (concat rs) = rs"
proof (induction rs)
  case Nil
  then show ?case by simp
next
  case (Cons r rs)
  from Cons.prems have r: "rune_start r \<and> runes r = [r]" by (auto dest: runes_elem)
  show ?case
  proof (cases rs)
    case Nil
    with r show ?thesis by simp
  next
    case (Cons q qs)
    with Cons.prems have "rune_start q" by (auto dest: runes_elem)
    with Cons have "rune_start (concat rs)" by (auto simp: rune_start_def)
    with r Cons.IH Cons.prems show ?thesis by (simp add: runes_append)
  qed
qed

text \<open>White space is made of whole runes, so trimming never raises the number of runes.\<close>

lemma space_rune_facts:
  "p \<in> set space_runes \<Longrightarrow> rune_start p \<and> runes p = [p]"
proof -
  have "list_all (\<lambda>p. rune_start p \<and> runes p = [p]) space_runes" by code_simp
  then show "p \<in> set space_runes \<Longrightarrow> ?thesis" by (simp add: list_all_iff)
qed

lemma runes_split_space: "p \<in> set space_runes \<Longrightarrow> length (runes (p @ t)) = Suc (length (runes t))"
proof -
  assume p: "p \<in> set space_runes"
  have "list_all (\<lambda>p. rune_len p = length p \<and> length p \<le> 3) space_runes" by code_simp
  with p have l: "rune_len p = length p" and l3: "length p \<le> 3" by (auto simp: list_all_iff)
  have ne: "p \<noteq> []" using p space_runes_nonempty by auto
  have "rune_len (p @ t) = length p"
  proof (cases p rule: rune_len.cases)
    case (2 a)
    with l show ?thesis by (cases t rule: rune_len.cases) (auto split: if_splits)
  next
    case (3 a b)
    with l show ?thesis by (cases t rule: rune_len.cases) (auto split: if_splits)
  next
    case (4 a b c)
    with l show ?thesis by (cases t rule: rune_len.cases) (auto split: if_splits)
  qed (use ne l3 in auto)
  with ne show ?thesis by (subst runes_unfold) auto
qed

lemma trim_left_fuel_runes:
  "set ps \<subseteq> set space_runes \<Longrightarrow> length (runes (trim_left_fuel n ps s)) \<le> length (runes s)"
proof (induction n arbitrary: s)
  case 0
  then show ?case by simp
next
  case (Suc n)
  show ?case
  proof (cases "strip_any ps s")
    case None
    then show ?thesis by simp
  next
    case (Some t)
    then obtain p where "p \<in> set space_runes" "s = p @ t" using Suc.prems by (blast dest: strip_any_Some)
    then have "length (runes t) \<le> length (runes s)" by (simp add: runes_split_space)
    with Suc Some show ?thesis by (fastforce intro: order_trans)
  qed
qed

lemma trim_right_fuel_runes:
  "length (runes (rev (trim_left_fuel n (map rev space_runes) s))) \<le> length (runes (rev s))"
proof (induction n arbitrary: s)
  case 0
  then show ?case by simp
next
  case (Suc n)
  show ?case
  proof (cases "strip_any (map rev space_runes) s")
    case None
    then show ?thesis by simp
  next
    case (Some t)
    then obtain p where p: "p \<in> set space_runes" "s = rev p @ t"
      using strip_any_Some [OF Some] by (auto simp del: strip_any.simps)
    then have "runes (rev s) = runes (rev t) @ [p]"
      using space_rune_facts [of p] by (simp add: runes_append)
    then have "length (runes (rev t)) \<le> length (runes (rev s))" by simp
    with Suc [of t] Some show ?thesis by simp
  qed
qed

lemma TrimSpace_runes: "length (runes (TrimSpace s)) \<le> length (runes s)"
  using trim_right_fuel_runes trim_left_fuel_runes [of space_runes]
  unfolding TrimSpace_def trim_left_def by (metis order_refl order_trans rev_rev_ident)

subsection \<open>Token estimates\<close>

lemma estimateTextTokens_nonneg [simp]: "0 \<le> estimateTextTokens t"
  by (simp add: estimateTextTokens_def Let_def)

lemma runes_eq_Nil [simp]: "runes s = [] \<longleftrightarrow> s = []"
  by (cases "s = []") (auto simp: runes_unfold)

lemma estimateTextTokens_le:
  assumes "int (length (runes t)) \<le> 4 * n"
  shows "estimateTextTokens t \<le> n"
proof (cases "TrimSpace t = []")
  case True
  with assms show ?thesis by (simp add: estimateTextTokens_def)
next
  case False
  then have "0 < length (runes (TrimSpace t))" by simp
  then have "(int (length (runes (TrimSpace t))) + 3) div 4 \<le> n" "1 \<le> n"
    using TrimSpace_runes [of t] assms by linarith+
  with False show ?thesis by (simp add: estimateTextTokens_def Let_def)
qed

lemma truncate_content_tokens:
  assumes "0 \<le> n"
  shows "estimateTextTokens (cm_Content (truncateChatMessage m n)) \<le> n"
proof -
  let ?c = "TrimSpace (cm_Content m)"
  let ?d = "drop (nat (int (length (runes ?c)) - n * 4)) (runes ?c)"
  have "runes (concat ?d) = ?d" by (rule runes_concat) (auto dest: in_set_dropD)
  then have "int (length (runes (TrimSpace (concat ?d)))) \<le> int (length ?d)"
    using TrimSpace_runes [of "concat ?d"] by simp
  also have "int (length (runes ?c)) > 4 * n \<Longrightarrow> int (length ?d) = 4 * n" using assms by simp
  finally show ?thesis
    using assms estimateTextTokens_le [of ?c n] estimateTextTokens_le [of "TrimSpace (concat ?d)" n]
    by (auto simp: truncateChatMessage_def normalizeChatMessage_def Let_def not_le estimateTextTokens_def)
qed

lemma role_tokens: "estimateTextTokens (normalizeChatRole r) \<le> 3"
proof -
  have "estimateTextTokens ''system'' \<le> 3 \<and> estimateTextTokens ''assistant'' \<le> 3 \<and> estimateTextTokens ''user'' \<le> 3"
    by code_simp
  then show ?thesis using normalizeChatRole_cases [of r] by auto
qed

lemma truncate_message_tokens: "0 \<le> n \<Longrightarrow> estimateMessageTokens (truncateChatMessage m n) \<le> n + 7"
proof -
  assume n: "0 \<le> n"
  have "cm_Role (truncateChatMessage m n) = normalizeChatRole (cm_Role m)"
    by (simp add: truncateChatMessage_def normalizeChatMessage_def Let_def)
  then show ?thesis
    using truncate_content_tokens [OF n, of m] role_tokens [of "cm_Role m"]
    by (simp add: estimateMessageTokens_def)
qed

subsection \<open>The chosen history\<close>

lemma subseq_rev_rev: "subseq xs ys \<Longrightarrow> subseq (rev xs) (rev ys)"
  by (induction rule: list_emb.induct) (auto intro: list_emb_append_mono subseq_rev_drop_many)

definition message_tokens :: "ChatMessage list \<Rightarrow> int" where
  "message_tokens ms = sum_list (map estimateMessageTokens ms)"

lemma select_loop_rest:
  assumes "sel \<noteq> []" and "select_loop b ms sel u = (out, used)"
  shows "\<exists>sub. out = sel @ sub \<and> subseq sub ms \<and> used = u + message_tokens sub \<and> used \<le> max b u"
  using assms
proof (induction ms arbitrary: sel u)
  case Nil
  then show ?case by (auto simp: message_tokens_def)
next
  case (Cons m ms)
  show ?case
  proof (cases "u + estimateMessageTokens m > b")
    case True
    with Cons.prems have "select_loop b ms sel u = (out, used)" by (simp add: Let_def)
    with Cons.IH Cons.prems(1) show ?thesis by (metis list_emb_Cons)
  next
    case False
    with Cons.prems have "select_loop b ms (sel @ [m]) (u + estimateMessageTokens m) = (out, used)"
      by (simp add: Let_def)
    then obtain sub where sub: "out = (sel @ [m]) @ sub" "subseq sub ms"
      "used = u + estimateMessageTokens m + message_tokens sub" "used \<le> max b (u + estimateMessageTokens m)"
      using Cons.IH [of "sel @ [m]"] by auto
    with False have "out = sel @ m # sub \<and> subseq (m # sub) (m # ms)
        \<and> used = u + message_tokens (m # sub) \<and> used \<le> max b u"
      by (auto simp: message_tokens_def)
    then show ?thesis by blast
  qed
qed

lemma select_loop_first:
  assumes "select_loop b (m # ms) [] 0 = (out, used)" and "0 \<le> b"
    and first: "first = (if estimateMessageTokens m > b then truncateChatMessage m b else m)"
  shows "\<exists>sub. out = first # sub \<and> subseq sub ms \<and> used = message_tokens (first # sub) \<and> used \<le> b + 7"
proof -
  have "estimateMessageTokens first \<le> b + 7"
    using truncate_message_tokens [OF assms(2), of m] first by auto
  moreover have "select_loop b ms [first] (estimateMessageTokens first) = (out, used)"
    using assms(1) first by (auto simp: Let_def split: if_splits)
  ultimately show ?thesis
    using select_loop_rest [of "[first]" b ms _ out used] by (fastforce simp: message_tokens_def)
qed

lemma promptContextBudget_min:
  "promptContextBudget model sp mt = (c, r, b) \<Longrightarrow> minPromptHistoryBudgetTokens \<le> b \<and> r \<le> 2048 \<and> 0 < r
     \<and> 0 < c \<and> c \<le> defaultPromptContextTokens"
  by (auto simp: promptContextBudget_def Let_def prompt_consts split: if_splits)

text \<open>
  C6. Choosing the part of a conversation that is sent to the model: the messages come from the trimmed
  history in their order, the newest one is always among them (shortened when it alone exceeds the budget),
  the reported token count is the count of the messages sent, it exceeds the history budget by at most the
  seven tokens that the shortening does not count, and every message is either included or counted as
  dropped.
\<close>

theorem prompt_history_fits:
  "let p = promptContextPreview model systemPrompt messages maxTokens;
       h = trimConversationMessages messages; sent = pv_IncludedMessages p; b = pv_HistoryBudgetTokens p
   in 256 \<le> b \<and> pv_IncludedMessageTokens p = message_tokens sent
      \<and> pv_IncludedMessageTokens p \<le> b + 7
      \<and> pv_TotalMessages p = int (length sent) + pv_DroppedMessages p
      \<and> (if h = [] then sent = []
         else sent \<noteq> [] \<and> subseq (butlast sent) (butlast h)
           \<and> last sent = (if estimateMessageTokens (last h) > b then truncateChatMessage (last h) b else last h))"
proof -
  obtain c r b where b: "promptContextBudget model systemPrompt maxTokens = (c, r, b)"
    by (metis prod_cases3)
  let ?h = "trimConversationMessages messages"
  have min: "256 \<le> b" using promptContextBudget_min [OF b] by (simp add: prompt_consts)
  show ?thesis
  proof (cases "?h = []")
    case True
    with b min show ?thesis by (simp add: promptContextPreview_def message_tokens_def Let_def)
  next
    case False
    then have h: "rev ?h = last ?h # rev (butlast ?h)" by (metis append_butlast_last_id rev_eq_Cons_iff rev_rev_ident)
    let ?f = "if estimateMessageTokens (last ?h) > b then truncateChatMessage (last ?h) b else last ?h"
    obtain out used where out: "select_loop b (rev ?h) [] 0 = (out, used)" by fastforce
    with select_loop_first [OF out [unfolded h] _ refl] min obtain sub where sub:
      "out = ?f # sub" "subseq sub (rev (butlast ?h))" "used = message_tokens (?f # sub)" "used \<le> b + 7"
      by auto
    have "subseq (rev sub) (butlast ?h)" using subseq_rev_rev [OF sub(2)] by simp
    moreover have "message_tokens (rev sub @ [?f]) = message_tokens (?f # sub)"
      by (simp add: message_tokens_def rev_map [symmetric])
    ultimately show ?thesis
      using b min False out sub by (simp add: promptContextPreview_def Let_def)
  qed
qed

subsection \<open>Extracted memories\<close>

definition extracted_ok :: "string \<Rightarrow> string \<Rightarrow> string \<Rightarrow> time \<Rightarrow> Memory \<Rightarrow> bool" where
  "extracted_ok modelID conversationID content now m \<longleftrightarrow>
     me_ModelID m = modelID \<and> me_Key m \<in> {''user.name'', ''user.preference''} \<and> me_Value m \<noteq> []
     \<and> me_Source m = content \<and> me_ConversationID m = conversationID
     \<and> me_CreatedAt m = now \<and> me_UpdatedAt m = now"

lemma extract_loop_step:
  assumes "key \<in> {''user.name'', ''user.preference''}" and "\<forall>m \<in> set out. extracted_ok mid cid c t m"
  obtains seen' out' where "\<forall>m \<in> set out'. extracted_ok mid cid c t m"
    and "extract_loop lower rnd mid cid c t ((key, pat) # ps) seen out =
      extract_loop lower rnd mid cid c t ps seen' out'"
proof (cases "FindStringSubmatch pat False c")
  case None
  with assms that show ?thesis by simp
next
  case (Some grp)
  let ?v = "trim_quotes (TrimSpace grp)"
  let ?m = "\<lparr>me_ID = newMemoryID (rnd (length out)), me_ModelID = mid, me_Key = key, me_Value = ?v,
    me_Source = c, me_ConversationID = cid, me_CreatedAt = t, me_UpdatedAt = t\<rparr>"
  show ?thesis
  proof (cases "?v = [] \<or> key @ [CHR 0x00] @ lower ?v \<in> set seen")
    case True
    with assms that Some show ?thesis by (auto simp: Let_def)
  next
    case False
    have "\<forall>m \<in> set (out @ [?m]). extracted_ok mid cid c t m"
      using assms False by (auto simp: extracted_ok_def)
    moreover have "extract_loop lower rnd mid cid c t ((key, pat) # ps) seen out =
        extract_loop lower rnd mid cid c t ps ((key @ [CHR 0x00] @ lower ?v) # seen) (out @ [?m])"
      using False Some by (simp add: Let_def)
    ultimately show ?thesis by (rule that)
  qed
qed

lemma extract_loop_ok:
  assumes "fst ` set ps \<subseteq> {''user.name'', ''user.preference''}" and "\<forall>m \<in> set out. extracted_ok mid cid c t m"
    and "m \<in> set (extract_loop lower rnd mid cid c t ps seen out)"
  shows "extracted_ok mid cid c t m"
  using assms
proof (induction ps arbitrary: seen out)
  case Nil
  then show ?case by simp
next
  case (Cons p ps)
  obtain key pat where p: "p = (key, pat)" by force
  have key: "key \<in> {''user.name'', ''user.preference''}"
    and rest: "fst ` set ps \<subseteq> {''user.name'', ''user.preference''}" using Cons.prems(1) p by auto
  obtain seen' out' where "\<forall>m \<in> set out'. extracted_ok mid cid c t m"
    and "extract_loop lower rnd mid cid c t (p # ps) seen out = extract_loop lower rnd mid cid c t ps seen' out'"
    using extract_loop_step [OF key Cons.prems(2)] p by metis
  with Cons.IH [OF rest] Cons.prems(3) show ?case by metis
qed

lemma memory_pattern_keys: "fst ` set memory_patterns \<subseteq> {''user.name'', ''user.preference''}"
  by (simp add: memory_patterns_def Let_def)

lemma extractMemories_ok:
  assumes "m \<in> set (extractMemories lower rnd modelID cid text now)"
  shows "extracted_ok modelID cid (TrimSpace text) now m"
proof -
  from assms have "m \<in> set (extract_loop lower rnd modelID cid (TrimSpace text) now memory_patterns [] [])"
    by (cases "modelID = [] \<or> TrimSpace text = []") (auto simp only: extractMemories_def Let_def if_True if_False list.set empty_iff)
  then show ?thesis by (rule extract_loop_ok [OF memory_pattern_keys, rotated]) simp
qed

end
