(* ===== verification/State.thy ===== *)
theory State
  imports Conversations
begin

section \<open>The manager's state and its operations (internal/manager/state.go)\<close>

text \<open>
  \<open>State\<close> is the struct of the same name without its mutex: every method holds the mutex for its whole
  body (\<open>ClusterSummary\<close> for each of its two calls), so a method is one step. A method is a function from the state and its arguments to the new state and
  its results. Besides its arguments it takes what it reads from outside: the times that
  \<open>time.Now()\<close> returns, the bytes that \<open>rand.Read\<close> fills in (\<open>None\<close> for its error), and the
  orders in which Go iterates over maps. A boolean \<open>ok\<close> result together with a value is an \<open>option\<close>.
\<close>

definition defaultWorkerJobSlots :: int where "defaultWorkerJobSlots = 1"

record State =
  startedAt :: time
  heartbeatTimeout :: int
  nodes :: "(id, Node) go_map"
  benchmarks :: "(id, (BenchmarkKind, BenchmarkResult) go_map) go_map"
  rpcHealth :: "(string, RPCHealthRecord) go_map"
  jobs :: "(id, Job) go_map"
  conversations :: "(id, Conversation) go_map"
  memories :: "(id, Memory) go_map"

definition NewState :: "time \<Rightarrow> State" where
  "NewState now = \<lparr>startedAt = now, heartbeatTimeout = 30 * 1000000000, nodes = [], benchmarks = [],
     rpcHealth = [], jobs = [], conversations = [], memories = []\<rparr>"

text \<open>The readings of one worker selection: the clock, the order of the nodes, and the order of the
  benchmark kinds of each node.\<close>

record pick_env =
  p_now :: time
  p_nodes :: "id list"
  p_kinds :: "id \<Rightarrow> BenchmarkKind list"

text \<open>The readings of a loop over the jobs: their order and the readings of the selection for each.\<close>

record jobs_env =
  q_jobs :: "id list"
  q_pick :: "id \<Rightarrow> pick_env"

definition put_job :: "id \<Rightarrow> Job \<Rightarrow> State \<Rightarrow> State" where
  "put_job i job s = s\<lparr>jobs := mput i job (jobs s)\<rparr>"

definition put_node :: "id \<Rightarrow> Node \<Rightarrow> State \<Rightarrow> State" where
  "put_node i node s = s\<lparr>nodes := mput i node (nodes s)\<rparr>"

subsection \<open>Fresh identifiers\<close>

definition newNodeID :: "8 word list option \<Rightarrow> string" where
  "newNodeID rnd = (case rnd of None \<Rightarrow> ''node-unknown'' | Some buf \<Rightarrow> ''node-'' @ hex_encode buf)"

definition newJobID :: "8 word list option \<Rightarrow> string" where
  "newJobID rnd = (case rnd of None \<Rightarrow> ''job-unknown'' | Some buf \<Rightarrow> ''job-'' @ hex_encode buf)"

definition newClusterBenchmarkID :: "8 word list option \<Rightarrow> string" where
  "newClusterBenchmarkID rnd = (case rnd of None \<Rightarrow> ''cb-unknown'' | Some buf \<Rightarrow> ''cb-'' @ hex_encode buf)"

definition normalizeMaxAttempts :: "int \<Rightarrow> int" where
  "normalizeMaxAttempts v = (if v \<le> 0 then DefaultMaxAttempts else v)"

subsection \<open>Choosing a worker\<close>

text \<open>\<open>Time.Sub\<close> saturates at the bounds of \<open>Duration\<close>.\<close>

definition time_Sub :: "time \<Rightarrow> time \<Rightarrow> int" where
  "time_Sub t u = max (- (2 ^ 63)) (min (2 ^ 63 - 1) (t - u))"

definition deriveNodeStatus :: "State \<Rightarrow> Node \<Rightarrow> time \<Rightarrow> Node" where
  "deriveNodeStatus s node now =
     (if n_Role node = NodeRoleWorker \<and> n_Status node = NodeStatusOnline
        \<and> time_Sub now (n_UpdatedAt node) > heartbeatTimeout s
      then node\<lparr>n_Status := NodeStatusOffline\<rparr> else node)"

fun gpu_meets :: "Requirements \<Rightarrow> GPUResources list \<Rightarrow> bool" where
  "gpu_meets req [] = False"
| "gpu_meets req (gpu # gpus) =
     (if \<not> gpu_ComputeCompatible gpu then gpu_meets req gpus
      else if req_VRAMBytes req = 0 \<or> gpu_AllowedVRAMBytes gpu \<ge> req_VRAMBytes req then True
      else gpu_meets req gpus)"

definition nodeMeetsRequirements :: "Node \<Rightarrow> Requirements \<Rightarrow> bool" where
  "nodeMeetsRequirements node req =
     (let r = n_Resources node
      in if req_CPUCores req > 0 \<and> cpu_CoresAllowed (rs_CPU r) < req_CPUCores req then False
         else if req_MemoryBytes req > 0 \<and> mem_AllowedBytes (rs_Memory r) < req_MemoryBytes req then False
         else if req_DiskBytes req > 0 \<and> st_AllowedBytes (rs_Storage r) < req_DiskBytes req then False
         else if req_DiskBytes req > 0 \<and> st_FreeBytes (rs_Storage r) > 0
           \<and> st_FreeBytes (rs_Storage r) < req_DiskBytes req then False
         else if \<not> req_GPURequired req \<and> req_VRAMBytes req = 0 then True
         else gpu_meets req (rs_GPU r))"

definition activeJobsForWorkerLocked :: "State \<Rightarrow> id \<Rightarrow> int" where
  "activeJobsForWorkerLocked s nodeID =
     int (mcount (\<lambda>job. j_AssignedTo job = nodeID
       \<and> (j_Status job = StatusScheduled \<or> j_Status job = StatusRunning)) (jobs s))"

definition workerJobSlots :: "Node \<Rightarrow> int" where
  "workerJobSlots node =
     (if rs_JobSlots (n_Resources node) > 0 then rs_JobSlots (n_Resources node) else defaultWorkerJobSlots)"

definition node_benchmarks :: "State \<Rightarrow> id \<Rightarrow> (BenchmarkKind, BenchmarkResult) go_map" where
  "node_benchmarks s nodeID = (case mget (benchmarks s) nodeID of None \<Rightarrow> [] | Some m \<Rightarrow> m)"

fun score_loop :: "(BenchmarkKind, BenchmarkResult) go_map \<Rightarrow> BenchmarkKind list \<Rightarrow> f64 \<Rightarrow> f64" where
  "score_loop byKind [] score = score"
| "score_loop byKind (k # ks) score =
     (case mget byKind k of None \<Rightarrow> score_loop byKind ks score
      | Some result \<Rightarrow> score_loop byKind ks (fadd score (br_Score result)))"

definition nodeBenchmarkScoreLocked :: "State \<Rightarrow> BenchmarkKind list \<Rightarrow> id \<Rightarrow> f64" where
  "nodeBenchmarkScoreLocked s kinds nodeID = score_loop (node_benchmarks s nodeID) kinds fzero"

fun pick_loop :: "State \<Rightarrow> Requirements \<Rightarrow> id list \<Rightarrow> pick_env \<Rightarrow> id list \<Rightarrow> string \<Rightarrow> f64 \<Rightarrow> string" where
  "pick_loop s req excluded env [] bestID bestScore = bestID"
| "pick_loop s req excluded env (k # ks) bestID bestScore =
     (case mget (nodes s) k of
        None \<Rightarrow> pick_loop s req excluded env ks bestID bestScore
      | Some stored \<Rightarrow>
        if n_ID stored \<in> set excluded then pick_loop s req excluded env ks bestID bestScore
        else let node = deriveNodeStatus s stored (p_now env)
          in if n_Role node \<noteq> NodeRoleWorker \<or> n_Status node \<noteq> NodeStatusOnline
             then pick_loop s req excluded env ks bestID bestScore
             else if \<not> nodeMeetsRequirements node req then pick_loop s req excluded env ks bestID bestScore
             else if activeJobsForWorkerLocked s (n_ID node) \<ge> workerJobSlots node
             then pick_loop s req excluded env ks bestID bestScore
             else let score = nodeBenchmarkScoreLocked s (p_kinds env (n_ID node)) (n_ID node)
               in if bestID = [] \<or> fless bestScore score
                  then pick_loop s req excluded env ks (n_ID node) score
                  else pick_loop s req excluded env ks bestID bestScore)"

definition pickWorkerExcludingLocked :: "State \<Rightarrow> pick_env \<Rightarrow> Requirements \<Rightarrow> id list \<Rightarrow> string" where
  "pickWorkerExcludingLocked s env req excluded = pick_loop s req excluded env (p_nodes env) [] fzero"

definition pickWorkerLocked :: "State \<Rightarrow> pick_env \<Rightarrow> Requirements \<Rightarrow> string" where
  "pickWorkerLocked s env req = pickWorkerExcludingLocked s env req []"

definition nodeCanAcceptJobLocked :: "State \<Rightarrow> Node \<Rightarrow> Requirements \<Rightarrow> time \<Rightarrow> bool" where
  "nodeCanAcceptJobLocked s stored req now =
     (let node = deriveNodeStatus s stored now
      in n_Role node = NodeRoleWorker \<and> n_Status node = NodeStatusOnline \<and> nodeMeetsRequirements node req
         \<and> activeJobsForWorkerLocked s (n_ID node) < workerJobSlots node)"

definition waitingReasonLocked :: "State \<Rightarrow> Requirements \<Rightarrow> time \<Rightarrow> string" where
  "waitingReasonLocked s req now =
     (if list_ex (\<lambda>stored. let node = deriveNodeStatus s stored now
           in n_Role node = NodeRoleWorker \<and> n_Status node = NodeStatusOnline \<and> nodeMeetsRequirements node req)
         (mvals (nodes s))
      then ''waiting for available worker capacity'' else ''waiting for capable worker'')"

subsection \<open>Scheduling and rescheduling\<close>

definition waiting_text :: "string \<Rightarrow> bool" where
  "waiting_text t \<longleftrightarrow> t = ''waiting for capable worker'' \<or> t = ''waiting for available worker capacity''"

definition assign_job :: "id \<Rightarrow> time \<Rightarrow> Job \<Rightarrow> Job" where
  "assign_job workerID now job = job\<lparr>j_AssignedTo := workerID, j_Status := StatusScheduled,
     j_Attempts := wrap64 (j_Attempts job + 1),
     j_LastFailure := (if waiting_text (j_LastFailure job) then [] else j_LastFailure job),
     j_Error := [], j_Result := [], j_StartedAt := 0, j_FinishedAt := 0, j_UpdatedAt := now\<rparr>"

text \<open>The body of the loop of \<open>scheduleQueuedJobsLocked\<close> for the job under key \<open>i\<close>.\<close>

definition schedule_one :: "time \<Rightarrow> pick_env \<Rightarrow> id \<Rightarrow> State \<Rightarrow> State" where
  "schedule_one now env i s =
     (case mget (jobs s) i of
        None \<Rightarrow> s
      | Some job \<Rightarrow>
        if j_Status job \<noteq> StatusQueued \<or> j_AssignedTo job \<noteq> [] then s
        else let workerID = pickWorkerLocked s env (j_Requirements job)
          in if workerID = [] then
               (let reason = waitingReasonLocked s (j_Requirements job) now
                in if j_LastFailure job = [] \<or> waiting_text (j_LastFailure job)
                   then put_job i (job\<lparr>j_LastFailure := reason, j_UpdatedAt := now\<rparr>) s
                   else s)
             else put_job i (assign_job workerID now job) s)"

fun schedule_loop :: "time \<Rightarrow> (id \<Rightarrow> pick_env) \<Rightarrow> id list \<Rightarrow> State \<Rightarrow> State" where
  "schedule_loop now envs [] s = s"
| "schedule_loop now envs (i # is) s = schedule_loop now envs is (schedule_one now (envs i) i s)"

definition scheduleQueuedJobsLocked :: "jobs_env \<Rightarrow> time \<Rightarrow> State \<Rightarrow> State" where
  "scheduleQueuedJobsLocked q now s = schedule_loop now (q_pick q) (q_jobs q) s"

definition rescheduleOrFailJobLocked :: "State \<Rightarrow> pick_env \<Rightarrow> Job \<Rightarrow> id \<Rightarrow> time \<Rightarrow> string \<Rightarrow> Job" where
  "rescheduleOrFailJobLocked s env job0 failedNodeID now reason =
     (let job1 = job0\<lparr>j_MaxAttempts := normalizeMaxAttempts (j_MaxAttempts job0)\<rparr>;
          job = (if j_Attempts job1 \<le> 0 then job1\<lparr>j_Attempts := 1\<rparr> else job1)
      in if j_Attempts job < j_MaxAttempts job then
           (let nextWorkerID = pickWorkerExcludingLocked s env (j_Requirements job) [failedNodeID]
            in if nextWorkerID \<noteq> []
               then job\<lparr>j_Status := StatusScheduled, j_AssignedTo := nextWorkerID,
                 j_Attempts := wrap64 (j_Attempts job + 1), j_LastFailure := reason, j_Error := [], j_Result := [],
                 j_StartedAt := 0, j_FinishedAt := 0, j_UpdatedAt := now\<rparr>
               else job\<lparr>j_Status := StatusQueued, j_AssignedTo := [],
                 j_LastFailure := reason @ ''; waiting for capable worker'', j_Error := [], j_Result := [],
                 j_StartedAt := 0, j_FinishedAt := 0, j_UpdatedAt := now\<rparr>)
         else job\<lparr>j_Status := StatusFailed, j_Error := reason, j_LastFailure := reason, j_FinishedAt := now,
           j_UpdatedAt := now\<rparr>)"

definition fail_one :: "id \<Rightarrow> time \<Rightarrow> string \<Rightarrow> pick_env \<Rightarrow> id \<Rightarrow> State \<Rightarrow> State" where
  "fail_one nodeID now reason env i s =
     (case mget (jobs s) i of
        None \<Rightarrow> s
      | Some job \<Rightarrow>
        if j_AssignedTo job \<noteq> nodeID then s
        else if j_Status job \<noteq> StatusScheduled \<and> j_Status job \<noteq> StatusRunning then s
        else put_job i (rescheduleOrFailJobLocked s env job nodeID now reason) s)"

fun fail_loop :: "id \<Rightarrow> time \<Rightarrow> string \<Rightarrow> (id \<Rightarrow> pick_env) \<Rightarrow> id list \<Rightarrow> State \<Rightarrow> State" where
  "fail_loop nodeID now reason envs [] s = s"
| "fail_loop nodeID now reason envs (i # is) s =
     fail_loop nodeID now reason envs is (fail_one nodeID now reason (envs i) i s)"

definition failActiveJobsForWorkerLocked :: "jobs_env \<Rightarrow> id \<Rightarrow> time \<Rightarrow> string \<Rightarrow> State \<Rightarrow> State" where
  "failActiveJobsForWorkerLocked q nodeID now reason s = fail_loop nodeID now reason (q_pick q) (q_jobs q) s"

definition markWorkerOfflineLocked :: "jobs_env \<Rightarrow> id \<Rightarrow> time \<Rightarrow> string \<Rightarrow> State \<Rightarrow> State \<times> bool" where
  "markWorkerOfflineLocked q nodeID now reason s =
     (case mget (nodes s) nodeID of
        None \<Rightarrow> (s, False)
      | Some node \<Rightarrow>
        (failActiveJobsForWorkerLocked q nodeID now reason
           (put_node nodeID (node\<lparr>n_Status := NodeStatusOffline, n_UpdatedAt := now\<rparr>) s), True))"

subsection \<open>Membership\<close>

definition RegisterWorker :: "8 word list option \<Rightarrow> time \<Rightarrow> jobs_env \<Rightarrow> JoinRequest \<Rightarrow> State \<Rightarrow> State \<times> JoinResponse" where
  "RegisterWorker rnd now q req s =
     (let nodeID = newNodeID rnd;
          node = \<lparr>n_ID = nodeID, n_Name = jr_NodeName req, n_Role = NodeRoleWorker, n_Status = NodeStatusOnline,
            n_Endpoint = jr_Endpoint req, n_Resources = jr_Resources req, n_JoinedAt = now, n_UpdatedAt = now\<rparr>
      in (scheduleQueuedJobsLocked q now (put_node nodeID node s),
          \<lparr>jp_NodeID = nodeID, jp_ManagerPeers = [''http://127.0.0.1:8080''], jp_HeartbeatEvery = 10 * 1000000000\<rparr>))"

definition Heartbeat_op :: "time \<Rightarrow> jobs_env \<Rightarrow> Heartbeat \<Rightarrow> State \<Rightarrow> State \<times> bool" where
  "Heartbeat_op now q hb s =
     (case mget (nodes s) (hb_NodeID hb) of
        None \<Rightarrow> (s, False)
      | Some node \<Rightarrow>
        (scheduleQueuedJobsLocked q now
           (put_node (hb_NodeID hb) (node\<lparr>n_Status := NodeStatusOnline, n_Resources := hb_Resources hb,
              n_UpdatedAt := now\<rparr>) s), True))"

definition MarkWorkerOffline :: "time \<Rightarrow> jobs_env \<Rightarrow> id \<Rightarrow> State \<Rightarrow> State \<times> bool" where
  "MarkWorkerOffline now q nodeID s = markWorkerOfflineLocked q nodeID now ''worker went offline'' s"

text \<open>The loop of \<open>Nodes\<close>: the keys in their order, the job loop of each node that has timed out.\<close>

record nodes_env =
  v_nodes :: "id list"
  v_jobs :: "id \<Rightarrow> jobs_env"

definition nodes_one :: "time \<Rightarrow> (id \<Rightarrow> jobs_env) \<Rightarrow> Node \<Rightarrow> State \<Rightarrow> State \<times> Node" where
  "nodes_one now qs stored s =
     (let node = deriveNodeStatus s stored now
      in if n_Status stored = NodeStatusOnline \<and> n_Status node = NodeStatusOffline
         then let node' = node\<lparr>n_UpdatedAt := now\<rparr>
           in (failActiveJobsForWorkerLocked (qs (n_ID node')) (n_ID node') now ''worker heartbeat timed out''
                 (put_node (n_ID node') node' s), node')
         else (s, node))"

fun nodes_loop :: "time \<Rightarrow> (id \<Rightarrow> jobs_env) \<Rightarrow> id list \<Rightarrow> Node list \<Rightarrow> State \<Rightarrow> State \<times> Node list" where
  "nodes_loop now qs [] out s = (s, out)"
| "nodes_loop now qs (k # ks) out s =
     (case mget (nodes s) k of
        None \<Rightarrow> nodes_loop now qs ks out s
      | Some stored \<Rightarrow> (case nodes_one now qs stored s of (s', node) \<Rightarrow> nodes_loop now qs ks (out @ [node]) s'))"

definition Nodes :: "time \<Rightarrow> nodes_env \<Rightarrow> State \<Rightarrow> State \<times> Node list" where
  "Nodes now v s = nodes_loop now (v_jobs v) (v_nodes v) [] s"

subsection \<open>Benchmarks and RPC health\<close>

definition PutBenchmark :: "time \<Rightarrow> BenchmarkResult \<Rightarrow> State \<Rightarrow> State \<times> bool" where
  "PutBenchmark now result s =
     (case mget (nodes s) (br_NodeID result) of
        None \<Rightarrow> (s, False)
      | Some _ \<Rightarrow>
        let r = (if br_CreatedAt result = 0 then result\<lparr>br_CreatedAt := now\<rparr> else result)
        in (s\<lparr>benchmarks := mput (br_NodeID r) (mput (br_Kind r) r (node_benchmarks s (br_NodeID r)))
              (benchmarks s)\<rparr>, True))"

definition Benchmarks :: "id list \<Rightarrow> (id \<Rightarrow> BenchmarkKind list) \<Rightarrow> State \<Rightarrow> BenchmarkResult list" where
  "Benchmarks ord kinds s =
     concat (map (\<lambda>i. List.map_filter (mget (node_benchmarks s i)) (kinds i)) ord)"

record NodeBenchmarkSummary =
  bs_NodeID :: string
  bs_TotalScore :: f64
  bs_Results :: "(BenchmarkKind, BenchmarkResult) go_map"

definition BenchmarkSummaryByNode :: "(id \<Rightarrow> BenchmarkKind list) \<Rightarrow> State \<Rightarrow> (id, NodeBenchmarkSummary) go_map" where
  "BenchmarkSummaryByNode kinds s =
     map (\<lambda>(nodeID, byKind). (nodeID, \<lparr>bs_NodeID = nodeID,
       bs_TotalScore = score_loop byKind (kinds nodeID) fzero, bs_Results = byKind\<rparr>)) (benchmarks s)"

definition PutRPCHealth :: "time \<Rightarrow> RPCHealthUpdate \<Rightarrow> State \<Rightarrow> State \<times> RPCHealthRecord" where
  "PutRPCHealth now update s =
     (let endpoint = TrimSpace (hu_Endpoint update)
      in if endpoint = [] then (s, zero_health)
         else let checkedAt = (if hu_CheckedAt update = 0 then now else hu_CheckedAt update);
           record0 = (case mget (rpcHealth s) endpoint of None \<Rightarrow> zero_health | Some r \<Rightarrow> r);
           record1 = record0\<lparr>hr_Endpoint := endpoint,
             hr_NodeID := (if TrimSpace (hu_NodeID update) \<noteq> [] then TrimSpace (hu_NodeID update) else hr_NodeID record0),
             hr_NodeName := (if TrimSpace (hu_NodeName update) \<noteq> [] then TrimSpace (hu_NodeName update) else hr_NodeName record0),
             hr_Ready := hu_Ready update, hr_LastLatencyMS := hu_LatencyMS update,
             hr_LastError := TrimSpace (hu_Error update), hr_UpdatedAt := checkedAt\<rparr>;
           record2 = (if hu_Ready update
             then record1\<lparr>hr_Successes := wrap64 (hr_Successes record1 + 1), hr_ConsecutiveFailures := 0\<rparr>
             else record1\<lparr>hr_Failures := wrap64 (hr_Failures record1 + 1),
               hr_ConsecutiveFailures := wrap64 (hr_ConsecutiveFailures record1 + 1)\<rparr>)
           in (s\<lparr>rpcHealth := mput endpoint record2 (rpcHealth s)\<rparr>, record2))"

definition health_less :: "RPCHealthRecord \<Rightarrow> RPCHealthRecord \<Rightarrow> bool" where
  "health_less a b =
     (if hr_Ready a \<noteq> hr_Ready b then hr_Ready a
      else if hr_UpdatedAt a = hr_UpdatedAt b then hr_Endpoint a < hr_Endpoint b
      else hr_UpdatedAt a > hr_UpdatedAt b)"

definition RPCHealth :: "State \<Rightarrow> RPCHealthRecord list" where
  "RPCHealth s = go_sort health_less (mvals (rpcHealth s))"

subsection \<open>Creating jobs\<close>

definition new_job :: "string \<Rightarrow> time \<Rightarrow> CreateRequest \<Rightarrow> Job" where
  "new_job i now req = \<lparr>j_ID = i, j_Type = cr_Type req, j_Status = StatusQueued,
     j_RequestedBy = cr_RequestedBy req, j_AssignedTo = [], j_Input = cr_Input req,
     j_Requirements = cr_Requirements req, j_Result = [], j_Error = [], j_Attempts = 0,
     j_MaxAttempts = normalizeMaxAttempts (cr_MaxAttempts req), j_LastFailure = [],
     j_CDIPState = cr_CDIPState req, j_CDIPParentJobID = cr_CDIPParentJobID req,
     j_CDIPStageIndex = cr_CDIPStageIndex req, j_CreatedAt = now, j_UpdatedAt = now, j_StartedAt = 0,
     j_FinishedAt = 0\<rparr>"

text \<open>The placement of a new job, which \<open>CreateJob\<close> and \<open>CreateJobsBatch\<close> share word for word.\<close>

definition place_job :: "State \<Rightarrow> pick_env \<Rightarrow> time \<Rightarrow> CreateRequest \<Rightarrow> Job \<Rightarrow> Job" where
  "place_job s env now req job =
     (if cr_NoAutoAssign req
      then job\<lparr>j_AssignedTo := cr_AssignedTo req, j_LastFailure := ''waiting for coordinator''\<rparr>
      else if cr_AssignedTo req \<noteq> [] then
        (case mget (nodes s) (cr_AssignedTo req) of
           Some node \<Rightarrow>
             if nodeCanAcceptJobLocked s node (j_Requirements job) now
             then job\<lparr>j_AssignedTo := cr_AssignedTo req, j_Status := StatusScheduled, j_Attempts := 1\<rparr>
             else job\<lparr>j_LastFailure := waitingReasonLocked s (j_Requirements job) now\<rparr>
         | None \<Rightarrow> job\<lparr>j_LastFailure := waitingReasonLocked s (j_Requirements job) now\<rparr>)
      else let workerID = pickWorkerLocked s env (j_Requirements job)
        in if workerID \<noteq> []
           then job\<lparr>j_AssignedTo := workerID, j_Status := StatusScheduled, j_Attempts := 1\<rparr>
           else job\<lparr>j_LastFailure := waitingReasonLocked s (j_Requirements job) now\<rparr>)"

definition CreateJob :: "8 word list option \<Rightarrow> time \<Rightarrow> pick_env \<Rightarrow> CreateRequest \<Rightarrow> State \<Rightarrow> State \<times> Job" where
  "CreateJob rnd now env req s =
     (let job = place_job s env now req (new_job (newJobID rnd) now req)
      in (put_job (j_ID job) job s, job))"

text \<open>Each request of a batch comes with its random bytes and the readings of its selection.\<close>

fun batch_loop ::
  "time \<Rightarrow> (8 word list option \<times> pick_env \<times> CreateRequest) list \<Rightarrow> Job list \<Rightarrow> State \<Rightarrow> State \<times> Job list" where
  "batch_loop now [] created s = (s, created)"
| "batch_loop now ((rnd, env, req) # requests) created s =
     (let job = place_job s env now req (new_job (newJobID rnd) now req)
      in batch_loop now requests (created @ [job]) (put_job (j_ID job) job s))"

definition CreateJobsBatch ::
  "time \<Rightarrow> (8 word list option \<times> pick_env \<times> CreateRequest) list \<Rightarrow> State \<Rightarrow> State \<times> Job list" where
  "CreateJobsBatch now requests s = batch_loop now requests [] s"

definition Jobs :: "id list \<Rightarrow> State \<Rightarrow> Job list" where
  "Jobs ord s = List.map_filter (mget (jobs s)) ord"

definition Job_lookup :: "id \<Rightarrow> State \<Rightarrow> Job option" where
  "Job_lookup i s = mget (jobs s) i"

subsection \<open>Running, progress and cancellation\<close>

fun next_loop :: "id \<Rightarrow> time \<Rightarrow> id list \<Rightarrow> State \<Rightarrow> State \<times> Job option" where
  "next_loop nodeID now [] s = (s, None)"
| "next_loop nodeID now (i # is) s =
     (case mget (jobs s) i of
        None \<Rightarrow> next_loop nodeID now is s
      | Some job \<Rightarrow>
        if j_AssignedTo job \<noteq> nodeID \<or> j_Status job \<noteq> StatusScheduled then next_loop nodeID now is s
        else let job' = job\<lparr>j_Status := StatusRunning, j_StartedAt := now, j_UpdatedAt := now\<rparr>
          in (put_job (j_ID job') job' s, Some job'))"

definition NextJobForWorker :: "time \<Rightarrow> id list \<Rightarrow> id \<Rightarrow> State \<Rightarrow> State \<times> Job option" where
  "NextJobForWorker now ord nodeID s = next_loop nodeID now ord s"

text \<open>\<open>json.Marshal\<close> of a map whose values may fail to encode; \<open>None\<close> is the error.\<close>

fun marshal_map :: "(string \<times> json option) list \<Rightarrow> string option" where
  "marshal_map kvs =
     (if list_all (\<lambda>(k, v). v \<noteq> None) kvs then Some (json_print (json_map (map (\<lambda>(k, v). (k, the v)) kvs)))
      else None)"

definition jobProgressResult :: "ProgressRequest \<Rightarrow> time \<Rightarrow> string" where
  "jobProgressResult req updatedAt =
     (case marshal_map [(''kind'', Some (JStr ''job.progress'')),
         (''progress_bytes'', Some (JNum (show_int (pr_ProgressBytes req)))),
         (''total_bytes'', Some (JNum (show_int (pr_TotalBytes req)))),
         (''progress_percent'', json_float (pr_ProgressPercent req)),
         (''progress_label'', Some (JStr (TrimSpace (pr_ProgressLabel req)))),
         (''updated_at'', json_time updatedAt)]
      of Some body \<Rightarrow> body | None \<Rightarrow> [])"

definition cdipStageResult :: "StageState \<Rightarrow> string \<Rightarrow> time \<Rightarrow> string" where
  "cdipStageResult state detail updatedAt =
     (case marshal_map [(''kind'', Some (JStr ''cdip.stage.state'')), (''state'', Some (JStr (show_StageState state))),
         (''detail'', Some (JStr (TrimSpace detail))), (''updated_at'', json_time updatedAt)]
      of Some body \<Rightarrow> body | None \<Rightarrow> [])"

definition UpdateJobProgress :: "time \<Rightarrow> id \<Rightarrow> ProgressRequest \<Rightarrow> State \<Rightarrow> State \<times> Job option" where
  "UpdateJobProgress now jobID req s =
     (case mget (jobs s) jobID of
        None \<Rightarrow> (s, None)
      | Some job \<Rightarrow>
        if j_AssignedTo job \<noteq> pr_NodeID req \<or> j_Status job \<noteq> StatusRunning then (s, None)
        else let job' = job\<lparr>j_Result := jobProgressResult req now, j_UpdatedAt := now\<rparr>
          in (put_job (j_ID job') job' s, Some job'))"

definition jobCanBeCanceled :: "Job \<Rightarrow> bool" where
  "jobCanBeCanceled job \<longleftrightarrow> j_Status job = StatusQueued \<or> j_Status job = StatusScheduled \<or> j_Status job = StatusRunning"

definition CancelJob :: "time \<Rightarrow> jobs_env \<Rightarrow> id \<Rightarrow> State \<Rightarrow> State \<times> Job option" where
  "CancelJob now q jobID s =
     (case mget (jobs s) jobID of
        None \<Rightarrow> (s, None)
      | Some job \<Rightarrow>
        if \<not> jobCanBeCanceled job then (s, None)
        else let job' = job\<lparr>j_Status := StatusCanceled, j_Error := ''canceled by operator'', j_LastFailure := [],
               j_UpdatedAt := now, j_FinishedAt := now\<rparr>
          in (scheduleQueuedJobsLocked q now (put_job (j_ID job') job' s), Some job'))"

subsection \<open>Distributed stages and the coordinator job\<close>

definition stage_status :: "StageState \<Rightarrow> string \<Rightarrow> time \<Rightarrow> Job \<Rightarrow> Job" where
  "stage_status next detail now job =
     (case next of
        StagePreparing \<Rightarrow>
          if j_Status job = StatusQueued \<and> TrimSpace (j_AssignedTo job) \<noteq> []
          then job\<lparr>j_Status := StatusScheduled, j_LastFailure := [],
            j_Attempts := (if j_Attempts job = 0 then 1 else j_Attempts job)\<rparr>
          else job
      | StageCompleted \<Rightarrow> job\<lparr>j_Status := StatusSucceeded, j_FinishedAt := now\<rparr>
      | StageFailed \<Rightarrow> job\<lparr>j_Status := StatusFailed, j_Error := TrimSpace detail,
          j_LastFailure := TrimSpace detail, j_FinishedAt := now\<rparr>
      | StageAborted \<Rightarrow> job\<lparr>j_Status := StatusCanceled, j_Error := TrimSpace detail, j_FinishedAt := now\<rparr>
      | _ \<Rightarrow> job)"

definition UpdateCDIPStageState :: "time \<Rightarrow> id \<Rightarrow> StageState \<Rightarrow> string \<Rightarrow> State \<Rightarrow> State \<times> Job option" where
  "UpdateCDIPStageState now jobID next detail s =
     (case mget (jobs s) jobID of
        None \<Rightarrow> (s, None)
      | Some job \<Rightarrow>
        if j_Type job \<noteq> JobGenerateStage then (s, None)
        else let current = (if j_CDIPState job = StageUnset then StagePlanned else j_CDIPState job)
          in if \<not> CanTransition current next then (s, None)
             else let job' = stage_status next detail now (job\<lparr>j_CDIPState := next,
                    j_Result := cdipStageResult next detail now, j_UpdatedAt := now\<rparr>)
               in (put_job (j_ID job') job' s, Some job'))"

definition CompleteCoordinatorJob :: "time \<Rightarrow> id \<Rightarrow> string \<Rightarrow> string \<Rightarrow> State \<Rightarrow> State \<times> Job option" where
  "CompleteCoordinatorJob now jobID result errText s =
     (case mget (jobs s) jobID of
        None \<Rightarrow> (s, None)
      | Some job \<Rightarrow>
        if j_Type job \<noteq> JobGenerateDistributed then (s, None)
        else let job1 = job\<lparr>j_Result := TrimSpace result, j_Error := TrimSpace errText, j_UpdatedAt := now,
               j_FinishedAt := now\<rparr>;
             job' = (if j_Error job1 \<noteq> [] then job1\<lparr>j_Status := StatusFailed, j_LastFailure := j_Error job1\<rparr>
               else job1\<lparr>j_Status := StatusSucceeded\<rparr>)
          in (put_job (j_ID job') job' s, Some job'))"

subsection \<open>Conversations and memories\<close>

definition get_conversation :: "id \<Rightarrow> State \<Rightarrow> Conversation option" where
  "get_conversation i s = mget (conversations s) i"

definition list_conversations :: "id list \<Rightarrow> State \<Rightarrow> Conversation list" where
  "list_conversations ord s = List.map_filter (mget (conversations s)) ord"

definition DeleteConversation :: "id \<Rightarrow> State \<Rightarrow> State \<times> bool" where
  "DeleteConversation i s =
     (if mget (conversations s) i = None then (s, False)
      else (s\<lparr>conversations := mdel i (conversations s)\<rparr>, True))"

text \<open>The readings of memory extraction: lower-casing, the random bytes of each identifier, and for each
  extracted memory the order of the search through the stored ones.\<close>

record memory_env =
  x_lower :: "string \<Rightarrow> string"
  x_rnd :: "nat \<Rightarrow> 8 word list option"
  x_order :: "nat \<Rightarrow> id list"

fun find_memory :: "(id, Memory) go_map \<Rightarrow> string \<Rightarrow> string \<Rightarrow> id list \<Rightarrow> string" where
  "find_memory ms modelID key [] = []"
| "find_memory ms modelID key (i # is) =
     (case mget ms i of
        None \<Rightarrow> find_memory ms modelID key is
      | Some existing \<Rightarrow>
        if me_ModelID existing = modelID \<and> me_Key existing = key then i else find_memory ms modelID key is)"

definition upsert_one :: "id list \<Rightarrow> time \<Rightarrow> Memory \<Rightarrow> (id, Memory) go_map \<Rightarrow> (id, Memory) go_map" where
  "upsert_one ord now memory ms =
     (let existingID = find_memory ms (me_ModelID memory) (me_Key memory) ord
      in if existingID \<noteq> [] then
           (case mget ms existingID of
              Some existing \<Rightarrow> mput existingID (existing\<lparr>me_Value := me_Value memory, me_Source := me_Source memory,
                me_ConversationID := me_ConversationID memory, me_UpdatedAt := now\<rparr>) ms
            | None \<Rightarrow> ms)
         else mput (me_ID memory) memory ms)"

fun upsert_loop :: "(nat \<Rightarrow> id list) \<Rightarrow> time \<Rightarrow> nat \<Rightarrow> Memory list \<Rightarrow> (id, Memory) go_map \<Rightarrow> (id, Memory) go_map" where
  "upsert_loop ords now n [] ms = ms"
| "upsert_loop ords now n (memory # rest) ms =
     upsert_loop ords now (Suc n) rest (upsert_one (ords n) now memory ms)"

definition upsertExtractedMemoriesLocked :: "memory_env \<Rightarrow> string \<Rightarrow> id \<Rightarrow> string \<Rightarrow> time \<Rightarrow> State \<Rightarrow> State" where
  "upsertExtractedMemoriesLocked x modelID conversationID content now s =
     s\<lparr>memories := upsert_loop (x_order x) now 0
        (extractMemories (x_lower x) (x_rnd x) modelID conversationID content now) (memories s)\<rparr>"

definition new_conversation :: "id \<Rightarrow> string \<Rightarrow> time \<Rightarrow> Conversation" where
  "new_conversation i modelID now = \<lparr>cv_ID = i, cv_ModelID = modelID, cv_NodeID = [], cv_SystemPrompt = [],
     cv_Messages = [], cv_CreatedAt = now, cv_UpdatedAt = 0\<rparr>"

definition AppendConversationMessage ::
  "time \<Rightarrow> memory_env \<Rightarrow> id \<Rightarrow> string \<Rightarrow> id \<Rightarrow> string \<Rightarrow> ChatMessage \<Rightarrow> State \<Rightarrow> State \<times> Conversation" where
  "AppendConversationMessage now x i modelID nodeID systemPrompt msg s =
     (let message = normalizeChatMessage msg;
          c0 = (case mget (conversations s) i of None \<Rightarrow> new_conversation i [] now | Some c \<Rightarrow> c);
          c1 = c0\<lparr>cv_ModelID := modelID, cv_NodeID := nodeID,
            cv_SystemPrompt := (if systemPrompt \<noteq> [] then systemPrompt else cv_SystemPrompt c0)\<rparr>;
          c2 = (if cm_Content message \<noteq> []
            then c1\<lparr>cv_Messages := trimConversationMessages (cv_Messages c1 @ [message])\<rparr> else c1);
          s1 = (if cm_Content message \<noteq> [] \<and> cm_Role message = ''user''
            then upsertExtractedMemoriesLocked x modelID (cv_ID c2) (cm_Content message) now s else s);
          c3 = c2\<lparr>cv_UpdatedAt := now\<rparr>
      in (s1\<lparr>conversations := mput i c3 (conversations s1)\<rparr>, c3))"

definition Memories :: "id list \<Rightarrow> string \<Rightarrow> State \<Rightarrow> Memory list" where
  "Memories ord modelID s =
     filter (\<lambda>m. modelID = [] \<or> me_ModelID m = modelID) (List.map_filter (mget (memories s)) ord)"

definition DeleteMemory :: "id \<Rightarrow> State \<Rightarrow> State \<times> bool" where
  "DeleteMemory i s =
     (if mget (memories s) i = None then (s, False) else (s\<lparr>memories := mdel i (memories s)\<rparr>, True))"

datatype memory_error = ModelIDRequired | KeyRequired | ValueRequired

definition UpsertMemory :: "8 word list option \<Rightarrow> time \<Rightarrow> Memory \<Rightarrow> State \<Rightarrow> State \<times> (memory_error + Memory)" where
  "UpsertMemory rnd now memory s =
     (let m = memory\<lparr>me_ModelID := TrimSpace (me_ModelID memory), me_Key := TrimSpace (me_Key memory),
            me_Value := TrimSpace (me_Value memory), me_Source := TrimSpace (me_Source memory),
            me_ConversationID := TrimSpace (me_ConversationID memory)\<rparr>
      in if me_ModelID m = [] then (s, Inl ModelIDRequired)
         else if me_Key m = [] then (s, Inl KeyRequired)
         else if me_Value m = [] then (s, Inl ValueRequired)
         else let m1 = (if me_ID m = [] then m\<lparr>me_ID := newMemoryID rnd\<rparr> else m);
             m2 = (if me_CreatedAt m1 = 0
               then m1\<lparr>me_CreatedAt := (case mget (memories s) (me_ID m1) of
                 Some existing \<Rightarrow> me_CreatedAt existing | None \<Rightarrow> now)\<rparr> else m1);
             m3 = m2\<lparr>me_UpdatedAt := now\<rparr>
           in (s\<lparr>memories := mput (me_ID m3) m3 (memories s)\<rparr>, Inr m3))"

text \<open>The two loops that delete the entries of one model and count them.\<close>

definition delete_memories_of :: "string \<Rightarrow> State \<Rightarrow> State \<times> int" where
  "delete_memories_of modelID s =
     (s\<lparr>memories := filter (\<lambda>(i, m). me_ModelID m \<noteq> modelID) (memories s)\<rparr>,
      int (mcount (\<lambda>m. me_ModelID m = modelID) (memories s)))"

definition delete_conversations_of :: "string \<Rightarrow> State \<Rightarrow> State \<times> int" where
  "delete_conversations_of modelID s =
     (s\<lparr>conversations := filter (\<lambda>(i, c). cv_ModelID c \<noteq> modelID) (conversations s)\<rparr>,
      int (mcount (\<lambda>c. cv_ModelID c = modelID) (conversations s)))"

definition DeleteMemoriesByModel :: "string \<Rightarrow> State \<Rightarrow> State \<times> int" where
  "DeleteMemoriesByModel modelID s =
     (if TrimSpace modelID = [] then (s, 0) else delete_memories_of (TrimSpace modelID) s)"

subsection \<open>Completing a job\<close>

definition modelInstalledOnAnotherOnlineWorkerLocked :: "State \<Rightarrow> string \<Rightarrow> id \<Rightarrow> bool" where
  "modelInstalledOnAnotherOnlineWorkerLocked s model excludedNodeID =
     (let modelID = TrimSpace model
      in if modelID = [] then False
         else list_ex (\<lambda>node. n_ID node \<noteq> excludedNodeID \<and> n_Role node = NodeRoleWorker
             \<and> n_Status node = NodeStatusOnline
             \<and> list_ex (\<lambda>installed. mr_ID installed = modelID) (rs_Models (n_Resources node)))
           (mvals (nodes s)))"

text \<open>
  A JSON value decoded into \<open>any\<close> and encoded again: numbers become \<open>float64\<close> (an error when out of
  range), objects become maps (the last of equal keys wins, keys are sorted).
\<close>

definition lit_rat :: "string \<Rightarrow> rat" where
  "lit_rat lit =
     (let neg = (lit \<noteq> [] \<and> hd lit = CHR ''-''); body = (if neg then tl lit else lit);
          mant = takeWhile (\<lambda>c. c \<noteq> CHR ''e'' \<and> c \<noteq> CHR ''E'') body;
          ex = drop (length mant + 1) body;
          ip = takeWhile (\<lambda>c. c \<noteq> CHR ''.'') mant; fp = drop (length ip + 1) mant;
          e = (case ex of [] \<Rightarrow> 0
               | c # cs \<Rightarrow> if c = CHR ''-'' then - digits_val cs else if c = CHR ''+'' then digits_val cs
                  else digits_val ex);
          v = of_int (digits_val (ip @ fp)) * pow10 (e - int (length fp))
      in if neg then - v else v)"

definition any_number :: "string \<Rightarrow> json option" where
  "any_number lit =
     (case round64 (lit_rat lit) of
        Fin x \<Rightarrow> if x = 0 then Some (JNum (if lit \<noteq> [] \<and> hd lit = CHR ''-'' then ''-0'' else ''0''))
                  else json_float (Fin x)
      | _ \<Rightarrow> None)"

fun any_value :: "json \<Rightarrow> json option"
and any_values :: "json list \<Rightarrow> json list option"
and any_fields :: "(string \<times> json) list \<Rightarrow> (string, json) go_map \<Rightarrow> (string, json) go_map option" where
  "any_value (JNum lit) = any_number lit"
| "any_value (JArr vs) = map_option JArr (any_values vs)"
| "any_value (JObj kvs) = map_option json_map (any_fields kvs [])"
| "any_value v = Some v"
| "any_values [] = Some []"
| "any_values (v # vs) =
     (case any_value v of None \<Rightarrow> None | Some w \<Rightarrow> map_option ((#) w) (any_values vs))"
| "any_fields [] m = Some m"
| "any_fields ((k, v) # kvs) m =
     (case any_value v of None \<Rightarrow> None | Some w \<Rightarrow> any_fields kvs (mput k w m))"

definition add_cleanup_counts :: "int \<Rightarrow> int \<Rightarrow> (string, json) go_map \<Rightarrow> string" where
  "add_cleanup_counts deletedMemories deletedConversations payload =
     json_print (json_map (mput ''deleted_conversations'' (JNum (show_int deletedConversations))
       (mput ''deleted_memories'' (JNum (show_int deletedMemories)) payload)))"

text \<open>\<open>None\<close> is a panic: a result that is the JSON value \<open>null\<close> makes the payload a nil map, and
  assigning to an entry of a nil map panics.\<close>

definition withDeleteCleanupResult :: "string \<Rightarrow> int \<Rightarrow> int \<Rightarrow> string option" where
  "withDeleteCleanupResult result deletedMemories deletedConversations =
     (if blank result then Some (add_cleanup_counts deletedMemories deletedConversations [])
      else case json_parse result of
        Some JNull \<Rightarrow> None
      | Some (JObj kvs) \<Rightarrow>
          (case any_fields kvs [] of
             Some payload \<Rightarrow> Some (add_cleanup_counts deletedMemories deletedConversations payload)
           | None \<Rightarrow> Some result)
      | _ \<Rightarrow> Some result)"

text \<open>The clean-up after a delete job: the new state, and the job's new result or a panic.\<close>

definition cleanupModelPersistenceForDeleteJobLocked :: "Job \<Rightarrow> State \<Rightarrow> State \<times> Job option" where
  "cleanupModelPersistenceForDeleteJobLocked job s =
     (if j_Type job \<noteq> JobDelete then (s, Some job)
      else case decode_DeleteInput (j_Input job) of
        None \<Rightarrow> (s, Some job)
      | Some input \<Rightarrow>
        if di_ModelID input = [] then (s, Some job)
        else if modelInstalledOnAnotherOnlineWorkerLocked s (di_ModelID input) (j_AssignedTo job)
        then (s, map_option (\<lambda>r. job\<lparr>j_Result := r\<rparr>) (withDeleteCleanupResult (j_Result job) 0 0))
        else (case delete_memories_of (di_ModelID input) s of (s1, deletedMemories) \<Rightarrow>
          (case delete_conversations_of (di_ModelID input) s1 of (s2, deletedConversations) \<Rightarrow>
             (s2, map_option (\<lambda>r. job\<lparr>j_Result := r\<rparr>)
               (withDeleteCleanupResult (j_Result job) deletedMemories deletedConversations)))))"

definition generateJobConversationModelAndPrompt :: "Job \<Rightarrow> string \<times> string \<times> string" where
  "generateJobConversationModelAndPrompt job =
     (if j_Type job = JobGenerate then
        (case decode_GenerateInput (j_Input job) of
           None \<Rightarrow> ([], [], [])
         | Some input \<Rightarrow> (gi_ConversationID input, gi_ModelID input, gi_SystemPrompt input))
      else if j_Type job = JobGenerateDistributedRPC then
        (case decode_DistributedRPCGenerateInput (j_Input job) of
           None \<Rightarrow> ([], [], [])
         | Some input \<Rightarrow> (rg_ConversationID input, rg_ModelID input, rg_SystemPrompt input))
      else ([], [], []))"

definition decode_output :: "string \<Rightarrow> string option" where
  "decode_output text = Unmarshal [(''output'', dstr (\<lambda>v a. v))] [] text"

definition appendAssistantMessageForJobLocked :: "Job \<Rightarrow> time \<Rightarrow> State \<Rightarrow> State" where
  "appendAssistantMessageForJobLocked job now s =
     (if (j_Type job \<noteq> JobGenerate \<and> j_Type job \<noteq> JobGenerateDistributedRPC) \<or> j_Result job = [] then s
      else case generateJobConversationModelAndPrompt job of (conversationID, modelID, systemPrompt) \<Rightarrow>
        if conversationID = [] then s
        else case decode_output (j_Result job) of
          None \<Rightarrow> s
        | Some output \<Rightarrow>
          if output = [] then s
          else let c0 = (case mget (conversations s) conversationID of
                   None \<Rightarrow> new_conversation conversationID modelID now | Some c \<Rightarrow> c);
               c1 = c0\<lparr>cv_ModelID := modelID,
                 cv_SystemPrompt := (if systemPrompt \<noteq> [] \<and> cv_SystemPrompt c0 = [] then systemPrompt
                   else cv_SystemPrompt c0),
                 cv_Messages := trimConversationMessages (cv_Messages c0
                   @ [\<lparr>cm_Role = ''assistant'', cm_Content = output\<rparr>]),
                 cv_UpdatedAt := now\<rparr>
            in s\<lparr>conversations := mput conversationID c1 (conversations s)\<rparr>)"

text \<open>What \<open>CompleteJob\<close> returns: \<open>(job, true)\<close>, \<open>(Job{}, false)\<close>, or it panics (the deferred
  unlock runs, the state keeps what was written before).\<close>

datatype completion = Completed Job | Rejected | Panicked

definition CompleteJob ::
  "time \<Rightarrow> pick_env \<Rightarrow> jobs_env \<Rightarrow> id \<Rightarrow> CompleteRequest \<Rightarrow> State \<Rightarrow> State \<times> completion" where
  "CompleteJob now env q jobID req s =
     (case mget (jobs s) jobID of
        None \<Rightarrow> (s, Rejected)
      | Some job0 \<Rightarrow>
        if j_AssignedTo job0 \<noteq> co_NodeID req then (s, Rejected)
        else if j_Status job0 = StatusCanceled then (s, Completed job0)
        else if j_Status job0 \<noteq> StatusRunning then (s, Rejected)
        else let job1 = job0\<lparr>j_Result := co_Result req, j_Error := co_Error req, j_UpdatedAt := now\<rparr>
          in if co_Error req \<noteq> []
             then let job = rescheduleOrFailJobLocked s env job1 (co_NodeID req) now (co_Error req)
               in (scheduleQueuedJobsLocked q now (put_job (j_ID job) job s), Completed job)
             else let job2 = job1\<lparr>j_Status := StatusSucceeded, j_FinishedAt := now\<rparr>;
                 s1 = appendAssistantMessageForJobLocked job2 now s
               in (case cleanupModelPersistenceForDeleteJobLocked job2 s1 of
                     (s2, None) \<Rightarrow> (s2, Panicked)
                   | (s2, Some job) \<Rightarrow>
                     (scheduleQueuedJobsLocked q now (put_job (j_ID job) job s2), Completed job)))"

subsection \<open>The cluster summary\<close>

record ClusterSummary =
  cs_StartedAt :: time
  cs_WorkersTotal :: int
  cs_WorkersOnline :: int
  cs_GPUs :: int
  cs_VRAMTotalBytes :: u64
  cs_VRAMAllowedBytes :: u64
  cs_BenchmarkScore :: f64
  cs_Resources :: ResourceSnapshot

definition add_storage :: "StorageResources \<Rightarrow> StorageResources \<Rightarrow> StorageResources" where
  "add_storage a b = \<lparr>st_TotalBytes = st_TotalBytes a + st_TotalBytes b,
     st_AllowedBytes = st_AllowedBytes a + st_AllowedBytes b, st_FreeBytes = st_FreeBytes a + st_FreeBytes b,
     st_UsedByModelsBytes = st_UsedByModelsBytes a + st_UsedByModelsBytes b,
     st_UsedByRuntimesBytes = st_UsedByRuntimesBytes a + st_UsedByRuntimesBytes b,
     st_UsedByCacheBytes = st_UsedByCacheBytes a + st_UsedByCacheBytes b,
     st_PartialModelBytes = st_PartialModelBytes a + st_PartialModelBytes b,
     st_PartialModelFiles = wrap64 (st_PartialModelFiles a + st_PartialModelFiles b),
     st_OrphanModelBytes = st_OrphanModelBytes a + st_OrphanModelBytes b,
     st_OrphanModelDirs = wrap64 (st_OrphanModelDirs a + st_OrphanModelDirs b)\<rparr>"

definition add_node_resources :: "ResourceSnapshot \<Rightarrow> ResourceSnapshot \<Rightarrow> ResourceSnapshot" where
  "add_node_resources a b = a\<lparr>
     rs_CPU := \<lparr>cpu_CoresTotal = wrap64 (cpu_CoresTotal (rs_CPU a) + cpu_CoresTotal (rs_CPU b)),
       cpu_CoresAllowed = wrap64 (cpu_CoresAllowed (rs_CPU a) + cpu_CoresAllowed (rs_CPU b))\<rparr>,
     rs_Memory := \<lparr>mem_TotalBytes = mem_TotalBytes (rs_Memory a) + mem_TotalBytes (rs_Memory b),
       mem_AllowedBytes = mem_AllowedBytes (rs_Memory a) + mem_AllowedBytes (rs_Memory b)\<rparr>,
     rs_Storage := add_storage (rs_Storage a) (rs_Storage b)\<rparr>"

definition summary_add :: "(id, NodeBenchmarkSummary) go_map \<Rightarrow> ClusterSummary \<Rightarrow> Node \<Rightarrow> ClusterSummary" where
  "summary_add bench c node =
     (let c1 = (if n_Role node = NodeRoleWorker
            then c\<lparr>cs_WorkersTotal := wrap64 (cs_WorkersTotal c + 1),
              cs_WorkersOnline := (if n_Status node = NodeStatusOnline then wrap64 (cs_WorkersOnline c + 1)
                else cs_WorkersOnline c)\<rparr>
            else c); r = n_Resources node
      in if n_Role node = NodeRoleWorker \<and> n_Status node = NodeStatusOnline
         then c1\<lparr>cs_Resources := add_node_resources (cs_Resources c1) r,
           cs_GPUs := wrap64 (cs_GPUs c1 + int (length (rs_GPU r))),
           cs_VRAMTotalBytes := foldl (\<lambda>v gpu. v + gpu_TotalVRAMBytes gpu) (cs_VRAMTotalBytes c1) (rs_GPU r),
           cs_VRAMAllowedBytes := foldl (\<lambda>v gpu. v + gpu_AllowedVRAMBytes gpu) (cs_VRAMAllowedBytes c1) (rs_GPU r),
           cs_BenchmarkScore := fadd (cs_BenchmarkScore c1)
             (case mget bench (n_ID node) of None \<Rightarrow> fzero | Some b \<Rightarrow> bs_TotalScore b)\<rparr>
         else c1)"

text \<open>The two calls take the mutex one after the other; in between other operations may run, so the state
  that the benchmarks are read from is an argument of its own.\<close>

definition ClusterSummary_op ::
  "time \<Rightarrow> nodes_env \<Rightarrow> (id \<Rightarrow> BenchmarkKind list) \<Rightarrow> State \<Rightarrow> State \<Rightarrow> State \<times> ClusterSummary" where
  "ClusterSummary_op now v kinds s later =
     (case Nodes now v s of (s', ns) \<Rightarrow>
        (s', foldl (summary_add (BenchmarkSummaryByNode kinds later))
           \<lparr>cs_StartedAt = startedAt s, cs_WorkersTotal = 0, cs_WorkersOnline = 0, cs_GPUs = 0,
             cs_VRAMTotalBytes = 0, cs_VRAMAllowedBytes = 0, cs_BenchmarkScore = fzero,
             cs_Resources = zero_resources\<rparr> ns))"

end
