(* ===== verification/Scheduling.thy ===== *)
theory Scheduling
  imports State
begin

section \<open>Choosing workers: the selection is correct\<close>

text \<open>
  What the worker selection of state.go promises. \<open>eligible\<close> is the specification: a stored node that is an
  online worker at the time of the call, meets the requirements, has a free slot and is not excluded.
\<close>

definition node_ids_ok :: "State \<Rightarrow> bool" where
  "node_ids_ok s \<longleftrightarrow> map_wf (nodes s) \<and> (\<forall>k n. mget (nodes s) k = Some n \<longrightarrow> n_ID n = k \<and> k \<noteq> [])"

definition eligible :: "State \<Rightarrow> time \<Rightarrow> Requirements \<Rightarrow> id list \<Rightarrow> id \<Rightarrow> bool" where
  "eligible s now req excluded w =
     (case mget (nodes s) w of None \<Rightarrow> False
      | Some node \<Rightarrow> w \<notin> set excluded \<and> nodeCanAcceptJobLocked s node req now)"

definition worker_score :: "State \<Rightarrow> pick_env \<Rightarrow> id \<Rightarrow> f64" where
  "worker_score s env w = nodeBenchmarkScoreLocked s (p_kinds env w) w"

lemma derive_keeps [simp]:
  "n_ID (deriveNodeStatus s n t) = n_ID n" "n_Role (deriveNodeStatus s n t) = n_Role n"
  "n_Resources (deriveNodeStatus s n t) = n_Resources n" "n_UpdatedAt (deriveNodeStatus s n t) = n_UpdatedAt n"
  "n_Name (deriveNodeStatus s n t) = n_Name n"
  by (simp_all add: deriveNodeStatus_def)

lemma derive_online: "n_Status (deriveNodeStatus s n t) = NodeStatusOnline \<longleftrightarrow>
    n_Status n = NodeStatusOnline \<and> \<not> (n_Role n = NodeRoleWorker \<and> time_Sub t (n_UpdatedAt n) > heartbeatTimeout s)"
  by (auto simp: deriveNodeStatus_def)

lemma slots_derive [simp]: "workerJobSlots (deriveNodeStatus s n t) = workerJobSlots n"
  by (simp add: workerJobSlots_def)

lemma meets_derive [simp]: "nodeMeetsRequirements (deriveNodeStatus s n t) req = nodeMeetsRequirements n req"
  by (simp add: nodeMeetsRequirements_def)

lemma nodeCanAccept_iff:
  "nodeCanAcceptJobLocked s n req now \<longleftrightarrow> n_Role n = NodeRoleWorker \<and> n_Status n = NodeStatusOnline
     \<and> time_Sub now (n_UpdatedAt n) \<le> heartbeatTimeout s \<and> nodeMeetsRequirements n req
     \<and> activeJobsForWorkerLocked s (n_ID n) < workerJobSlots n"
  by (auto simp: nodeCanAcceptJobLocked_def derive_online)

lemma nodeMeetsRequirements_iff:
  "nodeMeetsRequirements n req \<longleftrightarrow>
     (req_CPUCores req \<le> 0 \<or> req_CPUCores req \<le> cpu_CoresAllowed (rs_CPU (n_Resources n)))
     \<and> req_MemoryBytes req \<le> mem_AllowedBytes (rs_Memory (n_Resources n))
     \<and> req_DiskBytes req \<le> st_AllowedBytes (rs_Storage (n_Resources n))
     \<and> (st_FreeBytes (rs_Storage (n_Resources n)) = 0 \<or> req_DiskBytes req \<le> st_FreeBytes (rs_Storage (n_Resources n)))
     \<and> (req_GPURequired req \<or> req_VRAMBytes req \<noteq> 0 \<longrightarrow>
         (\<exists>gpu \<in> set (rs_GPU (n_Resources n)). gpu_ComputeCompatible gpu
            \<and> req_VRAMBytes req \<le> gpu_AllowedVRAMBytes gpu))"
proof -
  have gpu: "gpu_meets req gs \<longleftrightarrow>
      (\<exists>gpu \<in> set gs. gpu_ComputeCompatible gpu \<and> req_VRAMBytes req \<le> gpu_AllowedVRAMBytes gpu)" for gs
    by (induction gs) auto
  have pos: "(0 < w \<and> v < w) = (v < w)" for v w :: u64
    by (metis word_coorder.not_eq_extremum word_not_simps(1))
  have free: "(0 < w \<and> 0 < v \<and> v < w) = (v \<noteq> 0 \<and> v < w)" for v w :: u64
    by (metis word_coorder.not_eq_extremum word_not_simps(1))
  show ?thesis
    unfolding nodeMeetsRequirements_def Let_def gpu pos free
    by (auto simp: not_less)
qed

subsection \<open>The selection loop\<close>

lemma pick_loop_Cons:
  assumes "node_ids_ok s"
  shows "pick_loop s req ex env (k # ks) best sc =
    (if eligible s (p_now env) req ex k \<and> (best = [] \<or> fless sc (worker_score s env k))
     then pick_loop s req ex env ks k (worker_score s env k) else pick_loop s req ex env ks best sc)"
proof (cases "mget (nodes s) k")
  case None
  then show ?thesis by (simp add: eligible_def)
next
  case (Some n)
  with assms have "n_ID n = k" by (simp add: node_ids_ok_def)
  with Some show ?thesis
    by (simp add: eligible_def worker_score_def nodeCanAcceptJobLocked_def Let_def not_le [symmetric])
qed

declare pick_loop.simps(2) [simp del]

lemma eligible_nonempty: "node_ids_ok s \<Longrightarrow> eligible s t req ex w \<Longrightarrow> w \<noteq> []"
  by (auto simp: eligible_def node_ids_ok_def split: option.splits)

text \<open>The result of a pass over \<open>ks\<close> that starts with the candidate \<open>best\<close>.\<close>

definition best_of :: "(id \<Rightarrow> bool) \<Rightarrow> (id \<Rightarrow> f64) \<Rightarrow> id list \<Rightarrow> id \<Rightarrow> id \<Rightarrow> bool" where
  "best_of E f ks best r \<longleftrightarrow> (r = [] \<longleftrightarrow> best = [] \<and> (\<forall>k \<in> set ks. \<not> E k))
     \<and> (r = best \<or> r \<in> set ks \<and> E r)
     \<and> (best \<noteq> [] \<longrightarrow> r = best \<or> fless (f best) (f r))
     \<and> (\<forall>k \<in> set ks. E k \<longrightarrow> \<not> fless (f r) (f k))"

lemma best_of_Nil: "best_of E f [] best best"
  by (simp add: best_of_def)

lemma best_of_skip: "best_of E f ks best r \<Longrightarrow> \<not> E k \<Longrightarrow> best_of E f (k # ks) best r"
  by (simp add: best_of_def) blast

lemma best_of_take:
  assumes "best_of E f ks k r" and "E k" "k \<noteq> []" and "best = [] \<or> fless (f best) (f k)"
  shows "best_of E f (k # ks) best r"
proof -
  have "\<not> fless (f r) (f k)"
    using assms(1,3) fless_trans [of "f k" "f r" "f k"] fless_irrefl unfolding best_of_def by metis
  moreover have "best \<noteq> [] \<longrightarrow> fless (f best) (f r)"
    using assms(1,3,4) fless_trans unfolding best_of_def by metis
  ultimately show ?thesis using assms unfolding best_of_def by auto
qed

lemma best_of_keep:
  assumes "best_of E f ks best r" and "E k" and "best \<noteq> []" "\<not> fless (f best) (f k)"
  shows "best_of E f (k # ks) best r"
proof -
  have "\<not> fless (f r) (f k)"
    using assms(1,3,4) fless_trans [of "f best" "f r" "f k"] unfolding best_of_def by metis
  then show ?thesis using assms unfolding best_of_def by auto
qed

lemma best_of_all:
  assumes "best_of E f ks [] w" and "\<And>k. E k \<Longrightarrow> k \<in> set ks"
  shows "(w = [] \<longleftrightarrow> (\<forall>k. \<not> E k)) \<and> (w \<noteq> [] \<longrightarrow> E w \<and> (\<forall>k. E k \<longrightarrow> \<not> fless (f w) (f k)))"
  using assms unfolding best_of_def by auto

lemma pick_loop_spec:
  assumes wf: "node_ids_ok s" and "best \<noteq> [] \<Longrightarrow> sc = worker_score s env best"
  shows "best_of (eligible s (p_now env) req ex) (worker_score s env) ks best (pick_loop s req ex env ks best sc)"
  using assms(2)
proof (induction ks arbitrary: best sc)
  case Nil
  then show ?case by (simp add: best_of_Nil)
next
  case (Cons k ks)
  show ?case
  proof (cases "eligible s (p_now env) req ex k \<and> (best = [] \<or> fless sc (worker_score s env k))")
    case True
    with eligible_nonempty [OF wf] Cons show ?thesis
      by (auto simp: pick_loop_Cons [OF wf] intro!: best_of_take)
  next
    case False
    with Cons show ?thesis
      by (cases "eligible s (p_now env) req ex k")
        (auto simp: pick_loop_Cons [OF wf] intro: best_of_keep best_of_skip)
  qed
qed

lemma pick_best_of:
  "node_ids_ok s \<Longrightarrow> best_of (eligible s (p_now env) req ex) (worker_score s env) (p_nodes env) []
     (pickWorkerExcludingLocked s env req ex)"
  unfolding pickWorkerExcludingLocked_def by (rule pick_loop_spec) auto

lemma pick_spec:
  assumes "node_ids_ok s" and "w = pickWorkerExcludingLocked s env req ex" and "w \<noteq> []"
  shows "eligible s (p_now env) req ex w"
  using pick_best_of [OF assms(1), of env req ex] assms(2,3) unfolding best_of_def by auto

lemma pick_none:
  assumes "node_ids_ok s" and "pickWorkerExcludingLocked s env req ex = []" and "w \<in> set (p_nodes env)"
  shows "\<not> eligible s (p_now env) req ex w"
  using pick_best_of [OF assms(1), of env req ex] assms(2,3) unfolding best_of_def by auto

text \<open>
  C7. The worker selection: it returns no worker exactly when no stored node is an online, capable worker
  with a free slot outside the excluded ones; otherwise it returns such a worker, and no other candidate has
  a higher benchmark score.
\<close>

theorem pick_worker_is_best:
  assumes "node_ids_ok s" and "order_of (p_nodes env) (nodes s)"
  shows "let w = pickWorkerExcludingLocked s env req ex
    in (w = [] \<longleftrightarrow> (\<forall>k. \<not> eligible s (p_now env) req ex k))
       \<and> (w \<noteq> [] \<longrightarrow> eligible s (p_now env) req ex w
           \<and> (\<forall>k. eligible s (p_now env) req ex k \<longrightarrow> \<not> fless (worker_score s env w) (worker_score s env k)))"
proof -
  have dom: "k \<in> set (p_nodes env)" if "eligible s (p_now env) req ex k" for k
  proof -
    from that have "mget (nodes s) k \<noteq> None" by (auto simp: eligible_def split: option.splits)
    then show ?thesis using assms(2) unfolding order_of_def mget_None_iff by simp
  qed
  show ?thesis
    unfolding Let_def by (rule best_of_all [OF pick_best_of [OF assms(1)] dom])
qed

definition demo_node :: "string \<Rightarrow> int \<Rightarrow> u64 \<Rightarrow> time \<Rightarrow> Node" where
  "demo_node i slots memory seen = \<lparr>n_ID = i, n_Name = i, n_Role = NodeRoleWorker, n_Status = NodeStatusOnline,
     n_Endpoint = [], n_Resources = zero_resources\<lparr>rs_JobSlots := slots,
       rs_Memory := \<lparr>mem_TotalBytes = memory, mem_AllowedBytes = memory\<rparr>\<rparr>, n_JoinedAt = seen, n_UpdatedAt = seen\<rparr>"

definition demo_bench :: "string \<Rightarrow> rat \<Rightarrow> BenchmarkResult" where
  "demo_bench i x = \<lparr>br_NodeID = i, br_Kind = BenchmarkCPU, br_Score = Fin x, br_Unit = ''ops'', br_Duration = 1,
     br_CreatedAt = 1, br_Metadata = []\<rparr>"

definition demo_state :: State where
  "demo_state = (NewState 0)\<lparr>
     nodes := [(''a'', demo_node ''a'' 1 8 100), (''b'', demo_node ''b'' 1 16 100), (''c'', demo_node ''c'' 1 16 100)],
     benchmarks := [(''b'', [(BenchmarkCPU, demo_bench ''b'' 5)]), (''c'', [(BenchmarkCPU, demo_bench ''c'' 7)])]\<rparr>"

definition demo_pick :: "time \<Rightarrow> pick_env" where
  "demo_pick now = \<lparr>p_now = now, p_nodes = [''a'', ''b'', ''c''], p_kinds = (\<lambda>i. [BenchmarkCPU])\<rparr>"

definition demo_req :: "u64 \<Rightarrow> Requirements" where
  "demo_req memory = \<lparr>req_CPUCores = 0, req_MemoryBytes = memory, req_DiskBytes = 0, req_GPURequired = False,
     req_VRAMBytes = 0\<rparr>"

lemma demo_state_ids: "node_ids_ok demo_state"
  by (auto simp: node_ids_ok_def demo_state_def NewState_def demo_node_def map_wf_def mget_def split: if_splits)

theorem pick_worker_is_best_witness:
  "pickWorkerExcludingLocked demo_state (demo_pick 200) (demo_req 10) [] = ''c''
   \<and> eligible demo_state 200 (demo_req 10) [] ''c'' \<and> eligible demo_state 200 (demo_req 10) [] ''b''
   \<and> \<not> fless (worker_score demo_state (demo_pick 200) ''c'') (worker_score demo_state (demo_pick 200) ''b'')"
proof -
  have ord: "order_of (p_nodes (demo_pick 200)) (nodes demo_state)"
    by (auto simp: order_of_def demo_pick_def demo_state_def mkeys_def)
  have pick: "pickWorkerExcludingLocked demo_state (demo_pick 200) (demo_req 10) [] = ''c''" by code_simp
  have "eligible demo_state 200 (demo_req 10) [] ''b''" by code_simp
  moreover have "p_now (demo_pick 200) = 200" by (simp add: demo_pick_def)
  ultimately show ?thesis
    using pick_worker_is_best [OF demo_state_ids ord, of "demo_req 10" "[]"] pick unfolding Let_def by simp
qed

end
