(* ===== verification/Lifecycle.thy ===== *)
theory Lifecycle
  imports Scheduling
begin

section \<open>The life cycle of jobs: what the operations keep\<close>

text \<open>
  \<open>job_changes N R s t\<close> says that every job of \<open>s\<close> is still there in \<open>t\<close>, changed only as \<open>R\<close>
  allows, and that every job that \<open>t\<close> has in addition satisfies \<open>N\<close>. The locales below state what such a pair has to allow for an operation of state.go to respect it, and
  prove the operations once for all of them; they are interpreted on three pairs: the job invariant, the
  fields that never change, and the jobs that have ended.
\<close>

definition job_change :: "(id \<Rightarrow> Job \<Rightarrow> bool) \<Rightarrow> (id \<Rightarrow> Job \<Rightarrow> Job \<Rightarrow> bool) \<Rightarrow> id \<Rightarrow> Job option \<Rightarrow> Job option \<Rightarrow> bool" where
  "job_change N R i old new =
     (case old of
        Some j \<Rightarrow> (case new of Some k \<Rightarrow> R i j k | None \<Rightarrow> False)
      | None \<Rightarrow> (case new of Some k \<Rightarrow> N i k | None \<Rightarrow> True))"

definition job_changes :: "(id \<Rightarrow> Job \<Rightarrow> bool) \<Rightarrow> (id \<Rightarrow> Job \<Rightarrow> Job \<Rightarrow> bool) \<Rightarrow> State \<Rightarrow> State \<Rightarrow> bool" where
  "job_changes N R s t \<longleftrightarrow> (map_wf (jobs s) \<longrightarrow> map_wf (jobs t))
     \<and> (\<forall>i. job_change N R i (mget (jobs s) i) (mget (jobs t) i))"

text \<open>A state whose jobs are stored under their own identifiers.\<close>

definition job_ids_ok :: "State \<Rightarrow> bool" where
  "job_ids_ok s \<longleftrightarrow> map_wf (jobs s) \<and> (\<forall>i j. mget (jobs s) i = Some j \<longrightarrow> j_ID j = i)"

subsection \<open>Frames\<close>

lemma put_job_fields [simp, frame_simps]:
  "nodes (put_job i j s) = nodes s" "jobs (put_job i j s) = mput i j (jobs s)"
  "benchmarks (put_job i j s) = benchmarks s" "rpcHealth (put_job i j s) = rpcHealth s"
  "conversations (put_job i j s) = conversations s" "memories (put_job i j s) = memories s"
  "heartbeatTimeout (put_job i j s) = heartbeatTimeout s"
  by (simp_all add: put_job_def)

lemma put_node_fields [simp, frame_simps]:
  "jobs (put_node i n s) = jobs s" "nodes (put_node i n s) = mput i n (nodes s)"
  "benchmarks (put_node i n s) = benchmarks s" "rpcHealth (put_node i n s) = rpcHealth s"
  "conversations (put_node i n s) = conversations s" "memories (put_node i n s) = memories s"
  "heartbeatTimeout (put_node i n s) = heartbeatTimeout s"
  by (simp_all add: put_node_def)

text \<open>Everything of a state but its jobs.\<close>

definition rest :: "State \<Rightarrow> State" where
  "rest s = s\<lparr>jobs := []\<rparr>"

lemma rest_put_job [simp]: "rest (put_job i j s) = rest s"
  by (simp add: rest_def put_job_def)

lemma rest_fields:
  "rest s = rest t \<Longrightarrow> nodes s = nodes t \<and> benchmarks s = benchmarks t \<and> rpcHealth s = rpcHealth t
     \<and> conversations s = conversations t \<and> memories s = memories t \<and> heartbeatTimeout s = heartbeatTimeout t"
  by (cases s; cases t) (simp add: rest_def)

lemma rest_schedule_one [simp]: "rest (schedule_one now env i s) = rest s"
  by (simp add: schedule_one_def Let_def split: option.splits)

lemma rest_schedule_loop [simp]: "rest (schedule_loop now envs is s) = rest s"
  by (induction "is" arbitrary: s) auto

lemma rest_schedule [simp]: "rest (scheduleQueuedJobsLocked q now s) = rest s"
  by (simp add: scheduleQueuedJobsLocked_def)

lemma rest_fail_one [simp]: "rest (fail_one n now reason env i s) = rest s"
  by (simp add: fail_one_def split: option.splits)

lemma rest_fail_loop [simp]: "rest (fail_loop n now reason envs is s) = rest s"
  by (induction "is" arbitrary: s) auto

lemma rest_fail [simp]: "rest (failActiveJobsForWorkerLocked q n now reason s) = rest s"
  by (simp add: failActiveJobsForWorkerLocked_def)

lemmas schedule_frame [simp, frame_simps] = rest_fields [OF rest_schedule]
lemmas fail_frame [simp, frame_simps] = rest_fields [OF rest_fail]
lemmas schedule_one_frame [simp, frame_simps] = rest_fields [OF rest_schedule_one]
lemmas fail_one_frame [simp, frame_simps] = rest_fields [OF rest_fail_one]

lemma reschedule_ID [simp]: "j_ID (rescheduleOrFailJobLocked s env j n now reason) = j_ID j"
  by (simp add: rescheduleOrFailJobLocked_def Let_def)

lemma stage_status_ID [simp]: "j_ID (stage_status next detail now j) = j_ID j"
  by (simp add: stage_status_def split: StageState.splits)

lemma place_job_ID [simp]: "j_ID (place_job s env now req j) = j_ID j"
  by (simp add: place_job_def Let_def split: option.splits)

lemma new_job_ID [simp]: "j_ID (new_job i now req) = i"
  by (simp add: new_job_def)

lemma job_ids_put [simp, wf_intros]: "job_ids_ok s \<Longrightarrow> j_ID j = i \<Longrightarrow> job_ids_ok (put_job i j s)"
  by (simp add: job_ids_ok_def)

lemma append_jobs [simp]: "jobs (appendAssistantMessageForJobLocked j now s) = jobs s"
  by (auto simp: appendAssistantMessageForJobLocked_def Let_def split: prod.splits option.splits)

lemma cleanup_jobs:
  "cleanupModelPersistenceForDeleteJobLocked j s = (t, r) \<Longrightarrow>
     jobs t = jobs s \<and> (\<forall>k. r = Some k \<longrightarrow> (\<exists>x. k = j\<lparr>j_Result := x\<rparr>))"
  by (auto simp: cleanupModelPersistenceForDeleteJobLocked_def delete_memories_of_def delete_conversations_of_def
      split: if_splits option.splits intro: exI [of _ "j_Result j"])

subsection \<open>Relations between a job and its later versions\<close>

locale job_relation =
  fixes N :: "id \<Rightarrow> Job \<Rightarrow> bool" and R :: "id \<Rightarrow> Job \<Rightarrow> Job \<Rightarrow> bool"
  assumes refl: "R i j j"
    and trans: "R i j k \<Longrightarrow> R i k l \<Longrightarrow> R i j l"
    and new_trans: "N i j \<Longrightarrow> R i j k \<Longrightarrow> N i k"
begin

lemma change_refl: "job_change N R i x x"
  using refl by (simp add: job_change_def split: option.splits)

lemma change_trans: "job_change N R i x y \<Longrightarrow> job_change N R i y z \<Longrightarrow> job_change N R i x z"
  by (cases x; cases y; cases z; simp add: job_change_def; blast intro: trans new_trans)

lemma changes_refl: "job_changes N R s s"
  by (simp add: job_changes_def change_refl)

lemma changes_trans: "job_changes N R s t \<Longrightarrow> job_changes N R t u \<Longrightarrow> job_changes N R s u"
  by (simp add: job_changes_def) (meson change_trans)

lemma changes_put: "mget (jobs s) i = Some j \<Longrightarrow> R i j k \<Longrightarrow> job_changes N R s (put_job i k s)"
  using change_refl by (auto simp: job_changes_def job_change_def)

lemma changes_new: "mget (jobs s) i = None \<Longrightarrow> N i k \<Longrightarrow> job_changes N R s (put_job i k s)"
  using change_refl by (auto simp: job_changes_def job_change_def)

lemma changes_jobs_eq: "jobs t = jobs s \<Longrightarrow> job_changes N R s t"
  by (simp add: job_changes_def change_refl)

lemma changes_put_node: "job_changes N R (put_node i n s) t \<longleftrightarrow> job_changes N R s t"
  by (simp add: job_changes_def)

end

text \<open>What the manager does on its own: it assigns waiting jobs and takes jobs from lost workers.\<close>

locale scheduler_relation = job_relation +
  assumes assign: "j_Status j = StatusQueued \<Longrightarrow> j_AssignedTo j = [] \<Longrightarrow> w \<noteq> [] \<Longrightarrow> R i j (assign_job w now j)"
    and wait: "j_Status j = StatusQueued \<Longrightarrow> j_AssignedTo j = [] \<Longrightarrow> R i j (j\<lparr>j_LastFailure := f, j_UpdatedAt := now\<rparr>)"
    and retry: "active (j_Status j) \<Longrightarrow> R i j (rescheduleOrFailJobLocked s env j n now reason)"
begin

lemma schedule_one_changes: "job_changes N R s (schedule_one now env i s)"
proof (cases "mget (jobs s) i")
  case None
  then show ?thesis by (simp add: schedule_one_def changes_refl)
next
  case (Some j)
  show ?thesis
    unfolding schedule_one_def Let_def
    by (auto simp: Some intro!: changes_refl changes_put [OF Some] assign wait)
qed

lemma schedule_loop_changes: "job_changes N R s (schedule_loop now envs is s)"
proof (induction "is" arbitrary: s)
  case Nil
  show ?case by (simp add: changes_refl)
next
  case (Cons i "is")
  show ?case unfolding schedule_loop.simps by (rule changes_trans [OF schedule_one_changes Cons.IH])
qed

lemma schedule_changes: "job_changes N R s (scheduleQueuedJobsLocked q now s)"
  by (simp add: scheduleQueuedJobsLocked_def schedule_loop_changes)

lemma fail_one_changes: "job_changes N R s (fail_one n now reason env i s)"
proof (cases "mget (jobs s) i")
  case None
  then show ?thesis by (simp add: fail_one_def changes_refl)
next
  case (Some j)
  show ?thesis
    unfolding fail_one_def
    by (auto simp: Some active_def intro!: changes_refl changes_put [OF Some] retry)
qed

lemma fail_loop_changes: "job_changes N R s (fail_loop n now reason envs is s)"
proof (induction "is" arbitrary: s)
  case Nil
  show ?case by (simp add: changes_refl)
next
  case (Cons i "is")
  show ?case unfolding fail_loop.simps by (rule changes_trans [OF fail_one_changes Cons.IH])
qed

lemma fail_changes: "job_changes N R s (failActiveJobsForWorkerLocked q n now reason s)"
  by (simp add: failActiveJobsForWorkerLocked_def fail_loop_changes)

lemma nodes_one_changes: "job_changes N R s (fst (nodes_one now qs n s))"
  using fail_changes [of "put_node _ _ s"]
  by (auto simp: nodes_one_def Let_def changes_put_node intro: changes_refl)

lemma nodes_loop_changes: "job_changes N R s (fst (nodes_loop now qs ks out s))"
proof (induction ks arbitrary: out s)
  case Nil
  then show ?case by (simp add: changes_refl)
next
  case (Cons k ks)
  show ?case
  proof (cases "mget (nodes s) k")
    case None
    with Cons show ?thesis by simp
  next
    case (Some n)
    obtain s' n' where one: "nodes_one now qs n s = (s', n')" by force
    have "job_changes N R s s'" using nodes_one_changes [of s now qs n] one by simp
    with Some one Cons.IH [of s'] show ?thesis by (auto intro: changes_trans)
  qed
qed

lemma Nodes_changes: "job_changes N R s (fst (Nodes now v s))"
  by (simp add: Nodes_def nodes_loop_changes)

lemma Register_changes: "job_changes N R s (fst (RegisterWorker rnd now q req s))"
  using schedule_changes [of "put_node _ _ s"] by (simp add: RegisterWorker_def Let_def changes_put_node)

lemma Heartbeat_changes: "job_changes N R s (fst (Heartbeat_op now q hb s))"
  using schedule_changes [of "put_node _ _ s"]
  by (auto simp: Heartbeat_op_def changes_put_node intro: changes_refl split: option.splits)

lemma Offline_changes: "job_changes N R s (fst (MarkWorkerOffline now q n s))"
  using fail_changes [of "put_node _ _ s"]
  by (auto simp: MarkWorkerOffline_def markWorkerOfflineLocked_def changes_put_node
      intro: changes_refl split: option.splits)

end

text \<open>What workers and operators do: they take, report on, complete and cancel jobs.\<close>

locale worker_relation = scheduler_relation +
  assumes run: "j_Status j = StatusScheduled \<Longrightarrow>
      R i j (j\<lparr>j_Status := StatusRunning, j_StartedAt := now, j_UpdatedAt := now\<rparr>)"
    and progress: "j_Status j = StatusRunning \<Longrightarrow> R i j (j\<lparr>j_Result := r, j_UpdatedAt := now\<rparr>)"
    and report: "j_Status j = StatusRunning \<Longrightarrow> R i j (j\<lparr>j_Result := r, j_Error := e, j_UpdatedAt := now\<rparr>)"
    and finish: "j_Status j = StatusRunning \<Longrightarrow> R i j (j\<lparr>j_Error := e, j_UpdatedAt := now,
      j_Status := StatusSucceeded, j_FinishedAt := now, j_Result := r\<rparr>)"
    and cancel: "jobCanBeCanceled j \<Longrightarrow> R i j (j\<lparr>j_Status := StatusCanceled, j_Error := e, j_LastFailure := [],
      j_UpdatedAt := now, j_FinishedAt := now\<rparr>)"
    and create: "int64_range (cr_MaxAttempts req) \<Longrightarrow> N i (place_job s env now req (new_job i now req))"
begin

lemma Next_changes:
  assumes "job_ids_ok s"
  shows "job_changes N R s (fst (NextJobForWorker now ord n s))"
  unfolding NextJobForWorker_def
proof (induction ord)
  case Nil
  then show ?case by (simp add: changes_refl)
next
  case (Cons i ord)
  show ?case
  proof (cases "mget (jobs s) i")
    case None
    with Cons show ?thesis by simp
  next
    case (Some j)
    with assms have "j_ID j = i" by (simp add: job_ids_ok_def)
    with Some Cons show ?thesis by (auto simp: Let_def intro!: changes_put run)
  qed
qed

lemma Progress_changes: "job_ids_ok s \<Longrightarrow> job_changes N R s (fst (UpdateJobProgress now i req s))"
  by (auto simp: UpdateJobProgress_def Let_def job_ids_ok_def intro!: changes_refl changes_put progress
      split: option.splits)

lemma Cancel_changes:
  assumes "job_ids_ok s"
  shows "job_changes N R s (fst (CancelJob now q i s))"
proof (cases "mget (jobs s) i")
  case None
  then show ?thesis by (simp add: CancelJob_def changes_refl)
next
  case (Some j)
  with assms have "j_ID j = i" by (simp add: job_ids_ok_def)
  with Some show ?thesis
    by (simp add: CancelJob_def Let_def changes_refl changes_trans [OF changes_put [OF Some cancel] schedule_changes])
qed

lemma Complete_changes:
  assumes "job_ids_ok s"
  shows "job_changes N R s (fst (CompleteJob now env q i req s))"
proof (cases "mget (jobs s) i")
  case None
  then show ?thesis by (simp add: CompleteJob_def changes_refl)
next
  case (Some j)
  with assms have ID: "j_ID j = i" by (simp add: job_ids_ok_def)
  show ?thesis
  proof (cases "j_AssignedTo j = co_NodeID req \<and> j_Status j = StatusRunning")
    case False
    with Some show ?thesis by (auto simp: CompleteJob_def changes_refl)
  next
    case running: True
    let ?j1 = "j\<lparr>j_Result := co_Result req, j_Error := co_Error req, j_UpdatedAt := now\<rparr>"
    let ?j2 = "?j1\<lparr>j_Status := StatusSucceeded, j_FinishedAt := now\<rparr>"
    let ?s1 = "appendAssistantMessageForJobLocked ?j2 now s"
    obtain t r where cl: "cleanupModelPersistenceForDeleteJobLocked ?j2 ?s1 = (t, r)" by force
    have same: "job_changes N R s t" using cleanup_jobs [OF cl] by (intro changes_jobs_eq) simp
    show ?thesis
    proof (cases "co_Error req \<noteq> []")
      case True
      have "R i j (rescheduleOrFailJobLocked s env ?j1 (co_NodeID req) now (co_Error req))"
        using running by (intro trans [OF report retry]) (auto simp: active_def)
      with Some ID running True show ?thesis
        by (simp add: CompleteJob_def Let_def changes_trans [OF changes_put schedule_changes])
    next
      case ok: False
      show ?thesis
      proof (cases r)
        case None
        with Some running ok cl same show ?thesis by (simp add: CompleteJob_def Let_def)
      next
        case (Some k)
        with cleanup_jobs [OF cl] obtain x where k: "k = ?j2\<lparr>j_Result := x\<rparr>" by auto
        have "R i j k" using finish [where j = j and i = i and r = x and e = "co_Error req" and now = now] running k by simp
        moreover have "mget (jobs t) i = mget (jobs s) i" using cleanup_jobs [OF cl] by simp
        ultimately have "job_changes N R t (put_job i k t)"
          using \<open>mget (jobs s) i = Some j\<close> by (intro changes_put) simp
        then have "job_changes N R s (scheduleQueuedJobsLocked q now (put_job i k t))"
          using same changes_trans schedule_changes by blast
        moreover have "j_ID k = i" using k ID by simp
        ultimately show ?thesis
          using \<open>mget (jobs s) i = Some j\<close> running ok cl Some by (simp add: CompleteJob_def Let_def)
      qed
    qed
  qed
qed

lemma Create_changes:
  assumes "int64_range (cr_MaxAttempts req)"
    and "(\<forall>i j k. N i k \<longrightarrow> R i j k) \<or> mget (jobs s) (newJobID rnd) = None"
  shows "job_changes N R s (fst (CreateJob rnd now env req s))"
  using create [OF assms(1), of "newJobID rnd"] assms(2)
  by (cases "mget (jobs s) (newJobID rnd)") (auto simp: CreateJob_def Let_def intro: changes_new changes_put)

lemma batch_loop_changes:
  assumes "\<forall>x \<in> set rs. int64_range (cr_MaxAttempts (snd (snd x)))"
    and "(\<forall>i j k. N i k \<longrightarrow> R i j k) \<or> distinct (map (\<lambda>x. newJobID (fst x)) rs)
      \<and> (\<forall>x \<in> set rs. mget (jobs s) (newJobID (fst x)) = None)"
  shows "job_changes N R s (fst (batch_loop now rs created s))"
  using assms
proof (induction rs arbitrary: created s)
  case Nil
  then show ?case by (simp add: changes_refl)
next
  case (Cons x rs)
  obtain rnd env req where x: "x = (rnd, env, req)" by (metis prod_cases3)
  let ?j = "place_job s env now req (new_job (newJobID rnd) now req)"
  let ?s = "put_job (newJobID rnd) ?j s"
  have one: "job_changes N R s ?s"
    using Create_changes [of req s rnd now env] Cons.prems x by (auto simp: CreateJob_def Let_def)
  have "(\<forall>i j k. N i k \<longrightarrow> R i j k) \<or> distinct (map (\<lambda>x. newJobID (fst x)) rs)
      \<and> (\<forall>x \<in> set rs. mget (jobs ?s) (newJobID (fst x)) = None)"
    using Cons.prems(2) x by (auto simp: image_iff)
  then have "job_changes N R ?s (fst (batch_loop now rs (created @ [?j]) ?s))"
    using Cons.prems(1) by (intro Cons.IH) auto
  with one x show ?case by (simp add: Let_def changes_trans)
qed

lemma Batch_changes:
  assumes "\<forall>x \<in> set rs. int64_range (cr_MaxAttempts (snd (snd x)))"
    and "(\<forall>i j k. N i k \<longrightarrow> R i j k) \<or> distinct (map (\<lambda>x. newJobID (fst x)) rs)
      \<and> (\<forall>x \<in> set rs. mget (jobs s) (newJobID (fst x)) = None)"
  shows "job_changes N R s (fst (CreateJobsBatch now rs s))"
  unfolding CreateJobsBatch_def using assms by (rule batch_loop_changes)

end

definition current_stage :: "Job \<Rightarrow> StageState" where
  "current_stage j = (if j_CDIPState j = StageUnset then StagePlanned else j_CDIPState j)"

text \<open>The coordinator of distributed generation moves stage jobs and ends the parent job.\<close>

locale manager_relation = worker_relation +
  assumes stage: "j_Type j = JobGenerateStage \<Longrightarrow> CanTransition (current_stage j) next \<Longrightarrow> R i j (stage_status next detail now
      (j\<lparr>j_CDIPState := next, j_Result := r, j_UpdatedAt := now\<rparr>))"
    and coordinator: "j_Type j = JobGenerateDistributed \<Longrightarrow> st \<in> {StatusSucceeded, StatusFailed} \<Longrightarrow>
      R i j (j\<lparr>j_Result := r, j_Error := e, j_UpdatedAt := now, j_FinishedAt := now, j_Status := st,
        j_LastFailure := f\<rparr>)"
begin

lemma Stage_changes: "job_ids_ok s \<Longrightarrow> job_changes N R s (fst (UpdateCDIPStageState now i next detail s))"
  by (auto simp: UpdateCDIPStageState_def Let_def job_ids_ok_def current_stage_def intro!: changes_refl changes_put stage
      split: option.splits)

lemma Coordinator_changes: "job_ids_ok s \<Longrightarrow> job_changes N R s (fst (CompleteCoordinatorJob now i r e s))"
proof (cases "mget (jobs s) i")
  case None
  then show ?thesis by (simp add: CompleteCoordinatorJob_def changes_refl)
next
  case (Some j)
  assume "job_ids_ok s"
  with Some have "j_ID j = i" by (simp add: job_ids_ok_def)
  moreover have "j_Type j = JobGenerateDistributed \<Longrightarrow> R i j (j\<lparr>j_Result := TrimSpace r,
      j_Error := TrimSpace e, j_UpdatedAt := now, j_FinishedAt := now, j_Status := StatusSucceeded\<rparr>)"
    using coordinator [where j = j and i = i and st = StatusSucceeded and r = "TrimSpace r"
      and e = "TrimSpace e" and now = now and f = "j_LastFailure j"] by simp
  ultimately show ?thesis
    using Some by (cases "TrimSpace e = []")
      (auto simp: CompleteCoordinatorJob_def Let_def intro!: changes_refl changes_put [where j = j] coordinator)
qed

end

subsection \<open>The job invariant\<close>

definition job_ok :: "id \<Rightarrow> Job \<Rightarrow> bool" where
  "job_ok i j \<longleftrightarrow> j_ID j = i \<and> int64_range (j_MaxAttempts j) \<and> 1 \<le> j_MaxAttempts j
     \<and> 0 \<le> j_Attempts j \<and> j_Attempts j \<le> j_MaxAttempts j
     \<and> (j_Status j = StatusQueued \<and> j_AssignedTo j = [] \<longrightarrow> j_Attempts j < j_MaxAttempts j)
     \<and> (active (j_Status j) \<longrightarrow> j_AssignedTo j \<noteq> [] \<and> 1 \<le> j_Attempts j)
     \<and> (j_Status j = StatusQueued \<or> active (j_Status j) \<or> terminal (j_Status j))"

lemma attempts_no_wrap:
  "int64_range m \<Longrightarrow> 0 \<le> a \<Longrightarrow> a < m \<Longrightarrow> wrap64 (a + 1) = a + 1"
  by (rule wrap64_id) (simp add: int64_range_def)

lemma job_ok_assign:
  assumes "j_Status j = StatusQueued" "j_AssignedTo j = []" "w \<noteq> []" "job_ok i j"
  shows "job_ok i (assign_job w now j) \<and> j_Attempts (assign_job w now j) = j_Attempts j + 1"
  using assms by (auto simp: job_ok_def assign_job_def active_def attempts_no_wrap)

lemma job_ok_retry:
  assumes "active (j_Status j)" "job_ok i j"
  shows "job_ok i (rescheduleOrFailJobLocked s env j n now reason)
    \<and> j_Attempts j \<le> j_Attempts (rescheduleOrFailJobLocked s env j n now reason)
    \<and> j_MaxAttempts (rescheduleOrFailJobLocked s env j n now reason) = j_MaxAttempts j"
  using assms
  by (auto simp: rescheduleOrFailJobLocked_def job_ok_def active_def terminal_def normalizeMaxAttempts_def
      attempts_no_wrap Let_def)

lemma job_ok_stage:
  assumes "job_ok i j"
  shows "job_ok i (stage_status next detail now (j\<lparr>j_CDIPState := next, j_Result := r, j_UpdatedAt := now\<rparr>))
    \<and> j_Attempts j \<le> j_Attempts (stage_status next detail now (j\<lparr>j_CDIPState := next, j_Result := r, j_UpdatedAt := now\<rparr>))"
  using assms by (cases "next") (auto simp: stage_status_def job_ok_def active_def terminal_def)

lemma normalizeMaxAttempts_ok: "int64_range m \<Longrightarrow> int64_range (normalizeMaxAttempts m) \<and> 1 \<le> normalizeMaxAttempts m"
  by (auto simp: normalizeMaxAttempts_def DefaultMaxAttempts_def int64_range_def)

lemma job_ok_create:
  assumes "int64_range (cr_MaxAttempts req)"
  shows "job_ok i (place_job s env now req (new_job i now req))"
  using normalizeMaxAttempts_ok [OF assms]
  by (auto simp: place_job_def new_job_def job_ok_def active_def terminal_def Let_def split: option.splits)

interpretation inv: manager_relation job_ok "\<lambda>i j k. job_ok i j \<longrightarrow> job_ok i k"
proof
  fix i j w now
  show "j_Status j = StatusQueued \<Longrightarrow> j_AssignedTo j = [] \<Longrightarrow> w \<noteq> [] \<Longrightarrow> job_ok i j \<longrightarrow> job_ok i (assign_job w now j)"
    using job_ok_assign by blast
next
  fix i j s env n now reason
  show "active (j_Status j) \<Longrightarrow> job_ok i j \<longrightarrow> job_ok i (rescheduleOrFailJobLocked s env j n now reason)"
    using job_ok_retry by blast
next
  fix i j "next" detail now r
  show "job_ok i j \<longrightarrow> job_ok i (stage_status next detail now (j\<lparr>j_CDIPState := next, j_Result := r, j_UpdatedAt := now\<rparr>))"
    using job_ok_stage by blast
next
  fix req i s env now
  show "int64_range (cr_MaxAttempts req) \<Longrightarrow> job_ok i (place_job s env now req (new_job i now req))"
    by (rule job_ok_create)
qed (auto simp: job_ok_def active_def terminal_def jobCanBeCanceled_def)

subsection \<open>What a job keeps\<close>

text \<open>The fields that describe what was asked for never change; the attempts only grow, up to the limit.\<close>

definition same_request :: "Job \<Rightarrow> Job \<Rightarrow> bool" where
  "same_request j k \<longleftrightarrow> j_ID k = j_ID j \<and> j_Type k = j_Type j \<and> j_RequestedBy k = j_RequestedBy j
     \<and> j_Input k = j_Input j \<and> j_Requirements k = j_Requirements j \<and> j_CreatedAt k = j_CreatedAt j
     \<and> j_CDIPParentJobID k = j_CDIPParentJobID j \<and> j_CDIPStageIndex k = j_CDIPStageIndex j"

definition kept :: "id \<Rightarrow> Job \<Rightarrow> Job \<Rightarrow> bool" where
  "kept i j k \<longleftrightarrow> same_request j k
     \<and> (job_ok i j \<longrightarrow> job_ok i k \<and> j_MaxAttempts k = j_MaxAttempts j \<and> j_Attempts j \<le> j_Attempts k)"

lemma same_request_ops:
  "same_request j (assign_job w now j)"
  "same_request j (rescheduleOrFailJobLocked s env j n now reason)"
  "same_request j (stage_status next detail now (j\<lparr>j_CDIPState := next, j_Result := r, j_UpdatedAt := now\<rparr>))"
  by (simp_all add: same_request_def assign_job_def rescheduleOrFailJobLocked_def stage_status_def Let_def
      split: StageState.splits)

lemma stage_max: "j_MaxAttempts (stage_status next detail now j) = j_MaxAttempts j"
  by (simp add: stage_status_def split: StageState.splits)

lemma kept_trans: "kept i j k \<Longrightarrow> kept i k l \<Longrightarrow> kept i j l"
  unfolding kept_def same_request_def by (elim conjE) (intro conjI impI; simp)

interpretation kept: manager_relation "\<lambda>i j. True" kept
proof
  fix i j k l
  show "kept i j k \<Longrightarrow> kept i k l \<Longrightarrow> kept i j l" by (rule kept_trans)
next
  fix i j w now
  show "j_Status j = StatusQueued \<Longrightarrow> j_AssignedTo j = [] \<Longrightarrow> w \<noteq> [] \<Longrightarrow> kept i j (assign_job w now j)"
    using job_ok_assign [of j w i now] same_request_ops(1) [of j w now] by (auto simp: kept_def assign_job_def)
next
  fix i j s env n now reason
  show "active (j_Status j) \<Longrightarrow> kept i j (rescheduleOrFailJobLocked s env j n now reason)"
    using job_ok_retry same_request_ops(2) by (simp add: kept_def)
next
  fix i j "next" detail now r
  show "kept i j (stage_status next detail now (j\<lparr>j_CDIPState := next, j_Result := r, j_UpdatedAt := now\<rparr>))"
    using job_ok_stage [of i j] same_request_ops(3) by (simp add: kept_def stage_max)
qed (simp_all add: kept_def same_request_def job_ok_def active_def terminal_def jobCanBeCanceled_def, auto)

subsection \<open>Jobs that have ended\<close>

interpretation ended: worker_relation "\<lambda>i j. True" "\<lambda>i j k. terminal (j_Status j) \<longrightarrow> k = j"
  by unfold_locales (auto simp: terminal_def active_def jobCanBeCanceled_def)

subsection \<open>The stages of distributed jobs\<close>

definition stage_moves :: "id \<Rightarrow> Job \<Rightarrow> Job \<Rightarrow> bool" where
  "stage_moves i j k \<longleftrightarrow> stage_step\<^sup>*\<^sup>* (current_stage j) (current_stage k)"

lemma CDIPState_keep [simp]:
  "j_CDIPState (assign_job w now j) = j_CDIPState j"
  "j_CDIPState (rescheduleOrFailJobLocked s env j n now reason) = j_CDIPState j"
  by (simp_all add: assign_job_def rescheduleOrFailJobLocked_def Let_def)

lemma stage_status_CDIP [simp]: "j_CDIPState (stage_status next detail now j) = j_CDIPState j"
  by (simp add: stage_status_def split: StageState.splits)

lemma stage_next_set: "stage_next s \<noteq> Some StageUnset"
  by (cases s) auto

interpretation stages: manager_relation "\<lambda>i j. True" stage_moves
proof
  fix i j "next" detail now r
  assume "CanTransition (current_stage j) next"
  then have "stage_step (current_stage j) next" by (simp add: CanTransition_stage_step)
  then show "stage_moves i j (stage_status next detail now (j\<lparr>j_CDIPState := next, j_Result := r, j_UpdatedAt := now\<rparr>))"
    by (auto simp: stage_moves_def current_stage_def stage_step_simps stage_next_set split: if_splits)
qed (auto simp: stage_moves_def current_stage_def)

end
