(* ===== verification/Manager.thy ===== *)
theory Manager
  imports Lifecycle
begin

section \<open>The manager as a state machine\<close>

text \<open>
  Every call of a state-changing method of \<open>State\<close> is a \<open>manager_op\<close> with its arguments and readings;
  \<open>exec\<close> runs it. Requests of different clients are serialised by the mutex, so the states a manager can be
  in are those reached from \<open>NewState\<close> by some sequence of operations (\<open>reachable\<close>).
\<close>

datatype manager_op =
    OpRegister "8 word list option" time jobs_env JoinRequest
  | OpHeartbeat time jobs_env Heartbeat
  | OpOffline time jobs_env id
  | OpNodes time nodes_env
  | OpBenchmark time BenchmarkResult
  | OpHealth time RPCHealthUpdate
  | OpCreate "8 word list option" time pick_env CreateRequest
  | OpBatch time "(8 word list option \<times> pick_env \<times> CreateRequest) list"
  | OpNext time "id list" id
  | OpComplete time pick_env jobs_env id CompleteRequest
  | OpProgress time id ProgressRequest
  | OpStage time id StageState string
  | OpCoordinator time id string string
  | OpCancel time jobs_env id
  | OpAppend time memory_env id string id string ChatMessage
  | OpDeleteConversation id
  | OpUpsertMemory "8 word list option" time Memory
  | OpDeleteMemory id
  | OpDeleteMemories string

fun exec :: "manager_op \<Rightarrow> State \<Rightarrow> State" where
  "exec (OpRegister rnd now q req) s = fst (RegisterWorker rnd now q req s)"
| "exec (OpHeartbeat now q hb) s = fst (Heartbeat_op now q hb s)"
| "exec (OpOffline now q n) s = fst (MarkWorkerOffline now q n s)"
| "exec (OpNodes now v) s = fst (Nodes now v s)"
| "exec (OpBenchmark now r) s = fst (PutBenchmark now r s)"
| "exec (OpHealth now u) s = fst (PutRPCHealth now u s)"
| "exec (OpCreate rnd now env req) s = fst (CreateJob rnd now env req s)"
| "exec (OpBatch now rs) s = fst (CreateJobsBatch now rs s)"
| "exec (OpNext now ord n) s = fst (NextJobForWorker now ord n s)"
| "exec (OpComplete now env q i req) s = fst (CompleteJob now env q i req s)"
| "exec (OpProgress now i req) s = fst (UpdateJobProgress now i req s)"
| "exec (OpStage now i nxt detail) s = fst (UpdateCDIPStageState now i nxt detail s)"
| "exec (OpCoordinator now i result err) s = fst (CompleteCoordinatorJob now i result err s)"
| "exec (OpCancel now q i) s = fst (CancelJob now q i s)"
| "exec (OpAppend now x i m n p msg) s = fst (AppendConversationMessage now x i m n p msg s)"
| "exec (OpDeleteConversation i) s = fst (DeleteConversation i s)"
| "exec (OpUpsertMemory rnd now m) s = fst (UpsertMemory rnd now m s)"
| "exec (OpDeleteMemory i) s = fst (DeleteMemory i s)"
| "exec (OpDeleteMemories m) s = fst (DeleteMemoriesByModel m s)"

text \<open>The limits of the Go type \<open>int\<close> on the one number of a request that the manager counts up to.\<close>

fun op_ok :: "manager_op \<Rightarrow> bool" where
  "op_ok (OpCreate rnd now env req) = int64_range (cr_MaxAttempts req)"
| "op_ok (OpBatch now rs) = list_all (\<lambda>(rnd, env, req). int64_range (cr_MaxAttempts req)) rs"
| "op_ok _ = True"

inductive reachable :: "State \<Rightarrow> bool" where
  init: "reachable (NewState now)"
| step: "reachable s \<Longrightarrow> op_ok op \<Longrightarrow> reachable (exec op s)"

fun created_ids :: "manager_op \<Rightarrow> id list" where
  "created_ids (OpCreate rnd now env req) = [newJobID rnd]"
| "created_ids (OpBatch now rs) = map (\<lambda>x. newJobID (fst x)) rs"
| "created_ids _ = []"

text \<open>The two operations that only the coordinator of distributed generation uses.\<close>

fun coordinator_op :: "manager_op \<Rightarrow> bool" where
  "coordinator_op (OpStage now i nxt detail) = True"
| "coordinator_op (OpCoordinator now i result err) = True"
| "coordinator_op _ = False"

subsection \<open>The invariant of the state\<close>

definition conversation_ok :: "id \<Rightarrow> Conversation \<Rightarrow> bool" where
  "conversation_ok i c \<longleftrightarrow> cv_ID c = i \<and> history_ok (cv_Messages c)"

definition memory_ok :: "id \<Rightarrow> Memory \<Rightarrow> bool" where
  "memory_ok i m \<longleftrightarrow> i \<noteq> [] \<and> me_ID m = i \<and> me_ModelID m \<noteq> [] \<and> me_Key m \<noteq> [] \<and> me_Value m \<noteq> []"

definition health_ok :: "string \<Rightarrow> RPCHealthRecord \<Rightarrow> bool" where
  "health_ok e r \<longleftrightarrow> e \<noteq> [] \<and> hr_Endpoint r = e \<and> TrimSpace e = e \<and> (hr_Ready r \<longrightarrow> hr_ConsecutiveFailures r = 0)"

definition benchmarks_ok :: "id \<Rightarrow> (BenchmarkKind, BenchmarkResult) go_map \<Rightarrow> bool" where
  "benchmarks_ok i m \<longleftrightarrow> map_wf m \<and> (\<forall>k r. mget m k = Some r \<longrightarrow> br_NodeID r = i \<and> br_Kind r = k)"

definition map_all :: "('k \<Rightarrow> 'v \<Rightarrow> bool) \<Rightarrow> ('k, 'v) go_map \<Rightarrow> bool" where
  "map_all P m \<longleftrightarrow> map_wf m \<and> (\<forall>k v. mget m k = Some v \<longrightarrow> P k v)"

definition node_ok :: "id \<Rightarrow> Node \<Rightarrow> bool" where
  "node_ok i n \<longleftrightarrow> n_ID n = i \<and> i \<noteq> []"

definition state_wf :: "State \<Rightarrow> bool" where
  "state_wf s \<longleftrightarrow> map_all node_ok (nodes s) \<and> map_all job_ok (jobs s)
     \<and> map_all conversation_ok (conversations s) \<and> map_all memory_ok (memories s)
     \<and> map_all health_ok (rpcHealth s) \<and> map_all benchmarks_ok (benchmarks s)"

lemma map_all_Nil [simp]: "map_all P []"
  by (simp add: map_all_def)

lemma map_all_mput [intro]: "map_all P m \<Longrightarrow> P k v \<Longrightarrow> map_all P (mput k v m)"
  by (simp add: map_all_def)

lemma map_all_mdel [intro]: "map_all P m \<Longrightarrow> map_all P (mdel k m)"
  by (simp add: map_all_def)

lemma map_all_filter: "map_all P m \<Longrightarrow> map_all P (filter (\<lambda>(k, v). Q k v) m)"
  by (auto simp: map_all_def mget_filter split: option.splits if_splits)

lemma map_all_get: "map_all P m \<Longrightarrow> mget m k = Some v \<Longrightarrow> P k v"
  by (simp add: map_all_def)

lemma node_ids_ok_iff: "node_ids_ok s \<longleftrightarrow> map_all node_ok (nodes s)"
  by (simp add: node_ids_ok_def map_all_def node_ok_def)

lemma state_wf_nodes: "state_wf s \<Longrightarrow> node_ids_ok s"
  by (simp add: state_wf_def node_ids_ok_iff)

lemma state_wf_ids: "state_wf s \<Longrightarrow> job_ids_ok s"
  by (auto simp: state_wf_def job_ids_ok_def map_all_def job_ok_def)

lemma state_wf_job: "state_wf s \<Longrightarrow> mget (jobs s) i = Some j \<Longrightarrow> job_ok i j"
  by (auto simp: state_wf_def map_all_def)

text \<open>An operation that changes the jobs as the invariant allows and leaves the rest alone.\<close>

abbreviation jobs_inv :: "State \<Rightarrow> State \<Rightarrow> bool" where
  "jobs_inv \<equiv> job_changes job_ok (\<lambda>i j k. job_ok i j \<longrightarrow> job_ok i k)"

lemma jobs_inv_all:
  assumes "jobs_inv s t" and "map_all job_ok (jobs s)"
  shows "map_all job_ok (jobs t)"
proof -
  have "job_ok i k" if k: "mget (jobs t) i = Some k" for i k
  proof -
    have "job_change job_ok (\<lambda>i j k. job_ok i j \<longrightarrow> job_ok i k) i (mget (jobs s) i) (mget (jobs t) i)"
      using assms(1) unfolding job_changes_def by (elim conjE allE)
    with k show ?thesis
      using map_all_get [OF assms(2), of i] by (auto simp: job_change_def split: option.splits)
  qed
  moreover have "map_wf (jobs t)" using assms by (simp add: job_changes_def map_all_def)
  ultimately show ?thesis by (simp add: map_all_def)
qed

lemma state_wf_jobs:
  "jobs_inv s t \<Longrightarrow> rest t = rest s \<Longrightarrow> state_wf s \<Longrightarrow> state_wf t"
  using jobs_inv_all [of s t] rest_fields [of t s] by (simp add: state_wf_def)

lemma state_wf_node: "state_wf s \<Longrightarrow> node_ok i n \<Longrightarrow> state_wf (put_node i n s)"
  by (auto simp: state_wf_def)

lemma state_wf_schedule: "state_wf s \<Longrightarrow> state_wf (scheduleQueuedJobsLocked q now s)"
  by (rule state_wf_jobs [OF inv.schedule_changes]) auto

lemma state_wf_fail: "state_wf s \<Longrightarrow> state_wf (failActiveJobsForWorkerLocked q n now reason s)"
  by (rule state_wf_jobs [OF inv.fail_changes]) auto

lemma newIDs_nonempty [simp]: "newNodeID r \<noteq> []" "newJobID r \<noteq> []" "newMemoryID r \<noteq> []"
  by (simp_all add: newNodeID_def newJobID_def newMemoryID_def split: option.splits)

subsection \<open>Every operation keeps the invariant\<close>

lemma wf_RegisterWorker: "state_wf s \<Longrightarrow> state_wf (fst (RegisterWorker rnd now q req s))"
  by (simp add: RegisterWorker_def Let_def state_wf_schedule state_wf_node node_ok_def)

lemma wf_Heartbeat: "state_wf s \<Longrightarrow> state_wf (fst (Heartbeat_op now q hb s))"
  using state_wf_nodes [of s]
  by (auto simp: Heartbeat_op_def node_ids_ok_def node_ok_def intro!: state_wf_schedule state_wf_node
      split: option.splits)

lemma wf_MarkWorkerOffline: "state_wf s \<Longrightarrow> state_wf (fst (MarkWorkerOffline now q n s))"
  using state_wf_nodes [of s]
  by (auto simp: MarkWorkerOffline_def markWorkerOfflineLocked_def node_ids_ok_def node_ok_def
      intro!: state_wf_fail state_wf_node split: option.splits)

lemma wf_nodes_one:
  "state_wf s \<Longrightarrow> mget (nodes s) k = Some n \<Longrightarrow> state_wf (fst (nodes_one now qs n s))"
  using state_wf_nodes [of s]
  by (auto simp: nodes_one_def Let_def node_ids_ok_def node_ok_def intro!: state_wf_fail state_wf_node)

lemma wf_nodes_loop: "state_wf s \<Longrightarrow> state_wf (fst (nodes_loop now qs ks out s))"
proof (induction ks arbitrary: out s)
  case Nil
  then show ?case by simp
next
  case (Cons k ks)
  show ?case
  proof (cases "mget (nodes s) k")
    case None
    with Cons show ?thesis by simp
  next
    case (Some n)
    obtain s' n' where one: "nodes_one now qs n s = (s', n')" by force
    with wf_nodes_one [OF Cons.prems Some, of now qs] have "state_wf s'" by simp
    with Some one Cons.IH show ?thesis by simp
  qed
qed

lemma wf_PutBenchmark: "state_wf s \<Longrightarrow> state_wf (fst (PutBenchmark now r s))"
proof -
  assume wf: "state_wf s"
  let ?m = "node_benchmarks s (br_NodeID r)"
  have "benchmarks_ok (br_NodeID r) ?m"
    using wf by (auto simp: node_benchmarks_def state_wf_def map_all_def benchmarks_ok_def split: option.splits)
  then have "benchmarks_ok (br_NodeID r) (mput (br_Kind r) x ?m)"
    if "br_NodeID x = br_NodeID r" "br_Kind x = br_Kind r" for x
    using that by (simp add: benchmarks_ok_def)
  with wf show ?thesis
    by (auto simp: PutBenchmark_def Let_def state_wf_def split: option.splits)
qed

lemma wf_PutRPCHealth: "state_wf s \<Longrightarrow> state_wf (fst (PutRPCHealth now u s))"
  by (auto simp: PutRPCHealth_def Let_def state_wf_def health_ok_def intro!: map_all_mput)

lemma wf_Create: "int64_range (cr_MaxAttempts req) \<Longrightarrow> state_wf s \<Longrightarrow> state_wf (fst (CreateJob rnd now env req s))"
  by (rule state_wf_jobs [OF inv.Create_changes]) (simp_all add: CreateJob_def Let_def)

lemma rest_batch [simp]: "rest (fst (batch_loop now rs created s)) = rest s"
  by (induction rs arbitrary: created s) (auto simp: Let_def)

lemma wf_Batch:
  "\<forall>x \<in> set rs. int64_range (cr_MaxAttempts (snd (snd x))) \<Longrightarrow> state_wf s \<Longrightarrow>
     state_wf (fst (CreateJobsBatch now rs s))"
  by (rule state_wf_jobs [OF inv.Batch_changes]) (simp_all add: CreateJobsBatch_def)

lemma rest_Next [simp]: "rest (fst (next_loop n now ord s)) = rest s"
  by (induction ord) (auto simp: Let_def split: option.splits)

lemma wf_Next: "state_wf s \<Longrightarrow> state_wf (fst (NextJobForWorker now ord n s))"
  by (rule state_wf_jobs [OF inv.Next_changes]) (simp_all add: state_wf_ids NextJobForWorker_def)

lemma wf_Progress: "state_wf s \<Longrightarrow> state_wf (fst (UpdateJobProgress now i req s))"
  by (rule state_wf_jobs [OF inv.Progress_changes])
    (auto simp: state_wf_ids UpdateJobProgress_def Let_def split: option.splits)

lemma wf_Stage: "state_wf s \<Longrightarrow> state_wf (fst (UpdateCDIPStageState now i nxt detail s))"
  by (rule state_wf_jobs [OF inv.Stage_changes])
    (auto simp: state_wf_ids UpdateCDIPStageState_def Let_def split: option.splits)

lemma wf_Coordinator: "state_wf s \<Longrightarrow> state_wf (fst (CompleteCoordinatorJob now i r e s))"
  by (rule state_wf_jobs [OF inv.Coordinator_changes])
    (auto simp: state_wf_ids CompleteCoordinatorJob_def Let_def split: option.splits)

lemma wf_Cancel: "state_wf s \<Longrightarrow> state_wf (fst (CancelJob now q i s))"
  by (rule state_wf_jobs [OF inv.Cancel_changes])
    (auto simp: state_wf_ids CancelJob_def Let_def split: option.splits)

lemma state_wf_conversation:
  "state_wf s \<Longrightarrow> conversation_ok i c \<Longrightarrow> state_wf (s\<lparr>conversations := mput i c (conversations s)\<rparr>)"
  by (auto simp: state_wf_def)

lemma state_wf_append_assistant: "state_wf s \<Longrightarrow> state_wf (appendAssistantMessageForJobLocked j now s)"
  by (auto simp: appendAssistantMessageForJobLocked_def Let_def conversation_ok_def new_conversation_def
      state_wf_def map_all_def split: prod.splits option.splits)

lemma state_wf_cleanup:
  "state_wf s \<Longrightarrow> cleanupModelPersistenceForDeleteJobLocked j s = (t, r) \<Longrightarrow> state_wf t"
  by (auto simp: cleanupModelPersistenceForDeleteJobLocked_def delete_memories_of_def delete_conversations_of_def
      state_wf_def map_all_filter split: if_splits option.splits)

lemma state_wf_put_job: "state_wf s \<Longrightarrow> job_ok i j \<Longrightarrow> state_wf (put_job i j s)"
  by (auto simp: state_wf_def)

lemma wf_Complete:
  assumes "state_wf s"
  shows "state_wf (fst (CompleteJob now env q i req s))"
proof (cases "mget (jobs s) i")
  case None
  with assms show ?thesis by (simp add: CompleteJob_def)
next
  case (Some j)
  note ok = state_wf_job [OF assms Some]
  show ?thesis
  proof (cases "j_AssignedTo j = co_NodeID req \<and> j_Status j = StatusRunning")
    case False
    with Some assms show ?thesis by (auto simp: CompleteJob_def)
  next
    case running: True
    let ?j1 = "j\<lparr>j_Result := co_Result req, j_Error := co_Error req, j_UpdatedAt := now\<rparr>"
    let ?j2 = "?j1\<lparr>j_Status := StatusSucceeded, j_FinishedAt := now\<rparr>"
    have ok1: "job_ok i ?j1" using inv.report running ok by blast
    have ok2: "job_ok i (?j2\<lparr>j_Result := x\<rparr>)" for x
      using ok by (simp add: job_ok_def active_def terminal_def)
    obtain t r where cl: "cleanupModelPersistenceForDeleteJobLocked ?j2 (appendAssistantMessageForJobLocked ?j2 now s) = (t, r)"
      by force
    have t: "state_wf t" using cl assms state_wf_append_assistant state_wf_cleanup by blast
    have "job_ok i (rescheduleOrFailJobLocked s env ?j1 (co_NodeID req) now (co_Error req))"
      using job_ok_retry [of ?j1 i] ok1 running by (simp add: active_def)
    then have retry: "state_wf (scheduleQueuedJobsLocked q now (put_job i
        (rescheduleOrFailJobLocked s env ?j1 (co_NodeID req) now (co_Error req)) s))"
      by (intro state_wf_schedule state_wf_put_job assms)
    have finished: "state_wf (scheduleQueuedJobsLocked q now (put_job (j_ID k) k t))" if k: "r = Some k" for k
    proof -
      from k cleanup_jobs [OF cl] obtain x where "k = ?j2\<lparr>j_Result := x\<rparr>" by auto
      with ok2 [of x] have "job_ok i k" "j_ID k = i" by (auto simp: job_ok_def)
      with t show ?thesis by (auto intro: state_wf_schedule state_wf_put_job)
    qed
    have "j_ID j = i" using ok by (simp add: job_ok_def)
    with Some running cl t retry finished show ?thesis
      by (cases "co_Error req = []"; cases r) (simp_all add: CompleteJob_def Let_def)
  qed
qed

subsection \<open>Memories\<close>

lemma find_memory_Some:
  "find_memory ms model key ord = i \<Longrightarrow> i \<noteq> [] \<Longrightarrow>
     \<exists>m. mget ms i = Some m \<and> me_ModelID m = model \<and> me_Key m = key"
  by (induction ord) (auto split: option.splits if_splits)

lemma upsert_one_ok:
  assumes "map_all memory_ok ms" and "me_ModelID m \<noteq> []" "me_Key m \<noteq> []" "me_Value m \<noteq> []" "me_ID m \<noteq> []"
  shows "map_all memory_ok (upsert_one ord now m ms)"
proof (cases "find_memory ms (me_ModelID m) (me_Key m) ord = []")
  case True
  with assms show ?thesis by (auto simp: upsert_one_def memory_ok_def)
next
  case False
  then obtain e where e: "mget ms (find_memory ms (me_ModelID m) (me_Key m) ord) = Some e"
    using find_memory_Some by blast
  with assms(1) have "memory_ok (find_memory ms (me_ModelID m) (me_Key m) ord) e" by (rule map_all_get)
  with False e assms show ?thesis by (auto simp: upsert_one_def memory_ok_def)
qed

lemma upsert_loop_ok:
  assumes "map_all memory_ok ms" and "\<forall>m \<in> set new. me_ModelID m \<noteq> [] \<and> me_Key m \<noteq> [] \<and> me_Value m \<noteq> [] \<and> me_ID m \<noteq> []"
  shows "map_all memory_ok (upsert_loop ords now n new ms)"
  using assms by (induction new arbitrary: n ms) (auto simp: upsert_one_ok)

lemma extract_loop_IDs:
  "\<forall>m \<in> set out. me_ID m \<noteq> [] \<Longrightarrow> m \<in> set (extract_loop lower rnd mid cid c t ps seen out) \<Longrightarrow> me_ID m \<noteq> []"
proof (induction ps arbitrary: seen out)
  case Nil
  then show ?case by simp
next
  case (Cons p ps)
  obtain key pat where p: "p = (key, pat)" by force
  have step: "extract_loop lower rnd mid cid c t (p # ps) seen out = extract_loop lower rnd mid cid c t ps seen out
    \<or> (\<exists>seen' m. extract_loop lower rnd mid cid c t (p # ps) seen out
        = extract_loop lower rnd mid cid c t ps seen' (out @ [m]) \<and> me_ID m = newMemoryID (rnd (length out)))"
    by (cases "FindStringSubmatch pat False c") (force simp: p Let_def)+
  show ?case
    using step Cons.prems Cons.IH by (metis Un_iff empty_iff insert_iff list.set newIDs_nonempty(3) set_append)
qed

lemma upsert_extracted_ok:
  assumes "map_all memory_ok (memories s)"
  shows "map_all memory_ok (memories (upsertExtractedMemoriesLocked x modelID cid content now s))"
proof -
  have "me_ModelID m \<noteq> [] \<and> me_Key m \<noteq> [] \<and> me_Value m \<noteq> [] \<and> me_ID m \<noteq> []"
    if m: "m \<in> set (extractMemories (x_lower x) (x_rnd x) modelID cid content now)" for m
  proof -
    from m have "modelID \<noteq> []" by (auto simp: extractMemories_def Let_def)
    moreover have "me_ID m \<noteq> []"
      using m extract_loop_IDs [of "[]"] by (auto simp: extractMemories_def Let_def split: if_splits)
    ultimately show ?thesis using extractMemories_ok [OF m] by (auto simp: extracted_ok_def)
  qed
  with assms show ?thesis by (simp add: upsertExtractedMemoriesLocked_def upsert_loop_ok)
qed

lemma upsert_frame [simp, frame_simps]:
  "jobs (upsertExtractedMemoriesLocked x m c t now s) = jobs s"
  "nodes (upsertExtractedMemoriesLocked x m c t now s) = nodes s"
  "conversations (upsertExtractedMemoriesLocked x m c t now s) = conversations s"
  "rpcHealth (upsertExtractedMemoriesLocked x m c t now s) = rpcHealth s"
  "benchmarks (upsertExtractedMemoriesLocked x m c t now s) = benchmarks s"
  by (simp_all add: upsertExtractedMemoriesLocked_def)

lemma state_wf_upsert_extracted:
  "state_wf s \<Longrightarrow> state_wf (upsertExtractedMemoriesLocked x m c t now s)"
  by (simp add: state_wf_def upsert_extracted_ok)

lemma append_conversation_ok:
  assumes "map_all conversation_ok (conversations s)"
  shows "conversation_ok i (snd (AppendConversationMessage now x i m n p msg s))"
  using map_all_get [OF assms, of i]
  by (cases "mget (conversations s) i")
    (simp_all add: AppendConversationMessage_def Let_def conversation_ok_def new_conversation_def)

lemma append_state:
  "\<exists>t. fst (AppendConversationMessage now x i m n p msg s) =
      t\<lparr>conversations := mput i (snd (AppendConversationMessage now x i m n p msg s)) (conversations t)\<rparr>
    \<and> (t = s \<or> (\<exists>c. t = upsertExtractedMemoriesLocked x m c (cm_Content (normalizeChatMessage msg)) now s))"
  unfolding AppendConversationMessage_def Let_def fst_conv snd_conv
  by (rule exI, rule conjI, rule refl) auto

lemma wf_Append:
  assumes "state_wf s"
  shows "state_wf (fst (AppendConversationMessage now x i m n p msg s))"
proof -
  have ok: "conversation_ok i (snd (AppendConversationMessage now x i m n p msg s))"
    using assms by (intro append_conversation_ok) (simp add: state_wf_def)
  obtain t where t: "fst (AppendConversationMessage now x i m n p msg s) =
      t\<lparr>conversations := mput i (snd (AppendConversationMessage now x i m n p msg s)) (conversations t)\<rparr>"
    and "t = s \<or> (\<exists>c. t = upsertExtractedMemoriesLocked x m c (cm_Content (normalizeChatMessage msg)) now s)"
    using append_state by blast
  then have "state_wf t" using assms state_wf_upsert_extracted by blast
  then show ?thesis unfolding t by (rule state_wf_conversation [OF _ ok])
qed

lemma wf_DeleteConversation: "state_wf s \<Longrightarrow> state_wf (fst (DeleteConversation i s))"
  by (auto simp: DeleteConversation_def state_wf_def)

lemma wf_UpsertMemory: "state_wf s \<Longrightarrow> state_wf (fst (UpsertMemory rnd now m s))"
  by (auto simp: UpsertMemory_def Let_def state_wf_def memory_ok_def intro!: map_all_mput split: option.splits)

lemma wf_DeleteMemory: "state_wf s \<Longrightarrow> state_wf (fst (DeleteMemory i s))"
  by (auto simp: DeleteMemory_def state_wf_def)

lemma wf_DeleteMemories: "state_wf s \<Longrightarrow> state_wf (fst (DeleteMemoriesByModel m s))"
  by (auto simp: DeleteMemoriesByModel_def delete_memories_of_def state_wf_def map_all_filter)

lemmas op_wf = wf_RegisterWorker wf_Heartbeat wf_MarkWorkerOffline wf_nodes_loop wf_PutBenchmark wf_PutRPCHealth
  wf_Create wf_Batch wf_Next wf_Complete wf_Progress wf_Stage wf_Coordinator wf_Cancel wf_Append
  wf_DeleteConversation wf_UpsertMemory wf_DeleteMemory wf_DeleteMemories

lemma exec_wf: "state_wf s \<Longrightarrow> op_ok op \<Longrightarrow> state_wf (exec op s)"
  by (cases op) (auto simp: op_wf Nodes_def list_all_iff split: prod.splits intro!: wf_Batch)

lemma NewState_wf: "state_wf (NewState now)"
  by (simp add: state_wf_def NewState_def)

lemma reachable_wf: "reachable s \<Longrightarrow> state_wf s"
  by (induction rule: reachable.induct) (auto intro: NewState_wf exec_wf)

text \<open>
  C8. In every state a manager can reach, each map holds its values under their own identifiers; no job has
  been dispatched more often than its limit allows, a waiting job can still be dispatched, a scheduled or
  running job has a worker and has been dispatched, and a job has one of the six known statuses; each stored
  conversation has at most 40 messages, all normalised and none empty; memories are complete; and an endpoint that is ready has no
  consecutive failures.
\<close>

theorem reachable_state_ok:
  assumes "reachable s"
  shows "map_all node_ok (nodes s) \<and> map_all job_ok (jobs s) \<and> map_all conversation_ok (conversations s)
    \<and> map_all memory_ok (memories s) \<and> map_all health_ok (rpcHealth s)"
  using reachable_wf [OF assms] by (simp add: state_wf_def)

definition demo_job_request :: CreateRequest where
  "demo_job_request = \<lparr>cr_Type = JobInstall, cr_Input = [], cr_RequestedBy = ''op'', cr_AssignedTo = [],
     cr_Requirements = demo_req 0, cr_MaxAttempts = 2, cr_NoAutoAssign = False, cr_CDIPState = StageUnset,
     cr_CDIPParentJobID = [], cr_CDIPStageIndex = 0\<rparr>"

definition demo_create :: manager_op where
  "demo_create = OpCreate (Some [1]) 10 (demo_pick 10) demo_job_request"

lemma demo_reachable: "reachable (exec demo_create (NewState 5))"
  by (rule reachable.step [OF reachable.init])
    (simp add: demo_create_def demo_job_request_def int64_range_def)

theorem reachable_state_ok_witness:
  "reachable (exec demo_create (NewState 5)) \<and> length (jobs (exec demo_create (NewState 5))) = 1
   \<and> map_all job_ok (jobs (exec demo_create (NewState 5)))"
proof -
  have "length (jobs (exec demo_create (NewState 5))) = 1"
    by (simp add: demo_create_def CreateJob_def Let_def NewState_def mput_def)
  with reachable_state_ok [OF demo_reachable] demo_reachable show ?thesis by simp
qed

end
