(* ===== verification/Guarantees.thy ===== *)
theory Guarantees
  imports Manager
begin

section \<open>What the manager guarantees across operations\<close>

text \<open>
  The relations of Lifecycle lifted to whole operations, and the guarantees about the scheduling of jobs: jobs keep what was
  asked for, ended jobs stay ended, workers are not given more jobs than they have slots, lost workers are
  left without active jobs, and no job waits while a worker could take it.
\<close>

text \<open>The identifiers of new jobs are new: what the random bytes of \<open>newJobID\<close> are meant to give.\<close>

definition fresh_ids :: "manager_op \<Rightarrow> State \<Rightarrow> bool" where
  "fresh_ids op s \<longleftrightarrow> distinct (created_ids op) \<and> list_all (\<lambda>i. mget (jobs s) i = None) (created_ids op)"

lemma other_ops_jobs [simp]:
  "jobs (fst (PutBenchmark now r s)) = jobs s" "jobs (fst (PutRPCHealth now u s)) = jobs s"
  "jobs (fst (AppendConversationMessage now x i m n p msg s)) = jobs s"
  "jobs (fst (DeleteConversation i s)) = jobs s" "jobs (fst (UpsertMemory rnd now mem s)) = jobs s"
  "jobs (fst (DeleteMemory i s)) = jobs s" "jobs (fst (DeleteMemoriesByModel m s)) = jobs s"
  by (auto simp: PutBenchmark_def PutRPCHealth_def AppendConversationMessage_def DeleteConversation_def
      UpsertMemory_def DeleteMemory_def DeleteMemoriesByModel_def delete_memories_of_def Let_def split: option.splits)

context worker_relation
begin

lemma exec_changes:
  assumes "job_ids_ok s" and "op_ok op" and "fresh_ids op s" and "\<not> coordinator_op op"
  shows "job_changes N R s (exec op s)"
proof (cases op)
  case (OpBatch now rs)
  with assms show ?thesis
    by (auto intro!: Batch_changes simp: fresh_ids_def list_all_iff)
next
  case (OpCreate rnd now env req)
  with assms show ?thesis by (auto intro!: Create_changes simp: fresh_ids_def)
qed (use assms in \<open>simp_all add: Register_changes Heartbeat_changes Offline_changes Nodes_changes Next_changes
  Complete_changes Progress_changes Cancel_changes changes_jobs_eq\<close>)

end

context manager_relation
begin

lemma exec_all_changes:
  assumes "job_ids_ok s" and "op_ok op" and "fresh_ids op s"
  shows "job_changes N R s (exec op s)"
proof (cases "coordinator_op op")
  case True
  then show ?thesis
    using assms by (cases op) (simp_all add: Stage_changes Coordinator_changes)
next
  case False
  with assms show ?thesis by (rule exec_changes)
qed

end

lemma job_changes_get:
  assumes "job_changes N R s t" and "mget (jobs s) i = Some j"
  obtains k where "mget (jobs t) i = Some k" and "R i j k"
proof -
  have "job_change N R i (mget (jobs s) i) (mget (jobs t) i)"
    using assms(1) unfolding job_changes_def by (elim conjE allE)
  with assms(2) that show ?thesis by (auto simp: job_change_def split: option.splits)
qed

text \<open>Moving a stage job to \<open>preparing\<close> schedules it on its worker without looking at the slots.\<close>

fun bypasses_slots :: "manager_op \<Rightarrow> bool" where
  "bypasses_slots (OpStage now i nxt detail) = (nxt = StagePreparing)"
| "bypasses_slots _ = False"

subsection \<open>A small run, for the examples\<close>

text \<open>One worker registers and one job is created, which is scheduled on it.\<close>

definition demo_join :: JoinRequest where
  "demo_join = \<lparr>jr_NodeName = ''w'', jr_Role = NodeRoleWorker, jr_Endpoint = [], jr_JoinToken = [],
     jr_Resources = zero_resources\<rparr>"

definition demo_env :: "time \<Rightarrow> pick_env" where
  "demo_env t = \<lparr>p_now = t, p_nodes = [''node-02''], p_kinds = (\<lambda>i. [])\<rparr>"

definition demo_jobs :: "id list \<Rightarrow> time \<Rightarrow> jobs_env" where
  "demo_jobs is t = \<lparr>q_jobs = is, q_pick = (\<lambda>i. demo_env t)\<rparr>"

definition demo_registered :: State where
  "demo_registered = exec (OpRegister (Some [2]) 10 (demo_jobs [] 10) demo_join) (NewState 5)"

definition demo_running :: State where
  "demo_running = exec (OpCreate (Some [1]) 15 (demo_env 15) demo_job_request) demo_registered"

definition demo_canceled :: State where
  "demo_canceled = exec (OpCancel 16 (demo_jobs [''job-01''] 16) ''job-01'') demo_running"

text \<open>The states again for evaluation, without the other operations.\<close>

lemma demo_registered_code [code]:
  "demo_registered = fst (RegisterWorker (Some [2]) 10 (demo_jobs [] 10) demo_join (NewState 5))"
  by (simp add: demo_registered_def)

lemma demo_running_code [code]:
  "demo_running = fst (CreateJob (Some [1]) 15 (demo_env 15) demo_job_request demo_registered)"
  by (simp add: demo_running_def)

lemma demo_canceled_code [code]:
  "demo_canceled = fst (CancelJob 16 (demo_jobs [''job-01''] 16) ''job-01'' demo_running)"
  by (simp add: demo_canceled_def)

lemma demo_facts:
  "map_option j_Attempts (mget (jobs demo_running) ''job-01'') = Some 1"
  "activeJobsForWorkerLocked demo_running ''node-02'' = 1"
  "map_option j_Status (mget (jobs demo_canceled) ''job-01'') = Some StatusCanceled"
  "mkeys (jobs demo_running) = [''job-01'']" "mkeys (nodes demo_running) = [''node-02'']"
  "map_option n_ID (mget (nodes demo_running) ''node-02'') = Some ''node-02''"
proof -
  have "map_option j_Attempts (mget (jobs demo_running) ''job-01'') = Some 1
    \<and> activeJobsForWorkerLocked demo_running ''node-02'' = 1
    \<and> map_option j_Status (mget (jobs demo_canceled) ''job-01'') = Some StatusCanceled
    \<and> mkeys (jobs demo_running) = [''job-01''] \<and> mkeys (nodes demo_running) = [''node-02'']
    \<and> map_option n_ID (mget (nodes demo_running) ''node-02'') = Some ''node-02''"
    by code_simp
  then show "map_option j_Attempts (mget (jobs demo_running) ''job-01'') = Some 1"
    "activeJobsForWorkerLocked demo_running ''node-02'' = 1"
    "map_option j_Status (mget (jobs demo_canceled) ''job-01'') = Some StatusCanceled"
    "mkeys (jobs demo_running) = [''job-01'']" "mkeys (nodes demo_running) = [''node-02'']"
    "map_option n_ID (mget (nodes demo_running) ''node-02'') = Some ''node-02''" by simp_all
qed

definition demo_heartbeat :: manager_op where
  "demo_heartbeat = OpHeartbeat 20 (demo_jobs [''job-01''] 20) \<lparr>hb_NodeID = ''node-02'', hb_At = 20, hb_Resources = zero_resources\<rparr>"

lemma demo_request_ok: "int64_range (cr_MaxAttempts demo_job_request)"
  by (simp add: demo_job_request_def int64_range_def)

lemma demo_running_reachable: "reachable demo_running"
  unfolding demo_running_def demo_registered_def
  by (intro reachable.intros) (simp_all add: demo_request_ok)

lemma demo_canceled_reachable: "reachable demo_canceled"
  unfolding demo_canceled_def by (rule reachable.step [OF demo_running_reachable]) simp

lemma demo_heartbeat_ok [simp]: "op_ok demo_heartbeat" "fresh_ids demo_heartbeat s" "\<not> coordinator_op demo_heartbeat"
  "\<not> bypasses_slots demo_heartbeat"
  by (simp_all add: demo_heartbeat_def fresh_ids_def)

text \<open>
  C9. A job that has succeeded, failed or been canceled is never changed again by any operation other than
  the two of the distributed coordinator.
\<close>

theorem ended_jobs_stay_ended:
  assumes "reachable s" and "op_ok op" and "fresh_ids op s" and "\<not> coordinator_op op"
    and "mget (jobs s) i = Some j" and "terminal (j_Status j)"
  shows "mget (jobs (exec op s)) i = Some j"
proof -
  have "job_ids_ok s" using assms(1) by (intro state_wf_ids reachable_wf)
  then have "job_changes (\<lambda>i j. True) (\<lambda>i j k. terminal (j_Status j) \<longrightarrow> k = j) s (exec op s)"
    using assms by (intro ended.exec_changes)
  then show ?thesis using assms(5,6) by (elim job_changes_get) auto
qed

theorem ended_jobs_stay_ended_witness:
  "map_option j_Status (mget (jobs demo_canceled) ''job-01'') = Some StatusCanceled
   \<and> mget (jobs (exec demo_heartbeat demo_canceled)) ''job-01'' = mget (jobs demo_canceled) ''job-01''"
proof -
  have st: "map_option j_Status (mget (jobs demo_canceled) ''job-01'') = Some StatusCanceled" by (rule demo_facts)
  then obtain j where "mget (jobs demo_canceled) ''job-01'' = Some j" "terminal (j_Status j)"
    by (auto simp: terminal_def)
  with ended_jobs_stay_ended [OF demo_canceled_reachable] st show ?thesis by simp
qed



subsection \<open>Workers are not overcommitted\<close>

definition worker_slots :: "State \<Rightarrow> id \<Rightarrow> int" where
  "worker_slots s w = (case mget (nodes s) w of None \<Rightarrow> 0 | Some n \<Rightarrow> workerJobSlots n)"

definition occupies :: "id \<Rightarrow> Job \<Rightarrow> bool" where
  "occupies w j \<longleftrightarrow> j_AssignedTo j = w \<and> active (j_Status j)"

text \<open>A step that gives jobs only to workers with a free slot.\<close>

definition fits :: "State \<Rightarrow> State \<Rightarrow> bool" where
  "fits s t \<longleftrightarrow> (\<forall>w. worker_slots t w = worker_slots s w
     \<and> activeJobsForWorkerLocked t w \<le> max (activeJobsForWorkerLocked s w) (worker_slots s w))"

lemma active_count: "activeJobsForWorkerLocked s w = int (mcount (occupies w) (jobs s))"
  unfolding activeJobsForWorkerLocked_def occupies_def active_def by (rule arg_cong) simp

lemma fits_refl [simp]: "fits s s"
  by (simp add: fits_def)

lemma fits_trans: "fits s t \<Longrightarrow> fits t u \<Longrightarrow> fits s u"
  unfolding fits_def by (smt (verit))

lemma fits_put:
  assumes "map_wf (jobs s)"
    and "\<And>w. occupies w k \<Longrightarrow> activeJobsForWorkerLocked s w < worker_slots s w
      \<or> (\<exists>j. mget (jobs s) i = Some j \<and> occupies w j)"
  shows "fits s (put_job i k s)"
proof -
  have "activeJobsForWorkerLocked (put_job i k s) w \<le> max (activeJobsForWorkerLocked s w) (worker_slots s w)" for w
  proof (cases "occupies w k")
    case False
    with mcount_mput_le [OF assms(1), of "occupies w" i k] show ?thesis by (simp add: active_count)
  next
    case True
    with assms(2) consider "activeJobsForWorkerLocked s w < worker_slots s w"
      | j where "mget (jobs s) i = Some j" "occupies w j" by blast
    then show ?thesis
    proof cases
      case 1
      with True mcount_mput_le [OF assms(1), of "occupies w" i k] show ?thesis by (simp add: active_count)
    next
      case 2
      with True mcount_mput_old [OF assms(1), of i j "occupies w" k] show ?thesis by (simp add: active_count)
    qed
  qed
  then show ?thesis by (simp add: fits_def worker_slots_def)
qed

lemma eligible_free:
  assumes "node_ids_ok s" and "eligible s now req ex w"
  shows "activeJobsForWorkerLocked s w < worker_slots s w"
  using assms by (auto simp: eligible_def worker_slots_def nodeCanAccept_iff node_ids_ok_def split: option.splits)

lemma pick_free:
  "node_ids_ok s \<Longrightarrow> pickWorkerExcludingLocked s env req ex \<noteq> [] \<Longrightarrow>
     activeJobsForWorkerLocked s (pickWorkerExcludingLocked s env req ex)
       < worker_slots s (pickWorkerExcludingLocked s env req ex)"
  using eligible_free pick_spec by blast

lemma state_wf_map [simp]: "state_wf s \<Longrightarrow> map_wf (jobs s)"
  by (simp add: state_wf_def map_all_def)

lemma not_occupies [simp]: "\<not> active (j_Status j) \<Longrightarrow> \<not> occupies w j"
  by (simp add: occupies_def)

lemma assign_occupies: "occupies w (assign_job w' now j) \<longleftrightarrow> w = w'"
  by (auto simp: occupies_def assign_job_def active_def)

lemma schedule_one_fits: "state_wf s \<Longrightarrow> fits s (schedule_one now env i s)"
  using pick_free [OF state_wf_nodes]
  by (auto simp: schedule_one_def Let_def pickWorkerLocked_def assign_occupies active_def
      intro!: fits_put split: option.splits)

lemma state_wf_schedule_one: "state_wf s \<Longrightarrow> state_wf (schedule_one now env i s)"
  by (rule state_wf_jobs [OF inv.schedule_one_changes]) auto

lemma schedule_loop_fits: "state_wf s \<Longrightarrow> fits s (schedule_loop now envs is s)"
proof (induction "is" arbitrary: s)
  case (Cons i "is")
  show ?case
    unfolding schedule_loop.simps
    by (rule fits_trans [OF schedule_one_fits [OF Cons.prems] Cons.IH [OF state_wf_schedule_one [OF Cons.prems]]])
qed simp

lemma schedule_fits: "state_wf s \<Longrightarrow> fits s (scheduleQueuedJobsLocked q now s)"
  by (simp add: scheduleQueuedJobsLocked_def schedule_loop_fits)

lemma retry_occupies:
  assumes "state_wf s" and "occupies w (rescheduleOrFailJobLocked s env j n now reason)"
  shows "activeJobsForWorkerLocked s w < worker_slots s w"
  using assms(2) pick_free [OF state_wf_nodes [OF assms(1)], of env "j_Requirements j" "[n]"]
  by (auto simp: rescheduleOrFailJobLocked_def Let_def occupies_def active_def split: if_splits)

lemma fail_one_fits: "state_wf s \<Longrightarrow> fits s (fail_one n now reason env i s)"
  by (auto simp: fail_one_def intro!: fits_put dest: retry_occupies split: option.splits)

lemma state_wf_fail_one: "state_wf s \<Longrightarrow> state_wf (fail_one n now reason env i s)"
  by (rule state_wf_jobs [OF inv.fail_one_changes]) auto

lemma fail_loop_fits: "state_wf s \<Longrightarrow> fits s (fail_loop n now reason envs is s)"
proof (induction "is" arbitrary: s)
  case (Cons i "is")
  show ?case
    unfolding fail_loop.simps
    by (rule fits_trans [OF fail_one_fits [OF Cons.prems] Cons.IH [OF state_wf_fail_one [OF Cons.prems]]])
qed simp

lemma fail_fits: "state_wf s \<Longrightarrow> fits s (failActiveJobsForWorkerLocked q n now reason s)"
  by (simp add: failActiveJobsForWorkerLocked_def fail_loop_fits)

lemma place_occupies:
  assumes "state_wf s" and "occupies w (place_job s env now req (new_job i now req))"
  shows "activeJobsForWorkerLocked s w < worker_slots s w"
  using assms(2) pick_free [OF state_wf_nodes [OF assms(1)], of env "cr_Requirements req" "[]"]
    state_wf_nodes [OF assms(1)]
  by (auto simp: place_job_def new_job_def Let_def occupies_def active_def pickWorkerLocked_def worker_slots_def
      nodeCanAccept_iff node_ids_ok_def split: if_splits option.splits)

text \<open>The weaker statement that also holds across operations that change a worker's slots.\<close>

definition no_overcommit :: "State \<Rightarrow> State \<Rightarrow> bool" where
  "no_overcommit s t \<longleftrightarrow> (\<forall>w. activeJobsForWorkerLocked t w
     \<le> max (activeJobsForWorkerLocked s w) (worker_slots t w))"

lemma fits_no_overcommit: "fits s t \<Longrightarrow> no_overcommit s t"
  by (simp add: fits_def no_overcommit_def)

lemma no_overcommit_jobs_eq: "jobs t = jobs s \<Longrightarrow> no_overcommit s t"
  by (simp add: no_overcommit_def active_count)

lemma no_overcommit_refl [simp]: "no_overcommit s s"
  by (rule no_overcommit_jobs_eq) simp

lemma fits_jobs_eq: "fits s t \<Longrightarrow> jobs s = jobs s' \<Longrightarrow> no_overcommit s' t"
  by (simp add: fits_def no_overcommit_def active_count)

lemma fits_put_schedule:
  "state_wf (put_job i k s) \<Longrightarrow> fits s (put_job i k s) \<Longrightarrow> fits s (scheduleQueuedJobsLocked q now (put_job i k s))"
  by (rule fits_trans [OF _ schedule_fits])

lemma slots_put_node:
  "mget (nodes s) i = Some n \<Longrightarrow> n_Resources n' = n_Resources n \<Longrightarrow> fits s (put_node i n' s)"
  by (simp add: fits_def worker_slots_def active_count workerJobSlots_def)

lemma nodes_one_fits:
  assumes "state_wf s" and "mget (nodes s) k = Some n"
  shows "fits s (fst (nodes_one now qs n s))"
proof -
  have n: "n_ID n = k" "k \<noteq> []" using assms state_wf_nodes by (auto simp: node_ids_ok_def)
  let ?n = "(deriveNodeStatus s n now)\<lparr>n_UpdatedAt := now\<rparr>"
  have "state_wf (put_node k ?n s)" using assms n by (intro state_wf_node) (auto simp: node_ok_def)
  moreover have "fits s (put_node k ?n s)" by (rule slots_put_node [OF assms(2)]) simp
  ultimately have "fits s (failActiveJobsForWorkerLocked q k now r (put_node k ?n s))" for q r
    by (rule fits_trans [OF _ fail_fits, rotated])
  with n show ?thesis by (simp add: nodes_one_def Let_def)
qed

lemma nodes_loop_fits: "state_wf s \<Longrightarrow> fits s (fst (nodes_loop now qs ks out s))"
proof (induction ks arbitrary: out s)
  case (Cons k ks)
  show ?case
  proof (cases "mget (nodes s) k")
    case None
    with Cons show ?thesis by simp
  next
    case (Some n)
    obtain s' n' where one: "nodes_one now qs n s = (s', n')" by force
    have s': "fits s s'" "state_wf s'"
      using nodes_one_fits [OF Cons.prems Some, of now qs] wf_nodes_one [OF Cons.prems Some, of now qs] one by auto
    then have "fits s (fst (nodes_loop now qs ks (out @ [n']) s'))" using Cons.IH fits_trans by blast
    with Some one show ?thesis by simp
  qed
qed simp

lemma create_fits:
  "state_wf s \<Longrightarrow> fits s (put_job i (place_job s env now req (new_job i now req)) s)"
  by (rule fits_put) (auto dest: place_occupies)

lemma batch_fits:
  "\<forall>x \<in> set rs. int64_range (cr_MaxAttempts (snd (snd x))) \<Longrightarrow> state_wf s \<Longrightarrow> fits s (fst (batch_loop now rs created s))"
proof (induction rs arbitrary: created s)
  case (Cons x rs)
  obtain rnd env req where x: "x = (rnd, env, req)" by (metis prod_cases3)
  let ?j = "place_job s env now req (new_job (newJobID rnd) now req)"
  have "state_wf (put_job (newJobID rnd) ?j s)"
    using Cons.prems x by (intro state_wf_put_job job_ok_create) auto
  moreover have "\<forall>x \<in> set rs. int64_range (cr_MaxAttempts (snd (snd x)))" using Cons.prems by simp
  ultimately have "fits (put_job (newJobID rnd) ?j s) (fst (batch_loop now rs (created @ [?j]) (put_job (newJobID rnd) ?j s)))"
    by (rule Cons.IH [rotated])
  then show ?case using fits_trans [OF create_fits [OF Cons.prems(2)]] x by (simp add: Let_def)
qed simp

lemma next_fits: "state_wf s \<Longrightarrow> fits s (fst (next_loop n now ord s))"
proof (induction ord)
  case (Cons i ord)
  show ?case
  proof (cases "mget (jobs s) i")
    case None
    with Cons show ?thesis by simp
  next
    case (Some j)
    have "j_ID j = i" using state_wf_job [OF Cons.prems Some] by (simp add: job_ok_def)
    with Cons Some show ?thesis
      by (auto simp: Let_def occupies_def active_def intro!: fits_put)
  qed
qed simp

lemma append_nodes [simp]: "nodes (appendAssistantMessageForJobLocked j now s) = nodes s"
  by (auto simp: appendAssistantMessageForJobLocked_def Let_def split: prod.splits option.splits)

lemma cleanup_nodes: "cleanupModelPersistenceForDeleteJobLocked j s = (t, r) \<Longrightarrow> nodes t = nodes s"
  by (auto simp: cleanupModelPersistenceForDeleteJobLocked_def delete_memories_of_def delete_conversations_of_def
      split: if_splits option.splits)

lemma complete_fits:
  assumes "state_wf s"
  shows "fits s (fst (CompleteJob now env q i req s))"
proof (cases "mget (jobs s) i")
  case None
  then show ?thesis by (simp add: CompleteJob_def)
next
  case (Some j)
  note ok = state_wf_job [OF assms Some]
  have ID: "j_ID j = i" using ok by (simp add: job_ok_def)
  let ?j1 = "j\<lparr>j_Result := co_Result req, j_Error := co_Error req, j_UpdatedAt := now\<rparr>"
  let ?j2 = "?j1\<lparr>j_Status := StatusSucceeded, j_FinishedAt := now\<rparr>"
  let ?r = "rescheduleOrFailJobLocked s env ?j1 (co_NodeID req) now (co_Error req)"
  show ?thesis
  proof (cases "j_AssignedTo j = co_NodeID req \<and> j_Status j = StatusRunning")
    case False
    with Some show ?thesis by (auto simp: CompleteJob_def)
  next
    case running: True
    have ok1: "job_ok i ?j1" using inv.report running ok by blast
    have "job_ok i ?r" using job_ok_retry [of ?j1 i] ok1 running by (simp add: active_def)
    moreover have "fits s (put_job i ?r s)" using assms by (intro fits_put) (auto dest: retry_occupies)
    ultimately have retry: "fits s (scheduleQueuedJobsLocked q now (put_job i ?r s))"
      using assms by (intro fits_put_schedule state_wf_put_job)
    obtain t r where cl: "cleanupModelPersistenceForDeleteJobLocked ?j2 (appendAssistantMessageForJobLocked ?j2 now s) = (t, r)"
      by force
    have t: "state_wf t" using cl assms state_wf_append_assistant state_wf_cleanup by blast
    have "jobs t = jobs s" using cleanup_jobs [OF cl] by simp
    moreover have "nodes t = nodes s" using cleanup_nodes [OF cl] by simp
    ultimately have st: "fits s t" by (simp add: fits_def worker_slots_def active_count)
    have fin: "fits s (scheduleQueuedJobsLocked q now (put_job (j_ID k) k t))" if k: "r = Some k" for k
    proof -
      from k cleanup_jobs [OF cl] obtain x where x: "k = ?j2\<lparr>j_Result := x\<rparr>" by auto
      then have "job_ok (j_ID k) k" using ok by (simp add: job_ok_def active_def terminal_def)
      moreover have "fits t (put_job (j_ID k) k t)" using t x by (intro fits_put) (auto simp: occupies_def active_def)
      ultimately show ?thesis
        using t by (intro fits_trans [OF st] fits_put_schedule state_wf_put_job)
    qed
    from Some ID running cl st retry fin show ?thesis
      by (cases "co_Error req = []"; cases r) (simp_all add: CompleteJob_def Let_def)
  qed
qed

lemma progress_fits: "state_wf s \<Longrightarrow> fits s (fst (UpdateJobProgress now i req s))"
  using state_wf_job [of s i]
  by (auto simp: UpdateJobProgress_def Let_def occupies_def active_def job_ok_def intro!: fits_put split: option.splits)

lemma coordinator_fits: "state_wf s \<Longrightarrow> fits s (fst (CompleteCoordinatorJob now i r e s))"
  by (auto simp: CompleteCoordinatorJob_def Let_def active_def intro!: fits_put split: option.splits)

lemma stage_fits:
  "state_wf s \<Longrightarrow> nxt \<noteq> StagePreparing \<Longrightarrow> fits s (fst (UpdateCDIPStageState now i nxt detail s))"
  using state_wf_job [of s i]
  by (cases nxt) (auto simp: UpdateCDIPStageState_def Let_def stage_status_def occupies_def active_def job_ok_def
      intro!: fits_put split: option.splits)

lemma cancel_fits:
  assumes "state_wf s"
  shows "fits s (fst (CancelJob now q i s))"
proof (cases "mget (jobs s) i")
  case None
  then show ?thesis by (simp add: CancelJob_def)
next
  case (Some j)
  let ?k = "j\<lparr>j_Status := StatusCanceled, j_Error := ''canceled by operator'', j_LastFailure := [],
    j_UpdatedAt := now, j_FinishedAt := now\<rparr>"
  have ok: "job_ok i j" by (rule state_wf_job [OF assms Some])
  then have "job_ok i ?k" "j_ID j = i" by (auto simp: job_ok_def active_def terminal_def)
  moreover have "fits s (put_job i ?k s)" using assms by (intro fits_put) (auto simp: active_def)
  ultimately have "fits s (scheduleQueuedJobsLocked q now (put_job i ?k s))"
    using assms by (intro fits_put_schedule state_wf_put_job)
  with Some \<open>j_ID j = i\<close> show ?thesis by (simp add: CancelJob_def Let_def)
qed

lemma register_no_overcommit:
  "state_wf s \<Longrightarrow> no_overcommit s (fst (RegisterWorker rnd now q req s))"
  unfolding RegisterWorker_def Let_def fst_conv
  by (rule fits_jobs_eq [OF schedule_fits]) (auto intro!: state_wf_node simp: node_ok_def)

lemma heartbeat_no_overcommit: "state_wf s \<Longrightarrow> no_overcommit s (fst (Heartbeat_op now q hb s))"
  using state_wf_nodes [of s]
  by (auto simp: Heartbeat_op_def node_ids_ok_def node_ok_def intro!: fits_jobs_eq [OF schedule_fits] state_wf_node
      split: option.splits)

lemma offline_no_overcommit: "state_wf s \<Longrightarrow> no_overcommit s (fst (MarkWorkerOffline now q n s))"
  using state_wf_nodes [of s]
  by (auto simp: MarkWorkerOffline_def markWorkerOfflineLocked_def node_ids_ok_def node_ok_def
      intro!: fits_jobs_eq [OF fail_fits] state_wf_node split: option.splits)

lemma exec_no_overcommit:
  assumes "state_wf s" and "op_ok op" and "\<not> bypasses_slots op"
  shows "no_overcommit s (exec op s)"
proof (cases op)
  case (OpBatch now rs)
  with assms have "fits s (exec op s)"
    by (auto simp: CreateJobsBatch_def list_all_iff intro!: batch_fits)
  then show ?thesis by (rule fits_no_overcommit)
qed (use assms in \<open>simp_all add: register_no_overcommit heartbeat_no_overcommit offline_no_overcommit
  Nodes_def nodes_loop_fits NextJobForWorker_def next_fits complete_fits progress_fits coordinator_fits stage_fits
  cancel_fits CreateJob_def Let_def create_fits no_overcommit_jobs_eq fits_no_overcommit\<close>)

text \<open>
  C11. No operation other than moving a stage to \<open>preparing\<close> raises the number of active jobs of a worker
  above its job slots: after the operation a worker has at most as many active jobs as before or as it has
  slots.
\<close>

theorem workers_not_overcommitted:
  assumes "reachable s" and "op_ok op" and "\<not> bypasses_slots op"
  shows "activeJobsForWorkerLocked (exec op s) w
    \<le> max (activeJobsForWorkerLocked s w) (worker_slots (exec op s) w)"
  using exec_no_overcommit [OF reachable_wf [OF assms(1)] assms(2,3)] by (simp add: no_overcommit_def)

theorem workers_not_overcommitted_witness:
  "activeJobsForWorkerLocked demo_running ''node-02'' = 1
   \<and> activeJobsForWorkerLocked (exec demo_heartbeat demo_running) ''node-02''
      \<le> max 1 (worker_slots (exec demo_heartbeat demo_running) ''node-02'')"
proof -
  have "activeJobsForWorkerLocked demo_running ''node-02'' = 1" by (rule demo_facts)
  with workers_not_overcommitted [OF demo_running_reachable, of demo_heartbeat "''node-02''"] show ?thesis by simp
qed

end
