(* ===== verification/Recovery.thy ===== *)
theory Recovery
  imports Guarantees
begin

section \<open>Lost workers and waiting jobs\<close>

text \<open>
  What happens to the jobs of a worker that goes offline or stops sending heartbeats, and that a scheduling
  pass leaves no job waiting that some worker could take.
\<close>

subsection \<open>The jobs of a lost worker\<close>

text \<open>The three outcomes of \<open>rescheduleOrFailJobLocked\<close> for a job of the lost worker \<open>n\<close>.\<close>

definition moved_on :: "id \<Rightarrow> Job \<Rightarrow> Job \<Rightarrow> bool" where
  "moved_on n j k \<longleftrightarrow> same_request j k \<and> j_MaxAttempts k = j_MaxAttempts j \<and>
     ((j_Status k = StatusScheduled \<and> j_AssignedTo k \<noteq> n \<and> j_AssignedTo k \<noteq> [] \<and> j_Attempts k = j_Attempts j + 1)
      \<or> (j_Status k = StatusQueued \<and> j_AssignedTo k = [] \<and> j_Attempts k = j_Attempts j \<and> j_Attempts k < j_MaxAttempts k)
      \<or> (j_Status k = StatusFailed \<and> j_Attempts k = j_MaxAttempts k \<and> j_Attempts j = j_MaxAttempts j))"

lemma pick_not_excluded:
  "node_ids_ok s \<Longrightarrow> pickWorkerExcludingLocked s env req ex = w \<Longrightarrow> w \<noteq> [] \<Longrightarrow> w \<notin> set ex"
  using pick_spec by (fastforce simp: eligible_def split: option.splits)

lemma retry_moved_on:
  assumes "state_wf s" and "job_ok i j" and "active (j_Status j)"
  shows "moved_on n j (rescheduleOrFailJobLocked s env j n now reason)"
proof -
  have "1 \<le> j_Attempts j" "j_Attempts j \<le> j_MaxAttempts j" "int64_range (j_MaxAttempts j)"
    using assms by (auto simp: job_ok_def)
  moreover have "same_request j (rescheduleOrFailJobLocked s env j n now reason)" by (rule same_request_ops)
  ultimately show ?thesis
    using pick_not_excluded [OF state_wf_nodes [OF assms(1)] refl, of env "j_Requirements j" "[n]"]
    by (auto simp: moved_on_def rescheduleOrFailJobLocked_def normalizeMaxAttempts_def attempts_no_wrap Let_def)
qed

lemma moved_on_leaves: "moved_on n j k \<Longrightarrow> \<not> occupies n k"
  by (auto simp: moved_on_def occupies_def active_def)

lemma fail_one_other: "i \<noteq> i' \<Longrightarrow> mget (jobs (fail_one n now reason env i s)) i' = mget (jobs s) i'"
  by (simp add: fail_one_def split: option.splits)

lemma fail_one_job:
  assumes "state_wf s" and "mget (jobs s) i = Some j"
  shows "\<exists>k. mget (jobs (fail_one n now reason env i s)) i = Some k
    \<and> (if occupies n j then moved_on n j k else k = j)"
  using retry_moved_on [OF assms(1) state_wf_job [OF assms]] assms(2)
  by (auto simp: fail_one_def occupies_def active_def)

lemma fail_loop_job:
  assumes "state_wf s" and "distinct is" and "mget (jobs s) i = Some j"
  shows "\<exists>k. mget (jobs (fail_loop n now reason envs is s)) i = Some k
    \<and> (if i \<in> set is \<and> occupies n j then moved_on n j k else k = j)"
  using assms
proof (induction "is" arbitrary: s j)
  case Nil
  then show ?case by simp
next
  case (Cons i' "is")
  let ?s = "fail_one n now reason (envs i') i' s"
  have wf: "state_wf ?s" using Cons.prems(1) by (rule state_wf_fail_one)
  show ?case
  proof (cases "i = i'")
    case True
    then obtain k where k: "mget (jobs ?s) i = Some k" "if occupies n j then moved_on n j k else k = j"
      using fail_one_job [OF Cons.prems(1,3)] by blast
    with Cons.IH [OF wf _ k(1)] Cons.prems(2) True show ?thesis by auto
  next
    case False
    then have "mget (jobs ?s) i = Some j" using fail_one_other Cons.prems(3) by simp
    from Cons.IH [OF wf _ this] Cons.prems(2) False show ?thesis by auto
  qed
qed

lemma fail_loop_keys: "mget (jobs (fail_loop n now reason envs is s)) i = None \<longleftrightarrow> mget (jobs s) i = None"
proof (induction "is" arbitrary: s)
  case (Cons i' "is")
  have "mget (jobs (fail_one n now reason (envs i') i' s)) i = None \<longleftrightarrow> mget (jobs s) i = None"
    by (auto simp: fail_one_def split: option.splits)
  with Cons show ?case by simp
qed simp

lemma active_zero_iff:
  "map_wf (jobs s) \<Longrightarrow> activeJobsForWorkerLocked s w = 0 \<longleftrightarrow> (\<forall>i j. mget (jobs s) i = Some j \<longrightarrow> \<not> occupies w j)"
  by (auto simp: active_count mcount_def filter_empty_conv mvals_in mget_iff_set)

lemma fail_clears:
  assumes "state_wf s" and "order_of (q_jobs q) (jobs s)"
  shows "activeJobsForWorkerLocked (failActiveJobsForWorkerLocked q n now reason s) n = 0"
proof -
  let ?t = "failActiveJobsForWorkerLocked q n now reason s"
  have "\<not> occupies n k" if k: "mget (jobs ?t) i = Some k" for i k
  proof -
    from k obtain j where j: "mget (jobs s) i = Some j"
      using fail_loop_keys [of n now reason "q_pick q" "q_jobs q" s i]
      by (auto simp: failActiveJobsForWorkerLocked_def)
    then have "i \<in> set (q_jobs q)" using order_of_mem [OF assms(2)] by simp
    with fail_loop_job [OF assms(1) _ j, of "q_jobs q" n now reason "q_pick q"] assms(2) k
    have "if occupies n j then moved_on n j k else k = j"
      by (simp add: failActiveJobsForWorkerLocked_def order_of_def)
    then show ?thesis by (auto dest: moved_on_leaves split: if_splits)
  qed
  moreover have "map_wf (jobs ?t)" using assms(1) by (simp add: state_wf_fail)
  ultimately show ?thesis by (simp add: active_zero_iff)
qed

text \<open>
  C12. Marking a known worker as offline: it is stored as offline and has no scheduled or running job any
  more; each of its jobs is scheduled on another worker as a further attempt, or waits unassigned with
  attempts left, or has failed because its attempts are used up; every other job is unchanged.
\<close>

theorem offline_worker_is_evacuated:
  assumes "reachable s" and "mget (nodes s) n = Some node" and "order_of (q_jobs q) (jobs s)"
  shows "let t = fst (MarkWorkerOffline now q n s)
    in snd (MarkWorkerOffline now q n s)
       \<and> map_option n_Status (mget (nodes t) n) = Some NodeStatusOffline
       \<and> activeJobsForWorkerLocked t n = 0
       \<and> (\<forall>i j. mget (jobs s) i = Some j \<longrightarrow> (\<exists>k. mget (jobs t) i = Some k
             \<and> (if occupies n j then moved_on n j k else k = j)))"
proof -
  let ?s = "put_node n (node\<lparr>n_Status := NodeStatusOffline, n_UpdatedAt := now\<rparr>) s"
  have wf: "state_wf s" using assms(1) by (rule reachable_wf)
  then have "n_ID node = n" "n \<noteq> []" using assms(2) state_wf_nodes by (auto simp: node_ids_ok_def)
  with wf have wf': "state_wf ?s" by (intro state_wf_node) (auto simp: node_ok_def)
  have "\<exists>k. mget (jobs (failActiveJobsForWorkerLocked q n now ''worker went offline'' ?s)) i = Some k
      \<and> (if occupies n j then moved_on n j k else k = j)" if j: "mget (jobs s) i = Some j" for i j
  proof -
    have "i \<in> set (q_jobs q)" using j order_of_mem [OF assms(3)] by simp
    with fail_loop_job [OF wf', of "q_jobs q" i j] assms(3) j show ?thesis
      by (simp add: failActiveJobsForWorkerLocked_def order_of_def)
  qed
  with fail_clears [OF wf', of q n now "''worker went offline''"] assms(2,3) show ?thesis
    by (simp add: MarkWorkerOffline_def markWorkerOfflineLocked_def Let_def)
qed

lemma demo_running_order: "order_of [''job-01''] (jobs demo_running)"
  by (simp add: order_of_def demo_facts)

theorem offline_worker_is_evacuated_witness:
  "activeJobsForWorkerLocked demo_running ''node-02'' = 1
   \<and> activeJobsForWorkerLocked (fst (MarkWorkerOffline 20 (demo_jobs [''job-01''] 20) ''node-02'' demo_running)) ''node-02'' = 0"
proof -
  have "activeJobsForWorkerLocked demo_running ''node-02'' = 1" by (rule demo_facts)
  moreover have "map_option n_ID (mget (nodes demo_running) ''node-02'') = Some ''node-02''" by (rule demo_facts)
  then obtain n where "mget (nodes demo_running) ''node-02'' = Some n" by auto
  moreover have "order_of (q_jobs (demo_jobs [''job-01''] 20)) (jobs demo_running)"
    using demo_running_order by (simp add: demo_jobs_def)
  ultimately show ?thesis
    using offline_worker_is_evacuated [OF demo_running_reachable, of "''node-02''" n "demo_jobs [''job-01''] 20" 20]
    by (simp add: Let_def)
qed

subsection \<open>No job waits while a worker could take it\<close>

lemma time_Sub_mono: "t \<le> t' \<Longrightarrow> time_Sub t u \<le> time_Sub t' u"
  by (simp add: time_Sub_def)

text \<open>A worker that could take a job at a later time with more active jobs could take it before.\<close>

lemma eligible_mono:
  assumes "eligible u T req ex w" and "t \<le> T" and "nodes s = nodes u" and "heartbeatTimeout s = heartbeatTimeout u"
    and "\<And>w. activeJobsForWorkerLocked s w \<le> activeJobsForWorkerLocked u w"
  shows "eligible s t req ex w"
  using assms time_Sub_mono [OF assms(2)]
  by (fastforce simp: eligible_def nodeCanAccept_iff split: option.splits intro: order_trans le_less_trans)

lemma schedule_one_busier:
  assumes "map_wf (jobs s)"
  shows "activeJobsForWorkerLocked s w \<le> activeJobsForWorkerLocked (schedule_one now env i s) w"
proof (cases "mget (jobs s) i")
  case None
  then show ?thesis by (simp add: schedule_one_def)
next
  case (Some j)
  have "activeJobsForWorkerLocked s w \<le> activeJobsForWorkerLocked (put_job i k s) w"
    if "j_Status j = StatusQueued" for k
    using mcount_mput_old [OF assms Some, of "occupies w" k] that
    by (simp add: active_count occupies_def active_def)
  with Some show ?thesis by (auto simp: schedule_one_def Let_def)
qed

lemma schedule_one_other: "i \<noteq> i' \<Longrightarrow> mget (jobs (schedule_one now env i s)) i' = mget (jobs s) i'"
  by (simp add: schedule_one_def Let_def split: option.splits)

definition waiting :: "Job \<Rightarrow> bool" where
  "waiting j \<longleftrightarrow> j_Status j = StatusQueued \<and> j_AssignedTo j = []"

lemma schedule_one_waiting:
  assumes "mget (jobs (schedule_one now env i s)) i = Some k" and "waiting k"
  shows "pickWorkerLocked s env (j_Requirements k) = []"
  using assms
  by (auto simp: schedule_one_def Let_def waiting_def assign_job_def split: option.splits if_splits)

lemma schedule_loop_busier:
  "state_wf s \<Longrightarrow> activeJobsForWorkerLocked s w \<le> activeJobsForWorkerLocked (schedule_loop now envs is s) w"
proof (induction "is" arbitrary: s)
  case (Cons i "is")
  have "activeJobsForWorkerLocked s w \<le> activeJobsForWorkerLocked (schedule_one now (envs i) i s) w"
    using Cons.prems by (intro schedule_one_busier) simp
  also have "\<dots> \<le> activeJobsForWorkerLocked (schedule_loop now envs is (schedule_one now (envs i) i s)) w"
    by (rule Cons.IH [OF state_wf_schedule_one [OF Cons.prems]])
  finally show ?case by simp
qed simp

lemma schedule_loop_other:
  "i \<notin> set is \<Longrightarrow> mget (jobs (schedule_loop now envs is s)) i = mget (jobs s) i"
  by (induction "is" arbitrary: s) (auto simp: schedule_one_other)

lemma schedule_loop_waiting:
  assumes "state_wf s" and "distinct is" and "i \<in> set is"
    and "\<And>i w. i \<in> set is \<Longrightarrow> mget (nodes s) w \<noteq> None \<Longrightarrow> w \<in> set (p_nodes (envs i))"
    and "mget (jobs (schedule_loop now envs is s)) i = Some k" and "waiting k" and "p_now (envs i) \<le> T"
  shows "\<not> eligible (schedule_loop now envs is s) T (j_Requirements k) [] w"
  using assms
proof (induction "is" arbitrary: s)
  case (Cons i' "is")
  let ?s = "schedule_one now (envs i') i' s"
  have wf: "state_wf ?s" using Cons.prems(1) by (rule state_wf_schedule_one)
  show ?case
  proof (cases "i = i'")
    case False
    have nodes: "mget (nodes ?s) w \<noteq> None \<Longrightarrow> j \<in> set is \<Longrightarrow> w \<in> set (p_nodes (envs j))" for j w
      using Cons.prems(4) by simp
    show ?thesis
      using Cons.IH [OF wf _ _ nodes] Cons.prems(2,3,5,6,7) False by simp
  next
    case True
    with Cons.prems(2) have "i \<notin> set is" by simp
    with Cons.prems(5) True have "mget (jobs ?s) i' = Some k" by (simp add: schedule_loop_other)
    then have pick: "pickWorkerLocked s (envs i') (j_Requirements k) = []"
      using Cons.prems(6) by (rule schedule_one_waiting)
    show ?thesis
    proof
      assume el: "eligible (schedule_loop now envs (i' # is) s) T (j_Requirements k) [] w"
      have frame: "rest (schedule_loop now envs (i' # is) s) = rest s" by (rule rest_schedule_loop)
      have "eligible s (p_now (envs i')) (j_Requirements k) [] w"
        using True Cons.prems(7) rest_fields [OF frame]
        by (intro eligible_mono [OF el] schedule_loop_busier [OF Cons.prems(1)]) auto
      moreover from this have "w \<in> set (p_nodes (envs i'))"
        using Cons.prems(4) [of i'] by (auto simp: eligible_def split: option.splits)
      ultimately show False
        using pick_none [OF state_wf_nodes [OF Cons.prems(1)]] pick by (auto simp: pickWorkerLocked_def)
    qed
  qed
qed simp

text \<open>
  C13. A scheduling pass is work-conserving: of the jobs that still wait unassigned after it, none could be
  taken by any worker, at any time after the pass.
\<close>

theorem schedule_is_work_conserving:
  assumes "reachable s" and "order_of (q_jobs q) (jobs s)"
    and "\<And>i. i \<in> set (q_jobs q) \<Longrightarrow> order_of (p_nodes (q_pick q i)) (nodes s) \<and> p_now (q_pick q i) \<le> T"
    and "mget (jobs (scheduleQueuedJobsLocked q now s)) i = Some k" and "waiting k"
  shows "\<not> eligible (scheduleQueuedJobsLocked q now s) T (j_Requirements k) [] w"
proof -
  have wf: "state_wf s" using assms(1) by (rule reachable_wf)
  have cover: "w \<in> set (p_nodes (q_pick q j))" if "j \<in> set (q_jobs q)" "mget (nodes s) w \<noteq> None" for j w
    using order_of_mem [of "p_nodes (q_pick q j)" "nodes s" w] assms(3) [OF that(1)] that(2) by simp
  have "mget (jobs s) i \<noteq> None"
  proof
    assume none: "mget (jobs s) i = None"
    with order_of_mem [OF assms(2)] have "i \<notin> set (q_jobs q)" by blast
    with none assms(4) show False by (simp add: scheduleQueuedJobsLocked_def schedule_loop_other)
  qed
  then have "i \<in> set (q_jobs q)" using order_of_mem [OF assms(2)] by blast
  then show ?thesis
    using schedule_loop_waiting [OF wf, of "q_jobs q" i "q_pick q"] cover assms
    by (simp add: scheduleQueuedJobsLocked_def order_of_def)
qed

definition demo_waiting :: State where
  "demo_waiting = exec (OpCreate (Some [3]) 16 (demo_env 16) demo_job_request) demo_running"

lemma demo_waiting_code [code]:
  "demo_waiting = fst (CreateJob (Some [3]) 16 (demo_env 16) demo_job_request demo_running)"
  by (simp add: demo_waiting_def)

theorem schedule_is_work_conserving_witness:
  "map_option waiting (mget (jobs (scheduleQueuedJobsLocked (demo_jobs [''job-01'', ''job-03''] 18) 18 demo_waiting)) ''job-03'') = Some True
   \<and> \<not> eligible (scheduleQueuedJobsLocked (demo_jobs [''job-01'', ''job-03''] 18) 18 demo_waiting) 19 (demo_req 0) [] ''node-02''"
proof -
  let ?q = "demo_jobs [''job-01'', ''job-03''] 18"
  have w: "map_option (\<lambda>j. (waiting j, j_Requirements j)) (mget (jobs (scheduleQueuedJobsLocked ?q 18 demo_waiting)) ''job-03'')
      = Some (True, demo_req 0)"
    by code_simp
  then obtain k where k: "mget (jobs (scheduleQueuedJobsLocked ?q 18 demo_waiting)) ''job-03'' = Some k"
    "waiting k" "j_Requirements k = demo_req 0" by auto
  have r: "reachable demo_waiting"
    unfolding demo_waiting_def by (rule reachable.step [OF demo_running_reachable]) (simp add: demo_request_ok)
  have "mkeys (jobs demo_waiting) = [''job-01'', ''job-03''] \<and> mkeys (nodes demo_waiting) = [''node-02'']" by code_simp
  then have "order_of (q_jobs ?q) (jobs demo_waiting)"
    and "order_of (p_nodes (q_pick ?q i)) (nodes demo_waiting) \<and> p_now (q_pick ?q i) \<le> 19" for i
    by (auto simp: order_of_def demo_jobs_def demo_env_def)
  with schedule_is_work_conserving [OF r _ _ k(1,2), of 19 "''node-02''"] k w show ?thesis by auto
qed

subsection \<open>Workers that stop sending heartbeats\<close>

definition clear :: "State \<Rightarrow> id \<Rightarrow> bool" where
  "clear s k \<longleftrightarrow> (\<forall>i j. mget (jobs s) i = Some j \<longrightarrow> \<not> occupies k j)"

definition gone :: "State \<Rightarrow> id \<Rightarrow> bool" where
  "gone s k \<longleftrightarrow> map_option n_Status (mget (nodes s) k) = Some NodeStatusOffline"

definition timed_out :: "State \<Rightarrow> time \<Rightarrow> id \<Rightarrow> bool" where
  "timed_out s now k = (case mget (nodes s) k of None \<Rightarrow> False
     | Some n \<Rightarrow> n_Status n = NodeStatusOnline \<and> n_Status (deriveNodeStatus s n now) = NodeStatusOffline)"

lemma gone_not_eligible: "gone s k \<Longrightarrow> \<not> eligible s t req ex k"
  by (auto simp: gone_def eligible_def nodeCanAccept_iff split: option.splits)

lemma gone_frame: "nodes s = nodes t \<Longrightarrow> gone s k \<longleftrightarrow> gone t k"
  by (simp add: gone_def)

text \<open>Taking jobs from one lost worker gives none to another one.\<close>

lemma fail_one_keeps_clear:
  assumes "state_wf s" and "gone s k" and "clear s k"
  shows "clear (fail_one n now reason env i s) k"
proof -
  have "k \<noteq> []" using assms(1,2) state_wf_nodes by (auto simp: gone_def node_ids_ok_def)
  moreover have "pickWorkerExcludingLocked s env req [n] \<noteq> k \<or> k = []" for req
    using pick_spec [OF state_wf_nodes [OF assms(1)] refl] gone_not_eligible [OF assms(2)] by blast
  ultimately have "\<not> occupies k (rescheduleOrFailJobLocked s env j n now reason)" for j
    by (auto simp: rescheduleOrFailJobLocked_def occupies_def active_def Let_def)
  with assms(3) show ?thesis by (auto simp: clear_def fail_one_def split: option.splits)
qed

lemma fail_loop_keeps_clear:
  "state_wf s \<Longrightarrow> gone s k \<Longrightarrow> clear s k \<Longrightarrow> clear (fail_loop n now reason envs is s) k"
proof (induction "is" arbitrary: s)
  case (Cons i "is")
  have "gone (fail_one n now reason (envs i) i s) k" using Cons.prems(2) by (simp add: gone_def)
  with Cons fail_one_keeps_clear state_wf_fail_one show ?case by simp
qed simp

lemma clear_iff: "state_wf s \<Longrightarrow> clear s k \<longleftrightarrow> activeJobsForWorkerLocked s k = 0"
  by (simp add: clear_def active_zero_iff)

text \<open>One turn of the loop of \<open>Nodes\<close>.\<close>

lemma nodes_one_step:
  assumes "state_wf s" and n: "mget (nodes s) k = Some n" and q: "order_of (q_jobs (qs k)) (jobs s)"
    and t_def: "t = fst (nodes_one now qs n s)"
  shows "timed_out s now k \<Longrightarrow> gone t k \<and> clear t k"
    and "gone s k' \<Longrightarrow> clear s k' \<Longrightarrow> gone t k' \<and> clear t k'"
    and "k' \<noteq> k \<Longrightarrow> mget (nodes t) k' = mget (nodes s) k'"
    and "mget (jobs t) i = None \<longleftrightarrow> mget (jobs s) i = None"
    and "heartbeatTimeout t = heartbeatTimeout s"
proof -
  have ID: "n_ID n = k" "k \<noteq> []" using assms(1) n state_wf_nodes by (auto simp: node_ids_ok_def)
  let ?n = "(deriveNodeStatus s n now)\<lparr>n_UpdatedAt := now\<rparr>"
  let ?s = "put_node k ?n s"
  have wf: "state_wf ?s" using assms(1) ID by (intro state_wf_node) (auto simp: node_ok_def)
  have t: "t = (if timed_out s now k
      then failActiveJobsForWorkerLocked (qs k) k now ''worker heartbeat timed out'' ?s else s)"
    using n ID by (simp add: t_def nodes_one_def timed_out_def Let_def)
  have off: "timed_out s now k \<Longrightarrow> n_Status (deriveNodeStatus s n now) = NodeStatusOffline"
    using n by (simp add: timed_out_def)
  show "mget (nodes t) k' = mget (nodes s) k'" if "k' \<noteq> k" using that t by simp
  show "heartbeatTimeout t = heartbeatTimeout s" using t by simp
  show "mget (jobs t) i = None \<longleftrightarrow> mget (jobs s) i = None"
    using t fail_loop_keys [of k now _ _ _ ?s i] by (simp add: failActiveJobsForWorkerLocked_def)
  show "gone t k \<and> clear t k" if "timed_out s now k"
    using that t off fail_clears [OF wf, of "qs k" k now "''worker heartbeat timed out''"] q state_wf_fail [OF wf]
    by (simp add: gone_def clear_iff)
  show "gone t k' \<and> clear t k'" if "gone s k'" "clear s k'"
  proof (cases "timed_out s now k")
    case True
    with that n have "k' \<noteq> k" by (auto simp: timed_out_def gone_def)
    with that have "gone ?s k'" "clear ?s k'" by (auto simp: gone_def clear_def)
    with True t show ?thesis
      by (simp add: failActiveJobsForWorkerLocked_def fail_loop_keeps_clear [OF wf] gone_def
          rest_fields [OF rest_fail_loop])
  qed (use that t in simp)
qed

lemma timed_out_frame:
  "mget (nodes t) k = mget (nodes s) k \<Longrightarrow> heartbeatTimeout t = heartbeatTimeout s \<Longrightarrow> timed_out t now k = timed_out s now k"
  by (simp add: timed_out_def deriveNodeStatus_def cong: option.case_cong)

lemma nodes_loop_clears:
  assumes "state_wf s" and "distinct ks" and "\<And>k. order_of (q_jobs (qs k)) (jobs s)"
    and "k \<in> set ks \<and> timed_out s now k \<or> gone s k \<and> clear s k"
  shows "gone (fst (nodes_loop now qs ks out s)) k \<and> clear (fst (nodes_loop now qs ks out s)) k"
  using assms
proof (induction ks arbitrary: s out)
  case (Cons a ks)
  show ?case
  proof (cases "mget (nodes s) a")
    case None
    with Cons.prems(4) have "k \<in> set ks \<and> timed_out s now k \<or> gone s k \<and> clear s k"
      by (auto simp: timed_out_def)
    with None Cons.IH [OF Cons.prems(1)] Cons.prems(2,3) show ?thesis by simp
  next
    case (Some n)
    obtain t n' where one: "nodes_one now qs n s = (t, n')" by force
    have tt: "t = fst (nodes_one now qs n s)" using one by simp
    note step = nodes_one_step [OF Cons.prems(1) Some Cons.prems(3) tt]
    have "state_wf t" using wf_nodes_one [OF Cons.prems(1) Some, of now qs] one by simp
    moreover have "order_of (q_jobs (qs k)) (jobs t)" for k
      using Cons.prems(3) [of k] step(4) order_of_mem [of _ "jobs s"]
      by (auto simp: order_of_def set_eq_iff mget_None_iff)
    moreover have "k \<in> set ks \<and> timed_out t now k \<or> gone t k \<and> clear t k"
    proof -
      consider "k = a" "timed_out s now a" | "k \<in> set ks" "k \<noteq> a" "timed_out s now k" | "gone s k" "clear s k"
        using Cons.prems(2,4) by auto
      then show ?thesis
      proof cases
        case 2
        then have "timed_out t now k" using timed_out_frame [OF step(3) step(5)] by blast
        with 2 show ?thesis by simp
      qed (use step(1,2) in auto)
    qed
    ultimately show ?thesis using Cons.IH Cons.prems(2) Some one by simp
  qed
qed simp

text \<open>
  C14. Listing the nodes settles lost workers: after \<open>Nodes\<close> every worker whose last heartbeat is older
  than the timeout is stored as offline and has no scheduled or running job.
\<close>

theorem timed_out_workers_are_evacuated:
  assumes "reachable s" and "order_of (v_nodes v) (nodes s)"
    and "\<And>k. order_of (q_jobs (v_jobs v k)) (jobs s)" and "timed_out s now w"
  shows "gone (fst (Nodes now v s)) w \<and> activeJobsForWorkerLocked (fst (Nodes now v s)) w = 0"
proof -
  have wf: "state_wf s" using assms(1) by (rule reachable_wf)
  have "mget (nodes s) w \<noteq> None" using assms(4) by (auto simp: timed_out_def split: option.splits)
  then have "w \<in> set (v_nodes v)" using order_of_mem [OF assms(2)] by simp
  then have "gone (fst (Nodes now v s)) w \<and> clear (fst (Nodes now v s)) w"
    unfolding Nodes_def using assms by (intro nodes_loop_clears wf) (auto simp: order_of_def)
  moreover have "state_wf (fst (Nodes now v s))" using wf_nodes_loop [OF wf] by (simp add: Nodes_def)
  ultimately show ?thesis by (simp add: clear_iff)
qed

definition demo_nodes :: nodes_env where
  "demo_nodes = \<lparr>v_nodes = [''node-02''], v_jobs = (\<lambda>k. demo_jobs [''job-01''] 40000000000)\<rparr>"

theorem timed_out_workers_are_evacuated_witness:
  "gone (fst (Nodes 40000000000 demo_nodes demo_running)) ''node-02''
   \<and> activeJobsForWorkerLocked (fst (Nodes 40000000000 demo_nodes demo_running)) ''node-02'' = 0"
proof -
  have "order_of (v_nodes demo_nodes) (nodes demo_running)" by (simp add: order_of_def demo_nodes_def demo_facts)
  moreover have "order_of (q_jobs (v_jobs demo_nodes k)) (jobs demo_running)" for k
    using demo_running_order by (simp add: demo_nodes_def demo_jobs_def)
  moreover have "timed_out demo_running 40000000000 ''node-02''" by code_simp
  ultimately show ?thesis by (rule timed_out_workers_are_evacuated [OF demo_running_reachable])
qed

end
