(* ===== verification/FileStore.thy ===== *)
theory FileStore
  imports Guarantees
begin

section \<open>The file store (internal/manager/file_store.go)\<close>

text \<open>
  \<open>FileStore\<close> embeds a \<open>State\<close> and writes a JSON snapshot of it to a file after most operations. The file
  is modelled by what \<open>load\<close> can find: nothing, an unreadable or empty file, text that does not decode, or a decoded
  snapshot. What \<open>json.MarshalIndent\<close> followed by \<open>json.Unmarshal\<close> does to a snapshot is
  \<open>json_codec\<close>: it fails on a float that is not finite or a year that RFC 3339 cannot express, and it replaces
  invalid UTF-8 in every string; everything else (numbers, times in UTC, maps, empty slices and omitted zero
  fields) comes back as it was. Whether the operating system carries out a write is an argument.
  An operation and the save that follows it are one step.
\<close>

subsection \<open>Encoding and decoding a snapshot\<close>

definition time_ok :: "time \<Rightarrow> bool" where
  "time_ok t \<longleftrightarrow> json_time t \<noteq> None"

fun finite_f64 :: "f64 \<Rightarrow> bool" where
  "finite_f64 (Fin x) = True"
| "finite_f64 _ = False"

text \<open>The entries are written in the order of their keys; of equal keys the last one is kept.\<close>

definition recode :: "('k \<Rightarrow> string) \<Rightarrow> ('k \<Rightarrow> 'k) \<Rightarrow> ('v \<Rightarrow> 'v) \<Rightarrow> ('k, 'v) go_map \<Rightarrow> ('k, 'v) go_map" where
  "recode tkey g f m =
     foldl (\<lambda>out (k, v). mput (g k) (f v) out) [] (go_sort (\<lambda>a b. tkey (fst a) < tkey (fst b)) m)"

definition utf8_map :: "('v \<Rightarrow> 'v) \<Rightarrow> (string, 'v) go_map \<Rightarrow> (string, 'v) go_map" where
  "utf8_map f m = recode (\<lambda>k. k) utf8 f m"

fun utf8_role :: "NodeRole \<Rightarrow> NodeRole" where
  "utf8_role (NodeRoleOther s) = NodeRoleOther (utf8 s)"
| "utf8_role r = r"

fun utf8_node_status :: "NodeStatus \<Rightarrow> NodeStatus" where
  "utf8_node_status (NodeStatusOther s) = NodeStatusOther (utf8 s)"
| "utf8_node_status r = r"

fun utf8_status :: "Status \<Rightarrow> Status" where
  "utf8_status (StatusOther s) = StatusOther (utf8 s)"
| "utf8_status r = r"

fun utf8_stage :: "StageState \<Rightarrow> StageState" where
  "utf8_stage (StageOther s) = StageOther (utf8 s)"
| "utf8_stage r = r"

fun utf8_kind :: "BenchmarkKind \<Rightarrow> BenchmarkKind" where
  "utf8_kind (BenchmarkOther s) = BenchmarkOther (utf8 s)"
| "utf8_kind r = r"

definition utf8_gpu :: "GPUResources \<Rightarrow> GPUResources" where
  "utf8_gpu g = g\<lparr>gpu_Name := utf8 (gpu_Name g), gpu_Vendor := utf8 (gpu_Vendor g)\<rparr>"

definition utf8_model :: "ModelResource \<Rightarrow> ModelResource" where
  "utf8_model m = m\<lparr>mr_ID := utf8 (mr_ID m), mr_Name := utf8 (mr_Name m), mr_Family := utf8 (mr_Family m),
     mr_Runtime := utf8 (mr_Runtime m), mr_Path := utf8 (mr_Path m), mr_Error := utf8 (mr_Error m)\<rparr>"

definition utf8_rpc :: "RPCRuntimeResource \<Rightarrow> RPCRuntimeResource" where
  "utf8_rpc r = r\<lparr>rpc_Name := utf8 (rpc_Name r), rpc_ServerPath := utf8 (rpc_ServerPath r),
     rpc_Endpoint := utf8 (rpc_Endpoint r), rpc_Protocol := utf8 (rpc_Protocol r),
     rpc_Blockers := map utf8 (rpc_Blockers r)\<rparr>"

definition utf8_stage_runtime :: "StageRuntimeResource \<Rightarrow> StageRuntimeResource" where
  "utf8_stage_runtime r = r\<lparr>sr_Name := utf8 (sr_Name r), sr_BinaryPath := utf8 (sr_BinaryPath r),
     sr_RequiredHooks := map utf8 (sr_RequiredHooks r), sr_Blockers := map utf8 (sr_Blockers r)\<rparr>"

definition utf8_runtime :: "RuntimeResource \<Rightarrow> RuntimeResource" where
  "utf8_runtime r = r\<lparr>rt_Name := utf8 (rt_Name r), rt_Version := utf8 (rt_Version r),
     rt_Platform := utf8 (rt_Platform r), rt_BinaryPath := utf8 (rt_BinaryPath r), rt_Source := utf8 (rt_Source r),
     rt_Capabilities := map utf8 (rt_Capabilities r), rt_RPCRuntimes := map utf8_rpc (rt_RPCRuntimes r),
     rt_StageRuntimes := map utf8_stage_runtime (rt_StageRuntimes r), rt_Error := utf8 (rt_Error r)\<rparr>"

definition utf8_resources :: "ResourceSnapshot \<Rightarrow> ResourceSnapshot" where
  "utf8_resources r = r\<lparr>rs_GPU := map utf8_gpu (rs_GPU r), rs_Models := map utf8_model (rs_Models r),
     rs_Runtimes := map utf8_runtime (rs_Runtimes r)\<rparr>"

definition utf8_node :: "Node \<Rightarrow> Node" where
  "utf8_node n = n\<lparr>n_ID := utf8 (n_ID n), n_Name := utf8 (n_Name n), n_Role := utf8_role (n_Role n),
     n_Status := utf8_node_status (n_Status n), n_Endpoint := utf8 (n_Endpoint n),
     n_Resources := utf8_resources (n_Resources n)\<rparr>"

definition utf8_job :: "Job \<Rightarrow> Job" where
  "utf8_job j = j\<lparr>j_ID := utf8 (j_ID j), j_Type := utf8 (j_Type j), j_Status := utf8_status (j_Status j),
     j_RequestedBy := utf8 (j_RequestedBy j), j_AssignedTo := utf8 (j_AssignedTo j), j_Input := utf8 (j_Input j),
     j_Result := utf8 (j_Result j), j_Error := utf8 (j_Error j), j_LastFailure := utf8 (j_LastFailure j),
     j_CDIPState := utf8_stage (j_CDIPState j), j_CDIPParentJobID := utf8 (j_CDIPParentJobID j)\<rparr>"

definition utf8_benchmark :: "BenchmarkResult \<Rightarrow> BenchmarkResult" where
  "utf8_benchmark b = b\<lparr>br_NodeID := utf8 (br_NodeID b), br_Kind := utf8_kind (br_Kind b),
     br_Unit := utf8 (br_Unit b), br_Metadata := utf8_map utf8 (br_Metadata b)\<rparr>"

text \<open>Benchmarks of a node are keyed by their kind, written as a string.\<close>

fun show_kind :: "BenchmarkKind \<Rightarrow> string" where
  "show_kind BenchmarkCPU = ''cpu''"
| "show_kind BenchmarkMemory = ''memory''"
| "show_kind BenchmarkDisk = ''disk''"
| "show_kind BenchmarkNetwork = ''network''"
| "show_kind BenchmarkAI = ''ai''"
| "show_kind (BenchmarkOther s) = s"

definition utf8_benchmarks ::
  "(BenchmarkKind, BenchmarkResult) go_map \<Rightarrow> (BenchmarkKind, BenchmarkResult) go_map" where
  "utf8_benchmarks m = recode show_kind utf8_kind utf8_benchmark m"

definition utf8_health :: "RPCHealthRecord \<Rightarrow> RPCHealthRecord" where
  "utf8_health r = r\<lparr>hr_Endpoint := utf8 (hr_Endpoint r), hr_NodeID := utf8 (hr_NodeID r),
     hr_NodeName := utf8 (hr_NodeName r), hr_LastError := utf8 (hr_LastError r)\<rparr>"

definition utf8_message :: "ChatMessage \<Rightarrow> ChatMessage" where
  "utf8_message m = m\<lparr>cm_Role := utf8 (cm_Role m), cm_Content := utf8 (cm_Content m)\<rparr>"

definition utf8_conversation :: "Conversation \<Rightarrow> Conversation" where
  "utf8_conversation c = c\<lparr>cv_ID := utf8 (cv_ID c), cv_ModelID := utf8 (cv_ModelID c), cv_NodeID := utf8 (cv_NodeID c),
     cv_SystemPrompt := utf8 (cv_SystemPrompt c), cv_Messages := map utf8_message (cv_Messages c)\<rparr>"

definition utf8_memory :: "Memory \<Rightarrow> Memory" where
  "utf8_memory m = m\<lparr>me_ID := utf8 (me_ID m), me_ModelID := utf8 (me_ModelID m), me_Key := utf8 (me_Key m),
     me_Value := utf8 (me_Value m), me_Source := utf8 (me_Source m), me_ConversationID := utf8 (me_ConversationID m)\<rparr>"

text \<open>A map that is absent from the text, or \<open>null\<close>, is \<open>nil\<close> after decoding.\<close>

record fileStoreSnapshot =
  fs_StartedAt :: time
  fs_Nodes :: "(id, Node) go_map option"
  fs_Benchmarks :: "(id, (BenchmarkKind, BenchmarkResult) go_map) go_map option"
  fs_RPCHealth :: "(string, RPCHealthRecord) go_map option"
  fs_Jobs :: "(id, Job) go_map option"
  fs_Conversations :: "(id, Conversation) go_map option"
  fs_Memories :: "(id, Memory) go_map option"

definition node_times :: "Node \<Rightarrow> time list" where
  "node_times n = [n_JoinedAt n, n_UpdatedAt n] @ map mr_InstalledAt (rs_Models (n_Resources n))"

definition job_times :: "Job \<Rightarrow> time list" where
  "job_times j = [j_CreatedAt j, j_UpdatedAt j, j_StartedAt j, j_FinishedAt j]"

definition opt_vals :: "('k, 'v) go_map option \<Rightarrow> 'v list" where
  "opt_vals m = (case m of None \<Rightarrow> [] | Some x \<Rightarrow> mvals x)"

definition encodable :: "fileStoreSnapshot \<Rightarrow> bool" where
  "encodable f \<longleftrightarrow> time_ok (fs_StartedAt f)
     \<and> list_all (list_all time_ok \<circ> node_times) (opt_vals (fs_Nodes f))
     \<and> list_all (list_all (\<lambda>b. time_ok (br_CreatedAt b) \<and> finite_f64 (br_Score b)) \<circ> mvals) (opt_vals (fs_Benchmarks f))
     \<and> list_all (time_ok \<circ> hr_UpdatedAt) (opt_vals (fs_RPCHealth f))
     \<and> list_all (list_all time_ok \<circ> job_times) (opt_vals (fs_Jobs f))
     \<and> list_all (\<lambda>c. time_ok (cv_CreatedAt c) \<and> time_ok (cv_UpdatedAt c)) (opt_vals (fs_Conversations f))
     \<and> list_all (\<lambda>m. time_ok (me_CreatedAt m) \<and> time_ok (me_UpdatedAt m)) (opt_vals (fs_Memories f))"

text \<open>\<open>omitempty\<close> leaves out an empty map.\<close>

definition omit_empty :: "('k, 'v) go_map option \<Rightarrow> ('k, 'v) go_map option" where
  "omit_empty m = (case m of Some [] \<Rightarrow> None | _ \<Rightarrow> m)"

definition json_codec :: "fileStoreSnapshot \<Rightarrow> fileStoreSnapshot option" where
  "json_codec f =
     (if \<not> encodable f then None
      else Some \<lparr>fs_StartedAt = fs_StartedAt f,
        fs_Nodes = map_option (utf8_map utf8_node) (fs_Nodes f),
        fs_Benchmarks = map_option (utf8_map utf8_benchmarks) (fs_Benchmarks f),
        fs_RPCHealth = omit_empty (map_option (utf8_map utf8_health) (fs_RPCHealth f)),
        fs_Jobs = map_option (utf8_map utf8_job) (fs_Jobs f),
        fs_Conversations = omit_empty (map_option (utf8_map utf8_conversation) (fs_Conversations f)),
        fs_Memories = omit_empty (map_option (utf8_map utf8_memory) (fs_Memories f))\<rparr>)"

subsection \<open>Saving and loading\<close>

datatype disk_file = NoFile | Unreadable | EmptyFile | Undecodable | Saved fileStoreSnapshot

record FileStore =
  fst_State :: State
  fst_disk :: disk_file

definition clone_map :: "('k, 'v) go_map \<Rightarrow> ('k, 'v) go_map" where
  "clone_map m = foldl (\<lambda>out (key, value). mput key value out) [] m"

definition cloneNodes :: "(id, Node) go_map \<Rightarrow> (id, Node) go_map" where
  "cloneNodes m = clone_map m"

definition cloneBenchmarks ::
  "(id, (BenchmarkKind, BenchmarkResult) go_map) go_map \<Rightarrow> (id, (BenchmarkKind, BenchmarkResult) go_map) go_map" where
  "cloneBenchmarks m = foldl (\<lambda>out (nodeID, byKind). mput nodeID (clone_map byKind) out) [] m"

definition cloneRPCHealth :: "(string, RPCHealthRecord) go_map \<Rightarrow> (string, RPCHealthRecord) go_map" where
  "cloneRPCHealth m = clone_map m"

definition cloneJobs :: "(id, Job) go_map \<Rightarrow> (id, Job) go_map" where
  "cloneJobs m = clone_map m"

definition snapshot_of :: "State \<Rightarrow> fileStoreSnapshot" where
  "snapshot_of s = \<lparr>fs_StartedAt = startedAt s, fs_Nodes = Some (cloneNodes (nodes s)),
     fs_Benchmarks = Some (cloneBenchmarks (benchmarks s)), fs_RPCHealth = Some (cloneRPCHealth (rpcHealth s)),
     fs_Jobs = Some (cloneJobs (jobs s)), fs_Conversations = Some (cloneConversations (conversations s)),
     fs_Memories = Some (cloneMemories (memories s))\<rparr>"

text \<open>The snapshot is written to a temporary file that then replaces the old one, so a failed write leaves the
  old file. \<open>io\<close> says whether the directory, the write and the rename succeed; the second result is
  \<open>err == nil\<close>.\<close>

definition save :: "bool \<Rightarrow> FileStore \<Rightarrow> FileStore \<times> bool" where
  "save io st =
     (case json_codec (snapshot_of (fst_State st)) of
        None \<Rightarrow> (st, False)
      | Some f \<Rightarrow> if io then (st\<lparr>fst_disk := Saved f\<rparr>, True) else (st, False))"

definition restore :: "fileStoreSnapshot \<Rightarrow> State \<Rightarrow> State" where
  "restore f s = s\<lparr>startedAt := (if fs_StartedAt f \<noteq> 0 then fs_StartedAt f else startedAt s),
     nodes := (case fs_Nodes f of Some m \<Rightarrow> m | None \<Rightarrow> nodes s),
     benchmarks := (case fs_Benchmarks f of Some m \<Rightarrow> m | None \<Rightarrow> benchmarks s),
     rpcHealth := (case fs_RPCHealth f of Some m \<Rightarrow> m | None \<Rightarrow> rpcHealth s),
     jobs := (case fs_Jobs f of Some m \<Rightarrow> m | None \<Rightarrow> jobs s),
     conversations := (case fs_Conversations f of Some m \<Rightarrow> m | None \<Rightarrow> conversations s),
     memories := (case fs_Memories f of Some m \<Rightarrow> m | None \<Rightarrow> memories s)\<rparr>"

datatype load_error = SaveFailed | ReadFailed | DecodeFailed

definition load :: "bool \<Rightarrow> FileStore \<Rightarrow> load_error + FileStore" where
  "load io st =
     (case fst_disk st of
        NoFile \<Rightarrow> (case save io st of (st', ok) \<Rightarrow> if ok then Inr st' else Inl SaveFailed)
      | Unreadable \<Rightarrow> Inl ReadFailed
      | EmptyFile \<Rightarrow> Inr st
      | Undecodable \<Rightarrow> Inl DecodeFailed
      | Saved f \<Rightarrow> Inr (st\<lparr>fst_State := restore f (fst_State st)\<rparr>))"

definition NewFileStore :: "bool \<Rightarrow> time \<Rightarrow> disk_file \<Rightarrow> load_error + FileStore" where
  "NewFileStore io now disk = load io \<lparr>fst_State = NewState now, fst_disk = disk\<rparr>"

text \<open>A method of \<open>FileStore\<close>: the method of \<open>State\<close>, then a save if its result says that it did something.\<close>

definition saving :: "bool \<Rightarrow> bool \<Rightarrow> State \<Rightarrow> FileStore \<Rightarrow> FileStore" where
  "saving io changed s st = (if changed then fst (save io (st\<lparr>fst_State := s\<rparr>)) else st\<lparr>fst_State := s\<rparr>)"

definition FileStore_RegisterWorker ::
  "bool \<Rightarrow> 8 word list option \<Rightarrow> time \<Rightarrow> jobs_env \<Rightarrow> JoinRequest \<Rightarrow> FileStore \<Rightarrow> FileStore \<times> JoinResponse" where
  "FileStore_RegisterWorker io rnd now q req st =
     (case RegisterWorker rnd now q req (fst_State st) of (s, resp) \<Rightarrow> (saving io True s st, resp))"

definition FileStore_Heartbeat :: "bool \<Rightarrow> time \<Rightarrow> jobs_env \<Rightarrow> Heartbeat \<Rightarrow> FileStore \<Rightarrow> FileStore \<times> bool" where
  "FileStore_Heartbeat io now q hb st =
     (case Heartbeat_op now q hb (fst_State st) of (s, ok) \<Rightarrow> (saving io ok s st, ok))"

definition FileStore_MarkWorkerOffline :: "bool \<Rightarrow> time \<Rightarrow> jobs_env \<Rightarrow> id \<Rightarrow> FileStore \<Rightarrow> FileStore \<times> bool" where
  "FileStore_MarkWorkerOffline io now q n st =
     (case MarkWorkerOffline now q n (fst_State st) of (s, ok) \<Rightarrow> (saving io ok s st, ok))"

definition FileStore_PutBenchmark :: "bool \<Rightarrow> time \<Rightarrow> BenchmarkResult \<Rightarrow> FileStore \<Rightarrow> FileStore \<times> bool" where
  "FileStore_PutBenchmark io now r st =
     (case PutBenchmark now r (fst_State st) of (s, ok) \<Rightarrow> (saving io ok s st, ok))"

definition FileStore_PutRPCHealth :: "bool \<Rightarrow> time \<Rightarrow> RPCHealthUpdate \<Rightarrow> FileStore \<Rightarrow> FileStore \<times> RPCHealthRecord" where
  "FileStore_PutRPCHealth io now u st =
     (case PutRPCHealth now u (fst_State st) of (s, r) \<Rightarrow> (saving io (hr_Endpoint r \<noteq> []) s st, r))"

definition FileStore_CreateJob ::
  "bool \<Rightarrow> 8 word list option \<Rightarrow> time \<Rightarrow> pick_env \<Rightarrow> CreateRequest \<Rightarrow> FileStore \<Rightarrow> FileStore \<times> Job" where
  "FileStore_CreateJob io rnd now env req st =
     (case CreateJob rnd now env req (fst_State st) of (s, job) \<Rightarrow> (saving io True s st, job))"

definition FileStore_CreateJobsBatch ::
  "bool \<Rightarrow> time \<Rightarrow> (8 word list option \<times> pick_env \<times> CreateRequest) list \<Rightarrow> FileStore \<Rightarrow> FileStore \<times> Job list" where
  "FileStore_CreateJobsBatch io now rs st =
     (case CreateJobsBatch now rs (fst_State st) of (s, created) \<Rightarrow> (saving io True s st, created))"

definition FileStore_NextJobForWorker :: "bool \<Rightarrow> time \<Rightarrow> id list \<Rightarrow> id \<Rightarrow> FileStore \<Rightarrow> FileStore \<times> Job option" where
  "FileStore_NextJobForWorker io now ord n st =
     (case NextJobForWorker now ord n (fst_State st) of (s, r) \<Rightarrow> (saving io (r \<noteq> None) s st, r))"

definition FileStore_UpdateCDIPStageState ::
  "bool \<Rightarrow> time \<Rightarrow> id \<Rightarrow> StageState \<Rightarrow> string \<Rightarrow> FileStore \<Rightarrow> FileStore \<times> Job option" where
  "FileStore_UpdateCDIPStageState io now i nxt detail st =
     (case UpdateCDIPStageState now i nxt detail (fst_State st) of (s, r) \<Rightarrow> (saving io (r \<noteq> None) s st, r))"

definition FileStore_CompleteCoordinatorJob ::
  "bool \<Rightarrow> time \<Rightarrow> id \<Rightarrow> string \<Rightarrow> string \<Rightarrow> FileStore \<Rightarrow> FileStore \<times> Job option" where
  "FileStore_CompleteCoordinatorJob io now i result err st =
     (case CompleteCoordinatorJob now i result err (fst_State st) of (s, r) \<Rightarrow> (saving io (r \<noteq> None) s st, r))"

text \<open>A panic of \<open>State.CompleteJob\<close> passes through before the save.\<close>

definition FileStore_CompleteJob ::
  "bool \<Rightarrow> time \<Rightarrow> pick_env \<Rightarrow> jobs_env \<Rightarrow> id \<Rightarrow> CompleteRequest \<Rightarrow> FileStore \<Rightarrow> FileStore \<times> completion" where
  "FileStore_CompleteJob io now env q i req st =
     (case CompleteJob now env q i req (fst_State st) of (s, r) \<Rightarrow>
        (saving io (case r of Completed j \<Rightarrow> True | Rejected \<Rightarrow> False | Panicked \<Rightarrow> False) s st, r))"

definition FileStore_AppendConversationMessage ::
  "bool \<Rightarrow> time \<Rightarrow> memory_env \<Rightarrow> id \<Rightarrow> string \<Rightarrow> id \<Rightarrow> string \<Rightarrow> ChatMessage \<Rightarrow> FileStore \<Rightarrow> FileStore \<times> Conversation" where
  "FileStore_AppendConversationMessage io now x i m n p msg st =
     (case AppendConversationMessage now x i m n p msg (fst_State st) of (s, c) \<Rightarrow> (saving io True s st, c))"

definition FileStore_DeleteConversation :: "bool \<Rightarrow> id \<Rightarrow> FileStore \<Rightarrow> FileStore \<times> bool" where
  "FileStore_DeleteConversation io i st =
     (case DeleteConversation i (fst_State st) of (s, ok) \<Rightarrow> (saving io ok s st, ok))"

definition FileStore_DeleteMemory :: "bool \<Rightarrow> id \<Rightarrow> FileStore \<Rightarrow> FileStore \<times> bool" where
  "FileStore_DeleteMemory io i st =
     (case DeleteMemory i (fst_State st) of (s, ok) \<Rightarrow> (saving io ok s st, ok))"

definition FileStore_UpsertMemory ::
  "bool \<Rightarrow> 8 word list option \<Rightarrow> time \<Rightarrow> Memory \<Rightarrow> FileStore \<Rightarrow> FileStore \<times> (memory_error + Memory)" where
  "FileStore_UpsertMemory io rnd now m st =
     (case UpsertMemory rnd now m (fst_State st) of (s, r) \<Rightarrow> (saving io (\<not> isl r) s st, r))"

definition FileStore_DeleteMemoriesByModel :: "bool \<Rightarrow> string \<Rightarrow> FileStore \<Rightarrow> FileStore \<times> int" where
  "FileStore_DeleteMemoriesByModel io m st =
     (case DeleteMemoriesByModel m (fst_State st) of (s, deleted) \<Rightarrow> (saving io (deleted > 0) s st, deleted))"

definition FileStore_CancelJob :: "bool \<Rightarrow> time \<Rightarrow> jobs_env \<Rightarrow> id \<Rightarrow> FileStore \<Rightarrow> FileStore \<times> Job option" where
  "FileStore_CancelJob io now q i st =
     (case CancelJob now q i (fst_State st) of (s, r) \<Rightarrow> (saving io (r \<noteq> None) s st, r))"

text \<open>\<open>UpdateJobProgress\<close> and \<open>Nodes\<close> are not overridden: the embedded methods run and nothing is saved.\<close>

fun file_exec :: "bool \<Rightarrow> manager_op \<Rightarrow> FileStore \<Rightarrow> FileStore" where
  "file_exec io (OpRegister rnd now q req) st = fst (FileStore_RegisterWorker io rnd now q req st)"
| "file_exec io (OpHeartbeat now q hb) st = fst (FileStore_Heartbeat io now q hb st)"
| "file_exec io (OpOffline now q n) st = fst (FileStore_MarkWorkerOffline io now q n st)"
| "file_exec io (OpNodes now v) st = st\<lparr>fst_State := fst (Nodes now v (fst_State st))\<rparr>"
| "file_exec io (OpBenchmark now r) st = fst (FileStore_PutBenchmark io now r st)"
| "file_exec io (OpHealth now u) st = fst (FileStore_PutRPCHealth io now u st)"
| "file_exec io (OpCreate rnd now env req) st = fst (FileStore_CreateJob io rnd now env req st)"
| "file_exec io (OpBatch now rs) st = fst (FileStore_CreateJobsBatch io now rs st)"
| "file_exec io (OpNext now ord n) st = fst (FileStore_NextJobForWorker io now ord n st)"
| "file_exec io (OpComplete now env q i req) st = fst (FileStore_CompleteJob io now env q i req st)"
| "file_exec io (OpProgress now i req) st = st\<lparr>fst_State := fst (UpdateJobProgress now i req (fst_State st))\<rparr>"
| "file_exec io (OpStage now i nxt detail) st = fst (FileStore_UpdateCDIPStageState io now i nxt detail st)"
| "file_exec io (OpCoordinator now i result err) st = fst (FileStore_CompleteCoordinatorJob io now i result err st)"
| "file_exec io (OpCancel now q i) st = fst (FileStore_CancelJob io now q i st)"
| "file_exec io (OpAppend now x i m n p msg) st = fst (FileStore_AppendConversationMessage io now x i m n p msg st)"
| "file_exec io (OpDeleteConversation i) st = fst (FileStore_DeleteConversation io i st)"
| "file_exec io (OpUpsertMemory rnd now m) st = fst (FileStore_UpsertMemory io rnd now m st)"
| "file_exec io (OpDeleteMemory i) st = fst (FileStore_DeleteMemory io i st)"
| "file_exec io (OpDeleteMemories m) st = fst (FileStore_DeleteMemoriesByModel io m st)"

lemmas file_op_defs = FileStore_RegisterWorker_def FileStore_Heartbeat_def FileStore_MarkWorkerOffline_def
  FileStore_PutBenchmark_def FileStore_PutRPCHealth_def FileStore_CreateJob_def FileStore_CreateJobsBatch_def
  FileStore_NextJobForWorker_def FileStore_UpdateCDIPStageState_def FileStore_CompleteCoordinatorJob_def
  FileStore_CompleteJob_def FileStore_AppendConversationMessage_def FileStore_DeleteConversation_def
  FileStore_DeleteMemory_def FileStore_UpsertMemory_def FileStore_DeleteMemoriesByModel_def FileStore_CancelJob_def

subsection \<open>The Store interface\<close>

text \<open>
  \<open>Store\<close>, the interface of store.go: an implementation runs the operations (its readings \<open>'e\<close> are what it
  reads besides those of the operation), and its clients see a \<open>State\<close> that changes as the operations of \<open>State\<close>
  say.
\<close>

locale store =
  fixes run_op :: "'e \<Rightarrow> manager_op \<Rightarrow> 's \<Rightarrow> 's" and view :: "'s \<Rightarrow> State"
  assumes implements: "view (run_op e op st) = exec op (view st)"
begin

lemma run_implements: "view (foldl (\<lambda>st (e, op). run_op e op st) st ops) = foldl (\<lambda>s (e, op). exec op s) (view st) ops"
  by (induction ops arbitrary: st) (auto simp: implements)

lemma run_reachable:
  assumes "reachable (view st)" and "list_all (\<lambda>(e, op). op_ok op) ops"
  shows "reachable (view (foldl (\<lambda>st (e, op). run_op e op st) st ops))"
  using assms
proof (induction ops arbitrary: st)
  case (Cons x ops)
  obtain e op where x: "x = (e, op)" by force
  with Cons.prems have "reachable (view (run_op e op st))" by (simp add: implements reachable.step)
  with Cons x show ?case by simp
qed simp

lemma run_invariant:
  "reachable (view st) \<Longrightarrow> list_all (\<lambda>(e, op). op_ok op) ops \<Longrightarrow>
     state_wf (view (foldl (\<lambda>st (e, op). run_op e op st) st ops))"
  by (rule reachable_wf [OF run_reachable])

end

interpretation memory_store: store "\<lambda>e. exec" "\<lambda>s. s"
  by unfold_locales simp

lemma saving_state [simp]: "fst_State (saving io changed s st) = s"
  by (simp add: saving_def save_def split: option.splits)

lemma file_exec_state: "fst_State (file_exec io op st) = exec op (fst_State st)"
  by (cases op) (simp_all add: file_op_defs split: prod.splits)

interpretation file_store: store file_exec fst_State
  by unfold_locales (rule file_exec_state)

subsection \<open>What a restart recovers\<close>

text \<open>Two states with the same contents: maps are compared entry by entry.\<close>

definition same_state :: "State \<Rightarrow> State \<Rightarrow> bool" where
  "same_state s t \<longleftrightarrow> startedAt s = startedAt t \<and> heartbeatTimeout s = heartbeatTimeout t
     \<and> mget (nodes s) = mget (nodes t) \<and> mget (rpcHealth s) = mget (rpcHealth t) \<and> mget (jobs s) = mget (jobs t)
     \<and> mget (conversations s) = mget (conversations t) \<and> mget (memories s) = mget (memories t)
     \<and> (\<forall>i. map_option mget (mget (benchmarks s) i) = map_option mget (mget (benchmarks t) i))"

text \<open>A state whose strings are valid UTF-8 (and whose benchmark metadata is listed in key order).\<close>

definition clean_map :: "('k \<Rightarrow> 'k) \<Rightarrow> ('v \<Rightarrow> 'v) \<Rightarrow> ('k, 'v) go_map \<Rightarrow> bool" where
  "clean_map g f m \<longleftrightarrow> list_all (\<lambda>(k, v). g k = k \<and> f v = v) m"

definition clean_state :: "State \<Rightarrow> bool" where
  "clean_state s \<longleftrightarrow> clean_map utf8 utf8_node (nodes s) \<and> clean_map utf8 utf8_health (rpcHealth s)
     \<and> clean_map utf8 utf8_job (jobs s) \<and> clean_map utf8 utf8_conversation (conversations s)
     \<and> clean_map utf8 utf8_memory (memories s)
     \<and> list_all (\<lambda>(k, m). utf8 k = k \<and> clean_map utf8_kind utf8_benchmark m) (benchmarks s)"

lemma mget_foldl_mput:
  assumes "distinct (map fst xs)" and "\<forall>(k, v) \<in> set xs. g k = k"
  shows "mget (foldl (\<lambda>out (k, v). mput (g k) (f v) out) acc xs) i =
    (case map_of xs i of Some v \<Rightarrow> Some (f v) | None \<Rightarrow> mget acc i)"
  using assms
proof (induction xs arbitrary: acc)
  case (Cons x xs)
  obtain k v where x: "x = (k, v)" by force
  have "i = k \<Longrightarrow> map_of xs i = None" using Cons.prems(1) x by (simp add: map_of_eq_None_iff)
  with Cons x show ?case by (auto split: option.splits)
qed simp

lemma mget_recode:
  assumes "map_wf m" and "\<forall>(k, v) \<in> set m. g k = k"
  shows "mget (recode tkey g f m) i = map_option f (mget m i)"
proof -
  let ?xs = "go_sort (\<lambda>a b. tkey (fst a) < tkey (fst b)) m"
  have dist: "distinct (map fst ?xs)"
    using assms(1) unfolding map_wf_def by (metis mset_go_sort mset_map mset_eq_imp_distinct_iff)
  have "map_of ?xs = map_of m"
    using dist assms(1) by (subst map_of_inject_set) (auto simp: map_wf_def)
  with mget_foldl_mput [OF dist, of g f "[]" i] assms(2) show ?thesis
    by (simp add: recode_def mget_def [of m] split: option.splits)
qed

lemma mput_new_key: "k \<notin> fst ` set m \<Longrightarrow> mput k v m = m @ [(k, v)]"
  by (induction m) (auto simp: mput_def)

lemma clone_map_id:
  assumes "map_wf m"
  shows "clone_map m = m"
proof -
  have "foldl (\<lambda>out (key, value). mput key value out) acc xs = acc @ xs"
    if "distinct (map fst (acc @ xs))" for acc xs :: "('k \<times> 'v) list"
    using that
  proof (induction xs arbitrary: acc)
    case (Cons x xs)
    obtain k v where x: "x = (k, v)" by force
    with Cons.prems have "mput k v acc = acc @ [(k, v)]" by (intro mput_new_key) auto
    with Cons.IH [of "acc @ [x]"] Cons.prems x show ?case by simp
  qed simp
  from this [of "[]" m] assms show ?thesis by (simp add: clone_map_def map_wf_def)
qed

lemma recode_Nil_iff: "map_wf m \<Longrightarrow> \<forall>(k, v) \<in> set m. g k = k \<Longrightarrow> recode tkey g f m = [] \<longleftrightarrow> m = []"
proof -
  assume a: "map_wf m" "\<forall>(k, v) \<in> set m. g k = k"
  have nil: "(\<forall>i. mget x i = None) \<longleftrightarrow> x = []" for x :: "('k, 'v) go_map"
    by (cases x) (auto simp: mget_def)
  have "recode tkey g f m = [] \<longleftrightarrow> (\<forall>i. mget m i = None)"
    unfolding nil [symmetric] mget_recode [OF a] by simp
  then show ?thesis by (simp add: nil)
qed

lemma mget_clean:
  assumes "map_wf m" and "clean_map g f m"
  shows "mget (recode tkey g f m) = mget m" and "m \<noteq> [] \<longleftrightarrow> recode tkey g f m \<noteq> []"
proof -
  have k: "\<forall>(k, v) \<in> set m. g k = k" using assms(2) by (auto simp: clean_map_def list_all_iff)
  have "mget m i = Some v \<Longrightarrow> f v = v" for i v
    using assms(2) mget_in_set [of m i v] by (auto simp: clean_map_def list_all_iff)
  then have "map_option f (mget m i) = mget m i" for i by (cases "mget m i") auto
  then show "mget (recode tkey g f m) = mget m" using mget_recode [OF assms(1) k] by (intro ext) simp
  show "m \<noteq> [] \<longleftrightarrow> recode tkey g f m \<noteq> []" using recode_Nil_iff [OF assms(1) k] by simp
qed

lemma clone_nested_id:
  assumes "map_wf m" and "\<And>k b. (k, b) \<in> set m \<Longrightarrow> map_wf b"
  shows "cloneBenchmarks m = m"
proof -
  have "foldl (\<lambda>out (nodeID, byKind). mput nodeID (clone_map byKind) out) acc xs
      = foldl (\<lambda>out (key, value). mput key value out) acc xs"
    if "\<And>k b. (k, b) \<in> set xs \<Longrightarrow> map_wf b" for acc and xs :: "(id, (BenchmarkKind, BenchmarkResult) go_map) go_map"
    using that
  proof (induction xs arbitrary: acc)
    case (Cons x xs)
    then have "clone_map (snd x) = snd x" by (intro clone_map_id) (metis list.set_intros(1) surjective_pairing)
    with Cons show ?case by (cases x) auto
  qed simp
  with assms clone_map_id [OF assms(1)] show ?thesis by (simp add: cloneBenchmarks_def clone_map_def)
qed

lemma snapshot_maps:
  assumes "state_wf s"
  shows "snapshot_of s = \<lparr>fs_StartedAt = startedAt s, fs_Nodes = Some (nodes s), fs_Benchmarks = Some (benchmarks s),
    fs_RPCHealth = Some (rpcHealth s), fs_Jobs = Some (jobs s), fs_Conversations = Some (conversations s),
    fs_Memories = Some (memories s)\<rparr>"
proof -
  have wf: "map_wf (nodes s)" "map_wf (rpcHealth s)" "map_wf (jobs s)" "map_wf (conversations s)" "map_wf (memories s)"
    "map_wf (benchmarks s)"
    using assms by (auto simp: state_wf_def map_all_def)
  have "(k, b) \<in> set (benchmarks s) \<Longrightarrow> map_wf b" for k b
    using assms in_set_mget [OF wf(6), of k b] map_all_get [of benchmarks_ok "benchmarks s" k b]
    by (simp add: state_wf_def benchmarks_ok_def)
  with wf show ?thesis
    by (simp add: snapshot_of_def cloneNodes_def cloneRPCHealth_def cloneJobs_def cloneConversations_def
        cloneMemories_def clone_map_id clone_nested_id flip: clone_map_def)
qed

lemma omit_empty_restore:
  assumes "map_wf m" and "clean_map g f m"
  shows "mget (case omit_empty (Some (recode tkey g f m)) of Some x \<Rightarrow> x | None \<Rightarrow> []) = mget m"
proof (cases "recode tkey g f m")
  case Nil
  with mget_clean [OF assms, of tkey] show ?thesis by (simp add: omit_empty_def)
next
  case (Cons x xs)
  then have "omit_empty (Some (recode tkey g f m)) = Some (recode tkey g f m)" by (simp add: omit_empty_def)
  with mget_clean(1) [OF assms, of tkey] show ?thesis by simp
qed

lemma restore_same:
  assumes wf: "state_wf s" and clean: "clean_state s" and "startedAt s \<noteq> 0" and "json_codec (snapshot_of s) = Some f"
    and "heartbeatTimeout s = 30 * 1000000000"
  shows "same_state (restore f (NewState now)) s"
proof -
  note codec = assms(4) [unfolded json_codec_def snapshot_maps [OF wf]]
  have m: "map_wf (nodes s)" "map_wf (rpcHealth s)" "map_wf (jobs s)" "map_wf (conversations s)" "map_wf (memories s)"
    "map_wf (benchmarks s)"
    using wf by (auto simp: state_wf_def map_all_def)
  have c: "clean_map utf8 utf8_node (nodes s)" "clean_map utf8 utf8_health (rpcHealth s)" "clean_map utf8 utf8_job (jobs s)"
    "clean_map utf8 utf8_conversation (conversations s)" "clean_map utf8 utf8_memory (memories s)"
    using clean by (auto simp: clean_state_def)
  have keys: "\<forall>(k, v) \<in> set (benchmarks s). utf8 k = k"
    using clean by (auto simp: clean_state_def list_all_iff)
  have bench: "map_option mget (mget (utf8_map utf8_benchmarks (benchmarks s)) i) = map_option mget (mget (benchmarks s) i)" for i
  proof (cases "mget (benchmarks s) i")
    case None
    then show ?thesis by (simp add: utf8_map_def mget_recode [OF m(6) keys])
  next
    case (Some b)
    have "map_wf b" using wf Some by (auto simp: state_wf_def map_all_def benchmarks_ok_def)
    moreover have "clean_map utf8_kind utf8_benchmark b"
      using clean mget_in_set [OF Some] by (auto simp: clean_state_def list_all_iff)
    ultimately show ?thesis
      using Some by (simp add: utf8_map_def mget_recode [OF m(6) keys] utf8_benchmarks_def mget_clean)
  qed
  have f: "f = \<lparr>fs_StartedAt = startedAt s, fs_Nodes = Some (utf8_map utf8_node (nodes s)),
      fs_Benchmarks = Some (utf8_map utf8_benchmarks (benchmarks s)),
      fs_RPCHealth = omit_empty (Some (utf8_map utf8_health (rpcHealth s))), fs_Jobs = Some (utf8_map utf8_job (jobs s)),
      fs_Conversations = omit_empty (Some (utf8_map utf8_conversation (conversations s))),
      fs_Memories = omit_empty (Some (utf8_map utf8_memory (memories s)))\<rparr>"
    using codec by (simp split: if_splits)
  show ?thesis
    unfolding same_state_def restore_def NewState_def f utf8_map_def
    using assms(3,5) bench m c by (simp add: omit_empty_restore mget_clean utf8_map_def cong: option.case_cong)
qed

subsection \<open>The file follows the state\<close>

definition synced :: "FileStore \<Rightarrow> bool" where
  "synced st \<longleftrightarrow> (\<exists>f. fst_disk st = Saved f \<and> json_codec (snapshot_of (fst_State st)) = Some f)"

lemma synced_saving:
  "encodable (snapshot_of s) \<Longrightarrow> synced (saving True True s st)"
  by (simp add: synced_def saving_def save_def json_codec_def)

lemma synced_unchanged: "synced st \<Longrightarrow> synced (saving True False (fst_State st) st)"
  by (simp add: saving_def)

text \<open>The operations that \<open>FileStore\<close> overrides.\<close>

fun persistent :: "manager_op \<Rightarrow> bool" where
  "persistent (OpNodes now v) = False"
| "persistent (OpProgress now i req) = False"
| "persistent _ = True"

fun panics :: "manager_op \<Rightarrow> State \<Rightarrow> bool" where
  "panics (OpComplete now env q i req) s = (snd (CompleteJob now env q i req s) = Panicked)"
| "panics _ s = False"

text \<open>An overridden operation saves, or reports that it did nothing and did nothing.\<close>

definition saves_or_same :: "bool \<Rightarrow> State \<Rightarrow> State \<Rightarrow> bool" where
  "saves_or_same changed s t \<longleftrightarrow> changed \<or> t = s"

lemma saving_synced:
  "synced st \<Longrightarrow> encodable (snapshot_of s) \<Longrightarrow> saves_or_same changed (fst_State st) s \<Longrightarrow> synced (saving True changed s st)"
  by (cases changed) (auto simp: saves_or_same_def synced_saving synced_unchanged)

lemma mcount_zero_filter:
  "\<not> 0 < int (mcount P m) \<Longrightarrow> filter (\<lambda>(k, v). \<not> P v) m = m"
  by (induction m) (auto split: if_splits)

lemma unchanged_results:
  "saves_or_same (snd (Heartbeat_op now q hb s)) s (fst (Heartbeat_op now q hb s))"
  "saves_or_same (snd (MarkWorkerOffline now q n s)) s (fst (MarkWorkerOffline now q n s))"
  "saves_or_same (snd (PutBenchmark now r s)) s (fst (PutBenchmark now r s))"
  "saves_or_same (hr_Endpoint (snd (PutRPCHealth now u s)) \<noteq> []) s (fst (PutRPCHealth now u s))"
  "saves_or_same (snd (UpdateCDIPStageState now i nxt d s) \<noteq> None) s (fst (UpdateCDIPStageState now i nxt d s))"
  "saves_or_same (snd (CompleteCoordinatorJob now i a b s) \<noteq> None) s (fst (CompleteCoordinatorJob now i a b s))"
  "saves_or_same (snd (CancelJob now q i s) \<noteq> None) s (fst (CancelJob now q i s))"
  "saves_or_same (snd (DeleteConversation i s)) s (fst (DeleteConversation i s))"
  "saves_or_same (snd (DeleteMemory i s)) s (fst (DeleteMemory i s))"
  "saves_or_same (\<not> isl (snd (UpsertMemory rnd now mem s))) s (fst (UpsertMemory rnd now mem s))"
  by (auto simp: saves_or_same_def Heartbeat_op_def MarkWorkerOffline_def markWorkerOfflineLocked_def PutBenchmark_def
      PutRPCHealth_def UpdateCDIPStageState_def CompleteCoordinatorJob_def CancelJob_def DeleteConversation_def
      DeleteMemory_def UpsertMemory_def Let_def split: option.splits if_splits)

lemma unchanged_next:
  "saves_or_same (snd (NextJobForWorker now ord n s) \<noteq> None) s (fst (NextJobForWorker now ord n s))"
  unfolding NextJobForWorker_def saves_or_same_def
  by (induction ord) (auto simp: Let_def split: option.splits)

lemma unchanged_delete_memories:
  "saves_or_same (snd (DeleteMemoriesByModel m s) > 0) s (fst (DeleteMemoriesByModel m s))"
  using mcount_zero_filter [of "\<lambda>x. me_ModelID x = TrimSpace m" "memories s"]
  by (cases "mcount (\<lambda>x. me_ModelID x = TrimSpace m) (memories s) = 0")
    (simp_all add: saves_or_same_def DeleteMemoriesByModel_def delete_memories_of_def)

lemma unchanged_complete:
  "snd (CompleteJob now env q i req s) \<noteq> Panicked \<Longrightarrow>
     saves_or_same (case snd (CompleteJob now env q i req s) of Completed j \<Rightarrow> True | Rejected \<Rightarrow> False | Panicked \<Rightarrow> False)
       s (fst (CompleteJob now env q i req s))"
  by (auto simp: saves_or_same_def CompleteJob_def Let_def split: option.splits if_splits prod.splits)

text \<open>
  C15. The file of a \<open>FileStore\<close> follows its state: if the file holds the snapshot of the state before an
  operation that the store overrides, it holds the snapshot of the state after it, when the write succeeds and the
  new state can be encoded; the operation changes the state as the operation of \<open>State\<close> does.
\<close>

theorem file_follows_state:
  assumes "synced st" and "persistent op" and "\<not> panics op (fst_State st)"
    and "encodable (snapshot_of (exec op (fst_State st)))"
  shows "synced (file_exec True op st) \<and> fst_State (file_exec True op st) = exec op (fst_State st)"
proof -
  have "synced (file_exec True op st)"
    using assms(2-4)
    by (cases op) (simp_all add: file_op_defs split_beta saving_synced [OF assms(1)] synced_saving unchanged_results
        unchanged_next unchanged_delete_memories unchanged_complete del: not_None_eq)
  then show ?thesis by (simp add: file_exec_state)
qed

definition demo_store :: FileStore where
  "demo_store = file_exec True (OpRegister (Some [2]) 10 (demo_jobs [] 10) demo_join)
     (case NewFileStore True 5 NoFile of Inr st \<Rightarrow> st | Inl e \<Rightarrow> \<lparr>fst_State = NewState 5, fst_disk = NoFile\<rparr>)"

definition demo_create_op :: manager_op where
  "demo_create_op = OpCreate (Some [1]) 15 (demo_env 15) demo_job_request"

lemma demo_store_evaluated:
  "encodable (snapshot_of demo_registered) \<and> encodable (snapshot_of demo_running) \<and> clean_state demo_registered
   \<and> startedAt demo_registered \<noteq> 0 \<and> length (jobs demo_running) = 1"
  by code_simp

lemma demo_store_facts:
  "fst_State demo_store = demo_registered"
  "encodable (snapshot_of demo_registered)"
  "encodable (snapshot_of (exec demo_create_op demo_registered))"
proof -
  have "fst_State (case NewFileStore True 5 NoFile of Inr st \<Rightarrow> st | Inl e \<Rightarrow> \<lparr>fst_State = NewState 5, fst_disk = NoFile\<rparr>) = NewState 5"
    by (simp add: NewFileStore_def load_def save_def split: option.split)
  then show "fst_State demo_store = demo_registered" by (simp only: demo_store_def file_exec_state demo_registered_def)
  have "exec demo_create_op demo_registered = demo_running" by (simp add: demo_create_op_def demo_running_def)
  then show "encodable (snapshot_of demo_registered)" "encodable (snapshot_of (exec demo_create_op demo_registered))"
    using demo_store_evaluated by simp_all
qed

lemma demo_store_synced: "synced demo_store"
proof -
  have "fst (RegisterWorker (Some [2]) 10 (demo_jobs [] 10) demo_join (NewState 5)) = demo_registered"
    by (simp add: demo_registered_def)
  then show ?thesis
    using synced_saving [OF demo_store_facts(2)] demo_store_facts(1)
    unfolding demo_store_def file_exec.simps FileStore_RegisterWorker_def
    by (simp add: split_beta)
qed

theorem file_follows_state_witness:
  "synced demo_store \<and> synced (file_exec True demo_create_op demo_store)
   \<and> length (jobs (fst_State (file_exec True demo_create_op demo_store))) = 1"
proof -
  have "length (jobs (exec demo_create_op demo_registered)) = 1"
    using demo_store_evaluated by (simp add: demo_create_op_def demo_running_def)
  moreover have "persistent demo_create_op" "\<not> panics demo_create_op (fst_State demo_store)"
    by (simp_all add: demo_create_op_def)
  ultimately show ?thesis
    using file_follows_state [OF demo_store_synced] demo_store_facts demo_store_synced by simp
qed

text \<open>The heartbeat timeout is fixed when the state is created.\<close>

lemma nodes_loop_timeout: "heartbeatTimeout (fst (nodes_loop now qs ks out s)) = heartbeatTimeout s"
proof (induction ks arbitrary: out s)
  case (Cons k ks)
  have "heartbeatTimeout (fst (nodes_one now qs n s)) = heartbeatTimeout s" for n
    by (simp add: nodes_one_def Let_def)
  with Cons show ?case by (auto split: option.splits prod.splits) (metis fst_conv)
qed simp

lemma append_timeout [simp]: "heartbeatTimeout (appendAssistantMessageForJobLocked j now s) = heartbeatTimeout s"
  by (auto simp: appendAssistantMessageForJobLocked_def Let_def split: prod.splits option.splits)

lemma cleanup_timeout:
  "cleanupModelPersistenceForDeleteJobLocked j s = (t, r) \<Longrightarrow> heartbeatTimeout t = heartbeatTimeout s"
  by (auto simp: cleanupModelPersistenceForDeleteJobLocked_def delete_memories_of_def delete_conversations_of_def
      split: if_splits option.splits)

lemma complete_timeout: "heartbeatTimeout (fst (CompleteJob now env q i req s)) = heartbeatTimeout s"
  by (auto simp: CompleteJob_def Let_def split: option.splits prod.splits dest!: cleanup_timeout)

lemma exec_timeout: "heartbeatTimeout (exec op s) = heartbeatTimeout s"
  by (cases op)
    (auto simp: RegisterWorker_def Heartbeat_op_def MarkWorkerOffline_def markWorkerOfflineLocked_def Nodes_def
      nodes_loop_timeout PutBenchmark_def PutRPCHealth_def CreateJob_def CreateJobsBatch_def
      rest_fields [OF rest_batch] NextJobForWorker_def rest_fields [OF rest_Next] complete_timeout
      UpdateJobProgress_def UpdateCDIPStageState_def CompleteCoordinatorJob_def CancelJob_def
      AppendConversationMessage_def upsertExtractedMemoriesLocked_def DeleteConversation_def UpsertMemory_def
      DeleteMemory_def DeleteMemoriesByModel_def delete_memories_of_def Let_def split: option.splits)

lemma reachable_timeout: "reachable s \<Longrightarrow> heartbeatTimeout s = 30 * 1000000000"
  by (induction rule: reachable.induct) (auto simp: NewState_def exec_timeout)



end
