(* ===== verification/Strconv.thy ===== *)
theory Strconv
  imports Json
begin

section \<open>Numbers as text (strconv.ParseFloat and %.1f)\<close>

text \<open>
  \<open>strconv.ParseFloat(s, 64)\<close> in full: an optional sign, decimal or hexadecimal digits with a point and
  underscores, an exponent, and the names of the infinities and of NaN. The value is exact before it is rounded
  once; \<open>None\<close> stands for every error, those for values out of range included. \<open>fmt_f1\<close> is the verb
  \<open>%.1f\<close>: the exact value rounded to one decimal, ties to even.
\<close>

definition digit_in :: "bool \<Rightarrow> char \<Rightarrow> int option" where
  "digit_in hex c = (if hex then hex_val c else if is_digit c then Some (byte c - 48) else None)"

text \<open>The digits of the mantissa: whether a digit and whether an underscore was seen, the digits as a number,
  how many of them follow the point, and the rest of the text.\<close>

fun scan_mantissa :: "bool \<Rightarrow> bool \<Rightarrow> bool \<Rightarrow> bool \<Rightarrow> int \<Rightarrow> int \<Rightarrow> string \<Rightarrow> bool \<times> bool \<times> int \<times> int \<times> string" where
  "scan_mantissa hex dot saw und mant after [] = (saw, und, mant, after, [])"
| "scan_mantissa hex dot saw und mant after (c # cs) =
     (if c = CHR ''_'' then scan_mantissa hex dot saw True mant after cs
      else if c = CHR ''.'' \<and> \<not> dot then scan_mantissa hex True saw und mant after cs
      else case digit_in hex c of
        Some d \<Rightarrow> scan_mantissa hex dot True und (mant * (if hex then 16 else 10) + d) (if dot then after + 1 else after) cs
      | None \<Rightarrow> (saw, und, mant, after, c # cs))"

fun scan_exponent :: "bool \<Rightarrow> int \<Rightarrow> string \<Rightarrow> bool \<times> int \<times> string" where
  "scan_exponent und e [] = (und, e, [])"
| "scan_exponent und e (c # cs) =
     (if c = CHR ''_'' then scan_exponent True e cs
      else if is_digit c then scan_exponent und (if e < 10000 then e * 10 + (byte c - 48) else e) cs
      else (und, e, c # cs))"

definition split_sign :: "string \<Rightarrow> bool \<times> string" where
  "split_sign s = (case s of [] \<Rightarrow> (False, [])
     | c # cs \<Rightarrow> if c = CHR ''-'' then (True, cs) else if c = CHR ''+'' then (False, cs) else (False, s))"

text \<open>\<open>underscoreOK\<close>: underscores only between digits, or between a base prefix and a digit.\<close>

datatype seen = SawStart | SawDigit | SawUnderscore | SawOther

fun underscores_ok :: "bool \<Rightarrow> seen \<Rightarrow> string \<Rightarrow> bool" where
  "underscores_ok hex saw [] \<longleftrightarrow> saw \<noteq> SawUnderscore"
| "underscores_ok hex saw (c # cs) \<longleftrightarrow>
     (if digit_in hex c \<noteq> None then underscores_ok hex SawDigit cs
      else if c = CHR ''_'' then saw = SawDigit \<and> underscores_ok hex SawUnderscore cs
      else saw \<noteq> SawUnderscore \<and> underscores_ok hex SawOther cs)"

definition underscoreOK :: "string \<Rightarrow> bool" where
  "underscoreOK s =
     (case snd (split_sign s) of
        z # x # cs \<Rightarrow>
          if z = CHR ''0'' \<and> lower_char x \<in> {CHR ''b'', CHR ''o'', CHR ''x''}
          then underscores_ok (lower_char x = CHR ''x'') SawDigit cs
          else underscores_ok False SawStart (z # x # cs)
      | cs \<Rightarrow> underscores_ok False SawStart cs)"

definition read_exponent :: "bool \<Rightarrow> bool \<Rightarrow> string \<Rightarrow> (bool \<times> int \<times> string) option" where
  "read_exponent hex und s =
     (case s of
        [] \<Rightarrow> if hex then None else Some (und, 0, [])
      | c # cs \<Rightarrow>
        if lower_char c = (if hex then CHR ''p'' else CHR ''e'') then
          (let (neg, ds) = split_sign cs
           in case ds of
                [] \<Rightarrow> None
              | d # _ \<Rightarrow>
                if \<not> is_digit d then None
                else let (u, e, t) = scan_exponent und 0 ds in Some (u, if neg then - e else e, t))
        else if hex then None else Some (und, 0, s))"

definition read_float :: "string \<Rightarrow> rat option" where
  "read_float s =
     (let (neg, body) = split_sign s;
          (hex, digits) = (case body of
              z # x # y # cs \<Rightarrow> if z = CHR ''0'' \<and> lower_char x = CHR ''x'' then (True, y # cs) else (False, body)
            | _ \<Rightarrow> (False, body));
          (saw, und, mant, after, t) = scan_mantissa hex False False False 0 0 digits
      in if \<not> saw then None
         else case read_exponent hex und t of
             None \<Rightarrow> None
           | Some (und', e, t') \<Rightarrow>
               if t' \<noteq> [] \<or> und' \<and> \<not> underscoreOK s then None
               else let x = of_int mant * (if hex then pow2 (e - 4 * after) else pow10 (e - after))
                 in Some (if neg then - x else x))"

fun in_range64 :: "f64 \<Rightarrow> f64 option" where
  "in_range64 (Fin x) = Some (Fin x)"
| "in_range64 _ = None"

definition ParseFloat :: "string \<Rightarrow> f64 option" where
  "ParseFloat s =
     (let (neg, body) = split_sign s; name = map lower_char body
      in if name = ''inf'' \<or> name = ''infinity'' then Some (if neg then NInf else PInf)
         else if map lower_char s = ''nan'' then Some NaN
         else case read_float s of None \<Rightarrow> None | Some x \<Rightarrow> in_range64 (round64 x))"

text \<open>\<open>strconv.Atoi\<close>: a sign and decimal digits within the range of \<open>int\<close>.\<close>

definition Atoi :: "string \<Rightarrow> int option" where
  "Atoi s = (case split_sign s of (neg, ds) \<Rightarrow>
     if ds = [] \<or> \<not> list_all is_digit ds then None
     else let v = (if neg then - digits_val ds else digits_val ds) in if int64_range v then Some v else None)"

fun fmt_f1 :: "f64 \<Rightarrow> string" where
  "fmt_f1 (Fin x) =
     (let n = round_half_even (\<bar>x\<bar> * 10)
      in (if x < 0 then ''-'' else []) @ show_int (n div 10) @ ''.'' @ show_int (n mod 10))"
| "fmt_f1 PInf = ''+Inf''"
| "fmt_f1 NInf = ''-Inf''"
| "fmt_f1 NaN = ''NaN''"

lemma ParseFloat_examples:
  "ParseFloat ''0.5'' = Some (Fin (1 / 2))"
  "ParseFloat ''1_000e-1'' = Some (Fin 100)"
  "ParseFloat ''1__0'' = None"
  "ParseFloat ''0x1.8p1'' = Some (Fin 3)"
  "ParseFloat ''-Infinity'' = Some NInf"
  "ParseFloat ''7B'' = None"
  "ParseFloat [] = None"
  by code_simp+

lemma fmt_f1_examples:
  "fmt_f1 (Fin (1 / 4)) = ''0.2''" "fmt_f1 (Fin (3 / 4)) = ''0.8''" "fmt_f1 (Fin 12) = ''12.0''"
  by code_simp+

end
