(* ===== verification/Views.thy ===== *)
theory Views
  imports Strconv Scheduling
begin

section \<open>Model summaries and placement (internal/manager/models.go)\<close>

text \<open>
  What the manager derives from the catalog, the jobs and the nodes: where a model is installed, which workers could
  install it and why not, the status shown for it, the filters of the catalog page, and the placement plan. The functions read their
  arguments only. The map \<open>installed\<close> holds only the value true and is read by key or sorted: it is the list of its keys.
  The jobs and nodes come in the order of the lists that the store returns.
\<close>

record ModelInstall =
  mi_NodeID :: string
  mi_NodeName :: string
  mi_Path :: string
  mi_Bytes :: u64
  mi_Family :: string
  mi_Runtime :: string
  mi_InstalledAt :: time
  mi_ModelReady :: bool
  mi_ModelError :: string
  mi_Repairable :: bool
  mi_RepairReason :: string
  mi_RuntimeReady :: bool
  mi_RuntimeStatus :: RuntimeResource
  mi_GenerateReady :: bool
  mi_GenerateBlocked :: string
  mi_AllowedStorageBytes :: u64
  mi_FreeStorageBytes :: u64
  mi_UsedByModelsBytes :: u64
  mi_UsedByCacheBytes :: u64
  mi_ActiveJobID :: string

record ModelCapability =
  mc_NodeID :: string
  mc_Name :: string
  mc_Capable :: bool
  mc_Installed :: bool
  mc_AllowedMemoryBytes :: u64
  mc_AllowedStorageBytes :: u64
  mc_FreeStorageBytes :: u64
  mc_AllowedVRAMBytes :: u64
  mc_ActiveJobs :: int
  mc_ActiveJobID :: string
  mc_JobSlots :: int
  mc_Reasons :: "string list"

record ModelSummary =
  ms_Model :: Model
  ms_Status :: string
  ms_InstalledOn :: "string list"
  ms_GeneratableOn :: "string list"
  ms_Installed :: "ModelInstall list"
  ms_ActiveJobID :: string
  ms_LastJobID :: string
  ms_LastError :: string
  ms_LastUpdated :: time
  ms_CapableNodes :: int
  ms_Capabilities :: "ModelCapability list"

record ModelCatalogFilters =
  mf_Query :: string
  mf_Status :: string
  mf_Family :: string
  mf_CapableOnly :: bool
  mf_Sort :: string

record ModelPlanShard =
  ps_NodeID :: string
  ps_NodeName :: string
  ps_MemoryBytes :: u64
  ps_DiskBytes :: u64
  ps_AllowedMemoryBytes :: u64
  ps_AllowedStorageBytes :: u64

record ModelPlacementPlan =
  mp_ModelID :: string
  mp_Mode :: string
  mp_Feasible :: bool
  mp_RunnableNow :: bool
  mp_RequiredMemoryBytes :: u64
  mp_RequiredDiskBytes :: u64
  mp_AggregateMemoryBytes :: u64
  mp_AggregateDiskBytes :: u64
  mp_SingleNodeCandidates :: "ModelCapability list"
  mp_Shards :: "ModelPlanShard list"
  mp_Blockers :: "string list"
  mp_Warnings :: "string list"

subsection \<open>Helpers\<close>

fun firstNonEmptyString :: "string list \<Rightarrow> string" where
  "firstNonEmptyString [] = []"
| "firstNonEmptyString (v # vs) = (if \<not> blank v then v else firstNonEmptyString vs)"

definition modelInstallRepairable :: "ModelResource \<Rightarrow> bool" where
  "modelInstallRepairable model \<longleftrightarrow> \<not> mr_Ready model \<or> \<not> blank (mr_Error model)"

definition modelInstallRepairReason :: "ModelResource \<Rightarrow> string" where
  "modelInstallRepairReason model =
     (if \<not> blank (mr_Error model) then mr_Error model
      else if \<not> mr_Ready model then ''model files are not ready''
      else [])"

definition modelInstallGenerateReadiness :: "ModelResource \<Rightarrow> RuntimeResource \<Rightarrow> bool \<Rightarrow> string \<Rightarrow> bool \<times> string" where
  "modelInstallGenerateReadiness model runtimeStatus runtimeReady activeJobID =
     (if \<not> mr_Ready model then
        (if \<not> blank (mr_Error model) then (False, ''model files are not ready: '' @ mr_Error model)
         else (False, ''model files are not ready''))
      else if \<not> runtimeReady then
        (if \<not> blank (rt_Error runtimeStatus) then (False, ''runtime is not ready: '' @ rt_Error runtimeStatus)
         else (False, ''runtime is not ready''))
      else if \<not> blank activeJobID then (False, ''model has an active job on this worker: '' @ activeJobID)
      else (True, []))"

definition zero_runtime :: RuntimeResource where
  "zero_runtime = \<lparr>rt_Name = [], rt_Ready = False, rt_Version = [], rt_Platform = [], rt_BinaryPath = [], rt_Source = [],
     rt_Capabilities = [], rt_RPCRuntimes = [], rt_StageRuntimes = [], rt_Error = []\<rparr>"

fun runtime_status_loop :: "string \<Rightarrow> RuntimeResource list \<Rightarrow> RuntimeResource \<times> bool" where
  "runtime_status_loop runtimeName [] =
     (zero_runtime\<lparr>rt_Name := runtimeName, rt_Error := ''runtime not reported''\<rparr>, False)"
| "runtime_status_loop runtimeName (runtime # runtimes) =
     (if rt_Name runtime = runtimeName \<and> rt_Ready runtime then (runtime, True)
      else if rt_Name runtime = runtimeName then (runtime, False)
      else runtime_status_loop runtimeName runtimes)"

definition nodeRuntimeStatus :: "Node \<Rightarrow> string \<Rightarrow> RuntimeResource \<times> bool" where
  "nodeRuntimeStatus node name =
     (let runtimeName = TrimSpace name
      in if runtimeName = [] then (zero_runtime\<lparr>rt_Ready := True\<rparr>, True)
         else runtime_status_loop runtimeName (rs_Runtimes (n_Resources node)))"

definition nodeRuntimeReady :: "Node \<Rightarrow> string \<Rightarrow> bool" where
  "nodeRuntimeReady node runtimeName = snd (nodeRuntimeStatus node runtimeName)"

definition nodeDisplayName :: "Node \<Rightarrow> string" where
  "nodeDisplayName node = (if \<not> blank (n_Name node) then n_Name node else n_ID node)"

fun activeModelJobsForNode :: "Job list \<Rightarrow> string \<Rightarrow> int" where
  "activeModelJobsForNode [] nodeID = 0"
| "activeModelJobsForNode (job # js) nodeID =
     (if j_AssignedTo job \<noteq> nodeID then activeModelJobsForNode js nodeID
      else if j_Status job = StatusQueued \<or> j_Status job = StatusScheduled \<or> j_Status job = StatusRunning
        then activeModelJobsForNode js nodeID + 1
      else activeModelJobsForNode js nodeID)"

fun hasAllowedVRAM :: "GPUResources list \<Rightarrow> u64 \<Rightarrow> bool" where
  "hasAllowedVRAM [] required = False"
| "hasAllowedVRAM (gpu # gpus) required =
     (if gpu_ComputeCompatible gpu \<and> gpu_AllowedVRAMBytes gpu \<ge> required then True else hasAllowedVRAM gpus required)"

definition maxAllowedVRAM :: "GPUResources list \<Rightarrow> u64" where
  "maxAllowedVRAM gpus =
     foldl (\<lambda>maxValue gpu. if gpu_ComputeCompatible gpu \<and> gpu_AllowedVRAMBytes gpu > maxValue
        then gpu_AllowedVRAMBytes gpu else maxValue) 0 gpus"

definition gbDiff :: "u64 \<Rightarrow> u64 \<Rightarrow> f64" where
  "gbDiff required actual =
     (if required \<le> actual then Fin 0
      else fdiv (fdiv (fdiv (f64_of_u64 (required - actual)) (Fin 1024)) (Fin 1024)) (Fin 1024))"

definition short_by :: "string \<Rightarrow> u64 \<Rightarrow> u64 \<Rightarrow> string" where
  "short_by what required actual = what @ '' short by '' @ fmt_f1 (gbDiff required actual) @ '' GB''"

definition visibleModelLastError :: "string \<Rightarrow> string" where
  "visibleModelLastError value = (if Contains value ''unsupported job type'' then [] else value)"

definition jobModelID :: "Job \<Rightarrow> string \<times> bool" where
  "jobModelID job =
     (if blank (j_Input job) then ([], False)
      else case Unmarshal [(''model_id'', dstr (\<lambda>s _. s))] [] (j_Input job) of
          None \<Rightarrow> ([], False)
        | Some modelID \<Rightarrow> (modelID, modelID \<noteq> []))"

fun active_model_job_loop :: "string \<Rightarrow> string \<Rightarrow> Job list \<Rightarrow> string" where
  "active_model_job_loop modelID nodeID [] = []"
| "active_model_job_loop modelID nodeID (job # js) =
     (if j_AssignedTo job \<noteq> nodeID then active_model_job_loop modelID nodeID js
      else if j_Status job \<noteq> StatusQueued \<and> j_Status job \<noteq> StatusScheduled \<and> j_Status job \<noteq> StatusRunning
        then active_model_job_loop modelID nodeID js
      else (case jobModelID job of (activeModelID, ok) \<Rightarrow>
        if ok \<and> activeModelID = modelID then j_ID job else active_model_job_loop modelID nodeID js))"

definition activeModelJobForNode :: "Job list \<Rightarrow> string \<Rightarrow> string \<Rightarrow> string" where
  "activeModelJobForNode js modelID nodeID =
     (if TrimSpace modelID = [] \<or> TrimSpace nodeID = [] then []
      else active_model_job_loop (TrimSpace modelID) (TrimSpace nodeID) js)"

subsection \<open>Capabilities\<close>

text \<open>The conditions of the code in their order, each with the reason it adds.\<close>

definition capability_reasons :: "Model \<Rightarrow> Node \<Rightarrow> bool \<Rightarrow> string \<Rightarrow> int \<Rightarrow> string list" where
  "capability_reasons model node installed activeJobID activeJobs =
     (let r = n_Resources node; mem = mem_AllowedBytes (rs_Memory r); st = rs_Storage r; slots = workerJobSlots node
      in (if installed then [''already installed''] else [])
         @ (if activeJobID \<noteq> [] then [''model job already active: '' @ activeJobID] else [])
         @ (if mem < m_MemoryBytes model then [short_by ''RAM'' (m_MemoryBytes model) mem] else [])
         @ (if st_AllowedBytes st < m_DiskBytes model then [short_by ''disk'' (m_DiskBytes model) (st_AllowedBytes st)] else [])
         @ (if st_AllowedBytes st > 0 \<and> st_UsedByModelsBytes st > 0
              \<and> st_UsedByModelsBytes st + m_DiskBytes model > st_AllowedBytes st
            then [short_by ''model quota'' (m_DiskBytes model)
              (if st_AllowedBytes st > st_UsedByModelsBytes st then st_AllowedBytes st - st_UsedByModelsBytes st else 0)]
            else [])
         @ (if st_FreeBytes st > 0 \<and> st_FreeBytes st < m_DiskBytes model
            then [short_by ''free disk'' (m_DiskBytes model) (st_FreeBytes st)] else [])
         @ (if m_VRAMBytes model > 0 \<and> \<not> hasAllowedVRAM (rs_GPU r) (m_VRAMBytes model)
            then [short_by ''VRAM'' (m_VRAMBytes model) (maxAllowedVRAM (rs_GPU r))] else [])
         @ (if slots > 0 \<and> activeJobs \<ge> slots
            then [''all job slots busy ('' @ show_int activeJobs @ ''/'' @ show_int slots @ '')''] else []))"

definition node_capability :: "Model \<Rightarrow> Job list \<Rightarrow> string list \<Rightarrow> Node \<Rightarrow> ModelCapability" where
  "node_capability model js installed node =
     (let r = n_Resources node;
          activeJobID = activeModelJobForNode js (m_ID model) (n_ID node);
          activeJobs = activeModelJobsForNode js (n_ID node);
          here = (n_ID node \<in> set installed);
          reasons = capability_reasons model node here activeJobID activeJobs
      in \<lparr>mc_NodeID = n_ID node, mc_Name = (if blank (n_Name node) then n_ID node else n_Name node),
          mc_Capable = (reasons = []), mc_Installed = here,
          mc_AllowedMemoryBytes = mem_AllowedBytes (rs_Memory r), mc_AllowedStorageBytes = st_AllowedBytes (rs_Storage r),
          mc_FreeStorageBytes = st_FreeBytes (rs_Storage r), mc_AllowedVRAMBytes = maxAllowedVRAM (rs_GPU r),
          mc_ActiveJobs = activeJobs, mc_ActiveJobID = activeJobID, mc_JobSlots = workerJobSlots node,
          mc_Reasons = reasons\<rparr>)"

definition capability_less :: "ModelCapability \<Rightarrow> ModelCapability \<Rightarrow> bool" where
  "capability_less a b = (if mc_Capable a \<noteq> mc_Capable b then mc_Capable a else mc_Name a < mc_Name b)"

definition modelCapabilities :: "Model \<Rightarrow> Node list \<Rightarrow> Job list \<Rightarrow> string list \<Rightarrow> ModelCapability list" where
  "modelCapabilities model ns js installed =
     go_sort capability_less (map (node_capability model js installed) (filter online_worker ns))"

fun capableModelNodes :: "ModelCapability list \<Rightarrow> int" where
  "capableModelNodes [] = 0"
| "capableModelNodes (c # cs) = (if mc_Capable c then capableModelNodes cs + 1 else capableModelNodes cs)"

subsection \<open>Summaries\<close>

definition installed_on :: "Model \<Rightarrow> Node list \<Rightarrow> string list" where
  "installed_on model ns =
     remdups (map n_ID (filter (\<lambda>node. online_worker node
       \<and> list_ex (\<lambda>m. mr_ID m = m_ID model) (rs_Models (n_Resources node))) ns))"

definition model_install :: "Model \<Rightarrow> Job list \<Rightarrow> Node \<Rightarrow> ModelResource \<Rightarrow> ModelInstall" where
  "model_install model js node m =
     (let (runtimeStatus, runtimeReady) = nodeRuntimeStatus node (m_Runtime model);
          activeJobID = activeModelJobForNode js (m_ID model) (n_ID node);
          (generateReady, generateBlocked) = modelInstallGenerateReadiness m runtimeStatus runtimeReady activeJobID;
          st = rs_Storage (n_Resources node)
      in \<lparr>mi_NodeID = n_ID node, mi_NodeName = nodeDisplayName node, mi_Path = mr_Path m, mi_Bytes = mr_Bytes m,
          mi_Family = firstNonEmptyString [mr_Family m, m_Family model],
          mi_Runtime = firstNonEmptyString [mr_Runtime m, m_Runtime model],
          mi_InstalledAt = mr_InstalledAt m, mi_ModelReady = mr_Ready m, mi_ModelError = mr_Error m,
          mi_Repairable = modelInstallRepairable m, mi_RepairReason = modelInstallRepairReason m,
          mi_RuntimeReady = runtimeReady, mi_RuntimeStatus = runtimeStatus, mi_GenerateReady = generateReady,
          mi_GenerateBlocked = generateBlocked, mi_AllowedStorageBytes = st_AllowedBytes st,
          mi_FreeStorageBytes = st_FreeBytes st, mi_UsedByModelsBytes = st_UsedByModelsBytes st,
          mi_UsedByCacheBytes = st_UsedByCacheBytes st, mi_ActiveJobID = activeJobID\<rparr>)"

definition model_installs :: "Model \<Rightarrow> Job list \<Rightarrow> Node list \<Rightarrow> ModelInstall list" where
  "model_installs model js ns =
     concat (map (\<lambda>node. map (model_install model js node)
       (filter (\<lambda>m. mr_ID m = m_ID model) (rs_Models (n_Resources node)))) (filter online_worker ns))"

definition install_less :: "ModelInstall \<Rightarrow> ModelInstall \<Rightarrow> bool" where
  "install_less a b =
     (if mi_NodeName a = mi_NodeName b then mi_NodeID a < mi_NodeID b else mi_NodeName a < mi_NodeName b)"

definition in_progress :: "Job \<Rightarrow> bool" where
  "in_progress job \<longleftrightarrow> j_Status job = StatusScheduled \<or> j_Status job = StatusRunning \<or> j_Status job = StatusQueued"

text \<open>One turn of the loop over the jobs, oldest update first; \<open>lastUpdated\<close> is \<open>ms_LastUpdated\<close>, with which
  it always agrees.\<close>

definition summary_job :: "Job \<Rightarrow> ModelSummary \<Rightarrow> ModelSummary" where
  "summary_job job summary =
     (if jobModelID job \<noteq> (m_ID (ms_Model summary), True) then summary
      else let summary = (if j_UpdatedAt job > ms_LastUpdated summary
             then summary\<lparr>ms_LastJobID := j_ID job, ms_LastUpdated := j_UpdatedAt job,
               ms_LastError := visibleModelLastError (j_Error job)\<rparr>
             else summary)
        in if (j_Type job = JobInstall \<or> j_Type job = JobRepair) \<and> in_progress job then
             summary\<lparr>ms_Status := (if j_Type job = JobRepair then ''repairing'' else ''installing''), ms_ActiveJobID := j_ID job\<rparr>
           else if j_Type job = JobDelete \<and> in_progress job then
             summary\<lparr>ms_Status := ''deleting'', ms_ActiveJobID := j_ID job\<rparr>
           else summary)"

definition model_summary :: "Node list \<Rightarrow> Job list \<Rightarrow> Model \<Rightarrow> ModelSummary" where
  "model_summary ns js model =
     (let installed = installed_on model ns; capabilities = modelCapabilities model ns js installed;
          installs = model_installs model js ns;
          summary = fold summary_job js
            \<lparr>ms_Model = model, ms_Status = ''available'', ms_InstalledOn = go_sort (<) installed,
             ms_GeneratableOn = go_sort (<) (map mi_NodeID (filter mi_GenerateReady installs)),
             ms_Installed = go_sort install_less installs, ms_ActiveJobID = [], ms_LastJobID = [], ms_LastError = [],
             ms_LastUpdated = 0, ms_CapableNodes = capableModelNodes capabilities, ms_Capabilities = capabilities\<rparr>
      in if ms_InstalledOn summary \<noteq> [] \<and> ms_Status summary = ''available''
         then summary\<lparr>ms_Status := ''installed''\<rparr> else summary)"

definition modelSummaries :: "Model list \<Rightarrow> Job list \<Rightarrow> Node list \<Rightarrow> ModelSummary list" where
  "modelSummaries models js ns =
     map (model_summary ns (go_sort (\<lambda>a b. j_UpdatedAt a < j_UpdatedAt b) js)) models"

definition modelSummaryMatchesQuery :: "ModelSummary \<Rightarrow> string \<Rightarrow> bool" where
  "modelSummaryMatchesQuery summary query =
     (let m = ms_Model summary
      in Contains (ToLower (Join [m_ID m, m_Name m, m_Family m, m_Parameters m, m_Quant m, m_Runtime m, m_Description m] '' '')) query)"

definition summary_less :: "string \<Rightarrow> ModelSummary \<Rightarrow> ModelSummary \<Rightarrow> bool" where
  "summary_less mode left right =
     (let l = ms_Model left; r = ms_Model right; by_name = (ToLower (m_Name l) < ToLower (m_Name r))
      in if mode = ''name'' then by_name
         else if mode = ''ram-asc'' then
           (if m_MemoryBytes l \<noteq> m_MemoryBytes r then m_MemoryBytes l < m_MemoryBytes r else by_name)
         else if mode = ''ram-desc'' then
           (if m_MemoryBytes l \<noteq> m_MemoryBytes r then m_MemoryBytes l > m_MemoryBytes r else by_name)
         else if mode = ''disk-asc'' then
           (if m_DiskBytes l \<noteq> m_DiskBytes r then m_DiskBytes l < m_DiskBytes r else by_name)
         else if ms_CapableNodes left \<noteq> ms_CapableNodes right then ms_CapableNodes left > ms_CapableNodes right
         else if m_MemoryBytes l \<noteq> m_MemoryBytes r then m_MemoryBytes l < m_MemoryBytes r
         else if mode \<noteq> ''capable-desc'' \<and> m_DiskBytes l \<noteq> m_DiskBytes r then m_DiskBytes l < m_DiskBytes r
         else by_name)"

definition summary_passes :: "ModelCatalogFilters \<Rightarrow> ModelSummary \<Rightarrow> bool" where
  "summary_passes filters summary \<longleftrightarrow>
     (mf_Query filters = [] \<or> modelSummaryMatchesQuery summary (mf_Query filters))
     \<and> (mf_Status filters = [] \<or> ToLower (ms_Status summary) = mf_Status filters)
     \<and> (mf_Family filters = [] \<or> ToLower (m_Family (ms_Model summary)) = mf_Family filters)
     \<and> (mf_CapableOnly filters \<longrightarrow> ms_CapableNodes summary \<noteq> 0)"

definition normalize_filters :: "ModelCatalogFilters \<Rightarrow> ModelCatalogFilters" where
  "normalize_filters f =
     (let norm = (\<lambda>s. TrimSpace (ToLower s))
      in f\<lparr>mf_Query := norm (mf_Query f), mf_Status := norm (mf_Status f), mf_Family := norm (mf_Family f),
           mf_Sort := (if norm (mf_Sort f) = [] then ''recommended'' else norm (mf_Sort f))\<rparr>)"

definition filterAndSortModelSummaries :: "ModelSummary list \<Rightarrow> ModelCatalogFilters \<Rightarrow> ModelSummary list" where
  "filterAndSortModelSummaries summaries filters0 =
     (let filters = normalize_filters filters0
      in go_sort (summary_less (mf_Sort filters)) (filter (summary_passes filters) summaries))"

definition modelInstalledOn :: "ModelSummary \<Rightarrow> string \<Rightarrow> bool" where
  "modelInstalledOn summary nodeID = list_ex (\<lambda>i. i = nodeID) (ms_InstalledOn summary)"

definition modelGeneratableOn :: "ModelSummary \<Rightarrow> string \<Rightarrow> bool" where
  "modelGeneratableOn summary nodeID = list_ex (\<lambda>i. i = nodeID) (ms_GeneratableOn summary)"

definition install_blocked_reason :: "ModelInstall \<Rightarrow> string" where
  "install_blocked_reason install =
     (if mi_GenerateBlocked install \<noteq> [] then mi_GenerateBlocked install
      else if \<not> mi_ModelReady install then
        (if mi_ModelError install \<noteq> [] then ''model files are not ready on the selected worker: '' @ mi_ModelError install
         else ''model files are not ready on the selected worker'')
      else if \<not> mi_RuntimeReady install then
        (if rt_Error (mi_RuntimeStatus install) \<noteq> []
         then ''model runtime is not ready on the selected worker: '' @ rt_Error (mi_RuntimeStatus install)
         else ''model runtime is not ready on the selected worker'')
      else [])"

definition modelGenerateBlockedReason :: "ModelSummary \<Rightarrow> string \<Rightarrow> string" where
  "modelGenerateBlockedReason summary nodeID =
     (case List.find (\<lambda>i. mi_NodeID i = nodeID) (ms_Installed summary) of
        Some install \<Rightarrow> install_blocked_reason install
      | None \<Rightarrow> ''model is not installed on the selected worker'')"

definition findModelSummary :: "ModelSummary list \<Rightarrow> string \<Rightarrow> ModelSummary option" where
  "findModelSummary summaries modelID = List.find (\<lambda>summary. m_ID (ms_Model summary) = modelID) summaries"

definition modelInstallEligibility :: "ModelSummary \<Rightarrow> string \<Rightarrow> bool \<times> string" where
  "modelInstallEligibility summary nodeID =
     (if nodeID \<noteq> [] then
        (case List.find (\<lambda>c. mc_NodeID c = nodeID) (ms_Capabilities summary) of
           Some c \<Rightarrow> if mc_Capable c then (True, []) else (False, mc_Name c @ '': '' @ Join (mc_Reasons c) ''; '')
         | None \<Rightarrow> (False, ''selected worker is not online or does not exist''))
      else if ms_CapableNodes summary > 0 then (True, [])
      else if ms_Capabilities summary = [] then (False, ''no online workers are reporting resources'')
      else (False, Join (go_sort (<) (map (\<lambda>c. mc_Name c @ '': ''
             @ (let reason = Join (mc_Reasons c) ''; '' in if reason = [] then ''not eligible'' else reason))
           (filter (\<lambda>c. \<not> mc_Capable c) (ms_Capabilities summary)))) '' | ''))"

subsection \<open>The placement plan\<close>

definition effectiveShardStorageBytes :: "ModelCapability \<Rightarrow> u64" where
  "effectiveShardStorageBytes c =
     (if mc_FreeStorageBytes c > 0 \<and> mc_FreeStorageBytes c < mc_AllowedStorageBytes c then mc_FreeStorageBytes c
      else mc_AllowedStorageBytes c)"

definition minUint64 :: "u64 \<Rightarrow> u64 \<Rightarrow> u64" where
  "minUint64 left right = (if left < right then left else right)"

fun plan_shards_loop :: "u64 \<Rightarrow> u64 \<Rightarrow> ModelCapability list \<Rightarrow> ModelPlanShard list" where
  "plan_shards_loop remainingMemory remainingDisk [] = []"
| "plan_shards_loop remainingMemory remainingDisk (c # cs) =
     (let memoryShare0 = (if cs = [] then remainingMemory else minUint64 (mc_AllowedMemoryBytes c) remainingMemory);
          diskShare0 = (if cs = [] then remainingDisk else minUint64 (mc_AllowedStorageBytes c) remainingDisk);
          memoryShare = (if memoryShare0 > remainingMemory then remainingMemory else memoryShare0);
          diskShare = (if diskShare0 > remainingDisk then remainingDisk else diskShare0)
      in \<lparr>ps_NodeID = mc_NodeID c, ps_NodeName = mc_Name c, ps_MemoryBytes = memoryShare, ps_DiskBytes = diskShare,
          ps_AllowedMemoryBytes = mc_AllowedMemoryBytes c, ps_AllowedStorageBytes = mc_AllowedStorageBytes c\<rparr>
         # plan_shards_loop (remainingMemory - memoryShare) (remainingDisk - diskShare) cs)"

definition buildModelPlanShards :: "Model \<Rightarrow> ModelCapability list \<Rightarrow> ModelPlanShard list" where
  "buildModelPlanShards model selected = plan_shards_loop (m_MemoryBytes model) (m_DiskBytes model) selected"

definition modelPlacementBlockers :: "ModelSummary \<Rightarrow> u64 \<Rightarrow> u64 \<Rightarrow> string list" where
  "modelPlacementBlockers summary aggregateMemoryBytes aggregateDiskBytes =
     (let m = ms_Model summary;
          short = (if aggregateMemoryBytes < m_MemoryBytes m then [short_by ''aggregate RAM'' (m_MemoryBytes m) aggregateMemoryBytes] else [])
            @ (if aggregateDiskBytes < m_DiskBytes m then [short_by ''aggregate disk'' (m_DiskBytes m) aggregateDiskBytes] else []);
          reasons = go_sort (<) (map (\<lambda>c. mc_Name c @ '': '' @ Join (mc_Reasons c) ''; '')
            (filter (\<lambda>c. mc_Reasons c \<noteq> []) (ms_Capabilities summary)));
          blockers = (if short = [] then reasons else short)
      in if blockers = [] then [''no viable placement found''] else blockers)"

definition placement_candidate :: "ModelCapability \<Rightarrow> bool" where
  "placement_candidate c \<longleftrightarrow> \<not> (mc_Installed c \<or> mc_ActiveJobID c \<noteq> [])
     \<and> \<not> (mc_JobSlots c > 0 \<and> mc_ActiveJobs c \<ge> mc_JobSlots c)
     \<and> \<not> (mc_AllowedMemoryBytes c = 0 \<or> effectiveShardStorageBytes c = 0)"

definition candidate_less :: "ModelCapability \<Rightarrow> ModelCapability \<Rightarrow> bool" where
  "candidate_less a b =
     (if mc_AllowedMemoryBytes a \<noteq> mc_AllowedMemoryBytes b then mc_AllowedMemoryBytes a > mc_AllowedMemoryBytes b
      else if mc_AllowedStorageBytes a \<noteq> mc_AllowedStorageBytes b then mc_AllowedStorageBytes a > mc_AllowedStorageBytes b
      else mc_Name a < mc_Name b)"

fun select_shards :: "u64 \<Rightarrow> u64 \<Rightarrow> u64 \<Rightarrow> u64 \<Rightarrow> ModelCapability list \<Rightarrow> ModelCapability list \<Rightarrow> ModelCapability list \<times> u64 \<times> u64" where
  "select_shards mem disk aggMem aggDisk selected [] = (selected, aggMem, aggDisk)"
| "select_shards mem disk aggMem aggDisk selected (c # cs) =
     (let selected' = selected @ [c]; aggMem' = aggMem + mc_AllowedMemoryBytes c; aggDisk' = aggDisk + mc_AllowedStorageBytes c
      in if aggMem' \<ge> mem \<and> aggDisk' \<ge> disk \<and> length selected' > 1 then (selected', aggMem', aggDisk')
         else select_shards mem disk aggMem' aggDisk' selected' cs)"

definition placement_warnings :: "string list" where
  "placement_warnings =
     [''multi-worker layer sharding is a placement estimate; distributed execution is not implemented yet'',
      ''real latency will depend on network bandwidth, activation transfer size, and runtime support'']"

definition modelPlacementPlan :: "ModelSummary \<Rightarrow> ModelPlacementPlan" where
  "modelPlacementPlan summary =
     (let m = ms_Model summary; single = filter mc_Capable (ms_Capabilities summary);
          plan = \<lparr>mp_ModelID = m_ID m, mp_Mode = ''blocked'', mp_Feasible = False, mp_RunnableNow = False,
            mp_RequiredMemoryBytes = m_MemoryBytes m, mp_RequiredDiskBytes = m_DiskBytes m, mp_AggregateMemoryBytes = 0,
            mp_AggregateDiskBytes = 0, mp_SingleNodeCandidates = single, mp_Shards = [], mp_Blockers = [], mp_Warnings = []\<rparr>
      in if single \<noteq> [] then plan\<lparr>mp_Mode := ''single_worker'', mp_Feasible := True, mp_RunnableNow := True\<rparr>
         else if ms_Capabilities summary = [] then plan\<lparr>mp_Blockers := [''no online workers are reporting resources'']\<rparr>
         else
           (let candidates = go_sort candidate_less
                  (map (\<lambda>c. c\<lparr>mc_AllowedStorageBytes := effectiveShardStorageBytes c\<rparr>)
                    (filter placement_candidate (ms_Capabilities summary)))
            in case select_shards (m_MemoryBytes m) (m_DiskBytes m) 0 0 [] candidates of
                 (selected, aggMem, aggDisk) \<Rightarrow>
                   let plan' = plan\<lparr>mp_AggregateMemoryBytes := aggMem, mp_AggregateDiskBytes := aggDisk\<rparr>
                   in if length selected > 1 \<and> aggMem \<ge> m_MemoryBytes m \<and> aggDisk \<ge> m_DiskBytes m
                      then plan'\<lparr>mp_Mode := ''sharded_estimate'', mp_Feasible := True, mp_Warnings := placement_warnings,
                        mp_Shards := buildModelPlanShards m selected\<rparr>
                      else plan'\<lparr>mp_Blockers := modelPlacementBlockers summary aggMem aggDisk\<rparr>))"

subsection \<open>Capable workers and the scheduler\<close>

text \<open>The requirements of an install job (handleModelInstall in server.go).\<close>

definition install_requirements :: "Model \<Rightarrow> Requirements" where
  "install_requirements model = \<lparr>req_CPUCores = 1, req_MemoryBytes = m_MemoryBytes model, req_DiskBytes = m_DiskBytes model,
     req_GPURequired = False, req_VRAMBytes = m_VRAMBytes model\<rparr>"

lemma hasAllowedVRAM_gpu_meets:
  "req_VRAMBytes req \<noteq> 0 \<Longrightarrow> gpu_meets req gpus = hasAllowedVRAM gpus (req_VRAMBytes req)"
  by (induction gpus) auto

lemma capable_meets_requirements:
  assumes "capability_reasons model node installed activeJobID activeJobs = []" and "1 \<le> cpu_CoresAllowed (rs_CPU (n_Resources node))"
  shows "nodeMeetsRequirements node (install_requirements model)" and "activeJobs < workerJobSlots node"
proof -
  let ?r = "install_requirements model"
  have "m_VRAMBytes model \<noteq> 0 \<Longrightarrow> gpu_meets ?r (rs_GPU (n_Resources node))"
    using assms(1) by (auto simp: capability_reasons_def Let_def hasAllowedVRAM_gpu_meets install_requirements_def
        word_neq_0_conv split: if_splits)
  then show "nodeMeetsRequirements node ?r"
    using assms by (auto simp: capability_reasons_def Let_def nodeMeetsRequirements_def install_requirements_def split: if_splits)
  have "workerJobSlots node > 0" by (simp add: workerJobSlots_def defaultWorkerJobSlots_def)
  then show "activeJobs < workerJobSlots node"
    using assms(1) by (simp add: capability_reasons_def Let_def split: if_split_asm)
qed

lemma active_jobs_length:
  "activeModelJobsForNode js i = int (length (filter (\<lambda>job. j_AssignedTo job = i
     \<and> (j_Status job = StatusQueued \<or> j_Status job = StatusScheduled \<or> j_Status job = StatusRunning)) js))"
  by (induction js) auto

lemma mcount_mvals: "mcount P m = length (filter P (mvals m))"
  by (induction m) (auto simp: mvals_def)

lemma length_filter_mono: "(\<And>x. P x \<Longrightarrow> Q x) \<Longrightarrow> length (filter P xs) \<le> length (filter Q xs)"
  by (induction xs) auto

lemma active_jobs_le:
  assumes "mset js = mset (mvals (jobs s))"
  shows "activeJobsForWorkerLocked s i \<le> activeModelJobsForNode js i"
proof -
  have len: "length (filter P js) = length (filter P (mvals (jobs s)))" for P
    using assms by (metis mset_filter size_mset)
  show ?thesis
    unfolding active_jobs_length activeJobsForWorkerLocked_def mcount_mvals len by (intro of_nat_mono length_filter_mono) blast
qed

lemma deriveNodeStatus_fields [simp]:
  "n_ID (deriveNodeStatus s node now) = n_ID node" "n_Resources (deriveNodeStatus s node now) = n_Resources node"
  by (simp_all add: deriveNodeStatus_def)


definition demo_model :: Model where
  "demo_model = hd catalog"

definition demo_worker :: "string \<Rightarrow> u64 \<Rightarrow> Node" where
  "demo_worker i memory = (demo_node i 1 memory 100)\<lparr>n_Resources := zero_resources\<lparr>rs_CPU := \<lparr>cpu_CoresTotal = 4, cpu_CoresAllowed = 4\<rparr>,
     rs_Memory := \<lparr>mem_TotalBytes = memory, mem_AllowedBytes = memory\<rparr>, rs_Storage := zero_storage\<lparr>st_AllowedBytes := 64 * gb\<rparr>\<rparr>\<rparr>"

definition demo_cluster :: State where
  "demo_cluster = (NewState 0)\<lparr>nodes := [(''a'', demo_worker ''a'' (16 * gb)), (''b'', demo_worker ''b'' (8 * gb))]\<rparr>"

definition demo_nodes_list :: "Node list" where
  "demo_nodes_list = map (\<lambda>n. deriveNodeStatus demo_cluster n 200) (mvals (nodes demo_cluster))"


end
