(* ===== verification/Placement.thy ===== *)
theory Placement
  imports Views
begin

section \<open>What the placement plan and the catalog page promise\<close>

subsection \<open>The placement plan fits its workers\<close>

definition memory_of :: "ModelCapability \<Rightarrow> nat" where
  "memory_of c = unat (mc_AllowedMemoryBytes c)"

definition storage_of :: "ModelCapability \<Rightarrow> nat" where
  "storage_of c = unat (mc_AllowedStorageBytes c)"

lemma minUint64_nat: "unat (minUint64 a b) = min (unat a) (unat b)"
  by (auto simp: minUint64_def min_def word_less_nat_alt)

lemma unat_take_away: "b \<le> a \<Longrightarrow> unat (a - b) = unat a - unat b" for a b :: u64
  by (rule unat_sub)

text \<open>A greedy split of what remains over the workers that are left.\<close>

lemma plan_shards_sum:
  assumes "unat remM \<le> sum_list (map memory_of cs)" and "unat remD \<le> sum_list (map storage_of cs)"
  shows "sum_list (map (\<lambda>p. unat (ps_MemoryBytes p)) (plan_shards_loop remM remD cs)) = unat remM
    \<and> sum_list (map (\<lambda>p. unat (ps_DiskBytes p)) (plan_shards_loop remM remD cs)) = unat remD
    \<and> list_all (\<lambda>p. ps_MemoryBytes p \<le> ps_AllowedMemoryBytes p \<and> ps_DiskBytes p \<le> ps_AllowedStorageBytes p)
        (plan_shards_loop remM remD cs)"
  using assms
proof (induction cs arbitrary: remM remD)
  case (Cons c cs)
  show ?case
  proof (cases "cs = []")
    case True
    with Cons.prems show ?thesis by (simp add: memory_of_def storage_of_def word_le_nat_alt)
  next
    case False
    let ?m = "minUint64 (mc_AllowedMemoryBytes c) remM" and ?d = "minUint64 (mc_AllowedStorageBytes c) remD"
    have le: "?m \<le> remM" "?d \<le> remD" by (simp_all add: word_le_nat_alt minUint64_nat)
    then have rest: "unat (remM - ?m) = unat remM - min (memory_of c) (unat remM)"
      "unat (remD - ?d) = unat remD - min (storage_of c) (unat remD)"
      by (simp_all add: unat_take_away minUint64_nat memory_of_def storage_of_def)
    with Cons.prems have "unat (remM - ?m) \<le> sum_list (map memory_of cs)" "unat (remD - ?d) \<le> sum_list (map storage_of cs)"
      by simp_all
    note ih = Cons.IH [OF this]
    have "plan_shards_loop remM remD (c # cs) = \<lparr>ps_NodeID = mc_NodeID c, ps_NodeName = mc_Name c, ps_MemoryBytes = ?m, ps_DiskBytes = ?d,
        ps_AllowedMemoryBytes = mc_AllowedMemoryBytes c, ps_AllowedStorageBytes = mc_AllowedStorageBytes c\<rparr>
        # plan_shards_loop (remM - ?m) (remD - ?d) cs"
      using le False by (simp add: Let_def not_less [symmetric])
    moreover have "?m \<le> mc_AllowedMemoryBytes c" "?d \<le> mc_AllowedStorageBytes c"
      by (simp_all add: word_le_nat_alt minUint64_nat)
    ultimately show ?thesis using ih rest by (simp add: minUint64_nat memory_of_def storage_of_def)
  qed
qed simp

lemma unat_add_small: "unat a + unat b < 2 ^ 64 \<Longrightarrow> unat (a + b) = unat a + unat b" for a b :: u64
  by (simp add: unat_word_ariths(1))

lemma select_shards_sum:
  assumes "select_shards mem disk aggM aggD sel cs = (sel', aggM', aggD')"
    and "unat aggM + sum_list (map memory_of cs) < 2 ^ 64" and "unat aggD + sum_list (map storage_of cs) < 2 ^ 64"
  shows "\<exists>k. sel' = sel @ take k cs \<and> unat aggM' = unat aggM + sum_list (map memory_of (take k cs))
    \<and> unat aggD' = unat aggD + sum_list (map storage_of (take k cs))"
  using assms
proof (induction cs arbitrary: aggM aggD sel)
  case (Cons c cs)
  have agg: "unat (aggM + mc_AllowedMemoryBytes c) = unat aggM + memory_of c"
    "unat (aggD + mc_AllowedStorageBytes c) = unat aggD + storage_of c"
    using Cons.prems(2,3) unfolding memory_of_def storage_of_def by (intro unat_add_small; simp)+
  show ?case
  proof (cases "aggM + mc_AllowedMemoryBytes c \<ge> mem \<and> aggD + mc_AllowedStorageBytes c \<ge> disk \<and> length (sel @ [c]) > 1")
    case True
    then have "sel' = sel @ [c]" "aggM' = aggM + mc_AllowedMemoryBytes c" "aggD' = aggD + mc_AllowedStorageBytes c"
      using Cons.prems(1) by (auto simp: Let_def)
    then show ?thesis using agg by (intro exI [of _ 1]) simp
  next
    case False
    then have "select_shards mem disk (aggM + mc_AllowedMemoryBytes c) (aggD + mc_AllowedStorageBytes c) (sel @ [c]) cs = (sel', aggM', aggD')"
      using Cons.prems(1) by (simp add: Let_def split: if_splits)
    from Cons.IH [OF this] agg Cons.prems(2,3) obtain k where "sel' = (sel @ [c]) @ take k cs"
      "unat aggM' = unat aggM + memory_of c + sum_list (map memory_of (take k cs))"
      "unat aggD' = unat aggD + storage_of c + sum_list (map storage_of (take k cs))" by auto
    then show ?thesis by (intro exI [of _ "Suc k"]) simp
  qed
qed (auto intro: exI [of _ 0])

lemma sum_list_filter_le: "sum_list (map f (filter P xs)) \<le> sum_list (map f xs)" for f :: "'a \<Rightarrow> nat"
  by (induction xs) auto

lemma sum_list_sort: "sum_list (map f (go_sort lt xs)) = sum_list (map f xs)" for f :: "'a \<Rightarrow> nat"
  by (metis mset_go_sort mset_map sum_mset_sum_list)

definition plan_candidates :: "ModelSummary \<Rightarrow> ModelCapability list" where
  "plan_candidates summary = go_sort candidate_less
     (map (\<lambda>c. c\<lparr>mc_AllowedStorageBytes := effectiveShardStorageBytes c\<rparr>) (filter placement_candidate (ms_Capabilities summary)))"

lemma effective_storage_le: "unat (effectiveShardStorageBytes c) \<le> storage_of c"
  by (auto simp: effectiveShardStorageBytes_def storage_of_def word_less_nat_alt)

lemma candidates_sums:
  "sum_list (map memory_of (plan_candidates summary)) \<le> sum_list (map memory_of (ms_Capabilities summary))"
  "sum_list (map storage_of (plan_candidates summary)) \<le> sum_list (map storage_of (ms_Capabilities summary))"
proof -
  have "sum_list (map memory_of (plan_candidates summary)) = sum_list (map memory_of (filter placement_candidate (ms_Capabilities summary)))"
    by (simp add: plan_candidates_def sum_list_sort o_def memory_of_def [abs_def])
  then show "sum_list (map memory_of (plan_candidates summary)) \<le> sum_list (map memory_of (ms_Capabilities summary))"
    by (simp add: sum_list_filter_le)
  have "sum_list (map storage_of (plan_candidates summary))
      = sum_list (map (\<lambda>c. unat (effectiveShardStorageBytes c)) (filter placement_candidate (ms_Capabilities summary)))"
    by (simp add: plan_candidates_def sum_list_sort o_def storage_of_def)
  also have "\<dots> \<le> sum_list (map storage_of (filter placement_candidate (ms_Capabilities summary)))"
    by (intro sum_list_mono effective_storage_le)
  finally show "sum_list (map storage_of (plan_candidates summary)) \<le> sum_list (map storage_of (ms_Capabilities summary))"
    using sum_list_filter_le le_trans by blast
qed

lemma plan_sharded:
  assumes "mp_Mode (modelPlacementPlan summary) = ''sharded_estimate''"
  obtains sel aggM aggD where
    "select_shards (m_MemoryBytes (ms_Model summary)) (m_DiskBytes (ms_Model summary)) 0 0 [] (plan_candidates summary) = (sel, aggM, aggD)"
    "length sel > 1" "m_MemoryBytes (ms_Model summary) \<le> aggM" "m_DiskBytes (ms_Model summary) \<le> aggD"
    "mp_Shards (modelPlacementPlan summary) = plan_shards_loop (m_MemoryBytes (ms_Model summary)) (m_DiskBytes (ms_Model summary)) sel"
  using assms that
  by (auto simp: modelPlacementPlan_def Let_def plan_candidates_def buildModelPlanShards_def split: if_splits prod.splits)

lemma plan_shards_nodes: "map ps_NodeID (plan_shards_loop remM remD cs) = map mc_NodeID cs"
  by (induction cs arbitrary: remM remD) (simp_all add: Let_def)

text \<open>
  C21. A sharded placement plan is one the cluster can hold: it uses at least two workers, each once; the shares
  of memory and disk add up to what the model needs; and no share exceeds what its worker allows (disk: the free space, where
  that is reported and smaller).
\<close>

theorem sharded_plan_fits:
  assumes "mp_Mode (modelPlacementPlan summary) = ''sharded_estimate''" and "distinct (map mc_NodeID (ms_Capabilities summary))"
    and "sum_list (map memory_of (ms_Capabilities summary)) < 2 ^ 64"
    and "sum_list (map storage_of (ms_Capabilities summary)) < 2 ^ 64"
  shows "let shards = mp_Shards (modelPlacementPlan summary); model = ms_Model summary
    in 2 \<le> length shards \<and> distinct (map ps_NodeID shards)
       \<and> sum_list (map (\<lambda>p. unat (ps_MemoryBytes p)) shards) = unat (m_MemoryBytes model)
       \<and> sum_list (map (\<lambda>p. unat (ps_DiskBytes p)) shards) = unat (m_DiskBytes model)
       \<and> list_all (\<lambda>p. ps_MemoryBytes p \<le> ps_AllowedMemoryBytes p \<and> ps_DiskBytes p \<le> ps_AllowedStorageBytes p) shards"
proof -
  obtain sel aggM aggD where sel:
    "select_shards (m_MemoryBytes (ms_Model summary)) (m_DiskBytes (ms_Model summary)) 0 0 [] (plan_candidates summary) = (sel, aggM, aggD)"
    "length sel > 1" "m_MemoryBytes (ms_Model summary) \<le> aggM" "m_DiskBytes (ms_Model summary) \<le> aggD"
    and shards: "mp_Shards (modelPlacementPlan summary) = plan_shards_loop (m_MemoryBytes (ms_Model summary)) (m_DiskBytes (ms_Model summary)) sel"
    using assms(1) by (rule plan_sharded)
  obtain k where k: "sel = take k (plan_candidates summary)" "unat aggM = sum_list (map memory_of sel)" "unat aggD = sum_list (map storage_of sel)"
    using select_shards_sum [OF sel(1)] candidates_sums [of summary] assms(3,4) by auto
  have "mset (map mc_NodeID (plan_candidates summary)) = mset (map mc_NodeID (filter placement_candidate (ms_Capabilities summary)))"
    by (simp add: plan_candidates_def mset_map [symmetric] del: mset_map) (simp add: o_def image_mset.compositionality)
  then have "distinct (map mc_NodeID (plan_candidates summary))"
    using assms(2) by (metis distinct_map_filter mset_eq_imp_distinct_iff)
  then have "distinct (map ps_NodeID (mp_Shards (modelPlacementPlan summary)))"
    unfolding shards plan_shards_nodes k(1) take_map [symmetric] by (rule distinct_take)
  moreover have "length (mp_Shards (modelPlacementPlan summary)) = length sel"
    unfolding shards using plan_shards_nodes by (metis length_map)
  ultimately show ?thesis
    using plan_shards_sum [of "m_MemoryBytes (ms_Model summary)" sel "m_DiskBytes (ms_Model summary)"] sel(2-4) k(2,3)
    by (simp add: shards Let_def word_le_nat_alt)
qed

definition demo_capability :: "string \<Rightarrow> u64 \<Rightarrow> ModelCapability" where
  "demo_capability i memory = \<lparr>mc_NodeID = i, mc_Name = i, mc_Capable = False, mc_Installed = False, mc_AllowedMemoryBytes = memory,
     mc_AllowedStorageBytes = 64 * gb, mc_FreeStorageBytes = 16 * gb, mc_AllowedVRAMBytes = 0, mc_ActiveJobs = 0,
     mc_ActiveJobID = [], mc_JobSlots = 1, mc_Reasons = [''RAM short by 14.0 GB'']\<rparr>"

definition demo_summary :: ModelSummary where
  "demo_summary = \<lparr>ms_Model = catalog ! 12, ms_Status = ''available'', ms_InstalledOn = [], ms_GeneratableOn = [],
     ms_Installed = [], ms_ActiveJobID = [], ms_LastJobID = [], ms_LastError = [], ms_LastUpdated = 0, ms_CapableNodes = 0,
     ms_Capabilities = [demo_capability ''a'' (20 * gb), demo_capability ''b'' (24 * gb)]\<rparr>"

theorem sharded_plan_fits_witness:
  "mp_Mode (modelPlacementPlan demo_summary) = ''sharded_estimate''
   \<and> (\<Sum>p \<leftarrow> mp_Shards (modelPlacementPlan demo_summary). unat (ps_MemoryBytes p)) = 34 * 1024 ^ 3"
proof -
  have mode: "mp_Mode (modelPlacementPlan demo_summary) = ''sharded_estimate''" by code_simp
  have "m_MemoryBytes (ms_Model demo_summary) = 34 * gb" by code_simp
  then have sums: "distinct (map mc_NodeID (ms_Capabilities demo_summary))"
    "sum_list (map memory_of (ms_Capabilities demo_summary)) < 2 ^ 64"
    "sum_list (map storage_of (ms_Capabilities demo_summary)) < 2 ^ 64"
    "unat (m_MemoryBytes (ms_Model demo_summary)) = 34 * 1024 ^ 3"
    by (simp_all add: demo_summary_def demo_capability_def memory_of_def storage_of_def gb_def)
  from sharded_plan_fits [OF mode sums(1-3)] mode sums(4) show ?thesis by (simp add: Let_def)
qed

subsection \<open>The catalog page\<close>

text \<open>Comparing by one key and breaking ties by another comparator.\<close>

lemma lexicographic_order:
  fixes f :: "'a \<Rightarrow> 'k :: linorder"
  assumes "strict_weak_order lt"
  shows "strict_weak_order (\<lambda>a b. if f a \<noteq> f b then f a < f b else lt a b)"
    and "strict_weak_order (\<lambda>a b. if f a \<noteq> f b then f a > f b else lt a b)"
  using assms unfolding strict_weak_order_def by (smt (verit) less_trans linorder_neqE neq_iff)+

lemma name_order: "strict_weak_order (\<lambda>a b. f a < (f b :: string))"
  by unfold_locales (auto simp: not_less)

interpretation summary_order: strict_weak_order "summary_less mode" for mode
proof -
  let ?name = "\<lambda>a b. ToLower (m_Name (ms_Model a)) < ToLower (m_Name (ms_Model b))"
  note name = name_order [of "\<lambda>a. ToLower (m_Name (ms_Model a))"]
  note disk = lexicographic_order(1) [of ?name "\<lambda>a. m_DiskBytes (ms_Model a)", OF name]
  note by_memory = lexicographic_order(1) [where f = "\<lambda>a. m_MemoryBytes (ms_Model a)"]
  note by_capable = lexicographic_order(2) [where f = ms_CapableNodes]
  consider "mode = ''name''" | "mode = ''ram-asc''" | "mode = ''ram-desc''" | "mode = ''disk-asc''" | "mode = ''capable-desc''"
    | "mode \<notin> {''name'', ''ram-asc'', ''ram-desc'', ''disk-asc'', ''capable-desc''}" by blast
  then show "strict_weak_order (summary_less mode)"
  proof cases
    case 1
    then show ?thesis using name by (simp add: summary_less_def [abs_def] Let_def)
  next
    case 2
    then show ?thesis using by_memory [OF name] by (simp add: summary_less_def [abs_def] Let_def)
  next
    case 3
    then show ?thesis
      using lexicographic_order(2) [OF name, of "\<lambda>a. m_MemoryBytes (ms_Model a)"] by (simp add: summary_less_def [abs_def] Let_def)
  next
    case 4
    then show ?thesis using disk by (simp add: summary_less_def [abs_def] Let_def)
  next
    case 5
    then have "summary_less mode = (\<lambda>a b. if ms_CapableNodes a \<noteq> ms_CapableNodes b then ms_CapableNodes a > ms_CapableNodes b
        else if m_MemoryBytes (ms_Model a) \<noteq> m_MemoryBytes (ms_Model b) then m_MemoryBytes (ms_Model a) < m_MemoryBytes (ms_Model b)
        else ?name a b)"
      by (intro ext) (simp add: summary_less_def Let_def)
    then show ?thesis using by_capable [OF by_memory [OF name]] by (simp only:)
  next
    case 6
    then have "summary_less mode = (\<lambda>a b. if ms_CapableNodes a \<noteq> ms_CapableNodes b then ms_CapableNodes a > ms_CapableNodes b
        else if m_MemoryBytes (ms_Model a) \<noteq> m_MemoryBytes (ms_Model b) then m_MemoryBytes (ms_Model a) < m_MemoryBytes (ms_Model b)
        else if m_DiskBytes (ms_Model a) \<noteq> m_DiskBytes (ms_Model b) then m_DiskBytes (ms_Model a) < m_DiskBytes (ms_Model b)
        else ?name a b)"
      by (intro ext) (simp add: summary_less_def Let_def)
    then show ?thesis using by_capable [OF by_memory [OF disk]] by (simp only:)
  qed
qed


subsection \<open>Where a model can be used and installed\<close>

definition job_fields_only :: "ModelSummary \<Rightarrow> ModelSummary \<Rightarrow> bool" where
  "job_fields_only a b \<longleftrightarrow> ms_Model b = ms_Model a \<and> ms_InstalledOn b = ms_InstalledOn a \<and> ms_GeneratableOn b = ms_GeneratableOn a
     \<and> ms_Installed b = ms_Installed a \<and> ms_CapableNodes b = ms_CapableNodes a \<and> ms_Capabilities b = ms_Capabilities a"

lemma summary_job_keeps: "job_fields_only a (summary_job job a)"
  by (simp add: summary_job_def Let_def job_fields_only_def)

lemma summary_jobs_keep: "job_fields_only a (fold summary_job js a)"
proof (induction js arbitrary: a)
  case (Cons job js)
  then show ?case using summary_job_keeps [of a job] by (simp add: job_fields_only_def)
qed (simp add: job_fields_only_def)

lemma model_summary_fields:
  "ms_GeneratableOn (model_summary ns js model) = go_sort (<) (map mi_NodeID (filter mi_GenerateReady (model_installs model js ns)))"
  "ms_Capabilities (model_summary ns js model) = modelCapabilities model ns js (installed_on model ns)"
  "ms_CapableNodes (model_summary ns js model) = capableModelNodes (modelCapabilities model ns js (installed_on model ns))"
  using summary_jobs_keep by (simp_all add: model_summary_def Let_def job_fields_only_def)

lemma model_install_ready:
  "mi_GenerateReady (model_install model js node m) \<longleftrightarrow>
     mr_Ready m \<and> nodeRuntimeReady node (m_Runtime model) \<and> blank (activeModelJobForNode js (m_ID model) (n_ID node))"
  "mi_NodeID (model_install model js node m) = n_ID node"
  by (simp_all add: model_install_def modelInstallGenerateReadiness_def nodeRuntimeReady_def Let_def split: prod.splits)

lemma model_installs_iff:
  "i \<in> set (model_installs model js ns) \<longleftrightarrow> (\<exists>node m. node \<in> set ns \<and> online_worker node
     \<and> m \<in> set (rs_Models (n_Resources node)) \<and> mr_ID m = m_ID model \<and> i = model_install model js node m)"
  by (auto simp: model_installs_def)

text \<open>
  C23. A model can be generated with on a worker exactly if the worker is online, has the model's files
  ready and a ready runtime for it, and no job of the model is queued or active there.
\<close>

theorem generatable_workers:
  "n \<in> set (ms_GeneratableOn (model_summary ns js model)) \<longleftrightarrow>
     (\<exists>node \<in> set ns. n_ID node = n \<and> online_worker node
        \<and> (\<exists>m \<in> set (rs_Models (n_Resources node)). mr_ID m = m_ID model \<and> mr_Ready m)
        \<and> nodeRuntimeReady node (m_Runtime model) \<and> blank (activeModelJobForNode js (m_ID model) n))"
proof -
  have "n \<in> set (ms_GeneratableOn (model_summary ns js model)) \<longleftrightarrow>
      (\<exists>i \<in> set (model_installs model js ns). mi_GenerateReady i \<and> mi_NodeID i = n)"
    by (auto simp: model_summary_fields)
  also have "\<dots> \<longleftrightarrow> (\<exists>node m. node \<in> set ns \<and> online_worker node \<and> m \<in> set (rs_Models (n_Resources node)) \<and> mr_ID m = m_ID model
      \<and> mi_GenerateReady (model_install model js node m) \<and> mi_NodeID (model_install model js node m) = n)"
    by (simp only: Bex_def model_installs_iff) blast
  finally show ?thesis unfolding model_install_ready by blast
qed

lemma capable_nodes_pos: "capableModelNodes cs \<ge> 0" "capableModelNodes cs > 0 \<longleftrightarrow> list_ex mc_Capable cs"
  by (induction cs) auto

lemma Join_empty: "Join xs sep = [] \<Longrightarrow> xs = [] \<or> [] \<in> set xs"
  by (cases xs rule: remdups_adj.cases) auto

lemma go_sort_empty [simp]: "go_sort lt xs = [] \<longleftrightarrow> xs = []"
  by (metis length_0_conv length_go_sort)

text \<open>
  C24. An install is accepted for a chosen worker exactly if that worker is listed as capable, and without a
  choice exactly if some worker is; a refusal comes with a reason.
\<close>

theorem install_eligibility:
  assumes "distinct (map n_ID ns)"
  shows "case modelInstallEligibility (model_summary ns js model) nodeID of (ok, reason) \<Rightarrow>
    (ok \<longleftrightarrow> (\<exists>c \<in> set (modelCapabilities model ns js (installed_on model ns)). mc_Capable c \<and> nodeID \<in> {[], mc_NodeID c}))
    \<and> (ok \<longleftrightarrow> reason = [])"
proof -
  let ?cs = "modelCapabilities model ns js (installed_on model ns)"
  have "map mc_NodeID (map (node_capability model js (installed_on model ns)) (filter online_worker ns)) = map n_ID (filter online_worker ns)"
    by (simp add: node_capability_def Let_def)
  moreover have "mset (map mc_NodeID ?cs) = mset (map mc_NodeID (map (node_capability model js (installed_on model ns)) (filter online_worker ns)))"
    by (simp only: mset_map modelCapabilities_def mset_go_sort)
  ultimately have distinct: "distinct (map mc_NodeID ?cs)"
    using assms by (metis distinct_map_filter mset_eq_imp_distinct_iff)
  show ?thesis
  proof (cases "nodeID = []")
    case True
    then show ?thesis
      by (auto simp: modelInstallEligibility_def model_summary_fields capable_nodes_pos list_ex_iff filter_empty_conv dest!: Join_empty)
  next
    case False
    then show ?thesis
    proof (cases "List.find (\<lambda>c. mc_NodeID c = nodeID) ?cs")
      case None
      then have "c \<in> set ?cs \<Longrightarrow> mc_NodeID c \<noteq> nodeID" for c by (auto simp: find_None_iff)
      with False None show ?thesis by (auto simp: modelInstallEligibility_def model_summary_fields)
    next
      case (Some c)
      then have c: "c \<in> set ?cs" "mc_NodeID c = nodeID" by (auto simp: find_Some_iff)
      have same: "c' = c" if "c' \<in> set ?cs" "mc_NodeID c' = nodeID" for c'
        using distinct c that by (auto simp: distinct_map inj_on_def)
      have "(\<exists>c' \<in> set ?cs. mc_Capable c' \<and> nodeID \<in> {[], mc_NodeID c'}) \<longleftrightarrow> mc_Capable c"
      proof
        assume "\<exists>c' \<in> set ?cs. mc_Capable c' \<and> nodeID \<in> {[], mc_NodeID c'}"
        then show "mc_Capable c" using same False by force
      qed (use c in blast)
      then show ?thesis using False Some by (simp add: modelInstallEligibility_def model_summary_fields)
    qed
  qed
qed

theorem install_eligibility_witness:
  "case modelInstallEligibility (model_summary demo_nodes_list [] demo_model) ''b'' of (ok, reason) \<Rightarrow> ok \<longleftrightarrow> reason = []"
proof -
  have "distinct (map n_ID demo_nodes_list)" by code_simp
  from install_eligibility [OF this, where js = "[]" and model = demo_model and nodeID = "''b''"] show ?thesis by (auto split: prod.splits)
qed

end
