(* ===== verification/Planning.thy ===== *)
theory Planning
  imports Placement
begin

section \<open>Planning a distributed model (internal/manager/distributed.go, cdip.go)\<close>

text \<open>
  How the manager splits the layers of a model over online workers, the estimates it shows with the plan, the
  CDIP proposal and shard manifest made from it, and the stage jobs made from a generation request. Weights, byte counts and latencies are
  computed with the code's own mixture of \<open>uint64\<close>, \<open>int\<close> and \<open>float64\<close>.
\<close>

definition distributedStageOverheadBytes :: u64 where
  "distributedStageOverheadBytes = 512 * 1024 * 1024"

definition CapabilityLogicalStageRuntime :: string where
  "CapabilityLogicalStageRuntime = ''logical-stage-runtime''"

definition CapabilityLlamaCPPStageRuntime :: string where
  "CapabilityLlamaCPPStageRuntime = ''llama.cpp-stage-runtime''"

record DistributedRuntimeMissing =
  dm_NodeID :: string
  dm_NodeName :: string
  dm_Reason :: string

record DistributedRuntimeDiag =
  dd_CandidateWorkers :: int
  dd_RuntimeReadyWorkers :: int
  dd_StageReadyWorkers :: int
  dd_LogicalStageWorkers :: int
  dd_LlamaCPPStageWorkers :: int
  dd_MissingStageCapability :: "DistributedRuntimeMissing list"

record DistributedPlanStage =
  pl_Index :: int
  pl_NodeID :: string
  pl_NodeName :: string
  pl_LayerStart :: int
  pl_LayerEnd :: int
  pl_Layers :: int
  pl_MemoryBytes :: u64
  pl_DiskBytes :: u64
  pl_AllowedMemoryBytes :: u64
  pl_AllowedStorageBytes :: u64
  pl_RuntimeReady :: bool
  pl_RuntimeCapabilities :: "string list"
  pl_StageRuntime :: string
  pl_StageRuntimeReady :: bool
  pl_StageRuntimeReason :: string
  pl_Installed :: bool

record DistributedNetworkPlan =
  nw_InterStageHops :: int
  nw_AssumedInterStageLatencyMS :: int

record DistributedLatencyModel =
  lm_FirstTokenMS :: int
  lm_PerOutputTokenMS :: int
  lm_Confidence :: string
  lm_Assumption :: string
  lm_PipelinePenaltyPct :: int

record DistributedModelPlan =
  dp_ModelID :: string
  dp_Mode :: string
  dp_Runtime :: string
  dp_Feasible :: bool
  dp_ExecutableNow :: bool
  dp_TotalLayers :: int
  dp_RequiredMemoryBytes :: u64
  dp_RequiredDiskBytes :: u64
  dp_AggregateMemoryBytes :: u64
  dp_AggregateDiskBytes :: u64
  dp_StageOverheadBytes :: u64
  dp_Stages :: "DistributedPlanStage list"
  dp_Network :: DistributedNetworkPlan
  dp_EstimatedLatency :: DistributedLatencyModel
  dp_StageRuntimeDiagnostics :: DistributedRuntimeDiag
  dp_Blockers :: "string list"
  dp_Warnings :: "string list"
  dp_NextImplementationTargets :: "string list"

subsection \<open>Candidates and their runtimes\<close>

definition effectiveNodeStorage :: "Node \<Rightarrow> u64" where
  "effectiveNodeStorage node =
     (let st = rs_Storage (n_Resources node)
      in if st_FreeBytes st > 0 \<and> st_FreeBytes st < st_AllowedBytes st then st_FreeBytes st else st_AllowedBytes st)"

definition node_memory :: "Node \<Rightarrow> u64" where
  "node_memory node = mem_AllowedBytes (rs_Memory (n_Resources node))"

definition nodeHasModel :: "Node \<Rightarrow> string \<Rightarrow> bool" where
  "nodeHasModel node modelID = list_ex (\<lambda>m. mr_ID m = modelID \<and> mr_Ready m) (rs_Models (n_Resources node))"

definition runtimeHasCapability :: "RuntimeResource \<Rightarrow> string \<Rightarrow> bool" where
  "runtimeHasCapability runtimeStatus capability = list_ex (\<lambda>c. c = capability) (rt_Capabilities runtimeStatus)"

definition nodeDistributedStageRuntime :: "RuntimeResource \<Rightarrow> bool \<Rightarrow> string \<times> bool \<times> string" where
  "nodeDistributedStageRuntime runtimeStatus runtimeReady =
     (if \<not> runtimeReady then
        (let reason = TrimSpace (rt_Error runtimeStatus)
         in ([], False, if reason = [] then ''runtime is not ready'' else reason))
      else if runtimeHasCapability runtimeStatus CapabilityLlamaCPPStageRuntime then (''llama.cpp-stage-experimental'', True, [])
      else if runtimeHasCapability runtimeStatus CapabilityLogicalStageRuntime then (''logical-stage'', True, [])
      else ([], False, ''distributed stage runtime capability not reported''))"

definition distributed_candidate :: "Node \<Rightarrow> bool" where
  "distributed_candidate node \<longleftrightarrow> online_worker node \<and> node_memory node > distributedStageOverheadBytes
     \<and> effectiveNodeStorage node \<noteq> 0"

definition node_less :: "Node \<Rightarrow> Node \<Rightarrow> bool" where
  "node_less a b = (if node_memory a \<noteq> node_memory b then node_memory a > node_memory b
     else nodeDisplayName a < nodeDisplayName b)"

definition distributedCandidates :: "Model \<Rightarrow> Node list \<Rightarrow> Node list" where
  "distributedCandidates model ns = go_sort node_less (filter distributed_candidate ns)"

definition diagnose :: "Model \<Rightarrow> Node \<Rightarrow> DistributedRuntimeDiag \<Rightarrow> DistributedRuntimeDiag" where
  "diagnose model node out0 =
     (let (runtimeStatus, runtimeReady) = nodeRuntimeStatus node (m_Runtime model);
          out1 = (if runtimeReady then out0\<lparr>dd_RuntimeReadyWorkers := dd_RuntimeReadyWorkers out0 + 1\<rparr> else out0);
          (stageRuntime, stageReady, reason) = nodeDistributedStageRuntime runtimeStatus runtimeReady
      in if stageReady then
           (let out2 = out1\<lparr>dd_StageReadyWorkers := dd_StageReadyWorkers out1 + 1\<rparr>
            in if stageRuntime = ''logical-stage'' then out2\<lparr>dd_LogicalStageWorkers := dd_LogicalStageWorkers out2 + 1\<rparr>
               else if stageRuntime = ''llama.cpp-stage-experimental''
                 then out2\<lparr>dd_LlamaCPPStageWorkers := dd_LlamaCPPStageWorkers out2 + 1\<rparr>
               else out2)
         else out1\<lparr>dd_MissingStageCapability := dd_MissingStageCapability out1
           @ [\<lparr>dm_NodeID = n_ID node, dm_NodeName = nodeDisplayName node, dm_Reason = reason\<rparr>]\<rparr>)"

definition distributedRuntimeDiagnostics :: "Model \<Rightarrow> Node list \<Rightarrow> DistributedRuntimeDiag" where
  "distributedRuntimeDiagnostics model candidates =
     fold (diagnose model) candidates
       \<lparr>dd_CandidateWorkers = int (length candidates), dd_RuntimeReadyWorkers = 0, dd_StageReadyWorkers = 0,
        dd_LogicalStageWorkers = 0, dd_LlamaCPPStageWorkers = 0, dd_MissingStageCapability = []\<rparr>"

fun select_workers_loop :: "u64 \<Rightarrow> u64 \<Rightarrow> Node list \<Rightarrow> u64 \<Rightarrow> u64 \<Rightarrow> Node list \<Rightarrow> Node list" where
  "select_workers_loop needMem needDisk selected memory disk [] = []"
| "select_workers_loop needMem needDisk selected memory disk (candidate # cs) =
     (let selected' = selected @ [candidate];
          memory' = memory + (node_memory candidate - distributedStageOverheadBytes);
          disk' = disk + effectiveNodeStorage candidate
      in if length selected' \<ge> 2 \<and> memory' \<ge> needMem \<and> disk' \<ge> needDisk then selected'
         else select_workers_loop needMem needDisk selected' memory' disk' cs)"

definition selectDistributedWorkers :: "Model \<Rightarrow> Node list \<Rightarrow> Node list" where
  "selectDistributedWorkers model candidates = select_workers_loop (m_MemoryBytes model) (m_DiskBytes model) [] 0 0 candidates"

subsection \<open>Stages\<close>

definition maxInt :: "int \<Rightarrow> int \<Rightarrow> int" where
  "maxInt left right = (if left > right then left else right)"

definition proportionalBytes :: "u64 \<Rightarrow> int \<Rightarrow> int \<Rightarrow> u64" where
  "proportionalBytes bytes part whole =
     (if whole \<le> 0 \<or> part \<le> 0 \<or> bytes = 0 then 0
      else u64_of_f64 (f64_Ceil (fdiv (fmul (f64_of_u64 bytes) (f64_of_int part)) (f64_of_int whole))))"

text \<open>The number of layers of one stage: the last one takes what is left, every other one its share by
  weight, at least one and at most what leaves one for each stage after it.\<close>

definition stage_layers :: "int \<Rightarrow> u64 \<Rightarrow> int \<Rightarrow> int \<Rightarrow> u64 \<Rightarrow> int" where
  "stage_layers totalLayers totalWeight nextLayer later weight =
     (if later = 0 then totalLayers - nextLayer
      else if totalWeight > 0 then
        (let layers0 = int_of_f64 (f64_Round (fdiv (fmul (f64_of_int totalLayers) (f64_of_u64 weight)) (f64_of_u64 totalWeight)));
             layers = (if layers0 < 1 then 1 else layers0);
             maxAllowed = totalLayers - nextLayer - later
         in if layers > maxAllowed then maxAllowed else layers)
      else 1)"

definition plan_stage :: "Model \<Rightarrow> int \<Rightarrow> int \<Rightarrow> int \<Rightarrow> int \<Rightarrow> Node \<Rightarrow> DistributedPlanStage" where
  "plan_stage model totalLayers index nextLayer layers node =
     (let (runtimeStatus, runtimeReady) = nodeRuntimeStatus node (m_Runtime model);
          (stageRuntime, stageRuntimeReady, stageRuntimeReason) = nodeDistributedStageRuntime runtimeStatus runtimeReady
      in \<lparr>pl_Index = index, pl_NodeID = n_ID node, pl_NodeName = nodeDisplayName node, pl_LayerStart = nextLayer,
          pl_LayerEnd = nextLayer + layers - 1, pl_Layers = layers,
          pl_MemoryBytes = proportionalBytes (m_MemoryBytes model) layers totalLayers + distributedStageOverheadBytes,
          pl_DiskBytes = proportionalBytes (m_DiskBytes model) layers totalLayers,
          pl_AllowedMemoryBytes = node_memory node, pl_AllowedStorageBytes = effectiveNodeStorage node,
          pl_RuntimeReady = runtimeReady, pl_RuntimeCapabilities = rt_Capabilities runtimeStatus,
          pl_StageRuntime = stageRuntime, pl_StageRuntimeReady = stageRuntimeReady,
          pl_StageRuntimeReason = stageRuntimeReason, pl_Installed = nodeHasModel node (m_ID model)\<rparr>)"

fun stages_loop :: "Model \<Rightarrow> int \<Rightarrow> u64 \<Rightarrow> int \<Rightarrow> int \<Rightarrow> Node list \<Rightarrow> DistributedPlanStage list" where
  "stages_loop model totalLayers totalWeight index nextLayer [] = []"
| "stages_loop model totalLayers totalWeight index nextLayer (node # ns) =
     (let layers = stage_layers totalLayers totalWeight nextLayer (int (length ns)) (node_memory node - distributedStageOverheadBytes)
      in plan_stage model totalLayers index nextLayer layers node
         # stages_loop model totalLayers totalWeight (index + 1) (nextLayer + layers) ns)"

definition buildDistributedStages :: "Model \<Rightarrow> Node list \<Rightarrow> int \<Rightarrow> DistributedPlanStage list" where
  "buildDistributedStages model ns layers =
     (let totalLayers = (if layers \<le> 0 then 1 else layers);
          totalWeight = sum_list (map (\<lambda>node. node_memory node - distributedStageOverheadBytes) ns)
      in stages_loop model totalLayers totalWeight 0 0 ns)"

definition estimatedModelLayers :: "Model \<Rightarrow> int" where
  "estimatedModelLayers model =
     (case ParseFloat (TrimSuffix (ToUpper (TrimSpace (m_Parameters model))) ''B'') of
        None \<Rightarrow> 32
      | Some v \<Rightarrow>
        let le = (\<lambda>x. fless v (Fin x) \<or> v = Fin x)
        in if le 0 then 32 else if le (3 / 2) then 24 else if le 4 then 32 else if le 8 then 32 else if le 15 then 48
           else if le 28 then 56 else 64)"

definition estimateDistributedLatency :: "Model \<Rightarrow> int \<Rightarrow> int \<Rightarrow> DistributedLatencyModel" where
  "estimateDistributedLatency model stages0 interStageLatencyMS =
     (let stages = (if stages0 < 1 then 1 else stages0);
          basePerToken = (case ParseFloat (ToUpper (TrimSuffix (TrimSpace (m_Parameters model)) ''B'')) of
              None \<Rightarrow> 120 | Some v \<Rightarrow> wrap64 (80 + int_of_f64 (fmul v (Fin 18))));
          networkPenalty = wrap64 (maxInt 0 (stages - 1) * interStageLatencyMS);
          pipelinePenalty = maxInt 15 (wrap64 ((stages - 1) * 18));
          product = wrap64 (basePerToken * pipelinePenalty);
          perToken = wrap64 (wrap64 (basePerToken + networkPenalty)
            + (if product < 0 then - ((- product) div 100) else product div 100))
      in \<lparr>lm_FirstTokenMS = wrap64 (wrap64 (perToken * 3) + networkPenalty), lm_PerOutputTokenMS = perToken,
          lm_Confidence = ''low'',
          lm_Assumption = ''single prompt stream over pipeline-parallel workers with one activation hop per stage'',
          lm_PipelinePenaltyPct = pipelinePenalty\<rparr>)"

definition allStagesRuntimeReady :: "DistributedPlanStage list \<Rightarrow> bool" where
  "allStagesRuntimeReady stages \<longleftrightarrow> list_all pl_RuntimeReady stages \<and> stages \<noteq> []"

definition allStagesStageRuntimeReady :: "DistributedPlanStage list \<Rightarrow> bool" where
  "allStagesStageRuntimeReady stages \<longleftrightarrow> list_all pl_StageRuntimeReady stages"

definition allStagesInstalled :: "DistributedPlanStage list \<Rightarrow> bool" where
  "allStagesInstalled stages \<longleftrightarrow> list_all pl_Installed stages \<and> stages \<noteq> []"

subsection \<open>The plan\<close>

definition zero_latency :: DistributedLatencyModel where
  "zero_latency = \<lparr>lm_FirstTokenMS = 0, lm_PerOutputTokenMS = 0, lm_Confidence = ''low'',
     lm_Assumption = ''planning estimate before the distributed tensor runtime adapter exists'', lm_PipelinePenaltyPct = 0\<rparr>"

definition distributedModelPlan :: "Model \<Rightarrow> Node list \<Rightarrow> DistributedModelPlan" where
  "distributedModelPlan model ns =
     (let candidates = distributedCandidates model ns;
          aggMem = sum_list (map node_memory candidates);
          aggDisk = sum_list (map effectiveNodeStorage candidates);
          plan = \<lparr>dp_ModelID = m_ID model, dp_Mode = ''pipeline_layers'', dp_Runtime = m_Runtime model, dp_Feasible = False,
            dp_ExecutableNow = False, dp_TotalLayers = estimatedModelLayers model, dp_RequiredMemoryBytes = m_MemoryBytes model,
            dp_RequiredDiskBytes = m_DiskBytes model, dp_AggregateMemoryBytes = aggMem, dp_AggregateDiskBytes = aggDisk,
            dp_StageOverheadBytes = distributedStageOverheadBytes, dp_Stages = [],
            dp_Network = \<lparr>nw_InterStageHops = 0, nw_AssumedInterStageLatencyMS = 80\<rparr>, dp_EstimatedLatency = zero_latency,
            dp_StageRuntimeDiagnostics = distributedRuntimeDiagnostics model candidates, dp_Blockers = [], dp_Warnings = [],
            dp_NextImplementationTargets = [''manager-relayed activation frame transport'',
              ''runtime adapter with prepare, prefill, decode, and complete hooks'',
              ''llama.cpp layer-stage feasibility prototype'', ''logical-to-physical model shard materialization'',
              ''streaming partial-token protocol with cancellation'']\<rparr>
      in if candidates = [] then plan\<lparr>dp_Blockers := [''no online workers are reporting resources'']\<rparr>
         else
           (let blockers = (if length candidates < 2 then [''distributed layer split needs at least 2 online workers''] else [])
                  @ (if aggMem < m_MemoryBytes model then [short_by ''aggregate RAM'' (m_MemoryBytes model) aggMem] else [])
                  @ (if aggDisk < m_DiskBytes model then [short_by ''aggregate disk'' (m_DiskBytes model) aggDisk] else [])
            in if blockers \<noteq> [] then plan\<lparr>dp_Blockers := blockers\<rparr>
               else
                 (let selected = selectDistributedWorkers model candidates
                  in if length selected < 2 then plan\<lparr>dp_Blockers := [''no multi-worker stage set can hold the model'']\<rparr>
                     else
                       (let stages = buildDistributedStages model selected (dp_TotalLayers plan); n = int (length stages)
                        in plan\<lparr>dp_Stages := stages, dp_Feasible := n \<ge> 2,
                             dp_Network := \<lparr>nw_InterStageHops = maxInt 0 (n - 1), nw_AssumedInterStageLatencyMS = 80\<rparr>,
                             dp_EstimatedLatency := estimateDistributedLatency model n 80,
                             dp_Warnings := (if \<not> allStagesRuntimeReady stages then [''one or more selected workers do not report a ready runtime''] else [])
                               @ (if \<not> allStagesStageRuntimeReady stages then [''one or more selected workers do not report distributed stage runtime capability''] else [])
                               @ (if \<not> allStagesInstalled stages then [''model shards are not installed on all selected workers''] else []),
                             dp_Blockers := [''distributed tensor runtime adapter is not implemented yet'']\<rparr>))))"

subsection \<open>The CDIP proposal and manifest\<close>

definition cdip_stage :: "DistributedPlanStage \<Rightarrow> Stage" where
  "cdip_stage stage = \<lparr>s_Index = pl_Index stage, s_NodeID = pl_NodeID stage, s_NodeName = pl_NodeName stage,
     s_LayerStart = pl_LayerStart stage, s_LayerEnd = pl_LayerEnd stage\<rparr>"

definition cdipPlanProposal :: "DistributedModelPlan \<Rightarrow> PlanProposal" where
  "cdipPlanProposal plan = \<lparr>pp_Envelope = NewEnvelope MessagePlanProposal, pp_ModelID = dp_ModelID plan, pp_Mode = dp_Mode plan,
     pp_Runtime = dp_Runtime plan, pp_ExecutableNow = dp_ExecutableNow plan, pp_Stages = map cdip_stage (dp_Stages plan),
     pp_Blockers = dp_Blockers plan\<rparr>"

definition cdip_shard :: "Model \<Rightarrow> DistributedModelPlan \<Rightarrow> DistributedPlanStage \<Rightarrow> ModelShard" where
  "cdip_shard model plan stage = \<lparr>sh_Stage = cdip_stage stage, sh_Runtime = dp_Runtime plan,
     sh_RequiredMemoryBytes = pl_MemoryBytes stage, sh_RequiredDiskBytes = pl_DiskBytes stage, sh_SourceArtifact = m_URL model,
     sh_TargetArtifact = m_ID model @ ''.stage-'' @ show_int (pl_Index stage) @ ''.layers-'' @ show_int (pl_LayerStart stage)
       @ ''-'' @ show_int (pl_LayerEnd stage),
     sh_Materialization = ShardLogicalLayers,
     sh_Capabilities = [''pipeline-stage-prepare'', ''pipeline-prefill'', ''pipeline-decode'', ''activation-stream-v1'']\<rparr>"

definition cdipShardManifest :: "Model \<Rightarrow> DistributedModelPlan \<Rightarrow> ShardManifest" where
  "cdipShardManifest model plan = \<lparr>sm_Envelope = NewEnvelope MessageShardManifest,
     sm_Model = \<lparr>ma_ModelID = m_ID model, ma_Runtime = m_Runtime model, ma_Repository = m_Repo model, ma_File = m_File model,
       ma_URL = m_URL model, ma_Quant = m_Quant model, ma_Parameters = m_Parameters model, ma_Checksum = [],
       ma_Bytes = m_DiskBytes model\<rparr>,
     sm_Mode = dp_Mode plan, sm_TotalLayers = dp_TotalLayers plan, sm_Materialization = ShardLogicalLayers,
     sm_Shards = map (cdip_shard model plan) (dp_Stages plan),
     sm_Warnings = [''logical layer split only; physical GGUF shard materialization is not implemented yet'']\<rparr>"

subsection \<open>Stage jobs\<close>

datatype stage_job_error =
    ParentJobRequired
  | ModelRequired
  | TooFewStages
  | ShardCountMismatch
  | StageNodeMissing int
  | StageIndexWrong int int
  | ShardStageMismatch int int

definition shard_matches :: "ModelShard \<Rightarrow> DistributedStageInput \<Rightarrow> bool" where
  "shard_matches shard stage \<longleftrightarrow> s_Index (sh_Stage shard) = dsi_Index stage \<and> s_NodeID (sh_Stage shard) = dsi_NodeID stage
     \<and> s_LayerStart (sh_Stage shard) = dsi_LayerStart stage \<and> s_LayerEnd (sh_Stage shard) = dsi_LayerEnd stage"

definition stage_job_input :: "Job \<Rightarrow> DistributedGenerateInput \<Rightarrow> nat \<Rightarrow> DistributedStageJobInput" where
  "stage_job_input parent input k = \<lparr>sji_ParentJobID = j_ID parent, sji_ModelID = dgi_ModelID input,
     sji_ConversationID = dgi_ConversationID input, sji_Stage = dgi_Stages input ! k, sji_Shard = dgi_Shards input ! k,
     sji_UpstreamNodeID = (if k > 0 then dsi_NodeID (dgi_Stages input ! (k - 1)) else []),
     sji_DownstreamNodeID = (if k + 1 < length (dgi_Stages input) then dsi_NodeID (dgi_Stages input ! (k + 1)) else []),
     sji_Prompt = dgi_Prompt input, sji_Messages = dgi_Messages input, sji_SystemPrompt = dgi_SystemPrompt input,
     sji_MaxTokens = dgi_MaxTokens input, sji_Temperature = dgi_Temperature input\<rparr>"

definition stage_job_request :: "Job \<Rightarrow> DistributedGenerateInput \<Rightarrow> nat \<Rightarrow> CreateRequest" where
  "stage_job_request parent input k = \<lparr>cr_Type = JobGenerateStage, cr_Input = marshal_stage_job_input (stage_job_input parent input k),
     cr_RequestedBy = ''distributed-coordinator:'' @ j_ID parent, cr_AssignedTo = dsi_NodeID (dgi_Stages input ! k),
     cr_Requirements = \<lparr>req_CPUCores = 1, req_MemoryBytes = 0, req_DiskBytes = 0, req_GPURequired = False, req_VRAMBytes = 0\<rparr>,
     cr_MaxAttempts = 1, cr_NoAutoAssign = True, cr_CDIPState = StagePlanned, cr_CDIPParentJobID = j_ID parent,
     cr_CDIPStageIndex = dsi_Index (dgi_Stages input ! k)\<rparr>"

text \<open>The loop over the positions that are left; \<open>stages[index]\<close> and \<open>shards[index]\<close> are in range.\<close>

fun stage_requests_loop :: "Job \<Rightarrow> DistributedGenerateInput \<Rightarrow> nat list \<Rightarrow> stage_job_error + CreateRequest list" where
  "stage_requests_loop parent input [] = Inr []"
| "stage_requests_loop parent input (k # ks) =
     (let stage = dgi_Stages input ! k; shard = dgi_Shards input ! k
      in if blank (dsi_NodeID stage) then Inl (StageNodeMissing (int k))
         else if dsi_Index stage \<noteq> int k then Inl (StageIndexWrong (dsi_Index stage) (int k))
         else if \<not> shard_matches shard stage then Inl (ShardStageMismatch (int k) (dsi_Index stage))
         else (case stage_requests_loop parent input ks of
             Inl e \<Rightarrow> Inl e
           | Inr reqs \<Rightarrow> Inr (stage_job_request parent input k # reqs)))"

definition distributedStageJobRequests :: "Job \<Rightarrow> DistributedGenerateInput \<Rightarrow> stage_job_error + CreateRequest list" where
  "distributedStageJobRequests parent input =
     (if j_ID parent = [] then Inl ParentJobRequired
      else if blank (dgi_ModelID input) then Inl ModelRequired
      else if length (dgi_Stages input) < 2 then Inl TooFewStages
      else if length (dgi_Shards input) \<noteq> length (dgi_Stages input) then Inl ShardCountMismatch
      else stage_requests_loop parent input [0..<length (dgi_Stages input)])"

text \<open>The input that \<open>handleModelDistributedGenerate\<close> of server.go makes from a plan.\<close>

definition distributedStageInputs :: "DistributedPlanStage list \<Rightarrow> DistributedStageInput list" where
  "distributedStageInputs stages = map (\<lambda>stage. \<lparr>dsi_Index = pl_Index stage, dsi_NodeID = pl_NodeID stage,
     dsi_NodeName = pl_NodeName stage, dsi_LayerStart = pl_LayerStart stage, dsi_LayerEnd = pl_LayerEnd stage,
     dsi_Layers = pl_Layers stage\<rparr>) stages"

definition generate_input_of_plan ::
  "Model \<Rightarrow> DistributedModelPlan \<Rightarrow> string \<Rightarrow> ChatMessage list \<Rightarrow> string \<Rightarrow> id \<Rightarrow> int \<Rightarrow> string \<Rightarrow> DistributedGenerateInput" where
  "generate_input_of_plan model plan prompt budgetedMessages effectiveSystemPrompt conversationID maxTokens temperature =
     \<lparr>dgi_ModelID = m_ID model, dgi_Prompt = prompt, dgi_Messages = budgetedMessages, dgi_SystemPrompt = effectiveSystemPrompt,
      dgi_ConversationID = conversationID, dgi_MaxTokens = maxTokens, dgi_Temperature = temperature, dgi_Mode = dp_Mode plan,
      dgi_Stages = distributedStageInputs (dp_Stages plan), dgi_Shards = sm_Shards (cdipShardManifest model plan)\<rparr>"

end
