(* ===== verification/Transport.thy ===== *)
theory Transport
  imports Cdip Json
begin

section \<open>The activation transport (internal/transport/transport.go)\<close>

text \<open>
  Activation frames, the in-memory transport of the manager and the HTTP transport of the workers.

  A Go channel is a bounded queue with a closed flag. The map of streams never loses or replaces an entry, so
  a writer or reader is named by its stream. A call may return, fail, block for ever or panic: these are the
  constructors of \<open>outcome\<close>. A context is whether it is done and, when the channel is ready as well, which of the
  two branches \<open>select\<close> takes. \<open>ActivationTransport\<close> is the Go interface: a record of its operations over
  a state of any type; a writer is used through \<open>tr_Send\<close>, a reader through \<open>tr_Receive\<close>.
\<close>

type_synonym bytes = "8 word list"

record ActivationFrame =
  af_Header :: ActivationChunk
  af_Payload :: bytes

datatype transport_error =
    InvalidHeader cdip_error
  | PayloadSizeMismatch u64 int
  | ParentJobIDRequired
  | StageJobIDRequired
  | ManagerURLRequired
  | ContextDone
  | FrameStreamMismatch
  | RelayFailed int string
  | EOF
  | RequestFailed
  | FrameUndecodable

datatype 'a outcome = Returns 'a | Fails transport_error | Blocks | Panics

definition of_error :: "transport_error option \<Rightarrow> 'a \<Rightarrow> 'a outcome" where
  "of_error e a = (case e of None \<Rightarrow> Returns a | Some x \<Rightarrow> Fails x)"

definition ActivationFrame_Validate :: "ActivationFrame \<Rightarrow> transport_error option" where
  "ActivationFrame_Validate f =
     (case ActivationChunk_Validate (af_Header f) of
        Some e \<Rightarrow> Some (InvalidHeader e)
      | None \<Rightarrow>
        if of_nat (length (af_Payload f)) \<noteq> ac_PayloadBytes (af_Header f)
        then Some (PayloadSizeMismatch (ac_PayloadBytes (af_Header f)) (int (length (af_Payload f))))
        else None)"

record StreamID =
  sid_ParentJobID :: string
  sid_StageJobID :: string

definition validateStreamID :: "StreamID \<Rightarrow> transport_error option" where
  "validateStreamID stream =
     (if sid_ParentJobID stream = [] then Some ParentJobIDRequired
      else if sid_StageJobID stream = [] then Some StageJobIDRequired
      else None)"

record ctx =
  ctx_done :: bool
  ctx_first :: bool

definition Background :: ctx where
  "Background = \<lparr>ctx_done = False, ctx_first = False\<rparr>"

record 'b ActivationTransport =
  tr_OpenWriter :: "ctx \<Rightarrow> StreamID \<Rightarrow> string \<Rightarrow> 'b \<Rightarrow> 'b \<times> unit outcome"
  tr_Send :: "ctx \<Rightarrow> StreamID \<Rightarrow> ActivationFrame \<Rightarrow> 'b \<Rightarrow> 'b \<times> unit outcome"
  tr_OpenReader :: "ctx \<Rightarrow> StreamID \<Rightarrow> 'b \<Rightarrow> 'b \<times> unit outcome"
  tr_Receive :: "ctx \<Rightarrow> StreamID \<Rightarrow> 'b \<Rightarrow> 'b \<times> ActivationFrame outcome"

subsection \<open>The memory transport\<close>

record channel =
  ch_frames :: "ActivationFrame list"
  ch_closed :: bool

record MemoryActivationTransport =
  mt_buffer :: int
  mt_streams :: "(StreamID, channel) go_map"

definition NewMemoryActivationTransport :: "int \<Rightarrow> MemoryActivationTransport" where
  "NewMemoryActivationTransport buffer = \<lparr>mt_buffer = (if buffer < 1 then 1 else buffer), mt_streams = []\<rparr>"

definition put_stream :: "StreamID \<Rightarrow> channel \<Rightarrow> MemoryActivationTransport \<Rightarrow> MemoryActivationTransport" where
  "put_stream stream ch t = t\<lparr>mt_streams := mput stream ch (mt_streams t)\<rparr>"

definition open_stream :: "ctx \<Rightarrow> StreamID \<Rightarrow> MemoryActivationTransport \<Rightarrow> MemoryActivationTransport \<times> unit outcome" where
  "open_stream ctx stream t =
     (case validateStreamID stream of
        Some e \<Rightarrow> (t, Fails e)
      | None \<Rightarrow>
        if ctx_done ctx then (t, Fails ContextDone)
        else case mget (mt_streams t) stream of
            Some ch \<Rightarrow> (t, Returns ())
          | None \<Rightarrow> (put_stream stream \<lparr>ch_frames = [], ch_closed = False\<rparr> t, Returns ()))"

definition memory_OpenWriter ::
  "ctx \<Rightarrow> StreamID \<Rightarrow> string \<Rightarrow> MemoryActivationTransport \<Rightarrow> MemoryActivationTransport \<times> unit outcome" where
  "memory_OpenWriter ctx stream destinationNodeID t = open_stream ctx stream t"

definition memory_OpenReader ::
  "ctx \<Rightarrow> StreamID \<Rightarrow> MemoryActivationTransport \<Rightarrow> MemoryActivationTransport \<times> unit outcome" where
  "memory_OpenReader ctx stream t = open_stream ctx stream t"

text \<open>A writer or reader exists only for an open stream; on another one the operation would wait on a nil
  channel.\<close>

definition memory_Send ::
  "ctx \<Rightarrow> StreamID \<Rightarrow> ActivationFrame \<Rightarrow> MemoryActivationTransport \<Rightarrow> MemoryActivationTransport \<times> unit outcome" where
  "memory_Send ctx stream frame t =
     (case ActivationFrame_Validate frame of
        Some e \<Rightarrow> (t, Fails e)
      | None \<Rightarrow>
        (case mget (mt_streams t) stream of
           None \<Rightarrow> (t, if ctx_done ctx then Fails ContextDone else Blocks)
         | Some ch \<Rightarrow>
           let ready = (ch_closed ch \<or> int (length (ch_frames ch)) < mt_buffer t)
           in if ctx_done ctx \<and> (\<not> ready \<or> ctx_first ctx) then (t, Fails ContextDone)
              else if ch_closed ch then (t, Panics)
              else if ready then (put_stream stream (ch\<lparr>ch_frames := ch_frames ch @ [frame]\<rparr>) t, Returns ())
              else (t, Blocks)))"

definition memory_Receive ::
  "ctx \<Rightarrow> StreamID \<Rightarrow> MemoryActivationTransport \<Rightarrow> MemoryActivationTransport \<times> ActivationFrame outcome" where
  "memory_Receive ctx stream t =
     (case mget (mt_streams t) stream of
        None \<Rightarrow> (t, if ctx_done ctx then Fails ContextDone else Blocks)
      | Some ch \<Rightarrow>
        let ready = (ch_closed ch \<or> ch_frames ch \<noteq> [])
        in if ctx_done ctx \<and> (\<not> ready \<or> ctx_first ctx) then (t, Fails ContextDone)
           else (case ch_frames ch of
               frame # frames \<Rightarrow> (put_stream stream (ch\<lparr>ch_frames := frames\<rparr>) t, Returns frame)
             | [] \<Rightarrow> if ch_closed ch then (t, Fails EOF) else (t, Blocks)))"

text \<open>\<open>Close\<close> of a writer whose \<open>once\<close> has fired or not; a second writer of the same stream closes a closed
  channel.\<close>

definition memory_Close ::
  "bool \<Rightarrow> StreamID \<Rightarrow> MemoryActivationTransport \<Rightarrow> MemoryActivationTransport \<times> unit outcome" where
  "memory_Close fired stream t =
     (if fired then (t, Returns ())
      else case mget (mt_streams t) stream of
          None \<Rightarrow> (t, Panics)
        | Some ch \<Rightarrow> if ch_closed ch then (t, Panics)
            else (put_stream stream (ch\<lparr>ch_closed := True\<rparr>) t, Returns ()))"

definition memory_transport :: "MemoryActivationTransport ActivationTransport" where
  "memory_transport = \<lparr>tr_OpenWriter = memory_OpenWriter, tr_Send = memory_Send,
     tr_OpenReader = memory_OpenReader, tr_Receive = memory_Receive\<rparr>"

subsection \<open>First in, first out\<close>

datatype bus_op =
    BusOpen ctx StreamID
  | BusSend ctx StreamID ActivationFrame
  | BusReceive ctx StreamID
  | BusClose bool StreamID

datatype bus_event = Accepted StreamID ActivationFrame | Delivered StreamID ActivationFrame

fun bus_step :: "bus_op \<Rightarrow> MemoryActivationTransport \<Rightarrow> MemoryActivationTransport \<times> bus_event list" where
  "bus_step (BusOpen c s) t = (fst (open_stream c s t), [])"
| "bus_step (BusSend c s f) t =
     (case memory_Send c s f t of (t', Returns _) \<Rightarrow> (t', [Accepted s f]) | (t', _) \<Rightarrow> (t', []))"
| "bus_step (BusReceive c s) t =
     (case memory_Receive c s t of (t', Returns f) \<Rightarrow> (t', [Delivered s f]) | (t', _) \<Rightarrow> (t', []))"
| "bus_step (BusClose b s) t = (fst (memory_Close b s t), [])"

fun bus_run :: "bus_op list \<Rightarrow> MemoryActivationTransport \<Rightarrow> MemoryActivationTransport \<times> bus_event list" where
  "bus_run [] t = (t, [])"
| "bus_run (op # ops) t =
     (case bus_step op t of (t', es) \<Rightarrow> case bus_run ops t' of (t'', es') \<Rightarrow> (t'', es @ es'))"

fun accepted :: "StreamID \<Rightarrow> bus_event list \<Rightarrow> ActivationFrame list" where
  "accepted s [] = []"
| "accepted s (Accepted r f # es) = (if r = s then f # accepted s es else accepted s es)"
| "accepted s (Delivered r f # es) = accepted s es"

fun delivered :: "StreamID \<Rightarrow> bus_event list \<Rightarrow> ActivationFrame list" where
  "delivered s [] = []"
| "delivered s (Delivered r f # es) = (if r = s then f # delivered s es else delivered s es)"
| "delivered s (Accepted r f # es) = delivered s es"

definition queued :: "MemoryActivationTransport \<Rightarrow> StreamID \<Rightarrow> ActivationFrame list" where
  "queued t s = (case mget (mt_streams t) s of None \<Rightarrow> [] | Some ch \<Rightarrow> ch_frames ch)"

lemma accepted_append [simp]: "accepted s (es @ es') = accepted s es @ accepted s es'"
  by (induction s es rule: accepted.induct) auto

lemma delivered_append [simp]: "delivered s (es @ es') = delivered s es @ delivered s es'"
  by (induction s es rule: delivered.induct) auto

lemma put_stream_simps [simp]:
  "mt_buffer (put_stream s ch t) = mt_buffer t"
  "mt_streams (put_stream s ch t) = mput s ch (mt_streams t)"
  "queued (put_stream s ch t) r = (if r = s then ch_frames ch else queued t r)"
  by (simp_all add: put_stream_def queued_def)

lemma queued_get: "mget (mt_streams t) s = Some ch \<Longrightarrow> queued t s = ch_frames ch"
  by (simp add: queued_def)

lemma queued_None: "mget (mt_streams t) s = None \<Longrightarrow> queued t s = []"
  by (simp add: queued_def)

lemma queued_open [simp]: "queued (fst (open_stream c s t)) r = queued t r"
  by (auto simp: open_stream_def queued_None split: option.splits)

lemma queued_close [simp]: "queued (fst (memory_Close b s t)) r = queued t r"
  by (auto simp: memory_Close_def queued_get split: option.splits)

text \<open>What one operation does to the queue of a stream.\<close>

lemma step_queue:
  "bus_step op t = (t', es) \<Longrightarrow> queued t s @ accepted s es = delivered s es @ queued t' s"
proof (cases op)
  case (BusSend c r f)
  then show "bus_step op t = (t', es) \<Longrightarrow> ?thesis"
    by (auto simp: memory_Send_def Let_def queued_get split: option.splits if_splits)
next
  case (BusReceive c r)
  then show "bus_step op t = (t', es) \<Longrightarrow> ?thesis"
    by (auto simp: memory_Receive_def Let_def queued_get split: option.splits if_splits list.splits)
qed (auto dest!: arg_cong [where f = "\<lambda>x. queued (fst x) s"])

definition bus_ok :: "MemoryActivationTransport \<Rightarrow> bool" where
  "bus_ok t \<longleftrightarrow> (\<forall>s. int (length (queued t s)) \<le> mt_buffer t
     \<and> (\<forall>f \<in> set (queued t s). ActivationFrame_Validate f = None))"

lemma step_ok:
  assumes "bus_ok t" and "bus_step op t = (t', es)"
  shows "bus_ok t'" and "mt_buffer t' = mt_buffer t"
proof -
  show buffer: "mt_buffer t' = mt_buffer t"
    using assms(2)
    by (cases op) (auto simp: open_stream_def memory_Close_def memory_Send_def memory_Receive_def Let_def
        split: option.splits if_splits list.splits)
  have "int (length (queued t' s)) \<le> mt_buffer t \<and> (\<forall>f \<in> set (queued t' s). ActivationFrame_Validate f = None)" for s
    using assms(1) [unfolded bus_ok_def, rule_format, of s] assms(2)
    by (cases op) (auto simp: memory_Send_def memory_Receive_def Let_def queued_get
        dest!: arg_cong [where f = "\<lambda>x. queued (fst x) s"] split: option.splits if_splits list.splits)
  with buffer show "bus_ok t'" by (simp add: bus_ok_def)
qed

lemma run_queue:
  "bus_run ops t = (t', es) \<Longrightarrow> queued t s @ accepted s es = delivered s es @ queued t' s"
proof (induction ops arbitrary: t es)
  case (Cons op ops)
  obtain u es1 where one: "bus_step op t = (u, es1)" by fastforce
  obtain es2 where rest: "bus_run ops u = (t', es2)" and es: "es = es1 @ es2"
    using Cons.prems one by (auto split: prod.splits)
  show ?case using step_queue [OF one, of s] Cons.IH [OF rest] by (metis append_assoc es accepted_append delivered_append)
qed simp

lemma run_ok: "bus_run ops t = (t', es) \<Longrightarrow> bus_ok t \<Longrightarrow> bus_ok t' \<and> mt_buffer t' = mt_buffer t"
proof (induction ops arbitrary: t es)
  case (Cons op ops)
  obtain u es1 where one: "bus_step op t = (u, es1)" by fastforce
  obtain es2 where "bus_run ops u = (t', es2)" using Cons.prems one by (auto split: prod.splits)
  with Cons.IH [of u es2] step_ok [OF Cons.prems(2) one] show ?case by simp
qed simp

lemma new_transport_ok: "bus_ok (NewMemoryActivationTransport n)" "queued (NewMemoryActivationTransport n) s = []"
  by (simp_all add: bus_ok_def NewMemoryActivationTransport_def queued_def)

lemma step_accepts_valid:
  "bus_step op t = (t', es) \<Longrightarrow> list_all (\<lambda>f. ActivationFrame_Validate f = None) (accepted s es)"
  by (cases op) (auto simp: memory_Send_def memory_Receive_def Let_def split: option.splits if_splits list.splits)

lemma run_accepts_valid:
  "bus_run ops t = (t', es) \<Longrightarrow> list_all (\<lambda>f. ActivationFrame_Validate f = None) (accepted s es)"
proof (induction ops arbitrary: t es)
  case (Cons op ops)
  obtain u es1 where one: "bus_step op t = (u, es1)" by fastforce
  obtain es2 where rest: "bus_run ops u = (t', es2)" and es: "es = es1 @ es2"
    using Cons.prems one by (auto split: prod.splits)
  show ?case using step_accepts_valid [OF one, of s] Cons.IH [OF rest] by (simp add: es)
qed simp

text \<open>
  C17. Whatever is done to a memory transport, each stream delivers the frames it accepted in the order in which
  it accepted them, once each: what was accepted is what was delivered followed by what is queued. Only valid frames are accepted, and
  the queue stays within the buffer.
\<close>

theorem activation_streams_are_fifo:
  "case bus_run ops (NewMemoryActivationTransport n) of (t, es) \<Rightarrow>
     accepted s es = delivered s es @ queued t s
     \<and> int (length (queued t s)) \<le> max 1 n
     \<and> list_all (\<lambda>f. ActivationFrame_Validate f = None) (accepted s es)"
proof -
  obtain t es where run: "bus_run ops (NewMemoryActivationTransport n) = (t, es)" by fastforce
  have "mt_buffer (NewMemoryActivationTransport n) = max 1 n" by (simp add: NewMemoryActivationTransport_def)
  then have "int (length (queued t s)) \<le> max 1 n"
    using run_ok [OF run new_transport_ok(1)] by (auto simp: bus_ok_def)
  then show ?thesis
    using run_queue [OF run, of s] run_accepts_valid [OF run, of s] by (simp add: run new_transport_ok(2))
qed

subsection \<open>The contract of a transport\<close>

text \<open>
  What the coordinator relies on when it relays a frame with the background context: a stream that is
  \<open>idle\<close> (open or not, nothing queued, not closed) can be opened from both sides, takes one frame without blocking,
  and hands exactly that frame back; the other streams are not affected.
\<close>

locale activation_bus =
  fixes T :: "'b ActivationTransport" and idle :: "'b \<Rightarrow> StreamID \<Rightarrow> bool"
  assumes open_reader: "validateStreamID s = None \<Longrightarrow> idle b s \<Longrightarrow>
      \<exists>b'. tr_OpenReader T Background s b = (b', Returns ()) \<and> (\<forall>r. idle b r \<longrightarrow> idle b' r)"
    and relay: "validateStreamID s = None \<Longrightarrow> idle b s \<Longrightarrow> ActivationFrame_Validate f = None \<Longrightarrow>
      ac_ParentJobID (af_Header f) = sid_ParentJobID s \<Longrightarrow> ac_StageJobID (af_Header f) = sid_StageJobID s \<Longrightarrow>
      \<exists>b1 b2 b3. tr_OpenWriter T Background s d b = (b1, Returns ()) \<and> tr_Send T Background s f b1 = (b2, Returns ())
        \<and> tr_Receive T Background s b2 = (b3, Returns f) \<and> (\<forall>r. idle b r \<longrightarrow> idle b3 r)"

definition memory_idle :: "MemoryActivationTransport \<Rightarrow> StreamID \<Rightarrow> bool" where
  "memory_idle t s \<longleftrightarrow> mt_buffer t \<ge> 1
     \<and> (case mget (mt_streams t) s of None \<Rightarrow> True | Some ch \<Rightarrow> ch_frames ch = [] \<and> \<not> ch_closed ch)"

lemma memory_open_idle:
  assumes "validateStreamID s = None" and "memory_idle t s"
  shows "\<exists>t'. open_stream Background s t = (t', Returns ())
    \<and> mget (mt_streams t') s = Some \<lparr>ch_frames = [], ch_closed = False\<rparr>
    \<and> mt_buffer t' = mt_buffer t \<and> (\<forall>r. r \<noteq> s \<longrightarrow> mget (mt_streams t') r = mget (mt_streams t) r)"
  using assms by (auto simp: open_stream_def Background_def memory_idle_def split: option.splits)

lemma memory_idle_keep:
  "mt_buffer t' = mt_buffer t \<Longrightarrow> (\<And>r. r \<noteq> s \<Longrightarrow> mget (mt_streams t') r = mget (mt_streams t) r) \<Longrightarrow>
   mget (mt_streams t') s = Some \<lparr>ch_frames = [], ch_closed = False\<rparr> \<Longrightarrow> memory_idle t r \<Longrightarrow> memory_idle t' r"
  by (cases "r = s") (auto simp: memory_idle_def)

interpretation memory_bus: activation_bus memory_transport memory_idle
proof
  fix s t
  assume "validateStreamID s = None" "memory_idle t s"
  from memory_open_idle [OF this]
  show "\<exists>t'. tr_OpenReader memory_transport Background s t = (t', Returns ()) \<and> (\<forall>r. memory_idle t r \<longrightarrow> memory_idle t' r)"
    by (auto simp: memory_transport_def memory_OpenReader_def intro: memory_idle_keep)
next
  fix s t f d
  assume prems: "validateStreamID s = None" "memory_idle t s" "ActivationFrame_Validate f = None"
  from memory_open_idle [OF prems(1,2)] obtain t1 where t1: "open_stream Background s t = (t1, Returns ())"
    "mget (mt_streams t1) s = Some \<lparr>ch_frames = [], ch_closed = False\<rparr>" "mt_buffer t1 = mt_buffer t"
    "\<And>r. r \<noteq> s \<Longrightarrow> mget (mt_streams t1) r = mget (mt_streams t) r" by auto
  have "mt_buffer t1 > 0" using t1(3) prems(2) by (simp add: memory_idle_def)
  then have t2: "memory_Send Background s f t1 = (put_stream s \<lparr>ch_frames = [f], ch_closed = False\<rparr> t1, Returns ())"
    using prems(3) t1(2) by (simp add: memory_Send_def Background_def)
  define t3 where "t3 = put_stream s \<lparr>ch_frames = [], ch_closed = False\<rparr> (put_stream s \<lparr>ch_frames = [f], ch_closed = False\<rparr> t1)"
  have "memory_Receive Background s (put_stream s \<lparr>ch_frames = [f], ch_closed = False\<rparr> t1) = (t3, Returns f)"
    by (simp add: memory_Receive_def Background_def t3_def)
  moreover have "memory_idle t r \<Longrightarrow> memory_idle t3 r" for r
    by (rule memory_idle_keep [of _ _ s]) (simp_all add: t3_def t1)
  ultimately show "\<exists>b1 b2 b3. tr_OpenWriter memory_transport Background s d t = (b1, Returns ())
      \<and> tr_Send memory_transport Background s f b1 = (b2, Returns ())
      \<and> tr_Receive memory_transport Background s b2 = (b3, Returns f) \<and> (\<forall>r. memory_idle t r \<longrightarrow> memory_idle b3 r)"
    using t1(1) t2 by (simp add: memory_transport_def memory_OpenWriter_def)
qed

end
