(* ===== verification/HttpTransport.thy ===== *)
theory HttpTransport
  imports Transport
begin

section \<open>The HTTP transport (internal/transport/transport.go)\<close>

text \<open>
  The transport a worker uses: it posts frames to the relay of the manager and polls it for frames. The HTTP client is
  an argument \<open>Do\<close>: from a request and the state of the world to the new state and a response, or to
  \<open>None\<close> when the request could not be built or sent. The JSON text of a frame and the base64 text of its payload are
  modelled on bytes.
\<close>

subsection \<open>Base64\<close>

definition b64_alphabet :: string where
  "b64_alphabet = ''ABCDEFGHIJKLMNOPQRSTUVWXYZabcdefghijklmnopqrstuvwxyz0123456789+/''"

definition b64_char :: "nat \<Rightarrow> char" where
  "b64_char n = b64_alphabet ! n"

definition b64_val :: "char \<Rightarrow> nat option" where
  "b64_val c = (if c \<in> set b64_alphabet then Some (length (takeWhile (\<lambda>d. d \<noteq> c) b64_alphabet)) else None)"

fun b64_encode :: "bytes \<Rightarrow> string" where
  "b64_encode [] = []"
| "b64_encode [a] = [b64_char (unat a div 4), b64_char (unat a mod 4 * 16), CHR ''='', CHR ''='']"
| "b64_encode [a, b] = [b64_char (unat a div 4), b64_char (unat a mod 4 * 16 + unat b div 16),
     b64_char (unat b mod 16 * 4), CHR ''='']"
| "b64_encode (a # b # c # bs) = b64_char (unat a div 4) # b64_char (unat a mod 4 * 16 + unat b div 16)
     # b64_char (unat b mod 16 * 4 + unat c div 64) # b64_char (unat c mod 64) # b64_encode bs"

text \<open>Groups of four characters; padding ends the text. The unused bits of the last group are not checked.\<close>

fun b64_groups :: "string \<Rightarrow> bytes option" where
  "b64_groups [] = Some []"
| "b64_groups (p # q # r # s # t) =
     (case (b64_val p, b64_val q) of
        (Some w, Some x) \<Rightarrow>
          if r = CHR ''='' \<and> s = CHR ''='' then (if t = [] then Some [of_nat (w * 4 + x div 16)] else None)
          else (case b64_val r of
              None \<Rightarrow> None
            | Some y \<Rightarrow>
              if s = CHR ''='' then
                (if t = [] then Some [of_nat (w * 4 + x div 16), of_nat (x mod 16 * 16 + y div 4)] else None)
              else (case b64_val s of
                  None \<Rightarrow> None
                | Some z \<Rightarrow> map_option (\<lambda>bs. of_nat (w * 4 + x div 16) # of_nat (x mod 16 * 16 + y div 4)
                     # of_nat (y mod 4 * 64 + z) # bs) (b64_groups t)))
      | _ \<Rightarrow> None)"
| "b64_groups _ = None"

definition b64_decode :: "string \<Rightarrow> bytes option" where
  "b64_decode s = b64_groups (filter (\<lambda>c. c \<noteq> CHR 0x0A \<and> c \<noteq> CHR 0x0D) s)"

lemma b64_val_table: "list_all (\<lambda>n. b64_val (b64_char n) = Some n \<and> b64_char n \<noteq> CHR ''=''
    \<and> b64_char n \<noteq> CHR 0x0A \<and> b64_char n \<noteq> CHR 0x0D) [0..<64]"
  by code_simp

lemma b64_char_facts:
  assumes "n < 64"
  shows "b64_val (b64_char n) = Some n" "b64_char n \<noteq> CHR ''=''" "b64_char n \<noteq> CHR 0x0A" "b64_char n \<noteq> CHR 0x0D"
  using b64_val_table assms by (auto simp: list_all_iff)

lemma byte_bound: "unat (a :: 8 word) < 256"
  using unsigned_less [where ?'a = nat, of a] by simp

lemma byte_div: "unat (a :: 8 word) div 4 < 64" "unat a div 16 < 16" "unat a div 64 < 4"
  using byte_bound [of a] by (simp_all add: less_mult_imp_div_less)

lemma b64_div_bounds:
  fixes a b :: "8 word"
  shows "unat a div 4 < 64" "unat a mod 4 * 16 < 64" "unat a mod 4 * 16 + unat b div 16 < 64"
    "unat a mod 16 * 4 < 64" "unat a mod 16 * 4 + unat b div 64 < 64" "unat a mod 64 < 64"
  using byte_div [of a] byte_div [of b] mod_less_divisor [of 4 "unat a"] mod_less_divisor [of 16 "unat a"] by simp_all

lemma nat_split: "x div 4 * 4 + (x mod 4 * 16 + y div 16) div 16 = x" if "y div 16 < 16" for x y :: nat
  using that by simp

lemma nat_split2: "(x mod 4 * 16 + y div 16) mod 16 * 16 + (y mod 16 * 4 + z div 64) div 4 = y"
  if "y div 16 < 16" "z div 64 < 4" for x y z :: nat
  using that by simp

lemma nat_split3: "(y mod 16 * 4 + z div 64) mod 4 * 64 + z mod 64 = z" if "z div 64 < 4" for y z :: nat
  using that by simp

lemma b64_groups_encode: "b64_groups (b64_encode bs) = Some bs"
proof (induction bs rule: b64_encode.induct)
  case (2 a)
  show ?case using nat_split [of 0 "unat a"] by (simp add: b64_char_facts b64_div_bounds)
next
  case (3 a b)
  show ?case
    using nat_split [OF byte_div(2) [of b], of "unat a"] nat_split2 [OF byte_div(2) [of b], of 0 "unat a"]
    by (simp add: b64_char_facts b64_div_bounds)
next
  case (4 a b c bs)
  then show ?case
    using nat_split [OF byte_div(2) [of b], of "unat a"] nat_split2 [OF byte_div(2) [of b] byte_div(3) [of c], of "unat a"]
      nat_split3 [OF byte_div(3) [of c], of "unat b"]
    by (simp add: b64_char_facts b64_div_bounds)
qed simp

lemma b64_encode_clean: "filter (\<lambda>c. c \<noteq> CHR 0x0A \<and> c \<noteq> CHR 0x0D) (b64_encode bs) = b64_encode bs"
  by (induction bs rule: b64_encode.induct) (simp_all add: b64_char_facts b64_div_bounds)

lemma b64_decode_encode: "b64_decode (b64_encode bs) = Some bs"
  by (simp add: b64_decode_def b64_encode_clean b64_groups_encode)

subsection \<open>The JSON text of a frame\<close>

fun show_MessageType :: "MessageType \<Rightarrow> string" where
  "show_MessageType MessageNodeHello = ''node.hello''"
| "show_MessageType MessagePlanProposal = ''plan.proposal''"
| "show_MessageType MessageShardManifest = ''shard.manifest''"
| "show_MessageType MessageStagePrepare = ''stage.prepare''"
| "show_MessageType MessageStageReady = ''stage.ready''"
| "show_MessageType MessageStagePrefill = ''stage.prefill''"
| "show_MessageType MessageStageDecode = ''stage.decode''"
| "show_MessageType MessageStageComplete = ''stage.complete''"
| "show_MessageType MessageStageAbort = ''stage.abort''"
| "show_MessageType MessageActivationChunk = ''activation.chunk''"
| "show_MessageType MessageError = ''error''"
| "show_MessageType (MessageOther s) = s"

definition known_types :: "MessageType list" where
  "known_types = [MessageNodeHello, MessagePlanProposal, MessageShardManifest, MessageStagePrepare, MessageStageReady,
     MessageStagePrefill, MessageStageDecode, MessageStageComplete, MessageStageAbort, MessageActivationChunk, MessageError]"

definition message_type_of :: "string \<Rightarrow> MessageType" where
  "message_type_of s = (case List.find (\<lambda>t. show_MessageType t = s) known_types of Some t \<Rightarrow> t | None \<Rightarrow> MessageOther s)"

definition json_chunk :: "ActivationChunk \<Rightarrow> json" where
  "json_chunk m = JObj (jstr ''protocol'' (e_Protocol (ac_Envelope m)) @ jstr ''version'' (e_Version (ac_Envelope m))
     @ jstr ''type'' (show_MessageType (e_Type (ac_Envelope m)))
     @ jstr ''parent_job_id'' (ac_ParentJobID m) @ jstr ''stage_job_id'' (ac_StageJobID m)
     @ [(''sequence'', JNum (show_u64 (ac_Sequence m)))] @ jstr ''content_type'' (ac_ContentType m)
     @ jstr_omit ''encoding'' (ac_Encoding m) @ jarr_omit ''shape'' (map (\<lambda>i. JNum (show_int i)) (ac_Shape m))
     @ jstr_omit ''dtype'' (ac_DType m) @ [(''payload_bytes'', JNum (show_u64 (ac_PayloadBytes m)))]
     @ jstr_omit ''checksum'' (ac_Checksum m))"

definition json_frame :: "ActivationFrame \<Rightarrow> json" where
  "json_frame f = JObj ([(''header'', json_chunk (af_Header f))]
     @ (if af_Payload f = [] then [] else [(''payload'', JStr (b64_encode (af_Payload f)))]))"

fun dec_int :: "json \<Rightarrow> int option" where
  "dec_int (JNum n) = parse_int_lit n"
| "dec_int JNull = Some 0"
| "dec_int _ = None"

definition zero_chunk :: ActivationChunk where
  "zero_chunk = \<lparr>ac_Envelope = \<lparr>e_Protocol = [], e_Version = [], e_Type = MessageOther []\<rparr>, ac_ParentJobID = [],
     ac_StageJobID = [], ac_Sequence = 0, ac_ContentType = [], ac_Encoding = [], ac_Shape = [], ac_DType = [],
     ac_PayloadBytes = 0, ac_Checksum = []\<rparr>"

definition chunk_fields :: "(string \<times> ActivationChunk field_decoder) list" where
  "chunk_fields =
     [(''protocol'', dstr (\<lambda>s. ac_Envelope_update (e_Protocol_update (\<lambda>_. s)))),
      (''version'', dstr (\<lambda>s. ac_Envelope_update (e_Version_update (\<lambda>_. s)))),
      (''type'', dstr (\<lambda>s. ac_Envelope_update (e_Type_update (\<lambda>_. message_type_of s)))),
      (''parent_job_id'', dstr (\<lambda>s. ac_ParentJobID_update (\<lambda>_. s))),
      (''stage_job_id'', dstr (\<lambda>s. ac_StageJobID_update (\<lambda>_. s))),
      (''sequence'', du64 (\<lambda>w. ac_Sequence_update (\<lambda>_. w))),
      (''content_type'', dstr (\<lambda>s. ac_ContentType_update (\<lambda>_. s))),
      (''encoding'', dstr (\<lambda>s. ac_Encoding_update (\<lambda>_. s))),
      (''shape'', dslice dec_int (\<lambda>is. ac_Shape_update (\<lambda>_. is))),
      (''dtype'', dstr (\<lambda>s. ac_DType_update (\<lambda>_. s))),
      (''payload_bytes'', du64 (\<lambda>w. ac_PayloadBytes_update (\<lambda>_. w))),
      (''checksum'', dstr (\<lambda>s. ac_Checksum_update (\<lambda>_. s)))]"

text \<open>A \<open>[]byte\<close> field takes base64 text, an array of small numbers, or \<open>null\<close>.\<close>

fun dec_byte :: "json \<Rightarrow> 8 word option" where
  "dec_byte (JNum n) = (case parse_uint_lit n of None \<Rightarrow> None
     | Some w \<Rightarrow> if uint w \<ge> 256 then None else Some (word_of_int (uint w)))"
| "dec_byte JNull = Some 0"
| "dec_byte _ = None"

fun dbytes :: "(bytes \<Rightarrow> 'a \<Rightarrow> 'a) \<Rightarrow> 'a field_decoder" where
  "dbytes upd a (JStr s) = map_option (\<lambda>bs. upd bs a) (b64_decode s)"
| "dbytes upd a JNull = Some (upd [] a)"
| "dbytes upd a (JArr vs) = map_option (\<lambda>bs. upd bs a) (decode_all dec_byte vs)"
| "dbytes upd a _ = None"

definition frame_fields :: "(string \<times> ActivationFrame field_decoder) list" where
  "frame_fields =
     [(''header'', dstruct (decode_struct chunk_fields zero_chunk) (\<lambda>h. af_Header_update (\<lambda>_. h))),
      (''payload'', dbytes (\<lambda>bs. af_Payload_update (\<lambda>_. bs)))]"

definition zero_frame :: ActivationFrame where
  "zero_frame = \<lparr>af_Header = zero_chunk, af_Payload = []\<rparr>"

text \<open>\<open>json.NewDecoder(r).Decode(&frame)\<close> reads the first value of the stream.\<close>

definition decode_first :: "(string \<times> 'a field_decoder) list \<Rightarrow> 'a \<Rightarrow> string \<Rightarrow> 'a option" where
  "decode_first flds zero s =
     (case parse_value (Suc (length s)) 0 s of None \<Rightarrow> None | Some (v, t) \<Rightarrow> decode_struct flds zero v)"

definition decode_frame :: "string \<Rightarrow> ActivationFrame option" where
  "decode_frame s = decode_first frame_fields zero_frame s"

definition marshal_frame :: "ActivationFrame \<Rightarrow> string" where
  "marshal_frame f = json_print (json_frame f)"

subsection \<open>The transport\<close>

record HTTPActivationTransport =
  ht_managerURL :: string
  ht_operatorToken :: string
  ht_nodeID :: string
  ht_pollTimeout :: int

record http_request =
  hq_Method :: string
  hq_URL :: string
  hq_Header :: "(string \<times> string) list"
  hq_Body :: string

record http_response =
  hp_StatusCode :: int
  hp_Body :: string

type_synonym 'w http_client = "http_request \<Rightarrow> 'w \<Rightarrow> 'w \<times> http_response option"

definition TrimRightSlash :: "string \<Rightarrow> string" where
  "TrimRightSlash s = rev (dropWhile (\<lambda>c. c = CHR ''/'') (rev s))"

definition NewHTTPActivationTransport :: "string \<Rightarrow> string \<Rightarrow> HTTPActivationTransport" where
  "NewHTTPActivationTransport managerURL operatorToken =
     \<lparr>ht_managerURL = TrimRightSlash managerURL, ht_operatorToken = operatorToken, ht_nodeID = [],
      ht_pollTimeout = 250 * 1000000\<rparr>"

definition WithPollTimeout :: "int \<Rightarrow> HTTPActivationTransport \<Rightarrow> HTTPActivationTransport" where
  "WithPollTimeout timeout t = (if timeout > 0 then t\<lparr>ht_pollTimeout := timeout\<rparr> else t)"

definition WithNodeID :: "string \<Rightarrow> HTTPActivationTransport \<Rightarrow> HTTPActivationTransport" where
  "WithNodeID nodeID t = t\<lparr>ht_nodeID := TrimSpace nodeID\<rparr>"

definition http_open :: "HTTPActivationTransport \<Rightarrow> ctx \<Rightarrow> StreamID \<Rightarrow> 'w \<Rightarrow> 'w \<times> unit outcome" where
  "http_open t ctx stream w =
     (case validateStreamID stream of
        Some e \<Rightarrow> (w, Fails e)
      | None \<Rightarrow>
        if blank (ht_managerURL t) then (w, Fails ManagerURLRequired)
        else if ctx_done ctx then (w, Fails ContextDone)
        else (w, Returns ()))"

definition http_OpenWriter :: "HTTPActivationTransport \<Rightarrow> ctx \<Rightarrow> StreamID \<Rightarrow> string \<Rightarrow> 'w \<Rightarrow> 'w \<times> unit outcome" where
  "http_OpenWriter t ctx stream destinationNodeID w = http_open t ctx stream w"

definition http_OpenReader :: "HTTPActivationTransport \<Rightarrow> ctx \<Rightarrow> StreamID \<Rightarrow> 'w \<Rightarrow> 'w \<times> unit outcome" where
  "http_OpenReader t ctx stream w = http_open t ctx stream w"

definition streamURL :: "HTTPActivationTransport \<Rightarrow> StreamID \<Rightarrow> string" where
  "streamURL t stream = ht_managerURL t @ ''/v1/cdip/activations/'' @ sid_ParentJobID stream @ ''/''
     @ sid_StageJobID stream @ ''/frames''"

definition authorize :: "HTTPActivationTransport \<Rightarrow> (string \<times> string) list" where
  "authorize t = (if blank (ht_operatorToken t) then [] else [(''X-CMesh-Operator-Token'', ht_operatorToken t)])
     @ (if blank (ht_nodeID t) then [] else [(''X-CMesh-Node-ID'', ht_nodeID t)])"

definition frame_of_stream :: "ActivationFrame \<Rightarrow> StreamID \<Rightarrow> bool" where
  "frame_of_stream frame stream \<longleftrightarrow> ac_ParentJobID (af_Header frame) = sid_ParentJobID stream
     \<and> ac_StageJobID (af_Header frame) = sid_StageJobID stream"

definition relay_error :: "http_response \<Rightarrow> transport_error" where
  "relay_error resp = RelayFailed (hp_StatusCode resp) (TrimSpace (take 4096 (hp_Body resp)))"

definition http_Send :: "'w http_client \<Rightarrow> HTTPActivationTransport \<Rightarrow> ctx \<Rightarrow> StreamID \<Rightarrow> ActivationFrame \<Rightarrow> 'w \<Rightarrow> 'w \<times> unit outcome" where
  "http_Send Do t ctx stream frame w =
     (case ActivationFrame_Validate frame of
        Some e \<Rightarrow> (w, Fails e)
      | None \<Rightarrow>
        if \<not> frame_of_stream frame stream then (w, Fails FrameStreamMismatch)
        else case Do \<lparr>hq_Method = ''POST'', hq_URL = streamURL t stream,
               hq_Header = (''Content-Type'', ''application/json'') # authorize t, hq_Body = marshal_frame frame\<rparr> w of
            (w', None) \<Rightarrow> (w', Fails RequestFailed)
          | (w', Some resp) \<Rightarrow>
            if hp_StatusCode resp < 200 \<or> hp_StatusCode resp \<ge> 300 then (w', Fails (relay_error resp))
            else (w', Returns ()))"

definition maxInt64 :: "int \<Rightarrow> int \<Rightarrow> int" where
  "maxInt64 a b = (if a > b then a else b)"

text \<open>\<open>Duration.Milliseconds\<close> divides by a million; the timeout is never negative.\<close>

definition http_Receive :: "'w http_client \<Rightarrow> HTTPActivationTransport \<Rightarrow> ctx \<Rightarrow> StreamID \<Rightarrow> 'w \<Rightarrow> 'w \<times> ActivationFrame outcome" where
  "http_Receive Do t ctx stream w =
     (case Do \<lparr>hq_Method = ''GET'',
        hq_URL = streamURL t stream @ ''?timeout_ms='' @ show_int (maxInt64 1 (ht_pollTimeout t div 1000000)),
        hq_Header = authorize t, hq_Body = []\<rparr> w of
        (w', None) \<Rightarrow> (w', Fails RequestFailed)
      | (w', Some resp) \<Rightarrow>
        if hp_StatusCode resp = 204 then (w', Fails EOF)
        else if hp_StatusCode resp < 200 \<or> hp_StatusCode resp \<ge> 300 then (w', Fails (relay_error resp))
        else case decode_frame (hp_Body resp) of
            None \<Rightarrow> (w', Fails FrameUndecodable)
          | Some frame \<Rightarrow>
            (case ActivationFrame_Validate frame of
               Some e \<Rightarrow> (w', Fails e)
             | None \<Rightarrow> if \<not> frame_of_stream frame stream then (w', Fails FrameStreamMismatch)
                 else (w', Returns frame)))"

definition http_transport :: "'w http_client \<Rightarrow> HTTPActivationTransport \<Rightarrow> 'w ActivationTransport" where
  "http_transport Do t = \<lparr>tr_OpenWriter = http_OpenWriter t, tr_Send = http_Send Do t,
     tr_OpenReader = http_OpenReader t, tr_Receive = http_Receive Do t\<rparr>"

end
