(* ===== verification/JsonText.thy ===== *)
theory JsonText
  imports Conversations HttpTransport
begin

section \<open>Reading back the JSON text that was written\<close>

text \<open>
  \<open>json.Unmarshal\<close> of the text of \<open>json.Marshal\<close>: every value whose numbers are integers comes back, with the
  invalid UTF-8 of its strings replaced. This is what the codec of the file store, the inputs of stage jobs and the activation frames rest on.
\<close>

subsection \<open>Strings\<close>

lemma rune_len_Cons:
  "rune_len (a # t) =
     (if byte a < 128 then 1
      else if in_range a 194 223 \<and> 1 \<le> length t \<and> in_range (t ! 0) 128 191 then 2
      else if in_range a 224 239 \<and> 2 \<le> length t \<and> in_range (t ! 1) 128 191
        \<and> in_range (t ! 0) (if byte a = 224 then 160 else 128) (if byte a = 237 then 159 else 191) then 3
      else if in_range a 240 244 \<and> 3 \<le> length t \<and> in_range (t ! 1) 128 191 \<and> in_range (t ! 2) 128 191
        \<and> in_range (t ! 0) (if byte a = 240 then 144 else 128) (if byte a = 244 then 143 else 191) then 4
      else 0)"
proof -
  consider "t = []" | b where "t = [b]" | b c where "t = [b, c]" | b c d cs where "t = b # c # d # cs"
    by (metis list.exhaust)
  then show ?thesis by cases (simp_all only: rune_len.simps, simp_all)
qed

lemma rune_len_cases:
  assumes "rune_len (a # t) = n" and "n \<noteq> 0"
  obtains "n = 1" "byte a < 128"
  | "n = 2" "\<not> byte a < 128" "in_range a 194 223" "1 \<le> length t" "in_range (t ! 0) 128 191"
  | "n = 3" "\<not> byte a < 128" "\<not> in_range a 194 223" "in_range a 224 239" "2 \<le> length t" "in_range (t ! 1) 128 191"
      "in_range (t ! 0) (if byte a = 224 then 160 else 128) (if byte a = 237 then 159 else 191)"
  | "n = 4" "\<not> byte a < 128" "\<not> in_range a 194 223" "\<not> in_range a 224 239" "in_range a 240 244" "3 \<le> length t"
      "in_range (t ! 1) 128 191" "in_range (t ! 2) 128 191"
      "in_range (t ! 0) (if byte a = 240 then 144 else 128) (if byte a = 244 then 143 else 191)"
proof -
  have "in_range a 224 239 \<Longrightarrow> \<not> in_range a 194 223"
    "in_range a 240 244 \<Longrightarrow> \<not> in_range a 194 223 \<and> \<not> in_range a 224 239"
    by (auto simp: in_range_def)
  then show ?thesis using assms that unfolding rune_len_Cons by (simp split: if_split_asm)
qed

lemma rune_len_prefix:
  assumes "rune_len (a # t) = n" and "n \<noteq> 0"
  shows "n \<le> Suc (length t)" and "rune_len (take n (a # t) @ r) = n"
proof -
  show le: "n \<le> Suc (length t)" using assms by (cases rule: rune_len_cases) simp_all
  define u where "u = take (n - 1) t @ r"
  have u: "n - 1 \<le> length u" "i < n - 1 \<Longrightarrow> u ! i = t ! i" for i
    using le by (simp_all add: u_def nth_append)
  have "rune_len (a # u) = n"
    using assms u(1) u(2) [of 0] u(2) [of 1] u(2) [of 2]
    by (cases rule: rune_len_cases) (simp_all add: rune_len_Cons)
  then show "rune_len (take n (a # t) @ r) = n" using assms(2) by (cases n) (simp_all add: u_def)
qed

lemma runes_Cons:
  "runes (c # cs) = (let n = rune_len (c # cs) in if n = 0 then replacement # runes cs else take n (c # cs) # runes (drop n (c # cs)))"
  by (subst runes.simps) simp

lemma utf8_Nil [simp]: "utf8 [] = []"
  by (simp add: utf8_def runes.simps)

lemma utf8_Cons:
  "utf8 (c # cs) = (let n = rune_len (c # cs) in if n = 0 then replacement @ utf8 cs else take n (c # cs) @ utf8 (drop n (c # cs)))"
  by (simp add: utf8_def runes_Cons Let_def)

lemma utf8_ascii: "byte c < 128 \<Longrightarrow> utf8 (c # cs) = c # utf8 cs"
  by (simp add: utf8_Cons rune_len_Cons)

text \<open>How a character below 128 is written and read.\<close>

definition escape_read :: "char \<Rightarrow> bool" where
  "escape_read c \<longleftrightarrow>
     (case escape_ascii c of
        [d] \<Rightarrow> d = c \<and> c \<noteq> dquote \<and> c \<noteq> backslash \<and> byte c \<ge> 32
      | [b, e] \<Rightarrow> b = backslash \<and> e \<noteq> CHR ''u'' \<and> unescape_simple e = Some c
      | b # e # h \<Rightarrow> b = backslash \<and> e = CHR ''u'' \<and> length h = 4 \<and> hex4 h = Some (byte c, [])
          \<and> \<not> is_surrogate (byte c) \<and> encode_rune (byte c) = [c]
      | [] \<Rightarrow> False)"

lemma hex_digits_read: "list_all (\<lambda>i. hex_val (hex_chr i) = Some i) [0..15]"
  by code_simp

lemma hex_val_hex_chr: "0 \<le> i \<Longrightarrow> i < 16 \<Longrightarrow> hex_val (hex_chr i) = Some i"
  using hex_digits_read by (auto simp: list_all_iff)

lemma byte_range: "0 \<le> byte c" "byte c < 256"
  using of_char_mod_256 [of c, where ?'a = int] pos_mod_bound [of "256 :: int" "of_char c"] pos_mod_sign [of "256 :: int" "of_char c"]
  by (simp_all add: byte_def)

lemma chr_byte [simp]: "chr (byte c) = c"
  by (simp add: chr_def byte_def)

lemma escape_read_u:
  assumes "byte c < 128"
  shows "hex4 [CHR ''0'', CHR ''0'', hex_chr (byte c div 16), hex_chr (byte c mod 16)] = Some (byte c, [])"
    and "\<not> is_surrogate (byte c)" and "encode_rune (byte c) = [c]"
proof -
  have "hex_val (CHR ''0'') = Some 0" by code_simp
  moreover have "0 \<le> byte c div 16" "byte c div 16 < 16" using byte_range [of c] by linarith+
  ultimately show "hex4 [CHR ''0'', CHR ''0'', hex_chr (byte c div 16), hex_chr (byte c mod 16)] = Some (byte c, [])"
    by (simp add: hex_val_hex_chr)
qed (use assms in \<open>simp_all add: is_surrogate_def encode_rune_def\<close>)

lemma escape_read: "byte c < 128 \<Longrightarrow> escape_read c"
  using escape_read_u [of c] by (auto simp: escape_read_def escape_ascii_def unescape_simple_def)

lemma hex4_append: "length h = 4 \<Longrightarrow> hex4 h = Some (r, []) \<Longrightarrow> hex4 (h @ s) = Some (r, s)"
  by (cases h rule: hex4.cases) (auto split: option.splits)

lemma parse_escape_ascii:
  assumes "byte c < 128"
  shows "parse_str (Suc n) (escape_ascii c @ s) = map_option (\<lambda>(v, u). (c # v, u)) (parse_str n s)"
proof -
  note ok = escape_read [OF assms, unfolded escape_read_def]
  consider "escape_ascii c = []" | d where "escape_ascii c = [d]" | b e where "escape_ascii c = [b, e]"
    | b e f h where "escape_ascii c = b # e # f # h"
    by (metis list.exhaust)
  then show ?thesis
  proof cases
    case (4 b e f h)
    with ok hex4_append [of "f # h" "byte c" s] show ?thesis by (simp add: unescape_rune_def)
  qed (use ok assms in auto)
qed

lemma parse_escape_u:
  "length h = 4 \<Longrightarrow> hex4 h = Some (r, []) \<Longrightarrow> \<not> is_surrogate r \<Longrightarrow>
   parse_str (Suc n) (backslash # CHR ''u'' # h @ s) = map_option (\<lambda>(v, u). (encode_rune r @ v, u)) (parse_str n s)"
  by (simp add: hex4_append unescape_rune_def)

lemma parse_rune:
  assumes "rune_len (a # t) = n" and "n \<noteq> 0" and "\<not> byte a < 128"
  shows "parse_str (Suc m) (take n (a # t) @ s) = map_option (\<lambda>(v, u). (take n (a # t) @ v, u)) (parse_str m s)"
proof -
  have len: "length (take n (a # t)) = n" using rune_len_prefix(1) [OF assms(1,2)] by simp
  obtain k where k: "n = Suc k" using assms(2) by (cases n) auto
  have "a \<noteq> dquote" "a \<noteq> backslash" using assms(3) by (auto simp: byte_def)
  with assms(3) rune_len_prefix(2) [OF assms(1,2), of s] len k show ?thesis by (simp add: Let_def)
qed

lemma json_escape_Cons:
  "json_escape (c # cs) =
     (if byte c < 128 then escape_ascii c @ json_escape cs
      else let n = rune_len (c # cs)
        in if n = 0 then backslash # ''ufffd'' @ json_escape cs
        else if take 3 (c # cs) = [CHR 0xE2, CHR 0x80, CHR 0xA8] then backslash # ''u2028'' @ json_escape (drop n (c # cs))
        else if take 3 (c # cs) = [CHR 0xE2, CHR 0x80, CHR 0xA9] then backslash # ''u2029'' @ json_escape (drop n (c # cs))
        else take n (c # cs) @ json_escape (drop n (c # cs)))"
  by (subst json_escape.simps) simp

lemma separator_runes:
  "hex4 ''fffd'' = Some (65533, [])" "encode_rune 65533 = replacement" "\<not> is_surrogate 65533"
  "hex4 ''2028'' = Some (8232, [])" "encode_rune 8232 = [CHR 0xE2, CHR 0x80, CHR 0xA8]" "\<not> is_surrogate 8232"
  "hex4 ''2029'' = Some (8233, [])" "encode_rune 8233 = [CHR 0xE2, CHR 0x80, CHR 0xA9]" "\<not> is_surrogate 8233"
  "rune_len [CHR 0xE2, CHR 0x80, CHR 0xA8] = 3" "rune_len [CHR 0xE2, CHR 0x80, CHR 0xA9] = 3"
  by code_simp+

lemma separator_len:
  assumes "take 3 (c # cs) = [CHR 0xE2, CHR 0x80, d]" and "d = CHR 0xA8 \<or> d = CHR 0xA9"
  shows "rune_len (c # cs) = 3"
proof -
  have "c # cs = [CHR 0xE2, CHR 0x80, d] @ drop 3 (c # cs)" using append_take_drop_id [of 3 "c # cs"] assms(1) by metis
  moreover have "rune_len ([CHR 0xE2, CHR 0x80, d] @ drop 3 (c # cs)) = 3"
    using assms(2) rune_len_prefix(2) [of "CHR 0xE2" "[CHR 0x80, d]" 3 "drop 3 (c # cs)"] separator_runes by auto
  ultimately show ?thesis by simp
qed

lemma parse_str_escape:
  "length (json_escape s) < n \<Longrightarrow> parse_str n (json_escape s @ dquote # t) = Some (utf8 s, t)"
proof (induction s arbitrary: n rule: length_induct)
  case (1 s)
  show ?case
  proof (cases s)
    case Nil
    with 1 show ?thesis by (cases n) (simp_all add: json_escape.simps)
  next
    case (Cons c cs)
    have ih: "length r < length s \<Longrightarrow> length (json_escape r) < m \<Longrightarrow>
        parse_str m (json_escape r @ dquote # t) = Some (utf8 r, t)" for r m
      using 1(1) by blast
    obtain m where m: "n = Suc m" using 1(2) by (cases n) auto
    consider (ascii) "byte c < 128" | (bad) "\<not> byte c < 128" "rune_len (c # cs) = 0"
      | (rune) k where "\<not> byte c < 128" "rune_len (c # cs) = k" "k \<noteq> 0" by blast
    then show ?thesis
    proof cases
      case ascii
      have "escape_ascii c \<noteq> []" using escape_read [OF ascii] by (auto simp: escape_read_def)
      then have "0 < length (escape_ascii c)" by simp
      moreover have "length (escape_ascii c) + length (json_escape cs) < n" using 1(2) ascii by (simp add: Cons json_escape_Cons)
      ultimately have "length (json_escape cs) < m" using m by linarith
      then show ?thesis
        using ih [of cs m] by (simp add: Cons json_escape_Cons ascii m parse_escape_ascii utf8_ascii del: parse_str.simps)
    next
      case bad
      then have "length (json_escape cs) < m" using 1(2) m by (simp add: Cons json_escape_Cons)
      then show ?thesis
        using ih [of cs m] bad parse_escape_u [OF _ separator_runes(1,3), of m "json_escape cs @ dquote # t"]
        by (simp add: Cons json_escape_Cons m utf8_Cons separator_runes del: parse_str.simps)
    next
      case (rune k)
      note len = rune_len_prefix(1) [OF rune(2,3)]
      define r where "r = drop k (c # cs)"
      have utf8_s: "utf8 s = take k (c # cs) @ utf8 r" using rune by (simp add: Cons utf8_Cons r_def)
      have r: "length r < length s" using rune(3) len by (simp add: r_def Cons)
      have esc: "json_escape s =
          (if take 3 (c # cs) = [CHR 0xE2, CHR 0x80, CHR 0xA8] then backslash # ''u2028'' @ json_escape r
           else if take 3 (c # cs) = [CHR 0xE2, CHR 0x80, CHR 0xA9] then backslash # ''u2029'' @ json_escape r
           else take k (c # cs) @ json_escape r)"
        by (simp only: Cons json_escape_Cons rune if_False Let_def r_def)
      consider (u2028) "take 3 (c # cs) = [CHR 0xE2, CHR 0x80, CHR 0xA8]" "json_escape s = backslash # ''u2028'' @ json_escape r"
        | (u2029) "take 3 (c # cs) = [CHR 0xE2, CHR 0x80, CHR 0xA9]" "json_escape s = backslash # ''u2029'' @ json_escape r"
        | (other) "json_escape s = take k (c # cs) @ json_escape r"
        using esc by presburger
      then show ?thesis
      proof cases
        case u2028
        then have "k = 3" "length (json_escape r) < m" using separator_len [OF u2028(1)] rune(2) 1(2) m u2028(2) by simp_all
        moreover from this have "utf8 s = [CHR 0xE2, CHR 0x80, CHR 0xA8] @ utf8 r" using utf8_s u2028(1) by simp
        ultimately show ?thesis
          using ih [OF r, of m] parse_escape_u [OF _ separator_runes(4,6), of m "json_escape r @ dquote # t"]
          by (simp add: u2028(2) m separator_runes del: parse_str.simps)
      next
        case u2029
        then have "k = 3" "length (json_escape r) < m" using separator_len [OF u2029(1)] rune(2) 1(2) m u2029(2) by simp_all
        moreover from this have "utf8 s = [CHR 0xE2, CHR 0x80, CHR 0xA9] @ utf8 r" using utf8_s u2029(1) by simp
        ultimately show ?thesis
          using ih [OF r, of m] parse_escape_u [OF _ separator_runes(7,9), of m "json_escape r @ dquote # t"]
          by (simp add: u2029(2) m separator_runes del: parse_str.simps)
      next
        case other
        then have "length (json_escape r) < m" using 1(2) m rune(3) len by simp
        then show ?thesis
          using ih [OF r, of m] parse_rune [OF rune(2,3,1), of m "json_escape r @ dquote # t"]
          by (simp add: other m utf8_s del: parse_str.simps)
      qed
    qed
  qed
qed

subsection \<open>Values\<close>

definition nat_text :: "string \<Rightarrow> bool" where
  "nat_text ds \<longleftrightarrow> ds \<noteq> [] \<and> list_all is_digit ds \<and> (hd ds = CHR ''0'' \<longrightarrow> length ds = 1)"

definition int_text :: "string \<Rightarrow> bool" where
  "int_text n \<longleftrightarrow> nat_text n \<or> (\<exists>ds. n = CHR ''-'' # ds \<and> nat_text ds)"

text \<open>What follows a value inside a document, or at the end of one that an encoder has written with a newline.\<close>

definition delimited :: "string \<Rightarrow> bool" where
  "delimited t \<longleftrightarrow> t = [] \<or> hd t \<in> {CHR '','', CHR '']'', CHR ''}'', CHR 0x0A}"

fun json_ok :: "json \<Rightarrow> bool" where
  "json_ok (JNum n) \<longleftrightarrow> int_text n"
| "json_ok (JArr vs) \<longleftrightarrow> list_all json_ok vs"
| "json_ok (JObj kvs) \<longleftrightarrow> list_all (\<lambda>kv. json_ok (snd kv)) kvs"
| "json_ok v \<longleftrightarrow> True"

fun json_depth :: "json \<Rightarrow> int" where
  "json_depth (JArr vs) = 1 + foldr (\<lambda>v. max (json_depth v)) vs 0"
| "json_depth (JObj kvs) = 1 + foldr (\<lambda>kv. max (json_depth (snd kv))) kvs 0"
| "json_depth v = 0"

fun utf8_json :: "json \<Rightarrow> json" where
  "utf8_json (JStr s) = JStr (utf8 s)"
| "utf8_json (JArr vs) = JArr (map utf8_json vs)"
| "utf8_json (JObj kvs) = JObj (map (\<lambda>kv. (utf8 (fst kv), utf8_json (snd kv))) kvs)"
| "utf8_json v = v"

lemma delimited_facts:
  assumes "delimited t"
  shows "takeWhile is_digit t = []" "parse_frac t = Some ([], t)" "parse_exp t = Some ([], t)"
proof -
  have "\<not> is_digit (CHR '','') \<and> \<not> is_digit (CHR '']'') \<and> \<not> is_digit (CHR ''}'') \<and> \<not> is_digit (CHR 0x0A)" by code_simp
  then show "takeWhile is_digit t = []" "parse_frac t = Some ([], t)" "parse_exp t = Some ([], t)"
    using assms by (cases t; auto simp: delimited_def parse_frac_def parse_exp_def)+
qed

lemma digits_then:
  "list_all is_digit ds \<Longrightarrow> takeWhile is_digit t = [] \<Longrightarrow>
   takeWhile is_digit (ds @ t) = ds \<and> dropWhile is_digit (ds @ t) = t"
  by (induction ds) (cases t; auto split: if_splits)+

lemma parse_nat_text:
  assumes "nat_text ds" and "delimited t"
  shows "parse_int_part (ds @ t) = Some (ds, t)"
proof -
  obtain c cs where ds: "ds = c # cs" using assms(1) by (cases ds) (auto simp: nat_text_def)
  with digits_then [of ds t] assms delimited_facts [OF assms(2)] show ?thesis
    by (auto simp: nat_text_def parse_int_part_def parse_digits_def)
qed

lemma parse_int_text:
  assumes "int_text n" and "delimited t"
  shows "parse_number (n @ t) = Some (n, t)"
proof -
  have minus: "\<not> is_digit (CHR ''-'')" by code_simp
  show ?thesis
  proof (cases "nat_text n")
    case True
    then obtain c cs where "n = c # cs" "c \<noteq> CHR ''-''" using minus by (cases n) (auto simp: nat_text_def)
    with parse_nat_text [OF True assms(2)] delimited_facts [OF assms(2)] show ?thesis by (simp add: parse_number_def)
  next
    case False
    then obtain ds where "n = CHR ''-'' # ds" "nat_text ds" using assms(1) by (auto simp: int_text_def)
    with parse_nat_text [OF _ assms(2)] delimited_facts [OF assms(2)] show ?thesis by (simp add: parse_number_def)
  qed
qed

lemma int_text_start:
  assumes "int_text n"
  obtains c cs where "n = c # cs" "\<not> is_ws c" "c \<notin> {dquote, CHR ''['', CHR ''{'', CHR ''t'', CHR ''f'', CHR ''n'', CHR '']'', CHR ''}''}"
proof -
  have none: "list_all (\<lambda>c. \<not> is_digit c \<and> c \<noteq> CHR ''-'')
      ([dquote, CHR ''['', CHR ''{'', CHR ''t'', CHR ''f'', CHR ''n'', CHR '']'', CHR ''}''] @ [CHR 0x20, CHR 0x09, CHR 0x0A, CHR 0x0D])"
    by code_simp
  obtain c cs where n: "n = c # cs" "is_digit c \<or> c = CHR ''-''"
    using assms by (cases n) (auto simp: int_text_def nat_text_def)
  with none show ?thesis by (intro that [of c cs]) (auto simp: is_ws_def)
qed

text \<open>A value starts with a byte that is not white space and does not close a bracket.\<close>

lemma print_start:
  assumes "json_ok v"
  obtains c cs where "json_print v = c # cs" "\<not> is_ws c" "c \<noteq> CHR '']''" "c \<noteq> CHR ''}''"
proof -
  have ws: "list_all (\<lambda>c. \<not> is_ws c) [CHR ''n'', CHR ''t'', CHR ''f'', dquote, CHR ''['', CHR ''{'']" by code_simp
  show ?thesis
  proof (cases v)
    case (JNum n)
    with assms have "int_text n" by simp
    then obtain c cs where "n = c # cs" "\<not> is_ws c" "c \<noteq> CHR '']''" "c \<noteq> CHR ''}''" by (elim int_text_start) simp
    then show ?thesis using JNum that by simp
  next
    case (JBool b)
    then show ?thesis using ws that by (cases b) simp_all
  qed (use ws in \<open>simp_all add: json_string_def that split: if_splits\<close>)
qed

definition parses :: "json \<Rightarrow> bool" where
  "parses v \<longleftrightarrow> (\<forall>n d t. delimited t \<longrightarrow> d + json_depth v \<le> max_depth \<longrightarrow> length (json_print v) < n \<longrightarrow>
     parse_value n d (json_print v @ t) = Some (utf8_json v, t))"

lemma parsesD:
  "parses v \<Longrightarrow> delimited t \<Longrightarrow> d + json_depth v \<le> max_depth \<Longrightarrow> length (json_print v) < n \<Longrightarrow>
   parse_value n d (json_print v @ t) = Some (utf8_json v, t)"
  by (simp add: parses_def)

lemma skip_ws_Cons [simp]: "\<not> is_ws c \<Longrightarrow> skip_ws (c # cs) = c # cs"
  by (simp add: skip_ws_def)

lemma punctuation_not_ws [simp]:
  "\<not> is_ws (CHR '','')" "\<not> is_ws (CHR '']'')" "\<not> is_ws (CHR ''}'')" "\<not> is_ws (CHR '':'')" "\<not> is_ws dquote"
  "\<not> is_ws (CHR ''['')" "\<not> is_ws (CHR ''{'')"
  by code_simp+

lemma delimited_Cons [simp]: "delimited (c # t) \<longleftrightarrow> c \<in> {CHR '','', CHR '']'', CHR ''}'', CHR 0x0A}"
  by (simp add: delimited_def)

lemma print_nonempty: "json_ok v \<Longrightarrow> 0 < length (json_print v)"
  by (erule print_start) simp

lemma max_fold_le: "x \<in> set xs \<Longrightarrow> f x \<le> foldr (\<lambda>x. max (f x)) xs (0 :: int)"
  by (induction xs) auto

lemma parse_elems_print:
  assumes "vs \<noteq> []" and "list_all json_ok vs" and "\<And>v. v \<in> set vs \<Longrightarrow> parses v"
    and "\<And>v. v \<in> set vs \<Longrightarrow> d + json_depth v \<le> max_depth"
    and "length (Join (map json_print vs) '','') + 1 < n"
  shows "parse_elems n d (Join (map json_print vs) '','' @ CHR '']'' # t) = Some (map utf8_json vs, t)"
  using assms
proof (induction vs arbitrary: n)
  case (Cons v vs)
  obtain m where m: "n = Suc m" using Cons.prems(5) by (cases n) auto
  have v: "parses v" "d + json_depth v \<le> max_depth" using Cons.prems by simp_all
  show ?case
  proof (cases vs)
    case Nil
    with Cons.prems(5) m show ?thesis by (simp add: parsesD [OF v(1) _ v(2)])
  next
    case (Cons w ws)
    let ?rest = "Join (map json_print vs) '',''"
    have shape: "Join (map json_print (v # vs)) '','' = json_print v @ CHR '','' # ?rest" by (simp add: Cons)
    have "length ?rest + 1 < m" "length (json_print v) < m"
      using Cons.prems(5) m print_nonempty [of v] Cons.prems(2) shape by simp_all
    moreover have "parse_elems m d (?rest @ CHR '']'' # t) = Some (map utf8_json vs, t)"
      using calculation(1) Cons.prems by (intro Cons.IH) (simp_all add: Cons)
    ultimately show ?thesis
      by (simp add: shape m parsesD [OF v(1) _ v(2)] del: list.map) simp
  qed
qed simp

lemma parse_members_print:
  assumes "kvs \<noteq> []" and "list_all (\<lambda>kv. json_ok (snd kv)) kvs" and "\<And>k v. (k, v) \<in> set kvs \<Longrightarrow> parses v"
    and "\<And>k v. (k, v) \<in> set kvs \<Longrightarrow> d + json_depth v \<le> max_depth"
    and "length (Join (map (\<lambda>(k, v). json_string k @ '':'' @ json_print v) kvs) '','') + 1 < n"
  shows "parse_members n d (Join (map (\<lambda>(k, v). json_string k @ '':'' @ json_print v) kvs) '','' @ CHR ''}'' # t)
    = Some (map (\<lambda>kv. (utf8 (fst kv), utf8_json (snd kv))) kvs, t)"
  using assms
proof (induction kvs arbitrary: n)
  case (Cons kv kvs)
  obtain k v where kv: "kv = (k, v)" by fastforce
  obtain m where m: "n = Suc m" using Cons.prems(5) by (cases n) auto
  have v: "parses v" "d + json_depth v \<le> max_depth" using Cons.prems by (auto simp: kv)
  have key: "length (json_escape k) < f \<Longrightarrow> parse_str f (json_escape k @ dquote # r) = Some (utf8 k, r)" for f r
    by (rule parse_str_escape)
  show ?case
  proof (cases kvs)
    case Nil
    with Cons.prems(5) m key show ?thesis by (simp add: kv json_string_def parsesD [OF v(1) _ v(2)])
  next
    case (Cons w ws)
    let ?rest = "Join (map (\<lambda>(k, v). json_string k @ '':'' @ json_print v) kvs) '',''"
    have shape: "Join (map (\<lambda>(k, v). json_string k @ '':'' @ json_print v) (kv # kvs)) '',''
        = json_string k @ CHR '':'' # json_print v @ CHR '','' # ?rest" by (simp add: Cons kv)
    have "length ?rest + 1 < m" "length (json_print v) < m"
      using Cons.prems(5) m shape by (simp_all add: json_string_def)
    moreover have "parse_members m d (?rest @ CHR ''}'' # t) = Some (map (\<lambda>kv. (utf8 (fst kv), utf8_json (snd kv))) kvs, t)"
      using calculation(1) Cons.prems Cons by (intro Cons.IH) auto
    ultimately show ?thesis
      unfolding shape m by (simp add: key json_string_def parsesD [OF v(1) _ v(2)] kv)
  qed
qed simp

lemma parses_all: "json_ok v \<Longrightarrow> parses v"
proof (induction v)
  case (JNum n)
  have "parse_value m d (n @ t) = Some (JNum n, t)" if t: "delimited t" and m: "length n < m" for m d t
  proof -
    from JNum have "int_text n" by simp
    then obtain c cs where "n = c # cs" "\<not> is_ws c"
        "c \<notin> {dquote, CHR ''['', CHR ''{'', CHR ''t'', CHR ''f'', CHR ''n'', CHR '']'', CHR ''}''}" by (rule int_text_start)
    moreover from this parse_int_text [OF _ t, of n] JNum have "parse_number (c # cs @ t) = Some (c # cs, t)" by simp
    ultimately show ?thesis using m by (cases m) auto
  qed
  then show ?case by (simp add: parses_def)
next
  case (JStr s)
  have "parse_value m d (json_string s @ t) = Some (JStr (utf8 s), t)" if "length (json_string s) < m" for m d t
    using that parse_str_escape [of s _ t] by (cases m) (simp_all add: json_string_def)
  then show ?case by (simp add: parses_def)
next
  case (JArr vs)
  have "parse_value m d (json_print (JArr vs) @ t) = Some (utf8_json (JArr vs), t)"
    if t: "delimited t" and d: "d + json_depth (JArr vs) \<le> max_depth" and m: "length (json_print (JArr vs)) < m" for m d t
  proof (cases vs)
    case Nil
    with m d show ?thesis by (cases m) simp_all
  next
    case (Cons w ws)
    let ?body = "Join (map json_print vs) '',''"
    obtain k where k: "m = Suc k" using m by (cases m) auto
    have ok: "list_all json_ok vs" using JArr by simp
    from ok Cons have "json_ok w" by simp
    then obtain c cs where c: "json_print w = c # cs" "\<not> is_ws c" "c \<noteq> CHR '']''" by (rule print_start)
    then obtain bs where bs: "?body = c # bs" by (cases ws) (simp_all add: Cons)
    have depth: "v \<in> set vs \<Longrightarrow> d + 1 + json_depth v \<le> max_depth" for v
      using d max_fold_le [of v vs json_depth] by simp
    have "0 \<le> foldr (\<lambda>v. max (json_depth v)) vs 0" by (induction vs) auto
    with d have "d < max_depth" by simp
    moreover have "parse_elems k (d + 1) (?body @ CHR '']'' # t) = Some (map utf8_json vs, t)"
      using JArr ok Cons depth m k by (intro parse_elems_print) (auto simp: list_all_iff)
    ultimately show ?thesis using c bs by (simp add: k)
  qed
  then show ?case by (simp add: parses_def)
next
  case (JObj kvs)
  have sub: "parses v" if "(i, v) \<in> set kvs" for i v
    by (rule JObj.IH [OF that]) (use JObj.prems that in \<open>auto simp: list_all_iff\<close>)
  have "parse_value m d (json_print (JObj kvs) @ t) = Some (utf8_json (JObj kvs), t)"
    if t: "delimited t" and d: "d + json_depth (JObj kvs) \<le> max_depth" and m: "length (json_print (JObj kvs)) < m" for m d t
  proof (cases kvs)
    case Nil
    with m d show ?thesis by (cases m) simp_all
  next
    case (Cons w ws)
    let ?body = "Join (map (\<lambda>(k, v). json_string k @ '':'' @ json_print v) kvs) '',''"
    obtain k where k: "m = Suc k" using m by (cases m) auto
    have ok: "list_all (\<lambda>kv. json_ok (snd kv)) kvs" using JObj by simp
    obtain bs where bs: "?body = dquote # bs"
      by (cases w; cases ws) (simp_all add: Cons json_string_def)
    have depth: "(i, v) \<in> set kvs \<Longrightarrow> d + 1 + json_depth v \<le> max_depth" for i v
      using d max_fold_le [of "(i, v)" kvs "\<lambda>kv. json_depth (snd kv)"] by simp
    have "0 \<le> foldr (\<lambda>kv. max (json_depth (snd kv))) kvs 0" by (induction kvs) auto
    with d have "d < max_depth" by simp
    moreover have "parse_members k (d + 1) (?body @ CHR ''}'' # t) = Some (map (\<lambda>kv. (utf8 (fst kv), utf8_json (snd kv))) kvs, t)"
    proof (rule parse_members_print [OF _ ok])
      show "kvs \<noteq> []" by (simp add: Cons)
      show "length ?body + 1 < k" using m k by simp
    qed (fact sub, fact depth)
    ultimately show ?thesis using bs by (simp add: k)
  qed
  then show ?case by (simp add: parses_def)
next
  case (JBool b)
  have ws: "\<not> is_ws (CHR ''t'')" "\<not> is_ws (CHR ''f'')" by code_simp+
  have "parse_value m d (json_print (JBool b) @ t) = Some (JBool b, t)" if "0 < m" for m d t
    using ws that by (cases m; cases b) simp_all
  then show ?case by (simp add: parses_def del: json_print.simps)
next
  case JNull
  have ws: "\<not> is_ws (CHR ''n'')" by code_simp
  have "parse_value m d (json_print JNull @ t) = Some (JNull, t)" if "0 < m" for m d t
    using ws that by (cases m) simp_all
  then show ?case by (simp add: parses_def del: json_print.simps)
qed

declare parse_value.simps [simp del]

text \<open>\<open>json.Unmarshal\<close> of \<open>json.Marshal\<close>, and a decoder that reads the first value.\<close>

lemma parse_first:
  "json_ok v \<Longrightarrow> json_depth v \<le> max_depth \<Longrightarrow>
   parse_value (Suc (length (json_print v))) 0 (json_print v) = Some (utf8_json v, [])"
  using parsesD [OF parses_all, of v "[]" 0] by (simp add: delimited_def)

lemma parse_line:
  "json_ok v \<Longrightarrow> json_depth v \<le> max_depth \<Longrightarrow>
   parse_value (Suc (length (json_print v @ [CHR 0x0A]))) 0 (json_print v @ [CHR 0x0A]) = Some (utf8_json v, [CHR 0x0A])"
  by (intro parsesD [OF parses_all]) (simp_all add: delimited_def)

lemma json_parse_print: "json_ok v \<Longrightarrow> json_depth v \<le> max_depth \<Longrightarrow> json_parse (json_print v) = Some (utf8_json v)"
  by (simp add: json_parse_def parse_first skip_ws_def)

lemma Unmarshal_print:
  "json_ok v \<Longrightarrow> json_depth v \<le> max_depth \<Longrightarrow> Unmarshal flds zero (json_print v) = decode_struct flds zero (utf8_json v)"
  by (simp add: Unmarshal_def json_parse_print)

lemma decode_first_print:
  "json_ok v \<Longrightarrow> json_depth v \<le> max_depth \<Longrightarrow> decode_first flds zero (json_print v) = decode_struct flds zero (utf8_json v)"
  by (simp add: decode_first_def parse_first)

text \<open>\<open>Encoder.Encode\<close> ends the line after the value.\<close>

lemma decode_first_line:
  "json_ok v \<Longrightarrow> json_depth v \<le> max_depth \<Longrightarrow>
   decode_first flds zero (json_print v @ [CHR 0x0A]) = decode_struct flds zero (utf8_json v)"
  using parse_line [of v] by (simp add: decode_first_def)

subsection \<open>Numbers and clean text\<close>

lemma show_pos_digits:
  "0 \<le> n \<Longrightarrow> nat_text (show_pos n) \<and> digits_val (show_pos n) = n \<and> (0 < n \<longrightarrow> hd (show_pos n) \<noteq> CHR ''0'')"
proof (induction n rule: show_pos.induct)
  case (1 n)
  have digit: "is_digit (char_of (48 + k)) \<and> byte (char_of (48 + k)) = 48 + k \<and> (char_of (48 + k) = CHR ''0'' \<longleftrightarrow> k = 0)"
    if "0 \<le> k" "k < 10" for k :: int
  proof -
    have "byte (char_of (48 + k)) = 48 + k" using that by (simp add: byte_def of_char_of)
    moreover from this have "char_of (48 + k) = CHR ''0'' \<Longrightarrow> k = 0" by (simp add: byte_def)
    moreover have "char_of (48 :: int) = CHR ''0''" by code_simp
    ultimately show ?thesis using that by (auto simp: is_digit_def in_range_def)
  qed
  show ?case
  proof (cases "n < 10")
    case True
    then show ?thesis using 1(2) digit [of n] by (simp add: show_pos.simps nat_text_def digits_val_def)
  next
    case False
    have ih: "nat_text (show_pos (n div 10))" "digits_val (show_pos (n div 10)) = n div 10" "hd (show_pos (n div 10)) \<noteq> CHR ''0''"
      using 1(1) [OF False] False by simp_all
    have "show_pos n = show_pos (n div 10) @ [char_of (48 + n mod 10)]" using False by (subst show_pos.simps) simp
    moreover have "show_pos (n div 10) \<noteq> []" using ih(1) by (simp add: nat_text_def)
    ultimately show ?thesis
      using ih digit [of "n mod 10"] by (simp add: nat_text_def digits_val_def)
  qed
qed

lemma int_text_show_int [simp]: "int_text (show_int i)"
  using show_pos_digits [of i] show_pos_digits [of "- i"] by (auto simp: int_text_def show_int_def)

lemma int_text_show_u64 [simp]: "int_text (show_u64 w)"
  using show_pos_digits [of "uint w"] by (simp add: int_text_def show_u64_def)

lemma parse_int_lit_show [simp]: "int64_range i \<Longrightarrow> parse_int_lit (show_int i) = Some i"
proof -
  assume r: "int64_range i"
  have minus: "\<not> is_digit (CHR ''-'')" by code_simp
  show ?thesis
  proof (cases "i < 0")
    case True
    then show ?thesis using r show_pos_digits [of "- i"] by (simp add: parse_int_lit_def show_int_def nat_text_def)
  next
    case False
    then obtain c cs where c: "show_pos i = c # cs" "c \<noteq> CHR ''-''"
      using show_pos_digits [of i] minus by (cases "show_pos i") (auto simp: nat_text_def)
    then show ?thesis using r False show_pos_digits [of i] by (simp add: parse_int_lit_def show_int_def nat_text_def)
  qed
qed

lemma parse_uint_lit_show [simp]: "parse_uint_lit (show_u64 w) = Some w"
proof -
  have "uint w < 2 ^ 64" using uint_bounded [of w] by simp
  then show ?thesis using show_pos_digits [of "uint w"] by (simp add: parse_uint_lit_def show_u64_def nat_text_def)
qed

definition utf8_clean :: "string \<Rightarrow> bool" where
  "utf8_clean s \<longleftrightarrow> utf8 s = s"

lemma utf8_cleanD [simp]: "utf8_clean s \<Longrightarrow> utf8 s = s"
  by (simp add: utf8_clean_def)

lemma ascii_clean: "list_all (\<lambda>c. byte c < 128) s \<Longrightarrow> utf8 s = s"
  by (induction s) (simp_all add: utf8_ascii)

lemma decode_all_map:
  "(\<And>x. x \<in> set xs \<Longrightarrow> dec (f x) = Some (g x)) \<Longrightarrow> decode_all dec (map f xs) = Some (map g xs)"
  by (induction xs) auto

end
