(* ===== verification/Codec.thy ===== *)
theory Codec
  imports JsonText
begin

section \<open>The messages that come back as they were sent\<close>

text \<open>
  The JSON inputs of stage jobs (internal/models/catalog.go) and activation frames (internal/transport/transport.go): what
  \<open>json.Marshal\<close> writes, \<open>json.Unmarshal\<close> reads back to the same struct, for text that is valid UTF-8 and
  integers that fit their type.
\<close>

subsection \<open>Decoding the members of an object\<close>

lemma decode_fields_append:
  "decode_fields flds (xs @ ys) st = decode_fields flds ys (decode_fields flds xs st)"
  by (induction flds xs st rule: decode_fields.induct) (auto split: option.splits)

lemma find_field_exact: "map_of flds k = Some f \<Longrightarrow> find_field flds k = Some f"
  by (simp add: find_field_def)

named_theorems decodes \<open>decoding one member of an object\<close>

lemma decode_jstr [decodes]:
  "map_of flds k = Some (dstr upd) \<Longrightarrow> decode_fields flds (jstr k s) (a, ok) = (upd s a, ok)"
  by (simp add: jstr_def find_field_exact)

lemma decode_jstr_omit [decodes]:
  "map_of flds k = Some (dstr upd) \<Longrightarrow> upd [] a = a \<Longrightarrow> decode_fields flds (jstr_omit k s) (a, ok) = (upd s a, ok)"
  by (simp add: jstr_omit_def find_field_exact)

lemma decode_jint [decodes]:
  "map_of flds k = Some (dint upd) \<Longrightarrow> int64_range i \<Longrightarrow> decode_fields flds (jint k i) (a, ok) = (upd i a, ok)"
  by (simp add: jint_def find_field_exact)

lemma decode_jint_omit [decodes]:
  "map_of flds k = Some (dint upd) \<Longrightarrow> int64_range i \<Longrightarrow> upd 0 a = a \<Longrightarrow>
   decode_fields flds (jint_omit k i) (a, ok) = (upd i a, ok)"
  by (simp add: jint_omit_def find_field_exact)

lemma decode_u64 [decodes]:
  "map_of flds k = Some (du64 upd) \<Longrightarrow> decode_fields flds ((k, JNum (show_u64 w)) # kvs) (a, ok) = decode_fields flds kvs (upd w a, ok)"
  by (simp add: find_field_exact)

lemma decode_ju64_omit [decodes]:
  "map_of flds k = Some (du64 upd) \<Longrightarrow> upd 0 a = a \<Longrightarrow> decode_fields flds (ju64_omit k w) (a, ok) = (upd w a, ok)"
  by (simp add: ju64_omit_def find_field_exact)

lemma decode_jarr_omit [decodes]:
  "map_of flds k = Some (dslice dec upd) \<Longrightarrow> decode_all dec vs \<noteq> None \<Longrightarrow> upd [] a = a \<Longrightarrow>
   decode_fields flds (jarr_omit k vs) (a, ok) = (upd (the (decode_all dec vs)) a, ok)"
  by (auto simp: jarr_omit_def find_field_exact)

lemma decode_member [decodes]:
  "map_of flds k = Some (dstruct dec upd) \<Longrightarrow> v \<noteq> JNull \<Longrightarrow> dec v \<noteq> None \<Longrightarrow>
   decode_fields flds ((k, v) # kvs) (a, ok) = decode_fields flds kvs (upd (the (dec v)) a, ok)"
  by (cases v) (auto simp: find_field_exact dstruct_def)

declare decode_fields.simps(2) [simp del]

lemma decode_JObj: "decode_fields flds kvs (zero, True) = (a, True) \<Longrightarrow> decode_struct flds zero (JObj kvs) = Some a"
  by (simp add: decode_struct_def)

text \<open>Values whose text is clean come back unchanged from the text.\<close>

definition clean_json :: "json \<Rightarrow> bool" where
  "clean_json v \<longleftrightarrow> json_ok v \<and> utf8_json v = v"

definition clean_members :: "(string \<times> json) list \<Rightarrow> bool" where
  "clean_members kvs \<longleftrightarrow> (\<forall>(k, v) \<in> set kvs. utf8_clean k \<and> clean_json v)"

lemma clean_JObj: "clean_members kvs \<Longrightarrow> clean_json (JObj kvs)"
  by (induction kvs) (auto simp: clean_json_def clean_members_def utf8_clean_def)

lemma clean_JArr: "list_all clean_json vs \<Longrightarrow> clean_json (JArr vs)"
  by (induction vs) (auto simp: clean_json_def)

lemma clean_scalars [simp]:
  "utf8_clean s \<Longrightarrow> clean_json (JStr s)" "clean_json (JNum (show_int i))" "clean_json (JNum (show_u64 w))"
  by (simp_all add: clean_json_def)

lemma clean_members_simps [simp]:
  "clean_members []" "clean_members (xs @ ys) \<longleftrightarrow> clean_members xs \<and> clean_members ys"
  "clean_members ((k, v) # xs) \<longleftrightarrow> utf8_clean k \<and> clean_json v \<and> clean_members xs"
  by (auto simp: clean_members_def)

lemma clean_members_intros [simp]:
  "utf8_clean k \<Longrightarrow> utf8_clean s \<Longrightarrow> clean_members (jstr k s)"
  "utf8_clean k \<Longrightarrow> utf8_clean s \<Longrightarrow> clean_members (jstr_omit k s)"
  "utf8_clean k \<Longrightarrow> clean_members (jint k i)"
  "utf8_clean k \<Longrightarrow> clean_members (jint_omit k i)"
  "utf8_clean k \<Longrightarrow> clean_members (ju64_omit k w)"
  "utf8_clean k \<Longrightarrow> list_all clean_json vs \<Longrightarrow> clean_members (jarr_omit k vs)"
  by (simp_all add: jstr_def jstr_omit_def jint_def jint_omit_def ju64_omit_def jarr_omit_def clean_JArr)

lemma Unmarshal_clean:
  "clean_json v \<Longrightarrow> json_depth v \<le> max_depth \<Longrightarrow> Unmarshal flds zero (json_print v) = decode_struct flds zero v"
  by (simp add: clean_json_def Unmarshal_print)

lemma decode_first_clean:
  "clean_json v \<Longrightarrow> json_depth v \<le> max_depth \<Longrightarrow> decode_first flds zero (json_print v) = decode_struct flds zero v"
  by (simp add: clean_json_def decode_first_print)

lemma decode_line_clean:
  "clean_json v \<Longrightarrow> json_depth v \<le> max_depth \<Longrightarrow> decode_first flds zero (json_print v @ [CHR 0x0A]) = decode_struct flds zero v"
  by (simp add: clean_json_def decode_first_line)

lemma clean_ascii: "list_all (\<lambda>c. byte c < 128) s \<Longrightarrow> utf8_clean s"
  by (simp add: utf8_clean_def ascii_clean)

subsection \<open>Stage job inputs\<close>

lemma stage_keys_clean [simp]:
  "utf8_clean ''index''" "utf8_clean ''node_id''" "utf8_clean ''node_name''" "utf8_clean ''layer_start''"
  "utf8_clean ''layer_end''" "utf8_clean ''layers''" "utf8_clean ''stage''" "utf8_clean ''runtime''"
  "utf8_clean ''required_memory_bytes''" "utf8_clean ''required_disk_bytes''" "utf8_clean ''source_artifact''"
  "utf8_clean ''target_artifact''" "utf8_clean ''materialization''" "utf8_clean ''capabilities''"
  "utf8_clean ''parent_job_id''" "utf8_clean ''model_id''" "utf8_clean ''conversation_id''" "utf8_clean ''shard''"
  "utf8_clean ''upstream_node_id''" "utf8_clean ''downstream_node_id''" "utf8_clean ''prompt''" "utf8_clean ''messages''"
  "utf8_clean ''system_prompt''" "utf8_clean ''max_tokens''" "utf8_clean ''temperature''" "utf8_clean ''role''"
  "utf8_clean ''content''"
  by (rule clean_ascii, code_simp)+

definition clean_stage :: "Stage \<Rightarrow> bool" where
  "clean_stage s \<longleftrightarrow> int64_range (s_Index s) \<and> int64_range (s_LayerStart s) \<and> int64_range (s_LayerEnd s)
     \<and> utf8_clean (s_NodeID s) \<and> utf8_clean (s_NodeName s)"

definition clean_shard :: "ModelShard \<Rightarrow> bool" where
  "clean_shard sh \<longleftrightarrow> clean_stage (sh_Stage sh) \<and> utf8_clean (sh_Runtime sh) \<and> utf8_clean (sh_SourceArtifact sh)
     \<and> utf8_clean (sh_TargetArtifact sh) \<and> utf8_clean (show_materialization (sh_Materialization sh))
     \<and> materialization_of (show_materialization (sh_Materialization sh)) = sh_Materialization sh
     \<and> list_all utf8_clean (sh_Capabilities sh)"

definition clean_stage_input :: "DistributedStageInput \<Rightarrow> bool" where
  "clean_stage_input s \<longleftrightarrow> int64_range (dsi_Index s) \<and> int64_range (dsi_LayerStart s) \<and> int64_range (dsi_LayerEnd s)
     \<and> int64_range (dsi_Layers s) \<and> utf8_clean (dsi_NodeID s) \<and> utf8_clean (dsi_NodeName s)"

definition clean_message :: "ChatMessage \<Rightarrow> bool" where
  "clean_message m \<longleftrightarrow> utf8_clean (cm_Role m) \<and> utf8_clean (cm_Content m)"

definition clean_stage_job_input :: "DistributedStageJobInput \<Rightarrow> bool" where
  "clean_stage_job_input i \<longleftrightarrow> utf8_clean (sji_ParentJobID i) \<and> utf8_clean (sji_ModelID i)
     \<and> utf8_clean (sji_ConversationID i) \<and> clean_stage_input (sji_Stage i) \<and> clean_shard (sji_Shard i)
     \<and> utf8_clean (sji_UpstreamNodeID i) \<and> utf8_clean (sji_DownstreamNodeID i) \<and> utf8_clean (sji_Prompt i)
     \<and> list_all clean_message (sji_Messages i) \<and> utf8_clean (sji_SystemPrompt i) \<and> int64_range (sji_MaxTokens i)
     \<and> utf8_clean (sji_Temperature i)"

lemma json_not_null [simp]: "json_cdip_stage s \<noteq> JNull" "json_stage_input i \<noteq> JNull" "json_shard sh \<noteq> JNull"
  by (simp_all add: json_cdip_stage_def json_stage_input_def json_shard_def)

lemma decode_cdip_stage: "clean_stage s \<Longrightarrow> decode_struct cdip_stage_fields zero_cdip_stage (json_cdip_stage s) = Some s"
  unfolding json_cdip_stage_def
  by (rule decode_JObj) (simp add: decode_fields_append decodes clean_stage_def cdip_stage_fields_def zero_cdip_stage_def)

lemma decode_stage_input: "clean_stage_input s \<Longrightarrow> decode_struct stage_input_fields zero_stage_input (json_stage_input s) = Some s"
  unfolding json_stage_input_def
  by (rule decode_JObj) (simp add: decode_fields_append decodes clean_stage_input_def stage_input_fields_def zero_stage_input_def)

lemma decode_message: "dec_message (json_message m) = Some m"
  unfolding json_message_def by (rule decode_JObj) (simp add: decode_fields_append decodes message_fields_def)

lemma decode_strings: "decode_all dec_string (map JStr ss) = Some ss"
  by (induction ss) auto

lemma decode_messages: "decode_all dec_message (map json_message ms) = Some ms"
  by (induction ms) (simp_all add: decode_message)

lemma decode_shard: "clean_shard sh \<Longrightarrow> decode_struct shard_fields zero_shard (json_shard sh) = Some sh"
  unfolding json_shard_def
  by (rule decode_JObj) (simp add: decode_fields_append decodes clean_shard_def shard_fields_def decode_cdip_stage
      decode_strings zero_shard_def)

lemma decode_stage_job_input:
  "clean_stage_job_input i \<Longrightarrow> decode_struct stage_job_fields zero_stage_job_input (json_stage_job_input i) = Some i"
  unfolding json_stage_job_input_def
  by (rule decode_JObj) (simp add: decode_fields_append decodes clean_stage_job_input_def stage_job_fields_def
      decode_shard decode_stage_input decode_messages zero_stage_job_input_def)

lemma clean_json_stage [simp]: "clean_stage s \<Longrightarrow> clean_json (json_cdip_stage s)"
  "clean_stage_input t \<Longrightarrow> clean_json (json_stage_input t)"
  by (simp_all add: json_cdip_stage_def json_stage_input_def clean_stage_def clean_stage_input_def clean_JObj)

lemma clean_json_shard [simp]: "clean_shard sh \<Longrightarrow> clean_json (json_shard sh)"
  unfolding json_shard_def by (rule clean_JObj) (simp add: clean_shard_def list_all_iff)

lemma clean_json_message [simp]: "clean_message m \<Longrightarrow> clean_json (json_message m)"
  by (simp add: json_message_def clean_message_def clean_JObj)

lemma clean_json_stage_job [simp]: "clean_stage_job_input i \<Longrightarrow> clean_json (json_stage_job_input i)"
  unfolding json_stage_job_input_def by (rule clean_JObj) (simp add: clean_stage_job_input_def list_all_iff)

text \<open>Nesting stays far below the limit of the decoder.\<close>

definition shallow :: "int \<Rightarrow> (string \<times> json) list \<Rightarrow> bool" where
  "shallow m kvs \<longleftrightarrow> 0 \<le> m \<and> (\<forall>(k, v) \<in> set kvs. json_depth v \<le> m)"

lemma depth_JObj: "shallow (m - 1) kvs \<Longrightarrow> json_depth (JObj kvs) \<le> m"
  by (induction kvs) (auto simp: shallow_def)

lemma depth_JArr: "0 \<le> m \<Longrightarrow> list_all (\<lambda>v. json_depth v \<le> m) vs \<Longrightarrow> json_depth (JArr vs) \<le> m + 1"
  by (induction vs) auto

lemma shallow_simps [simp]:
  "shallow m [] \<longleftrightarrow> 0 \<le> m" "shallow m (xs @ ys) \<longleftrightarrow> shallow m xs \<and> shallow m ys"
  "shallow m ((k, v) # xs) \<longleftrightarrow> json_depth v \<le> m \<and> shallow m xs"
  by (auto simp: shallow_def)

lemma shallow_members [simp]:
  "0 \<le> m \<Longrightarrow> shallow m (jstr k s)" "0 \<le> m \<Longrightarrow> shallow m (jstr_omit k s)" "0 \<le> m \<Longrightarrow> shallow m (jint k i)"
  "0 \<le> m \<Longrightarrow> shallow m (jint_omit k i)" "0 \<le> m \<Longrightarrow> shallow m (ju64_omit k w)"
  by (simp_all add: jstr_def jstr_omit_def jint_def jint_omit_def ju64_omit_def)

lemma shallow_array: "1 \<le> m \<Longrightarrow> list_all (\<lambda>v. json_depth v \<le> m - 1) vs \<Longrightarrow> shallow m (jarr_omit k vs)"
  using depth_JArr [of "m - 1" vs] by (simp add: jarr_omit_def)

lemma depth_stage: "json_depth (json_cdip_stage s) \<le> 1" "json_depth (json_stage_input i) \<le> 1" "json_depth (json_message m) \<le> 1"
  unfolding json_cdip_stage_def json_stage_input_def json_message_def by (rule depth_JObj, simp)+

lemma depth_shard: "json_depth (json_shard sh) \<le> 2"
  unfolding json_shard_def using depth_stage(1) by (intro depth_JObj) (simp add: shallow_array list_all_iff)

lemma depth_stage_job_input: "json_depth (json_stage_job_input i) \<le> max_depth"
proof -
  have "shallow 2 [(''stage'', json_stage_input (sji_Stage i)), (''shard'', json_shard (sji_Shard i))]"
    using depth_stage(2) [of "sji_Stage i"] depth_shard [of "sji_Shard i"] by simp
  moreover have "shallow 2 (jarr_omit ''messages'' (map json_message (sji_Messages i)))"
    using depth_stage(3) by (intro shallow_array) (simp_all add: list_all_iff)
  ultimately have "json_depth (json_stage_job_input i) \<le> 3"
    unfolding json_stage_job_input_def by (intro depth_JObj) simp
  then show ?thesis by (simp add: max_depth_def)
qed

lemma decode_marshal_stage_job:
  "clean_stage_job_input i \<Longrightarrow> decode_DistributedStageJobInput (marshal_stage_job_input i) = Some i"
  unfolding decode_DistributedStageJobInput_def marshal_stage_job_input_def
  by (simp add: Unmarshal_clean depth_stage_job_input decode_stage_job_input)

text \<open>
  C18. The input of a stage job that the coordinator writes as JSON is read back as it was.
\<close>

theorem stage_job_input_roundtrip:
  assumes "clean_stage_job_input i"
  shows "decode_DistributedStageJobInput (marshal_stage_job_input i) = Some i"
  using assms by (rule decode_marshal_stage_job)

definition demo_stage :: "int \<Rightarrow> string \<Rightarrow> int \<Rightarrow> int \<Rightarrow> Stage" where
  "demo_stage k node first final = \<lparr>s_Index = k, s_NodeID = node, s_NodeName = ''n'', s_LayerStart = first, s_LayerEnd = final\<rparr>"

definition demo_stage_input :: "int \<Rightarrow> string \<Rightarrow> int \<Rightarrow> int \<Rightarrow> DistributedStageJobInput" where
  "demo_stage_input k node first final = zero_stage_job_input\<lparr>sji_ParentJobID := ''job-01'', sji_ModelID := ''qwen'',
     sji_Stage := zero_stage_input\<lparr>dsi_Index := k, dsi_NodeID := node, dsi_LayerStart := first, dsi_LayerEnd := final\<rparr>,
     sji_Shard := zero_shard\<lparr>sh_Stage := demo_stage k node first final, sh_Runtime := ''llama.cpp'',
       sh_Materialization := ShardLogicalLayers, sh_Capabilities := [''pipeline-decode'']\<rparr>,
     sji_Prompt := ''say '' @ [dquote, backslash] @ ''<b>'', sji_MaxTokens := 64\<rparr>"

theorem stage_job_input_roundtrip_witness:
  "clean_stage_job_input (demo_stage_input 0 ''node-02'' 0 11)
   \<and> decode_DistributedStageJobInput (marshal_stage_job_input (demo_stage_input 0 ''node-02'' 0 11))
      = Some (demo_stage_input 0 ''node-02'' 0 11)"
proof -
  have "clean_stage_job_input (demo_stage_input 0 ''node-02'' 0 11)" by code_simp
  with stage_job_input_roundtrip [OF this] show ?thesis by simp
qed

subsection \<open>Activation frames\<close>

lemma frame_keys_clean [simp]:
  "utf8_clean ''protocol''" "utf8_clean ''version''" "utf8_clean ''type''" "utf8_clean ''stage_job_id''"
  "utf8_clean ''sequence''" "utf8_clean ''content_type''" "utf8_clean ''encoding''" "utf8_clean ''shape''"
  "utf8_clean ''dtype''" "utf8_clean ''payload_bytes''" "utf8_clean ''checksum''" "utf8_clean ''header''"
  "utf8_clean ''payload''"
  by (rule clean_ascii, code_simp)+

definition clean_chunk :: "ActivationChunk \<Rightarrow> bool" where
  "clean_chunk m \<longleftrightarrow> utf8_clean (e_Protocol (ac_Envelope m)) \<and> utf8_clean (e_Version (ac_Envelope m))
     \<and> utf8_clean (show_MessageType (e_Type (ac_Envelope m)))
     \<and> message_type_of (show_MessageType (e_Type (ac_Envelope m))) = e_Type (ac_Envelope m)
     \<and> utf8_clean (ac_ParentJobID m) \<and> utf8_clean (ac_StageJobID m) \<and> utf8_clean (ac_ContentType m)
     \<and> utf8_clean (ac_Encoding m) \<and> list_all int64_range (ac_Shape m) \<and> utf8_clean (ac_DType m)
     \<and> utf8_clean (ac_Checksum m)"

lemma b64_ascii: "list_all (\<lambda>n. byte (b64_char n) < 128) [0..<64]"
  by code_simp

lemma b64_clean [simp]: "utf8_clean (b64_encode bs)"
proof -
  have ascii: "n < 64 \<Longrightarrow> byte (b64_char n) < 128" for n using b64_ascii by (simp add: list_all_iff)
  have pad: "byte (CHR ''='') < 128" by code_simp
  have "list_all (\<lambda>c. byte c < 128) (b64_encode bs)"
    by (induction bs rule: b64_encode.induct) (simp_all add: ascii pad b64_div_bounds)
  then show ?thesis by (rule clean_ascii)
qed

lemma decode_ints: "list_all int64_range is \<Longrightarrow> decode_all dec_int (map (\<lambda>i. JNum (show_int i)) is) = Some is"
  by (induction "is") auto

lemma decode_chunk: "clean_chunk m \<Longrightarrow> decode_struct chunk_fields zero_chunk (json_chunk m) = Some m"
  unfolding json_chunk_def
  by (rule decode_JObj) (simp add: decode_fields_append decodes clean_chunk_def chunk_fields_def decode_ints zero_chunk_def)

lemma decode_payload:
  "map_of flds k = Some (dbytes upd) \<Longrightarrow> upd [] a = a \<Longrightarrow>
   decode_fields flds (if bs = [] then [] else [(k, JStr (b64_encode bs))]) (a, ok) = (upd bs a, ok)"
  by (simp add: decode_fields.simps(2) find_field_exact b64_decode_encode)

lemma json_chunk_not_null [simp]: "json_chunk m \<noteq> JNull"
  by (simp add: json_chunk_def)

lemma decode_frame_fields:
  assumes "clean_chunk (af_Header f)"
  shows "decode_struct frame_fields zero_frame (json_frame f) = Some f"
  unfolding json_frame_def decode_fields_append
proof (rule decode_JObj)
  show "decode_fields frame_fields ([(''header'', json_chunk (af_Header f))]
      @ (if af_Payload f = [] then [] else [(''payload'', JStr (b64_encode (af_Payload f)))])) (zero_frame, True) = (f, True)"
    unfolding decode_fields_append
    using assms by (simp add: decodes decode_payload [where upd = "\<lambda>bs. af_Payload_update (\<lambda>_. bs)"] frame_fields_def decode_chunk zero_frame_def)
qed

lemma clean_json_frame: "clean_chunk (af_Header f) \<Longrightarrow> clean_json (json_frame f)"
  unfolding json_frame_def json_chunk_def
  by (intro clean_JObj) (auto simp: clean_chunk_def list_all_iff intro!: clean_JObj)

lemma depth_frame: "json_depth (json_frame f) \<le> max_depth"
proof -
  have "shallow 1 (jarr_omit ''shape'' (map (\<lambda>i. JNum (show_int i)) (ac_Shape (af_Header f))))"
    by (intro shallow_array) (simp_all add: list_all_iff)
  then have "json_depth (json_chunk (af_Header f)) \<le> 2"
    unfolding json_chunk_def by (intro depth_JObj) simp
  then have "json_depth (json_frame f) \<le> 3"
    unfolding json_frame_def by (intro depth_JObj) simp
  then show ?thesis by (simp add: max_depth_def)
qed

lemma decode_marshal_frame:
  assumes "clean_chunk (af_Header f)"
  shows "decode_frame (marshal_frame f) = Some f" "decode_frame (marshal_frame f @ [CHR 0x0A]) = Some f"
  unfolding decode_frame_def marshal_frame_def
  using assms by (simp_all add: decode_first_clean decode_line_clean clean_json_frame depth_frame decode_frame_fields)

text \<open>
  C19. An activation frame that a worker posts as JSON arrives as it was sent, its payload byte for byte.
\<close>

theorem frame_roundtrip:
  assumes "clean_chunk (af_Header f)"
  shows "decode_frame (marshal_frame f) = Some f"
  using assms by (rule decode_marshal_frame)

definition demo_frame :: ActivationFrame where
  "demo_frame = \<lparr>af_Header = zero_chunk\<lparr>ac_Envelope := NewEnvelope MessageActivationChunk, ac_ParentJobID := ''job-01'',
     ac_StageJobID := ''job-02'', ac_Sequence := 7, ac_ContentType := ''application/octet-stream'', ac_Shape := [1, 1, 4],
     ac_PayloadBytes := 4\<rparr>, af_Payload = [0, 255, 128, 7]\<rparr>"

theorem frame_roundtrip_witness:
  "ActivationFrame_Validate demo_frame = None \<and> decode_frame (marshal_frame demo_frame) = Some demo_frame"
proof -
  have "ActivationFrame_Validate demo_frame = None" "clean_chunk (af_Header demo_frame)" by code_simp+
  with frame_roundtrip [OF this(2)] show ?thesis by simp
qed

end
