(* ===== verification/Pipeline.thy ===== *)
theory Pipeline
  imports Planning Codec
begin

section \<open>What a distributed plan promises\<close>

subsection \<open>The layers of a plan\<close>

lemma estimated_layers: "estimatedModelLayers model \<in> {24, 32, 48, 56, 64}"
  by (simp add: estimatedModelLayers_def Let_def split: option.splits)

lemma stage_layers_bounds:
  assumes "later + 1 \<le> t - at0" and "0 \<le> later"
  shows "1 \<le> stage_layers t w at0 later weight" and "stage_layers t w at0 later weight \<le> t - at0 - later"
    and "later = 0 \<Longrightarrow> stage_layers t w at0 later weight = t - at0"
  using assms by (auto simp: stage_layers_def Let_def)

lemma plan_stage_fields [simp]:
  "cdip_stage (plan_stage model t k at0 layers node)
     = \<lparr>s_Index = k, s_NodeID = n_ID node, s_NodeName = nodeDisplayName node, s_LayerStart = at0, s_LayerEnd = at0 + layers - 1\<rparr>"
  by (simp add: plan_stage_def cdip_stage_def split: prod.splits)

lemma length_stages_loop [simp]: "length (stages_loop model t w k at0 ns) = length ns"
  by (induction ns arbitrary: k at0) (simp_all add: Let_def)

text \<open>Enough layers for the workers: the stages form a chain from layer \<open>at0\<close> to the last one.\<close>

lemma stages_loop_chain:
  assumes "ns \<noteq> []" and "0 \<le> at0" and "int (length ns) \<le> t - at0" and "t < 2 ^ 62"
    and "\<And>node. node \<in> set ns \<Longrightarrow> \<not> blank (n_ID node)"
  shows "validate_chain_loop k at0 (map cdip_stage (stages_loop model t w k at0 ns)) = None
    \<and> s_LayerEnd (last (map cdip_stage (stages_loop model t w k at0 ns))) = t - 1
    \<and> (\<forall>s \<in> set (map cdip_stage (stages_loop model t w k at0 ns)). s_LayerEnd s < t)"
  using assms
proof (induction ns arbitrary: k at0)
  case (Cons node ns)
  let ?l = "stage_layers t w at0 (int (length ns)) (node_memory node - distributedStageOverheadBytes)"
  note l = stage_layers_bounds [of "int (length ns)" t at0 w "node_memory node - distributedStageOverheadBytes"]
  have wrap: "wrap64 (at0 + ?l - 1 + 1) = at0 + ?l"
    using l Cons.prems(2-4) by (subst wrap64_id) (auto simp: int64_range_def)
  show ?case
  proof (cases "ns = []")
    case True
    with l(1,3) Cons.prems show ?thesis by (simp add: Let_def)
  next
    case False
    have len: "int (length ns) \<le> t - (at0 + ?l)" using l(2) Cons.prems(3) by simp
    have pos: "0 \<le> at0 + ?l" "1 \<le> ?l" using l(1) Cons.prems(2,3) by simp_all
    have ids: "\<And>node. node \<in> set ns \<Longrightarrow> \<not> blank (n_ID node)" using Cons.prems(5) by simp
    have "stages_loop model t w (k + 1) (at0 + ?l) ns \<noteq> []" using False by (metis length_0_conv length_stages_loop)
    with Cons.IH [OF False pos(1) len Cons.prems(4) ids, of "k + 1"] pos(2) len False Cons.prems(5) wrap show ?thesis
      by (auto simp: Let_def)
  qed
qed simp

lemma chain_length:
  assumes "validate_chain_loop i start ss = None" and "layers_below n ss" and "ss \<noteq> []"
  shows "start + int (length ss) \<le> s_LayerEnd (last ss) + 1"
  using assms
proof (induction ss arbitrary: i start)
  case (Cons t ss)
  note step = validate_chain_loop_Cons [OF Cons.prems(1,2)]
  show ?case
  proof (cases "ss = []")
    case False
    with Cons.IH [OF step(4,3) False] step(1,2) show ?thesis by simp
  qed (use step in simp)
qed simp

lemma select_workers_subset: "set (select_workers_loop m d sel a b cs) \<subseteq> set sel \<union> set cs"
proof (induction cs arbitrary: sel a b)
  case (Cons c cs)
  show ?case
    using Cons.IH [of "sel @ [c]" "a + (node_memory c - distributedStageOverheadBytes)" "b + effectiveNodeStorage c"]
    by (auto simp: Let_def)
qed simp

lemma feasible_plan_stages:
  assumes "dp_Feasible (distributedModelPlan model ns)"
  obtains sel w where "dp_Stages (distributedModelPlan model ns) = stages_loop model (estimatedModelLayers model) w 0 0 sel"
    "2 \<le> length sel" "set sel \<subseteq> set ns"
proof -
  let ?sel = "selectDistributedWorkers model (distributedCandidates model ns)"
  have "\<not> estimatedModelLayers model \<le> 0" using estimated_layers [of model] by auto
  then have "dp_Stages (distributedModelPlan model ns) = stages_loop model (estimatedModelLayers model)
      (sum_list (map (\<lambda>node. node_memory node - distributedStageOverheadBytes) ?sel)) 0 0 ?sel \<and> 2 \<le> length ?sel"
    using assms by (auto simp: distributedModelPlan_def Let_def buildDistributedStages_def split: if_splits)
  moreover have "set ?sel \<subseteq> set ns"
    unfolding selectDistributedWorkers_def
    by (rule order_trans [OF select_workers_subset]) (auto simp: distributedCandidates_def)
  ultimately show ?thesis using that by blast
qed

lemma plan_fields [simp]:
  "dp_TotalLayers (distributedModelPlan model ns) = estimatedModelLayers model"
  "dp_Runtime (distributedModelPlan model ns) = m_Runtime model"
  "dp_ModelID (distributedModelPlan model ns) = m_ID model"
  "dp_Mode (distributedModelPlan model ns) = ''pipeline_layers''"
  by (simp_all add: distributedModelPlan_def Let_def)

lemma chain_layers_below:
  assumes "ValidateStageChain ss = None" and "ss \<noteq> []" and "s_LayerStart (hd ss) = 0" and "\<forall>s \<in> set ss. s_LayerEnd s < n"
    and "int64_range n"
  shows "layers_below n ss"
proof -
  have "int64_range (s_LayerStart (ss ! k))" if "k < length ss" for k
  proof (cases k)
    case 0
    with assms(2,3) show ?thesis by (simp add: hd_conv_nth int64_range_def)
  next
    case (Suc j)
    with assms(1) that have "s_LayerStart (ss ! k) = wrap64 (s_LayerEnd (ss ! j) + 1)"
      by (auto simp: ValidateStageChain_None)
    then show ?thesis by simp
  qed
  with assms(4,5) show ?thesis by (auto simp: layers_below_def in_set_conv_nth)
qed

lemma feasible_manifest_valid:
  assumes "dp_Feasible (distributedModelPlan model ns)" and "list_all (\<lambda>node. \<not> blank (n_ID node)) ns"
    and "\<not> blank (m_ID model)" and "\<not> blank (m_Runtime model)"
  shows "let plan = distributedModelPlan model ns; fits = (int (length (dp_Stages plan)) \<le> dp_TotalLayers plan)
    in (ShardManifest_Validate (cdipShardManifest model plan) = None \<longleftrightarrow> fits)
       \<and> (fits \<longrightarrow> PlanProposal_Validate (cdipPlanProposal plan) = None)"
proof -
  let ?plan = "distributedModelPlan model ns" and ?t = "estimatedModelLayers model"
  obtain sel w where sel: "dp_Stages ?plan = stages_loop model ?t w 0 0 sel" "2 \<le> length sel" "set sel \<subseteq> set ns"
    using feasible_plan_stages [OF assms(1)] .
  define ss where "ss = map cdip_stage (stages_loop model ?t w 0 0 sel)"
  have shards: "map sh_Stage (sm_Shards (cdipShardManifest model ?plan)) = ss"
    by (simp add: cdipShardManifest_def cdip_shard_def ss_def sel o_def)
  have t: "0 < ?t" "?t < 2 ^ 62" "int64_range ?t" using estimated_layers [of model] by (auto simp: int64_range_def)
  have ne: "sel \<noteq> []" "ss \<noteq> []" using sel(2) by (auto simp: ss_def simp flip: length_greater_0_conv)
  have not_blank: "\<not> blank ''pipeline_layers''" by code_simp
  have shards_ne: "sm_Shards (cdipShardManifest model ?plan) \<noteq> []" using ne(2) shards by auto
  have ends: "(\<forall>sh \<in> set (sm_Shards (cdipShardManifest model ?plan)). s_LayerEnd (sh_Stage sh) < ?t) \<longleftrightarrow> (\<forall>s \<in> set ss. s_LayerEnd s < ?t)"
    by (simp flip: shards)
  have fixed: "sm_Envelope (cdipShardManifest model ?plan) = NewEnvelope MessageShardManifest"
    "\<forall>sh \<in> set (sm_Shards (cdipShardManifest model ?plan)). \<not> blank (sh_Runtime sh) \<and> KnownShardMaterialization (sh_Materialization sh)"
    using assms(4) by (auto simp: cdipShardManifest_def cdip_shard_def)
  have "ShardManifest_Validate (cdipShardManifest model ?plan) = None \<longleftrightarrow>
      (\<forall>s \<in> set ss. s_LayerEnd s < ?t) \<and> ValidateStageChain ss = None \<and> s_LayerStart (hd ss) = 0 \<and> s_LayerEnd (last ss) = ?t - 1"
    using fixed ends shards_ne not_blank assms(3,4) t(1) hd_map [OF shards_ne, of sh_Stage] last_map [OF shards_ne, of sh_Stage]
    unfolding ShardManifest_Validate_None shards
    by (auto simp: cdipShardManifest_def)
  note valid = this
  have chain: "ValidateStageChain ss = validate_chain_loop 0 (s_LayerStart (hd ss)) ss"
    using ne(2) by (cases ss) (simp_all add: ValidateStageChain_def del: validate_chain_loop.simps)
  have len: "length (dp_Stages ?plan) = length ss" "length ss = length sel" by (simp_all add: sel(1) ss_def)
  show ?thesis
  proof (cases "int (length ss) \<le> ?t")
    case True
    have "\<not> blank (n_ID node)" if "node \<in> set sel" for node using that sel(3) assms(2) by (auto simp: list_all_iff)
    then have loop: "validate_chain_loop 0 0 ss = None \<and> s_LayerEnd (last ss) = ?t - 1 \<and> (\<forall>s \<in> set ss. s_LayerEnd s < ?t)"
      unfolding ss_def using True t ne(1) len(2) by (intro stages_loop_chain) auto
    have start: "s_LayerStart (hd ss) = 0" using ne(1) by (cases sel) (simp_all add: ss_def Let_def)
    have "PlanProposal_Validate (cdipPlanProposal ?plan) = None"
      using loop start chain assms(3) not_blank by (simp add: PlanProposal_Validate_def cdipPlanProposal_def ss_def sel(1))
    with valid loop start chain True len show ?thesis by (simp add: Let_def)
  next
    case False
    have "ShardManifest_Validate (cdipShardManifest model ?plan) \<noteq> None"
    proof
      assume "ShardManifest_Validate (cdipShardManifest model ?plan) = None"
      then have v: "\<forall>s \<in> set ss. s_LayerEnd s < ?t" "ValidateStageChain ss = None" "s_LayerStart (hd ss) = 0" "s_LayerEnd (last ss) = ?t - 1"
        using valid by simp_all
      have "layers_below ?t ss" by (rule chain_layers_below [OF v(2) ne(2) v(3,1) t(3)])
      then have "0 + int (length ss) \<le> s_LayerEnd (last ss) + 1"
        using v(2,3) chain ne(2) by (intro chain_length) auto
      with v(4) False show False by simp
    qed
    with False len show ?thesis by (simp add: Let_def)
  qed
qed

text \<open>
  C25. The shard manifest of a feasible plan passes validation exactly if the plan uses at most as many
  workers as the model has layers; its proposal then passes as well. (The planner itself does not compare the two numbers.)
\<close>

theorem feasible_plan_manifest:
  assumes "dp_Feasible (distributedModelPlan model ns)" and "list_all (\<lambda>node. \<not> blank (n_ID node)) ns"
    and "\<not> blank (m_ID model)" and "\<not> blank (m_Runtime model)"
  shows "let plan = distributedModelPlan model ns; fits = (int (length (dp_Stages plan)) \<le> dp_TotalLayers plan)
    in (ShardManifest_Validate (cdipShardManifest model plan) = None \<longleftrightarrow> fits)
       \<and> (fits \<longrightarrow> PlanProposal_Validate (cdipPlanProposal plan) = None)"
  using assms by (rule feasible_manifest_valid)

lemma length_buildDistributedStages [simp]: "length (buildDistributedStages model ns t) = length ns"
  by (simp add: buildDistributedStages_def Let_def)

lemma feasible_iff:
  "dp_Feasible (distributedModelPlan model ns) \<longleftrightarrow>
     (let cs = distributedCandidates model ns
      in 2 \<le> length cs \<and> \<not> sum_list (map node_memory cs) < m_MemoryBytes model
         \<and> \<not> sum_list (map effectiveNodeStorage cs) < m_DiskBytes model \<and> 2 \<le> length (selectDistributedWorkers model cs))"
  by (auto simp: distributedModelPlan_def Let_def)

definition demo_workers :: "Node list" where
  "demo_workers = [demo_worker ''a'' (20 * gb), demo_worker ''b'' (20 * gb)]"

definition demo_big :: Model where
  "demo_big = catalog ! 12"

lemma demo_plan_feasible: "dp_Feasible (distributedModelPlan demo_big demo_workers)"
  unfolding feasible_iff by code_simp

lemma demo_plan_length: "length (dp_Stages (distributedModelPlan demo_big demo_workers)) = 2"
proof -
  have "length (selectDistributedWorkers demo_big (distributedCandidates demo_big demo_workers)) = 2" by code_simp
  with demo_plan_feasible show ?thesis by (auto simp: distributedModelPlan_def Let_def split: if_splits)
qed

lemma demo_ids:
  "list_all (\<lambda>node. \<not> blank (n_ID node)) demo_workers" "\<not> blank (m_ID demo_big)" "\<not> blank (m_Runtime demo_big)"
  by code_simp+

theorem feasible_plan_manifest_witness:
  "ShardManifest_Validate (cdipShardManifest demo_big (distributedModelPlan demo_big demo_workers)) = None
   \<and> PlanProposal_Validate (cdipPlanProposal (distributedModelPlan demo_big demo_workers)) = None"
proof -
  have "2 \<le> estimatedModelLayers demo_big" using estimated_layers [of demo_big] by auto
  then show ?thesis
    using feasible_plan_manifest [OF demo_plan_feasible demo_ids] demo_plan_length by (simp add: Let_def)
qed

subsection \<open>Stage jobs\<close>

lemma stage_requests_loop_Inr:
  "stage_requests_loop parent input ks = Inr reqs \<longleftrightarrow>
     list_all (\<lambda>k. \<not> blank (dsi_NodeID (dgi_Stages input ! k)) \<and> dsi_Index (dgi_Stages input ! k) = int k
       \<and> shard_matches (dgi_Shards input ! k) (dgi_Stages input ! k)) ks
     \<and> reqs = map (stage_job_request parent input) ks"
proof (induction ks arbitrary: reqs)
  case (Cons k ks)
  then show ?case by (cases "stage_requests_loop parent input ks") (force simp: Let_def)+
qed auto

text \<open>
  C26. The stage jobs of a distributed generation form the pipeline of its stages: one job for each stage, in order, pinned to
  the worker of the stage, belonging to the parent; and the input that the worker of a stage decodes holds its shard and names as its
  upstream and downstream the workers of the neighbouring jobs.
\<close>

theorem stage_jobs_form_pipeline:
  assumes "distributedStageJobRequests parent input = Inr reqs" and "k < length reqs"
    and "clean_stage_job_input (stage_job_input parent input k)"
  shows "length reqs = length (dgi_Stages input) \<and> cr_CDIPStageIndex (reqs ! k) = int k
    \<and> cr_CDIPParentJobID (reqs ! k) = j_ID parent \<and> cr_NoAutoAssign (reqs ! k)
    \<and> cr_AssignedTo (reqs ! k) = dsi_NodeID (dgi_Stages input ! k)
    \<and> (\<exists>si. decode_DistributedStageJobInput (cr_Input (reqs ! k)) = Some si
          \<and> sji_ParentJobID si = j_ID parent \<and> shard_matches (sji_Shard si) (sji_Stage si)
          \<and> sji_UpstreamNodeID si = (if k = 0 then [] else cr_AssignedTo (reqs ! (k - 1)))
          \<and> sji_DownstreamNodeID si = (if k + 1 = length reqs then [] else cr_AssignedTo (reqs ! (k + 1))))"
proof -
  from assms(1) have r: "stage_requests_loop parent input [0..<length (dgi_Stages input)] = Inr reqs"
    by (auto simp: distributedStageJobRequests_def split: if_splits)
  then have ok: "dsi_Index (dgi_Stages input ! j) = int j \<and> shard_matches (dgi_Shards input ! j) (dgi_Stages input ! j)"
    if "j < length (dgi_Stages input)" for j
    using that by (auto simp: stage_requests_loop_Inr list_all_iff)
  from r have reqs: "reqs = map (stage_job_request parent input) [0..<length (dgi_Stages input)]"
    by (simp add: stage_requests_loop_Inr)
  then have len: "length reqs = length (dgi_Stages input)" by simp
  have nth: "j < length reqs \<Longrightarrow> reqs ! j = stage_job_request parent input j" for j by (simp add: reqs)
  have "decode_DistributedStageJobInput (cr_Input (reqs ! k)) = Some (stage_job_input parent input k)"
    using decode_marshal_stage_job [OF assms(3)] assms(2) by (simp add: nth stage_job_request_def)
  moreover have "sji_UpstreamNodeID (stage_job_input parent input k) = (if k = 0 then [] else cr_AssignedTo (reqs ! (k - 1)))"
    "sji_DownstreamNodeID (stage_job_input parent input k) = (if k + 1 = length reqs then [] else cr_AssignedTo (reqs ! (k + 1)))"
    using assms(2) by (auto simp: stage_job_input_def nth stage_job_request_def len)
  ultimately show ?thesis
    using assms(2) len ok [of k] by (simp add: nth stage_job_request_def stage_job_input_def)
qed

lemma stages_loop_nth:
  "j < length ns \<Longrightarrow> pl_Index (stages_loop model t w k at0 ns ! j) = k + int j
     \<and> pl_NodeID (stages_loop model t w k at0 ns ! j) = n_ID (ns ! j)"
proof (induction ns arbitrary: k at0 j)
  case (Cons node ns)
  then show ?case by (cases j) (auto simp: Let_def plan_stage_def split: prod.splits)
qed simp

text \<open>A feasible plan always gives stage jobs.\<close>

lemma feasible_plan_stage_jobs:
  assumes "dp_Feasible (distributedModelPlan model ns)" and "list_all (\<lambda>node. \<not> blank (n_ID node)) ns"
    and "\<not> blank (m_ID model)" and "j_ID parent \<noteq> []"
    and "input = generate_input_of_plan model (distributedModelPlan model ns) prompt messages systemPrompt conversationID maxTokens temperature"
  shows "distributedStageJobRequests parent input
    = Inr (map (stage_job_request parent input) [0..<length (dp_Stages (distributedModelPlan model ns))])"
proof -
  let ?plan = "distributedModelPlan model ns"
  obtain sel w where sel: "dp_Stages ?plan = stages_loop model (estimatedModelLayers model) w 0 0 sel" "2 \<le> length sel" "set sel \<subseteq> set ns"
    using feasible_plan_stages [OF assms(1)] .
  have stages: "dgi_Stages input = distributedStageInputs (dp_Stages ?plan)"
    and shards: "dgi_Shards input = map (cdip_shard model ?plan) (dp_Stages ?plan)"
    and mid: "dgi_ModelID input = m_ID model"
    by (simp_all add: assms(5) generate_input_of_plan_def cdipShardManifest_def)
  have len: "length (dp_Stages ?plan) = length sel" by (simp add: sel(1))
  have ids: "j < length sel \<Longrightarrow> \<not> blank (n_ID (sel ! j))" for j
    using sel(3) assms(2) by (auto simp: list_all_iff dest: nth_mem)
  have "list_all (\<lambda>k. \<not> blank (dsi_NodeID (dgi_Stages input ! k)) \<and> dsi_Index (dgi_Stages input ! k) = int k
       \<and> shard_matches (dgi_Shards input ! k) (dgi_Stages input ! k)) [0..<length sel]"
    using stages_loop_nth [of _ sel model "estimatedModelLayers model" w 0 0] ids
    by (auto simp: list_all_iff stages shards distributedStageInputs_def len shard_matches_def cdip_shard_def cdip_stage_def sel(1))
  then show ?thesis
    using sel(2) assms(3,4) len
    by (simp add: distributedStageJobRequests_def stages shards mid distributedStageInputs_def stage_requests_loop_Inr)
qed

definition demo_stages :: "DistributedStageInput list" where
  "demo_stages =
     [\<lparr>dsi_Index = 0, dsi_NodeID = ''a'', dsi_NodeName = ''a'', dsi_LayerStart = 0, dsi_LayerEnd = 11, dsi_Layers = 12\<rparr>,
      \<lparr>dsi_Index = 1, dsi_NodeID = ''b'', dsi_NodeName = ''b'', dsi_LayerStart = 12, dsi_LayerEnd = 23, dsi_Layers = 12\<rparr>]"

definition demo_generate :: DistributedGenerateInput where
  "demo_generate = \<lparr>dgi_ModelID = ''qwen'', dgi_Prompt = ''hello'', dgi_Messages = [], dgi_SystemPrompt = [], dgi_ConversationID = ''c'',
     dgi_MaxTokens = 64, dgi_Temperature = ''0.5'', dgi_Mode = ''pipeline_layers'', dgi_Stages = demo_stages,
     dgi_Shards = map (\<lambda>s. zero_shard\<lparr>sh_Stage := \<lparr>s_Index = dsi_Index s, s_NodeID = dsi_NodeID s, s_NodeName = dsi_NodeName s,
        s_LayerStart = dsi_LayerStart s, s_LayerEnd = dsi_LayerEnd s\<rparr>, sh_Runtime := ''llama.cpp'',
        sh_Materialization := ShardLogicalLayers\<rparr>) demo_stages\<rparr>"

definition demo_parent :: Job where
  "demo_parent = \<lparr>j_ID = ''job-01'', j_Type = JobGenerateDistributed, j_Status = StatusQueued, j_RequestedBy = ''dashboard-chat'',
     j_AssignedTo = [], j_Input = [], j_Requirements = demo_req 0, j_Result = [], j_Error = [], j_Attempts = 0, j_MaxAttempts = 1,
     j_LastFailure = [], j_CDIPState = StageUnset, j_CDIPParentJobID = [], j_CDIPStageIndex = 0, j_CreatedAt = 10, j_UpdatedAt = 10,
     j_StartedAt = 0, j_FinishedAt = 0\<rparr>"

theorem stage_jobs_form_pipeline_witness:
  "\<exists>reqs si. distributedStageJobRequests demo_parent demo_generate = Inr reqs
     \<and> decode_DistributedStageJobInput (cr_Input (reqs ! 0)) = Some si
     \<and> sji_UpstreamNodeID si = [] \<and> sji_DownstreamNodeID si = ''b'' \<and> cr_AssignedTo (reqs ! 1) = ''b''"
proof -
  define reqs where "reqs = map (stage_job_request demo_parent demo_generate) [0, 1]"
  have ok: "list_all (\<lambda>k. \<not> blank (dsi_NodeID (dgi_Stages demo_generate ! k)) \<and> dsi_Index (dgi_Stages demo_generate ! k) = int k
      \<and> shard_matches (dgi_Shards demo_generate ! k) (dgi_Stages demo_generate ! k)) [0, 1]"
    "j_ID demo_parent \<noteq> []" "\<not> blank (dgi_ModelID demo_generate)" "[0..<length (dgi_Stages demo_generate)] = [0, 1]"
    "length (dgi_Shards demo_generate) = length (dgi_Stages demo_generate)" "\<not> length (dgi_Stages demo_generate) < 2"
    by code_simp+
  then have r: "distributedStageJobRequests demo_parent demo_generate = Inr reqs"
    by (simp add: distributedStageJobRequests_def stage_requests_loop_Inr reqs_def)
  have "clean_stage_job_input (stage_job_input demo_parent demo_generate 0)" by code_simp
  moreover have b: "cr_AssignedTo (reqs ! 1) = ''b''"
    by (simp add: reqs_def stage_job_request_def demo_generate_def demo_stages_def)
  moreover have "length reqs = 2" by (simp add: reqs_def)
  ultimately show ?thesis using stage_jobs_form_pipeline [OF r, of 0] r by auto
qed

end
