(* ===== verification/StageRuntime.thy ===== *)
theory StageRuntime
  imports Pipeline Transport
begin

section \<open>The logical stage runtime (internal/runtimes/distributed_stage.go)\<close>

text \<open>
  The runtime of a pipeline stage that checks its inputs and relays activations without computing them. \<open>run\<close> is the result of a
  call that may return, fail, block for ever or panic. The activation transport is an interface value: \<open>None\<close> is nil. The context is
  whether it is done.
\<close>

datatype ('e, 'a) run = Ok 'a | Err 'e | Hang | Crash

text \<open>A call of the transport followed by the rest of the function.\<close>

definition on_return :: "(transport_error \<Rightarrow> 'e) \<Rightarrow> 'b \<times> 'a outcome \<Rightarrow> ('b \<Rightarrow> 'a \<Rightarrow> 'b \<times> ('e, 'c) run) \<Rightarrow> 'b \<times> ('e, 'c) run" where
  "on_return err r k =
     (case r of (b, Returns a) \<Rightarrow> k b a | (b, Fails e) \<Rightarrow> (b, Err (err e)) | (b, Blocks) \<Rightarrow> (b, Hang) | (b, Panics) \<Rightarrow> (b, Crash))"

definition ActivationStreamV1 :: string where "ActivationStreamV1 = ''activation-stream-v1''"

definition LogicalStageCapabilities :: "string list" where
  "LogicalStageCapabilities = [''pipeline-stage-prepare'', ''pipeline-prefill'', ''pipeline-decode'', ActivationStreamV1,
     CapabilityLogicalStageRuntime]"

record StagePrepareRequest =
  pq_ParentJobID :: string
  pq_StageJobID :: string
  pq_ModelID :: string
  pq_Stage :: DistributedStageInput
  pq_Shard :: ModelShard
  pq_UpstreamNodeID :: string
  pq_DownstreamNodeID :: string

record StagePrepareResult =
  pr_Kind :: string
  pr_ParentJobID :: string
  pr_StageIndex :: int
  pr_ModelID :: string
  pr_Runtime :: string
  pr_LayerStart :: int
  pr_LayerEnd :: int
  pr_UpstreamNodeID :: string
  pr_DownstreamNodeID :: string
  pr_Materialization :: string
  pr_SourceArtifact :: string
  pr_TargetArtifact :: string
  pr_ActivationProtocol :: string

record 'b StageCommandRequest =
  cq_ParentJobID :: string
  cq_StageJobID :: string
  cq_StageIndex :: int
  cq_Step :: u64
  cq_ActivationTransport :: "'b ActivationTransport option"
  cq_DownstreamNodeID :: string
  cq_ActivationPayload :: bytes
  cq_ActivationEncoding :: string
  cq_ActivationShape :: "int list"
  cq_ActivationDType :: string
  cq_ActivationChecksum :: string

record StageCommandResult =
  cs_Kind :: string
  cs_ParentJobID :: string
  cs_StageJobID :: string
  cs_StageIndex :: int
  cs_Step :: u64
  cs_ActivationFrame :: "ActivationChunk option"
  cs_ActivationBytes :: int

datatype runtime_error =
    RuntimeContextDone
  | RuntimeRequired string
  | ShardNotOfStage
  | UnsupportedShard string
  | InvalidPrepareContract cdip_error
  | PayloadRequired
  | RuntimeTransport transport_error

definition NewLogicalStageRuntime :: "string \<Rightarrow> string" where
  "NewLogicalStageRuntime runtimeName = TrimSpace runtimeName"

definition PrepareStage :: "string \<Rightarrow> bool \<Rightarrow> StagePrepareRequest \<Rightarrow> runtime_error + StagePrepareResult" where
  "PrepareStage runtime ctx_over req =
     (let shard = pq_Shard req;
          msg = \<lparr>sp_Envelope = NewEnvelope MessageStagePrepare, sp_ParentJobID = pq_ParentJobID req,
            sp_StageJobID = (if blank (pq_StageJobID req) then ''worker-local-stage-prepare'' else pq_StageJobID req),
            sp_ModelID = pq_ModelID req, sp_Stage = sh_Stage shard, sp_UpstreamNodeID = pq_UpstreamNodeID req,
            sp_DownstreamNodeID = pq_DownstreamNodeID req\<rparr>
      in if ctx_over then Inl RuntimeContextDone
         else if blank (pq_ParentJobID req) then Inl (RuntimeRequired ''parent_job_id'')
         else if blank (pq_ModelID req) then Inl (RuntimeRequired ''model_id'')
         else if blank runtime then Inl (RuntimeRequired ''distributed stage runtime'')
         else if \<not> shard_matches shard (pq_Stage req) then Inl ShardNotOfStage
         else if sh_Materialization shard \<noteq> ShardLogicalLayers
           then Inl (UnsupportedShard (show_materialization (sh_Materialization shard)))
         else (case StagePrepare_Validate msg of
             Some e \<Rightarrow> Inl (InvalidPrepareContract e)
           | None \<Rightarrow> Inr \<lparr>pr_Kind = ''cdip.stage_ready'', pr_ParentJobID = pq_ParentJobID req, pr_StageIndex = dsi_Index (pq_Stage req),
               pr_ModelID = pq_ModelID req, pr_Runtime = runtime, pr_LayerStart = s_LayerStart (sh_Stage shard),
               pr_LayerEnd = s_LayerEnd (sh_Stage shard), pr_UpstreamNodeID = pq_UpstreamNodeID req,
               pr_DownstreamNodeID = pq_DownstreamNodeID req,
               pr_Materialization = show_materialization (sh_Materialization shard), pr_SourceArtifact = sh_SourceArtifact shard,
               pr_TargetArtifact = sh_TargetArtifact shard, pr_ActivationProtocol = ActivationStreamV1\<rparr>))"

definition stageCommandResult :: "bool \<Rightarrow> string \<Rightarrow> 'b StageCommandRequest \<Rightarrow> runtime_error + StageCommandResult" where
  "stageCommandResult ctx_over kind req =
     (if ctx_over then Inl RuntimeContextDone
      else if blank (cq_ParentJobID req) then Inl (RuntimeRequired ''parent_job_id'')
      else if blank (cq_StageJobID req) then Inl (RuntimeRequired ''stage_job_id'')
      else Inr \<lparr>cs_Kind = kind, cs_ParentJobID = cq_ParentJobID req, cs_StageJobID = cq_StageJobID req,
        cs_StageIndex = cq_StageIndex req, cs_Step = cq_Step req, cs_ActivationFrame = None, cs_ActivationBytes = 0\<rparr>)"

definition PrefillStage :: "bool \<Rightarrow> 'b StageCommandRequest \<Rightarrow> runtime_error + StageCommandResult" where
  "PrefillStage ctx_over req = stageCommandResult ctx_over ''cdip.stage_prefill'' req"

definition CompleteStage :: "bool \<Rightarrow> 'b StageCommandRequest \<Rightarrow> runtime_error + StageCommandResult" where
  "CompleteStage ctx_over req = stageCommandResult ctx_over ''cdip.stage_complete'' req"

definition AbortStage :: "bool \<Rightarrow> 'b StageCommandRequest \<Rightarrow> runtime_error + StageCommandResult" where
  "AbortStage ctx_over req = stageCommandResult ctx_over ''cdip.stage_abort'' req"

definition activation_frame :: "'b StageCommandRequest \<Rightarrow> ActivationFrame" where
  "activation_frame req =
     (let encoding = TrimSpace (cq_ActivationEncoding req); dtype = TrimSpace (cq_ActivationDType req);
          size = int (length (cq_ActivationPayload req))
      in \<lparr>af_Header = \<lparr>ac_Envelope = NewEnvelope MessageActivationChunk, ac_ParentJobID = cq_ParentJobID req,
            ac_StageJobID = cq_StageJobID req, ac_Sequence = cq_Step req,
            ac_ContentType = ''application/vnd.cmesh.activation+binary'',
            ac_Encoding = (if encoding = [] then ''mock'' else encoding),
            ac_Shape = (if cq_ActivationShape req = [] then [1, 1, size] else cq_ActivationShape req),
            ac_DType = (if dtype = [] then ''u8'' else dtype), ac_PayloadBytes = word_of_int size,
            ac_Checksum = cq_ActivationChecksum req\<rparr>,
          af_Payload = cq_ActivationPayload req\<rparr>)"

definition request_stream :: "'b StageCommandRequest \<Rightarrow> StreamID" where
  "request_stream req = \<lparr>sid_ParentJobID = cq_ParentJobID req, sid_StageJobID = cq_StageJobID req\<rparr>"

definition DecodeStage :: "ctx \<Rightarrow> 'b StageCommandRequest \<Rightarrow> 'b \<Rightarrow> 'b \<times> (runtime_error, StageCommandResult) run" where
  "DecodeStage ctx req b =
     (case stageCommandResult (ctx_done ctx) ''cdip.stage_decode'' req of
        Inl e \<Rightarrow> (b, Err e)
      | Inr result \<Rightarrow>
        (case cq_ActivationTransport req of
           None \<Rightarrow> (b, Ok result)
         | Some T \<Rightarrow>
           if blank (cq_DownstreamNodeID req) then (b, Ok result)
           else if cq_ActivationPayload req = [] then (b, Err PayloadRequired)
           else let frame = activation_frame req
             in on_return RuntimeTransport (tr_OpenWriter T ctx (request_stream req) (cq_DownstreamNodeID req) b) (\<lambda>b1 _.
                  on_return RuntimeTransport (tr_Send T ctx (request_stream req) frame b1) (\<lambda>b2 _.
                    (b2, Ok (result\<lparr>cs_ActivationFrame := Some (af_Header frame),
                       cs_ActivationBytes := int (length (af_Payload frame))\<rparr>))))))"



end
