(* ===== verification/Coordinator.thy ===== *)
theory Coordinator
  imports StageRuntime
begin

section \<open>The CDIP coordinator (internal/manager/distributed.go, the CDIP handlers of server.go)\<close>

text \<open>
  The operations that drive the stage jobs of a distributed generation from one boundary to the next. They read and write the store
  through its methods, so their state is that of the manager; each call of \<open>Jobs()\<close> lists the jobs in an order of its own
  (\<open>ords\<close>), and each update reads the clock (\<open>clock\<close>, counted from the first update of the operation). The activation transport is
  the interface record of \<open>Transport\<close>. An operation is one step here: other requests are not interleaved with it.
\<close>

datatype coordinator_error =
    ParentNotFound
  | ParentTerminal
  | NoStageGraph
  | StageInputInvalid id
  | StageBelongsTo id string id
  | InvalidMessage MessageType id cdip_error
  | StageNotIn id StageState StageState
  | StageUpdateFailed StageState id
  | BusError transport_error
  | StageDecodeError runtime_error
  | RelayMismatch id
  | ResultNotEncodable
  | ParentCompletionFailed

record CDIPMockRunResult =
  mk_ParentJob :: Job
  mk_StageJobs :: "Job list"
  mk_Output :: string

record CDIPPrepareResult =
  pp_ParentJob :: Job
  pp_StageJobs :: "Job list"
  pp_Messages :: "StagePrepare list"

record CDIPCommandResult =
  cm_ParentJob :: Job
  cm_StageJobs :: "Job list"
  cm_Messages :: "StageCommand list"
  cm_ActivationFrames :: "ActivationChunk list"

record CDIPAdvanceResult =
  ad_ParentJob :: Job
  ad_StageJobs :: "Job list"
  ad_Action :: string
  ad_Waiting :: bool
  ad_Reason :: string
  ad_PrepareMessages :: "StagePrepare list"
  ad_Messages :: "StageCommand list"
  ad_ActivationFrames :: "ActivationChunk list"

type_synonym orders = "nat \<Rightarrow> id list"
type_synonym clock = "nat \<Rightarrow> time"

abbreviation after :: "nat \<Rightarrow> (nat \<Rightarrow> 'a) \<Rightarrow> nat \<Rightarrow> 'a" where
  "after n f \<equiv> \<lambda>k. f (n + k)"

subsection \<open>The stage graph\<close>

definition stage_of_parent :: "string \<Rightarrow> Job \<Rightarrow> bool" where
  "stage_of_parent parentJobID job \<longleftrightarrow> j_Type job = JobGenerateStage \<and> j_CDIPParentJobID job = parentJobID"

definition stage_job_less :: "Job \<Rightarrow> Job \<Rightarrow> bool" where
  "stage_job_less a b =
     (if j_CDIPStageIndex a \<noteq> j_CDIPStageIndex b then j_CDIPStageIndex a < j_CDIPStageIndex b
      else j_CreatedAt a < j_CreatedAt b)"

definition cdipStageJobsForParent :: "Job list \<Rightarrow> string \<Rightarrow> Job list" where
  "cdipStageJobsForParent js parentJobID = go_sort stage_job_less (filter (stage_of_parent parentJobID) js)"

text \<open>The checks that every coordinator operation starts with.\<close>

definition stage_graph :: "id list \<Rightarrow> id \<Rightarrow> State \<Rightarrow> coordinator_error + Job \<times> Job list" where
  "stage_graph ord parentJobID s =
     (case Job_lookup parentJobID s of
        None \<Rightarrow> Inl ParentNotFound
      | Some parent \<Rightarrow>
        if j_Type parent \<noteq> JobGenerateDistributed then Inl ParentNotFound
        else if j_Status parent = StatusSucceeded \<or> j_Status parent = StatusFailed \<or> j_Status parent = StatusCanceled
          then Inl ParentTerminal
        else let stages = cdipStageJobsForParent (Jobs ord s) (j_ID parent)
          in if length stages < 2 then Inl NoStageGraph else Inr (parent, stages))"

fun update_stages :: "clock \<Rightarrow> StageState \<Rightarrow> string \<Rightarrow> Job list \<Rightarrow> State \<Rightarrow> State \<times> coordinator_error option" where
  "update_stages clock nxt detail [] s = (s, None)"
| "update_stages clock nxt detail (stage # stages) s =
     (case UpdateCDIPStageState (clock 0) (j_ID stage) nxt detail s of
        (s', None) \<Rightarrow> (s', Some (StageUpdateFailed nxt (j_ID stage)))
      | (s', Some _) \<Rightarrow> update_stages (after 1 clock) nxt detail stages s')"

subsection \<open>Prepare\<close>

definition stage_prepare :: "Job \<Rightarrow> Job \<Rightarrow> DistributedStageJobInput \<Rightarrow> StagePrepare" where
  "stage_prepare parent stageJob input =
     \<lparr>sp_Envelope = NewEnvelope MessageStagePrepare, sp_ParentJobID = j_ID parent, sp_StageJobID = j_ID stageJob,
      sp_ModelID = sji_ModelID input, sp_Stage = sh_Stage (sji_Shard input), sp_UpstreamNodeID = sji_UpstreamNodeID input,
      sp_DownstreamNodeID = sji_DownstreamNodeID input\<rparr>"

fun prepare_messages :: "Job \<Rightarrow> Job list \<Rightarrow> coordinator_error + StagePrepare list" where
  "prepare_messages parent [] = Inr []"
| "prepare_messages parent (stageJob # stages) =
     (case decode_DistributedStageJobInput (j_Input stageJob) of
        None \<Rightarrow> Inl (StageInputInvalid (j_ID stageJob))
      | Some input \<Rightarrow>
        if sji_ParentJobID input \<noteq> j_ID parent
        then Inl (StageBelongsTo (j_ID stageJob) (sji_ParentJobID input) (j_ID parent))
        else (case StagePrepare_Validate (stage_prepare parent stageJob input) of
            Some e \<Rightarrow> Inl (InvalidMessage MessageStagePrepare (j_ID stageJob) e)
          | None \<Rightarrow> map_sum id ((#) (stage_prepare parent stageJob input)) (prepare_messages parent stages)))"

definition prepareCDIPDistributedJob :: "orders \<Rightarrow> clock \<Rightarrow> id \<Rightarrow> State \<Rightarrow> State \<times> (coordinator_error + CDIPPrepareResult)" where
  "prepareCDIPDistributedJob ords clock parentJobID s =
     (case stage_graph (ords 0) parentJobID s of
        Inl e \<Rightarrow> (s, Inl e)
      | Inr (parent, stages) \<Rightarrow>
        (case prepare_messages parent stages of
           Inl e \<Rightarrow> (s, Inl e)
         | Inr messages \<Rightarrow>
           (case update_stages clock StagePreparing ''coordinator sent stage.prepare'' stages s of
              (s', Some e) \<Rightarrow> (s', Inl e)
            | (s', None) \<Rightarrow> (s', Inr \<lparr>pp_ParentJob = parent,
                pp_StageJobs = cdipStageJobsForParent (Jobs (ords 1) s') (j_ID parent), pp_Messages = messages\<rparr>))))"

subsection \<open>Prefill, decode and complete\<close>

fun stages_in :: "StageState \<Rightarrow> Job list \<Rightarrow> coordinator_error option" where
  "stages_in state [] = None"
| "stages_in state (stageJob # stages) =
     (if j_CDIPState stageJob \<noteq> state then Some (StageNotIn (j_ID stageJob) (j_CDIPState stageJob) state)
      else stages_in state stages)"

definition stage_command :: "MessageType \<Rightarrow> Job \<Rightarrow> u64 \<Rightarrow> Job \<Rightarrow> StageCommand" where
  "stage_command t parent step stageJob =
     \<lparr>sc_Envelope = NewEnvelope t, sc_ParentJobID = j_ID parent, sc_StageJobID = j_ID stageJob,
      sc_StageIndex = j_CDIPStageIndex stageJob, sc_Step = step\<rparr>"

fun command_messages :: "MessageType \<Rightarrow> Job \<Rightarrow> u64 \<Rightarrow> Job list \<Rightarrow> coordinator_error + StageCommand list" where
  "command_messages t parent step [] = Inr []"
| "command_messages t parent step (stageJob # stages) =
     (case StageCommand_Validate (stage_command t parent step stageJob) t of
        Some e \<Rightarrow> Inl (InvalidMessage t (j_ID stageJob) e)
      | None \<Rightarrow> map_sum id ((#) (stage_command t parent step stageJob)) (command_messages t parent step stages))"

text \<open>What prefill, decode and complete have in common: the graph, the state of its stages, the messages.\<close>

definition command_graph ::
  "id list \<Rightarrow> StageState \<Rightarrow> MessageType \<Rightarrow> u64 \<Rightarrow> id \<Rightarrow> State \<Rightarrow> coordinator_error + Job \<times> Job list \<times> StageCommand list" where
  "command_graph ord state t step parentJobID s =
     (case stage_graph ord parentJobID s of
        Inl e \<Rightarrow> Inl e
      | Inr (parent, stages) \<Rightarrow>
        (case stages_in state stages of
           Some e \<Rightarrow> Inl e
         | None \<Rightarrow> map_sum id (\<lambda>messages. (parent, stages, messages)) (command_messages t parent step stages)))"

definition command_result :: "id list \<Rightarrow> State \<Rightarrow> Job \<Rightarrow> StageCommand list \<Rightarrow> ActivationChunk list \<Rightarrow> CDIPCommandResult" where
  "command_result ord s parent messages frames =
     \<lparr>cm_ParentJob = parent, cm_StageJobs = cdipStageJobsForParent (Jobs ord s) (j_ID parent), cm_Messages = messages,
      cm_ActivationFrames = frames\<rparr>"

definition startCDIPPrefill :: "orders \<Rightarrow> clock \<Rightarrow> id \<Rightarrow> State \<Rightarrow> State \<times> (coordinator_error + CDIPCommandResult)" where
  "startCDIPPrefill ords clock parentJobID s =
     (case command_graph (ords 0) StageReady MessageStagePrefill 0 parentJobID s of
        Inl e \<Rightarrow> (s, Inl e)
      | Inr (parent, stages, messages) \<Rightarrow>
        (case update_stages clock StagePrefill ''coordinator sent stage.prefill'' stages s of
           (s', Some e) \<Rightarrow> (s', Inl e)
         | (s', None) \<Rightarrow> (s', Inr (command_result (ords 1) s' parent messages []))))"

text \<open>The activation of stage \<open>i\<close>, and its way from the stage to the next one.\<close>

definition decode_request :: "'b ActivationTransport \<Rightarrow> Job \<Rightarrow> u64 \<Rightarrow> nat \<Rightarrow> Job \<Rightarrow> Job \<Rightarrow> 'b StageCommandRequest" where
  "decode_request bus parent step i upstream downstream =
     \<lparr>cq_ParentJobID = j_ID parent, cq_StageJobID = j_ID upstream, cq_StageIndex = j_CDIPStageIndex upstream, cq_Step = step,
      cq_ActivationTransport = Some bus, cq_DownstreamNodeID = j_AssignedTo downstream,
      cq_ActivationPayload = [of_nat i, ucast step], cq_ActivationEncoding = ''mock'', cq_ActivationShape = [1, 1, 2],
      cq_ActivationDType = ''u8'',
      cq_ActivationChecksum = ''mock:'' @ show_u64 step @ '':'' @ show_int (int i) @ '':'' @ j_ID upstream @ '':'' @ j_ID downstream\<rparr>"

definition relay_stage ::
  "'b ActivationTransport \<Rightarrow> Job \<Rightarrow> u64 \<Rightarrow> nat \<Rightarrow> Job \<Rightarrow> Job \<Rightarrow> 'b \<Rightarrow> 'b \<times> (coordinator_error, ActivationChunk) run" where
  "relay_stage bus parent step i upstream downstream b =
     (let stream = \<lparr>sid_ParentJobID = j_ID parent, sid_StageJobID = j_ID upstream\<rparr>
      in on_return BusError (tr_OpenReader bus Background stream b) (\<lambda>b1 _.
        (case DecodeStage Background (decode_request bus parent step i upstream downstream) b1 of
           (b2, Err e) \<Rightarrow> (b2, Err (StageDecodeError e))
         | (b2, Hang) \<Rightarrow> (b2, Hang)
         | (b2, Crash) \<Rightarrow> (b2, Crash)
         | (b2, Ok result) \<Rightarrow>
           on_return BusError (tr_Receive bus Background stream b2) (\<lambda>b3 received.
             (b3, case ActivationFrame_Validate received of
                Some e \<Rightarrow> Err (BusError e)
              | None \<Rightarrow>
                (case cs_ActivationFrame result of
                   None \<Rightarrow> Err (RelayMismatch (j_ID upstream))
                 | Some header \<Rightarrow>
                   if ac_Checksum (af_Header received) \<noteq> ac_Checksum header then Err (RelayMismatch (j_ID upstream))
                   else Ok (af_Header received)))))))"

fun relay_loop ::
  "'b ActivationTransport \<Rightarrow> Job \<Rightarrow> u64 \<Rightarrow> nat \<Rightarrow> ActivationChunk list \<Rightarrow> Job list \<Rightarrow> 'b
     \<Rightarrow> 'b \<times> (coordinator_error, ActivationChunk list) run" where
  "relay_loop bus parent step i frames (upstream # downstream # stages) b =
     (case relay_stage bus parent step i upstream downstream b of
        (b', Ok frame) \<Rightarrow> relay_loop bus parent step (Suc i) (frames @ [frame]) (downstream # stages) b'
      | (b', Err e) \<Rightarrow> (b', Err e)
      | (b', Hang) \<Rightarrow> (b', Hang)
      | (b', Crash) \<Rightarrow> (b', Crash))"
| "relay_loop bus parent step i frames _ b = (b, Ok frames)"

definition startCDIPDecode ::
  "orders \<Rightarrow> clock \<Rightarrow> 'b ActivationTransport \<Rightarrow> id \<Rightarrow> u64 \<Rightarrow> State \<times> 'b \<Rightarrow> (State \<times> 'b) \<times> (coordinator_error, CDIPCommandResult) run" where
  "startCDIPDecode ords clock bus parentJobID step0 sb =
     (let step = (if step0 = 0 then 1 else step0); (s, b) = sb
      in case command_graph (ords 0) StagePrefill MessageStageDecode step parentJobID s of
        Inl e \<Rightarrow> ((s, b), Err e)
      | Inr (parent, stages, messages) \<Rightarrow>
        (case relay_loop bus parent step 0 [] stages b of
           (b', Err e) \<Rightarrow> ((s, b'), Err e)
         | (b', Hang) \<Rightarrow> ((s, b'), Hang)
         | (b', Crash) \<Rightarrow> ((s, b'), Crash)
         | (b', Ok frames) \<Rightarrow>
           (case update_stages clock StageDecode ''coordinator sent stage.decode'' stages s of
              (s', Some e) \<Rightarrow> ((s', b'), Err e)
            | (s', None) \<Rightarrow> ((s', b'), Ok (command_result (ords 1) s' parent messages frames)))))"

definition distributed_result :: "Job \<Rightarrow> Job list \<Rightarrow> string \<Rightarrow> string option" where
  "distributed_result parent stages output =
     marshal_map [(''kind'', Some (JStr ''cdip.distributed_result'')), (''protocol'', Some (JStr Protocol)),
       (''version'', Some (JStr Version)), (''parent_job'', Some (JStr (j_ID parent))),
       (''stage_count'', Some (JNum (show_int (int (length stages))))), (''output'', Some (JStr output))]"

definition completeCDIPDistributedJob ::
  "orders \<Rightarrow> clock \<Rightarrow> id \<Rightarrow> string \<Rightarrow> State \<Rightarrow> State \<times> (coordinator_error + CDIPCommandResult)" where
  "completeCDIPDistributedJob ords clock parentJobID output0 s =
     (case command_graph (ords 0) StageDecode MessageStageComplete 0 parentJobID s of
        Inl e \<Rightarrow> (s, Inl e)
      | Inr (parent, stages, messages) \<Rightarrow>
        (case update_stages clock StageCompleted ''coordinator sent stage.complete'' stages s of
           (s1, Some e) \<Rightarrow> (s1, Inl e)
         | (s1, None) \<Rightarrow>
           let output = (if blank output0 then ''CDIP distributed inference completed'' else output0)
           in (case distributed_result parent stages output of
                 None \<Rightarrow> (s1, Inl ResultNotEncodable)
               | Some body \<Rightarrow>
                 (case CompleteCoordinatorJob (clock (length stages)) (j_ID parent) body [] s1 of
                    (s2, None) \<Rightarrow> (s2, Inl ParentCompletionFailed)
                  | (s2, Some parent') \<Rightarrow> (s2, Inr (command_result (ords 1) s2 parent' messages []))))))"

subsection \<open>One step of the coordinator\<close>

fun all_stages_loop :: "StageState \<Rightarrow> Job list \<Rightarrow> bool" where
  "all_stages_loop state [] = True"
| "all_stages_loop state (stage # stages) =
     (if (if j_CDIPState stage = StageUnset then StagePlanned else j_CDIPState stage) \<noteq> state then False
      else all_stages_loop state stages)"

definition allCDIPStagesIn :: "Job list \<Rightarrow> StageState \<Rightarrow> bool" where
  "allCDIPStagesIn stages state = (if stages = [] then False else all_stages_loop state stages)"

definition advance_command :: "string \<Rightarrow> CDIPCommandResult \<Rightarrow> CDIPAdvanceResult" where
  "advance_command action r =
     \<lparr>ad_ParentJob = cm_ParentJob r, ad_StageJobs = cm_StageJobs r, ad_Action = action, ad_Waiting = False, ad_Reason = [],
      ad_PrepareMessages = [], ad_Messages = cm_Messages r, ad_ActivationFrames = cm_ActivationFrames r\<rparr>"

definition advance_prepare :: "CDIPPrepareResult \<Rightarrow> CDIPAdvanceResult" where
  "advance_prepare r =
     \<lparr>ad_ParentJob = pp_ParentJob r, ad_StageJobs = pp_StageJobs r, ad_Action = ''prepare'', ad_Waiting = False, ad_Reason = [],
      ad_PrepareMessages = pp_Messages r, ad_Messages = [], ad_ActivationFrames = []\<rparr>"

definition advance_wait :: "Job \<Rightarrow> Job list \<Rightarrow> CDIPAdvanceResult" where
  "advance_wait parent stages =
     \<lparr>ad_ParentJob = parent, ad_StageJobs = stages, ad_Action = ''wait'', ad_Waiting = True,
      ad_Reason = ''waiting for stages to reach the same coordinator boundary'', ad_PrepareMessages = [], ad_Messages = [],
      ad_ActivationFrames = []\<rparr>"

text \<open>The result of an operation that cannot block, with the transport beside its state.\<close>

definition with_bus :: "'b \<Rightarrow> ('r \<Rightarrow> 'a) \<Rightarrow> State \<times> (coordinator_error + 'r) \<Rightarrow> (State \<times> 'b) \<times> (coordinator_error, 'a) run" where
  "with_bus b f r = (case r of (s, Inl e) \<Rightarrow> ((s, b), Err e) | (s, Inr a) \<Rightarrow> ((s, b), Ok (f a)))"

fun map_run :: "('a \<Rightarrow> 'c) \<Rightarrow> ('e, 'a) run \<Rightarrow> ('e, 'c) run" where
  "map_run f (Ok a) = Ok (f a)"
| "map_run f (Err e) = Err e"
| "map_run f Hang = Hang"
| "map_run f Crash = Crash"

definition advanceCDIPDistributedJob ::
  "orders \<Rightarrow> clock \<Rightarrow> 'b ActivationTransport \<Rightarrow> id \<Rightarrow> u64 \<Rightarrow> string \<Rightarrow> State \<times> 'b
     \<Rightarrow> (State \<times> 'b) \<times> (coordinator_error, CDIPAdvanceResult) run" where
  "advanceCDIPDistributedJob ords clock bus parentJobID step output sb =
     (let (s, b) = sb
      in case stage_graph (ords 0) parentJobID s of
        Inl e \<Rightarrow> ((s, b), Err e)
      | Inr (parent, stages) \<Rightarrow>
        if allCDIPStagesIn stages StagePlanned
        then with_bus b advance_prepare (prepareCDIPDistributedJob (after 1 ords) clock (j_ID parent) s)
        else if allCDIPStagesIn stages StageReady
        then with_bus b (advance_command ''prefill'') (startCDIPPrefill (after 1 ords) clock (j_ID parent) s)
        else if allCDIPStagesIn stages StagePrefill
        then map_prod id (map_run (advance_command ''decode'')) (startCDIPDecode (after 1 ords) clock bus (j_ID parent) step (s, b))
        else if allCDIPStagesIn stages StageDecode
        then with_bus b (advance_command ''complete'') (completeCDIPDistributedJob (after 1 ords) clock (j_ID parent) output s)
        else ((s, b), Ok (advance_wait parent stages)))"

subsection \<open>The mock coordinator and the background loop\<close>

fun mock_prepare :: "clock \<Rightarrow> Job list \<Rightarrow> State \<Rightarrow> State \<times> coordinator_error option" where
  "mock_prepare clock [] s = (s, None)"
| "mock_prepare clock (stage # stages) s =
     (case UpdateCDIPStageState (clock 0) (j_ID stage) StagePreparing ''mock coordinator preparing stage'' s of
        (s1, None) \<Rightarrow> (s1, Some (StageUpdateFailed StagePreparing (j_ID stage)))
      | (s1, Some _) \<Rightarrow>
        (case UpdateCDIPStageState (clock 1) (j_ID stage) StageReady ''mock coordinator stage ready'' s1 of
           (s2, None) \<Rightarrow> (s2, Some (StageUpdateFailed StageReady (j_ID stage)))
         | (s2, Some _) \<Rightarrow> mock_prepare (after 2 clock) stages s2))"

text \<open>One of its loops after another; a loop that fails ends the run.\<close>

definition and_then :: "State \<times> coordinator_error option \<Rightarrow> (State \<Rightarrow> State \<times> coordinator_error option) \<Rightarrow> State \<times> coordinator_error option" where
  "and_then r k = (case r of (s, Some e) \<Rightarrow> (s, Some e) | (s, None) \<Rightarrow> k s)"

definition runCDIPMockCoordinator :: "orders \<Rightarrow> clock \<Rightarrow> id \<Rightarrow> State \<Rightarrow> State \<times> (coordinator_error + CDIPMockRunResult)" where
  "runCDIPMockCoordinator ords clock parentJobID s =
     (case stage_graph (ords 0) parentJobID s of
        Inl e \<Rightarrow> (s, Inl e)
      | Inr (parent, stages) \<Rightarrow>
        let n = length stages
        in (case and_then (mock_prepare clock stages s) (\<lambda>s1.
                 and_then (update_stages (after (2 * n) clock) StagePrefill ''mock activation prefill'' stages s1) (\<lambda>s2.
                 and_then (update_stages (after (3 * n) clock) StageDecode ''mock activation decode'' stages s2) (\<lambda>s3.
                 update_stages (after (4 * n) clock) StageCompleted ''mock stage completed'' stages s3))) of
              (s4, Some e) \<Rightarrow> (s4, Inl e)
            | (s4, None) \<Rightarrow>
              (case CompleteCoordinatorJob (clock (5 * n)) (j_ID parent) ''CDIP mock distributed inference completed'' [] s4 of
                 (s5, None) \<Rightarrow> (s5, Inl ParentCompletionFailed)
               | (s5, Some parent') \<Rightarrow> (s5, Inr \<lparr>mk_ParentJob = parent',
                   mk_StageJobs = cdipStageJobsForParent (Jobs (ords 1) s5) (j_ID parent),
                   mk_Output = ''CDIP mock distributed inference completed''\<rparr>))))"

text \<open>
  The background loop advances every distributed job that is not terminal, with step 0 and no output, and drops the errors; a
  call that never returns ends the loop. Every call has its own orders and clock readings.
\<close>

fun advance_jobs_loop ::
  "'b ActivationTransport \<Rightarrow> (nat \<Rightarrow> orders \<times> clock) \<Rightarrow> Job list \<Rightarrow> State \<times> 'b \<Rightarrow> (State \<times> 'b) \<times> (coordinator_error, unit) run" where
  "advance_jobs_loop bus envs [] sb = (sb, Ok ())"
| "advance_jobs_loop bus envs (job # js) sb =
     (if j_Type job \<noteq> JobGenerateDistributed then advance_jobs_loop bus (after 1 envs) js sb
      else if j_Status job = StatusSucceeded \<or> j_Status job = StatusFailed \<or> j_Status job = StatusCanceled
        then advance_jobs_loop bus (after 1 envs) js sb
      else (case advanceCDIPDistributedJob (fst (envs 0)) (snd (envs 0)) bus (j_ID job) 0 [] sb of
          (sb', Hang) \<Rightarrow> (sb', Hang)
        | (sb', Crash) \<Rightarrow> (sb', Crash)
        | (sb', Ok _) \<Rightarrow> advance_jobs_loop bus (after 1 envs) js sb'
        | (sb', Err _) \<Rightarrow> advance_jobs_loop bus (after 1 envs) js sb'))"

definition advanceActiveCDIPJobs ::
  "'b ActivationTransport \<Rightarrow> id list \<Rightarrow> (nat \<Rightarrow> orders \<times> clock) \<Rightarrow> State \<times> 'b \<Rightarrow> (State \<times> 'b) \<times> (coordinator_error, unit) run" where
  "advanceActiveCDIPJobs bus ord envs sb = advance_jobs_loop bus envs (Jobs ord (fst sb)) sb"

subsection \<open>What the workers report\<close>

definition decode_stage_worker_result :: "string \<Rightarrow> string option" where
  "decode_stage_worker_result t = Unmarshal [(''kind'', dstr (\<lambda>s _. s))] [] t"

text \<open>The job, whether the call was about a stage, and whether the stage took the state.\<close>

definition handleCDIPStageComplete ::
  "time \<Rightarrow> CompleteRequest \<Rightarrow> id \<Rightarrow> State \<Rightarrow> State \<times> Job option \<times> bool" where
  "handleCDIPStageComplete now req jobID s =
     (case Job_lookup jobID s of
        None \<Rightarrow> (s, None, False)
      | Some job \<Rightarrow>
        if j_Type job \<noteq> JobGenerateStage \<or> j_AssignedTo job \<noteq> co_NodeID req then (s, None, False)
        else if \<not> blank (co_Error req) then
          (case UpdateCDIPStageState now jobID StageFailed (co_Error req) s of (s', r) \<Rightarrow> (s', r, True))
        else if decode_stage_worker_result (co_Result req) \<noteq> Some ''cdip.stage_ready'' then (s, None, False)
        else (case UpdateCDIPStageState now jobID StageReady ''worker reported cdip.stage_ready'' s of (s', r) \<Rightarrow> (s', r, True)))"

definition cdipStageAction :: "string \<Rightarrow> StageState option" where
  "cdipStageAction action =
     (if action = ''prepare'' then Some StagePreparing
      else if action = ''ready'' then Some StageReady
      else if action = ''prefill'' then Some StagePrefill
      else if action = ''decode'' then Some StageDecode
      else if action = ''complete'' then Some StageCompleted
      else if action = ''abort'' then Some StageAborted
      else if action = ''fail'' then Some StageFailed
      else None)"

definition validateCDIPActivationStream :: "id \<Rightarrow> id \<Rightarrow> State \<Rightarrow> Job option" where
  "validateCDIPActivationStream parentJobID stageJobID s =
     (case Job_lookup parentJobID s of
        None \<Rightarrow> None
      | Some parent \<Rightarrow>
        if j_Type parent \<noteq> JobGenerateDistributed then None
        else (case Job_lookup stageJobID s of
            None \<Rightarrow> None
          | Some stageJob \<Rightarrow>
            if j_Type stageJob \<noteq> JobGenerateStage \<or> j_CDIPParentJobID stageJob \<noteq> parentJobID then None else Some stageJob))"

definition cdipActivationAllowedNodes :: "Job \<Rightarrow> string list" where
  "cdipActivationAllowedNodes stageJob =
     (if blank (j_AssignedTo stageJob) then [] else [j_AssignedTo stageJob])
     @ (case decode_DistributedStageJobInput (j_Input stageJob) of
          None \<Rightarrow> []
        | Some input \<Rightarrow>
          (if blank (sji_DownstreamNodeID input) then [] else [sji_DownstreamNodeID input])
          @ (if blank (sji_UpstreamNodeID input) then [] else [sji_UpstreamNodeID input]))"

end
