(* ===== verification/Boundaries.thy ===== *)
theory Boundaries
  imports Coordinator Manager
begin

section \<open>The coordinator moves the stages together\<close>

text \<open>
  What the coordinator operations do to the stage jobs of a distributed generation: the graph that an operation reads, the effect of
  its update loop as one map update, and the two laws built on them, that a step is all or nothing and that
  a mock run or a well-behaved sequence of steps completes the generation.
\<close>

subsection \<open>The graph\<close>

interpretation stage_order: strict_weak_order stage_job_less
  by unfold_locales (auto simp: stage_job_less_def split: if_splits)

lemma in_Jobs:
  assumes "order_of ord (jobs s)"
  shows "j \<in> set (Jobs ord s) \<longleftrightarrow> (\<exists>i. mget (jobs s) i = Some j)"
  using order_of_mem [OF assms] by (auto simp: Jobs_def List.map_filter_def image_iff) force+

lemma Jobs_ids:
  assumes "order_of ord (jobs s)" and "job_ids_ok s"
  shows "map j_ID (Jobs ord s) = ord"
proof -
  have "map j_ID (List.map_filter (mget (jobs s)) is) = is" if "\<forall>i \<in> set is. mget (jobs s) i \<noteq> None" for "is"
    using that assms(2) by (induction "is") (auto simp: job_ids_ok_def)
  then show ?thesis using order_of_mem [OF assms(1)] by (simp add: Jobs_def)
qed

lemma stages_distinct:
  assumes "order_of ord (jobs s)" and "job_ids_ok s"
  shows "distinct (map j_ID (cdipStageJobsForParent (Jobs ord s) pid))"
proof -
  have "distinct (map j_ID (filter (stage_of_parent pid) (Jobs ord s)))"
    using Jobs_ids [OF assms] assms(1) by (intro distinct_map_filter) (simp add: order_of_def)
  moreover have "mset (map j_ID (cdipStageJobsForParent (Jobs ord s) pid)) = mset (map j_ID (filter (stage_of_parent pid) (Jobs ord s)))"
    unfolding mset_map by (simp add: cdipStageJobsForParent_def)
  ultimately show ?thesis by (metis mset_eq_imp_distinct_iff)
qed

lemma in_stages:
  "order_of ord (jobs s) \<Longrightarrow> j \<in> set (cdipStageJobsForParent (Jobs ord s) pid)
     \<longleftrightarrow> (\<exists>i. mget (jobs s) i = Some j) \<and> stage_of_parent pid j"
  by (auto simp: cdipStageJobsForParent_def in_Jobs)

text \<open>The stages of a parent in a state, as far as the coordinator relies on them.\<close>

definition graph :: "State \<Rightarrow> id \<Rightarrow> Job \<Rightarrow> Job list \<Rightarrow> bool" where
  "graph s pid parent stages \<longleftrightarrow> job_ids_ok s \<and> mget (jobs s) pid = Some parent \<and> j_Type parent = JobGenerateDistributed
     \<and> \<not> terminal (j_Status parent) \<and> 2 \<le> length stages \<and> distinct (map j_ID stages)
     \<and> (\<forall>j. j \<in> set stages \<longleftrightarrow> mget (jobs s) (j_ID j) = Some j \<and> stage_of_parent pid j)
     \<and> sorted_wrt (\<lambda>a b. \<not> stage_job_less b a) stages"

lemma stage_graph_Inr:
  assumes "job_ids_ok s" and "order_of ord (jobs s)" and "stage_graph ord pid s = Inr (parent, stages)"
  shows "graph s pid parent stages" and "j_ID parent = pid"
proof -
  have facts: "mget (jobs s) pid = Some parent" "j_Type parent = JobGenerateDistributed" "\<not> terminal (j_Status parent)"
    "stages = cdipStageJobsForParent (Jobs ord s) (j_ID parent)" "2 \<le> length stages"
    using assms(3) by (auto simp: stage_graph_def Job_lookup_def terminal_def Let_def split: option.splits if_splits)
  then show pid: "j_ID parent = pid" using assms(1) by (simp add: job_ids_ok_def)
  have "\<And>i j. mget (jobs s) i = Some j \<Longrightarrow> j_ID j = i" using assms(1) by (simp add: job_ids_ok_def)
  then have "j \<in> set stages \<longleftrightarrow> mget (jobs s) (j_ID j) = Some j \<and> stage_of_parent pid j" for j
    using in_stages [OF assms(2), of j pid] unfolding facts(4) pid by blast
  then show "graph s pid parent stages"
    using facts assms(1) stages_distinct [OF assms(2,1)] stage_order.go_sort_sorted
    by (simp add: graph_def cdipStageJobsForParent_def)
qed

text \<open>Stages with indices of their own have one order.\<close>

lemma sorted_by_index:
  assumes "sorted_wrt (\<lambda>a b. \<not> stage_job_less b a) js" and "distinct (map j_CDIPStageIndex js)"
  shows "sorted_wrt (<) (map j_CDIPStageIndex js)"
  using assms by (induction js) (force simp: stage_job_less_def not_less image_iff less_le)+

lemma sorted_stages_unique:
  assumes "sorted_wrt (\<lambda>a b. \<not> stage_job_less b a) js" and "sorted_wrt (\<lambda>a b. \<not> stage_job_less b a) ks"
    and "set js = set ks" and "distinct (map j_CDIPStageIndex ks)" and "distinct js"
  shows "js = ks"
proof -
  have inj: "inj_on j_CDIPStageIndex (set js \<union> set ks)" using assms(3,4) by (simp add: distinct_map)
  then have "distinct (map j_CDIPStageIndex js)" using assms(3,5) by (simp add: distinct_map)
  with sorted_by_index assms(1,2,4) have "map j_CDIPStageIndex js = map j_CDIPStageIndex ks"
    by (intro strict_sorted_equal) (simp_all add: assms(3))
  then show ?thesis using inj by (simp add: inj_on_map_eq_map)
qed

subsection \<open>The update loop\<close>

definition staged :: "StageState \<Rightarrow> string \<Rightarrow> time \<Rightarrow> Job \<Rightarrow> Job" where
  "staged nxt detail now j = stage_status nxt detail now
     (j\<lparr>j_CDIPState := nxt, j_Result := cdipStageResult nxt detail now, j_UpdatedAt := now\<rparr>)"

fun staged_list :: "clock \<Rightarrow> StageState \<Rightarrow> string \<Rightarrow> Job list \<Rightarrow> Job list" where
  "staged_list clock nxt detail [] = []"
| "staged_list clock nxt detail (j # js) = staged nxt detail (clock 0) j # staged_list (after 1 clock) nxt detail js"

definition put_jobs :: "Job list \<Rightarrow> State \<Rightarrow> State" where
  "put_jobs js s = fold (\<lambda>j. put_job (j_ID j) j) js s"

lemma staged_same: "same_request j (staged nxt detail now j)" "j_CDIPState (staged nxt detail now j) = nxt"
  "j_AssignedTo (staged nxt detail now j) = j_AssignedTo j"
  by (simp_all add: staged_def same_request_ops) (simp add: stage_status_def split: StageState.splits)

lemma staged_simps [simp]:
  "j_ID (staged nxt detail now j) = j_ID j" "j_Type (staged nxt detail now j) = j_Type j"
  "j_CDIPParentJobID (staged nxt detail now j) = j_CDIPParentJobID j"
  "j_CDIPStageIndex (staged nxt detail now j) = j_CDIPStageIndex j" "j_CreatedAt (staged nxt detail now j) = j_CreatedAt j"
  "j_Input (staged nxt detail now j) = j_Input j"
  using staged_same(1) [of j nxt detail now] by (simp_all add: same_request_def)

lemma staged_less: "stage_job_less (staged nxt detail now a) (staged nxt detail now' b) = stage_job_less a b"
  by (simp add: stage_job_less_def)

lemma map_staged_list:
  "(\<And>now j. f (staged nxt detail now j) = f j) \<Longrightarrow> map f (staged_list clock nxt detail js) = map f js"
  by (induction js arbitrary: clock) simp_all

lemma length_staged_list [simp]: "length (staged_list clock nxt detail js) = length js"
  by (induction js arbitrary: clock) simp_all

lemma nth_staged_list:
  "k < length js \<Longrightarrow> staged_list clock nxt detail js ! k = staged nxt detail (clock k) (js ! k)"
proof (induction js arbitrary: clock k)
  case (Cons j js)
  then show ?case by (cases k) simp_all
qed simp

lemma staged_list_state: "j \<in> set (staged_list clock nxt detail js) \<Longrightarrow> j_CDIPState j = nxt"
  by (induction js arbitrary: clock) (auto simp: staged_same)

lemma put_jobs_simps [simp]:
  "put_jobs [] s = s" "put_jobs (j # js) s = put_jobs js (put_job (j_ID j) j s)"
  by (simp_all add: put_jobs_def)

lemma put_jobs_other: "i \<notin> j_ID ` set js \<Longrightarrow> mget (jobs (put_jobs js s)) i = mget (jobs s) i"
  by (induction js arbitrary: s) auto

lemma put_jobs_get: "distinct (map j_ID js) \<Longrightarrow> j \<in> set js \<Longrightarrow> mget (jobs (put_jobs js s)) (j_ID j) = Some j"
proof (induction js arbitrary: s)
  case (Cons k js)
  then show ?case
    by (cases "j = k") (auto simp: put_jobs_other rev_image_eqI)
qed simp

lemma rest_put_jobs [simp]: "rest (put_jobs js s) = rest s"
  by (induction js arbitrary: s) simp_all

lemma ids_put_jobs: "job_ids_ok s \<Longrightarrow> job_ids_ok (put_jobs js s)"
  by (induction js arbitrary: s) simp_all

lemma UpdateCDIPStageState_moves:
  assumes "mget (jobs s) (j_ID j) = Some j" and "j_Type j = JobGenerateStage" and "CanTransition (current_stage j) nxt"
  shows "UpdateCDIPStageState now (j_ID j) nxt detail s = (put_job (j_ID j) (staged nxt detail now j) s, Some (staged nxt detail now j))"
  using assms staged_simps(1) [of nxt detail now j]
  by (simp add: UpdateCDIPStageState_def current_stage_def staged_def Let_def)

lemma update_stages_moves:
  assumes "distinct (map j_ID stages)"
    and "\<And>j. j \<in> set stages \<Longrightarrow> mget (jobs s) (j_ID j) = Some j \<and> j_Type j = JobGenerateStage \<and> CanTransition (current_stage j) nxt"
  shows "update_stages clock nxt detail stages s = (put_jobs (staged_list clock nxt detail stages) s, None)"
  using assms
proof (induction stages arbitrary: clock s)
  case (Cons j js)
  have "mget (jobs (put_job (j_ID j) (staged nxt detail (clock 0) j) s)) (j_ID k) = Some k" if "k \<in> set js" for k
    using Cons.prems that by (auto simp: image_iff)
  then show ?case
    using Cons.IH [of "put_job (j_ID j) (staged nxt detail (clock 0) j) s" "after 1 clock"] Cons.prems
      UpdateCDIPStageState_moves [of s j nxt "clock 0" detail] by simp
qed simp

lemma stage_not_parent [simp]: "JobGenerateStage \<noteq> JobGenerateDistributed" "JobGenerateDistributed \<noteq> JobGenerateStage"
  by (simp_all add: JobGenerateStage_def JobGenerateDistributed_def)

lemma graph_stage:
  "graph s pid parent stages \<Longrightarrow> j \<in> set stages \<Longrightarrow>
     mget (jobs s) (j_ID j) = Some j \<and> j_Type j = JobGenerateStage \<and> j_CDIPParentJobID j = pid \<and> j_ID j \<noteq> pid"
  by (auto simp: graph_def stage_of_parent_def)

lemma graph_parent: "graph s pid parent stages \<Longrightarrow> pid \<notin> j_ID ` set stages"
  by (auto dest: graph_stage)

lemma graph_update:
  assumes "graph s pid parent stages" and "\<forall>j \<in> set stages. current_stage j = frm" and "CanTransition frm nxt"
  shows "update_stages clock nxt detail stages s = (put_jobs (staged_list clock nxt detail stages) s, None)"
  using assms graph_stage [OF assms(1)] by (intro update_stages_moves) (auto simp: graph_def)

lemma graph_unique: "graph s pid parent stages \<Longrightarrow> graph s pid parent' stages' \<Longrightarrow> set stages' = set stages \<and> parent' = parent"
  by (auto simp: graph_def)

lemma staged_list_ids [simp]: "j_ID ` set (staged_list clock nxt detail js) = j_ID ` set js"
  by (metis list.set_map map_staged_list staged_simps(1))

lemma staged_list_from: "k \<in> set (staged_list clock nxt detail js) \<Longrightarrow> \<exists>j \<in> set js. \<exists>now. k = staged nxt detail now j"
  by (induction js arbitrary: clock) auto

text \<open>The stages may be updated in any order; the new graph lists them in theirs.\<close>

lemma graph_put:
  assumes "graph s pid parent stages" and "mset rs = mset stages" and "ks = staged_list clock nxt detail rs"
    and "mset zs = mset ks" and "sorted_wrt (\<lambda>a b. \<not> stage_job_less b a) zs"
  shows "graph (put_jobs ks s) pid parent zs"
proof -
  have rs: "set rs = set stages" "distinct (map j_ID rs)"
    using assms(1,2) mset_eq_imp_distinct_iff [of "map j_ID rs" "map j_ID stages"] by (auto simp: graph_def dest: mset_eq_setD)
  have ids: "map j_ID ks = map j_ID rs" "j_ID ` set ks = j_ID ` set stages" by (simp_all add: assms(3) map_staged_list rs(1))
  have zs: "set zs = set ks" "length zs = length stages"
    using mset_eq_setD [OF assms(4)] mset_eq_length [OF assms(4)] mset_eq_length [OF assms(2)] by (simp_all add: assms(3))
  have dist: "distinct (map j_ID zs)"
    using ids(1) rs(2) assms(4) by (metis mset_eq_imp_distinct_iff mset_map)
  have member: "j \<in> set ks \<Longrightarrow> mget (jobs (put_jobs ks s)) (j_ID j) = Some j" for j
    using rs(2) ids(1) by (intro put_jobs_get) simp_all
  have kind: "j \<in> set ks \<Longrightarrow> stage_of_parent pid j" for j
    using assms(1) rs(1) staged_list_from [of j] unfolding assms(3) graph_def by (fastforce simp: stage_of_parent_def)
  have only: "j \<in> set ks" if "mget (jobs (put_jobs ks s)) (j_ID j) = Some j" "stage_of_parent pid j" for j
  proof (rule ccontr)
    assume "j \<notin> set ks"
    then have "j_ID j \<notin> j_ID ` set ks" using member that(1) by force
    then show False using that assms(1) ids(2) put_jobs_other [of "j_ID j" ks s] by (auto simp: graph_def)
  qed
  have "mget (jobs (put_jobs ks s)) pid = Some parent"
    using graph_parent [OF assms(1)] assms(1) ids(2) by (simp add: put_jobs_other graph_def)
  then show ?thesis
    using assms(1,5) dist zs member kind only ids_put_jobs unfolding graph_def by (metis (no_types))
qed

lemma graph_put_jobs:
  assumes "graph s pid parent stages" and "ks = staged_list clock nxt detail stages"
  shows "graph (put_jobs ks s) pid parent ks"
proof (rule graph_put [OF assms(1) refl assms(2) refl])
  show "sorted_wrt (\<lambda>a b. \<not> stage_job_less b a) ks"
    using assms(1) by (simp add: graph_def sorted_wrt_iff_nth_less assms(2) nth_staged_list staged_less)
qed

lemma in_mkeys: "k \<in> set (mkeys m) \<longleftrightarrow> mget m k \<noteq> None"
  using mget_None_iff [of m k] by auto

lemma keys_put_jobs:
  assumes "\<And>j. j \<in> set js \<Longrightarrow> mget (jobs s) (j_ID j) \<noteq> None"
  shows "set (mkeys (jobs (put_jobs js s))) = set (mkeys (jobs s))"
  using assms
proof (induction js arbitrary: s)
  case (Cons j js)
  have "set (mkeys (jobs (put_job (j_ID j) j s))) = set (mkeys (jobs s))"
    using Cons.prems [of j] by (auto simp: in_mkeys)
  then show ?case using Cons.IH [of "put_job (j_ID j) j s"] Cons.prems by auto
qed simp

lemma order_put_jobs:
  assumes "graph s pid parent stages"
  shows "order_of ord (jobs (put_jobs (staged_list clock nxt detail stages) s)) \<longleftrightarrow> order_of ord (jobs s)"
proof -
  have "mget (jobs s) (j_ID j) \<noteq> None" if "j \<in> set (staged_list clock nxt detail stages)" for j
  proof -
    from that have "j_ID j \<in> j_ID ` set stages" using staged_list_ids by blast
    then show ?thesis using graph_stage [OF assms] by auto
  qed
  from keys_put_jobs [OF this] show ?thesis by (simp add: order_of_def)
qed

lemma graph_list:
  assumes "graph s pid parent stages" and "order_of ord (jobs s)" and "distinct (map j_CDIPStageIndex stages)"
  shows "cdipStageJobsForParent (Jobs ord s) pid = stages"
proof (rule sorted_stages_unique)
  show "sorted_wrt (\<lambda>a b. \<not> stage_job_less b a) (cdipStageJobsForParent (Jobs ord s) pid)"
    by (simp add: cdipStageJobsForParent_def stage_order.go_sort_sorted)
  have ids: "job_ids_ok s" using assms(1) by (simp add: graph_def)
  then have "(\<exists>i. mget (jobs s) i = Some j) \<longleftrightarrow> mget (jobs s) (j_ID j) = Some j" for j
    unfolding job_ids_ok_def by metis
  then show "set (cdipStageJobsForParent (Jobs ord s) pid) = set stages"
    using in_stages [OF assms(2)] assms(1) unfolding graph_def by blast
  show "distinct (cdipStageJobsForParent (Jobs ord s) pid)"
    using stages_distinct [OF assms(2) ids] by (simp add: distinct_map)
qed (use assms in \<open>simp_all add: graph_def\<close>)

lemma graph_stage_graph:
  assumes "graph s pid parent stages" and "order_of ord (jobs s)" and "distinct (map j_CDIPStageIndex stages)"
  shows "stage_graph ord pid s = Inr (parent, stages)"
proof -
  have "j_ID parent = pid" using assms(1) by (auto simp: graph_def job_ids_ok_def)
  then show ?thesis
    using assms(1) graph_list [OF assms] by (auto simp: stage_graph_def Job_lookup_def graph_def terminal_def Let_def)
qed

subsection \<open>All or nothing\<close>

fun next_boundary :: "StageState \<Rightarrow> StageState option" where
  "next_boundary StagePlanned = Some StagePreparing"
| "next_boundary StageReady = Some StagePrefill"
| "next_boundary StagePrefill = Some StageDecode"
| "next_boundary StageDecode = Some StageCompleted"
| "next_boundary _ = None"

lemma next_boundary_allowed: "next_boundary frm = Some nxt \<Longrightarrow> CanTransition frm nxt"
  by (cases frm) (auto simp: CanTransition.simps)

text \<open>What one step may do to the jobs: every stage of the parent moves over one boundary, and nothing else changes
  but the parent, which succeeds when its stages complete.\<close>

definition moved :: "State \<Rightarrow> State \<Rightarrow> id \<Rightarrow> Job \<Rightarrow> Job list \<Rightarrow> StageState \<Rightarrow> StageState \<Rightarrow> bool" where
  "moved s s' pid parent stages frm nxt \<longleftrightarrow> next_boundary frm = Some nxt
     \<and> (\<forall>j \<in> set stages. current_stage j = frm
          \<and> (\<exists>k. mget (jobs s') (j_ID j) = Some k \<and> j_CDIPState k = nxt \<and> same_request j k))
     \<and> (\<exists>p. mget (jobs s') pid = Some p \<and> (if nxt = StageCompleted then j_Status p = StatusSucceeded else p = parent))
     \<and> (\<forall>i. i \<notin> insert pid (j_ID ` set stages) \<longrightarrow> mget (jobs s') i = mget (jobs s) i) \<and> rest s' = rest s"

lemma staged_member:
  assumes "graph s pid parent stages" and "j \<in> set stages"
  shows "\<exists>now. mget (jobs (put_jobs (staged_list clock nxt detail stages) s)) (j_ID j) = Some (staged nxt detail now j)"
proof -
  from assms(2) obtain k where k: "k < length stages" "stages ! k = j" by (auto simp: in_set_conv_nth)
  then have "staged nxt detail (clock k) j \<in> set (staged_list clock nxt detail stages)"
    by (metis length_staged_list nth_mem nth_staged_list)
  moreover have "distinct (map j_ID (staged_list clock nxt detail stages))"
    using assms(1) by (simp add: graph_def map_staged_list)
  ultimately show ?thesis using put_jobs_get staged_simps(1) by metis
qed

lemma moved_update:
  assumes "graph s pid parent stages" and "\<forall>j \<in> set stages. current_stage j = frm" and "next_boundary frm = Some nxt"
    and "nxt \<noteq> StageCompleted"
  shows "moved s (put_jobs (staged_list clock nxt detail stages) s) pid parent stages frm nxt"
proof -
  have "mget (jobs (put_jobs (staged_list clock nxt detail stages) s)) pid = Some parent"
    using graph_parent [OF assms(1)] assms(1) by (simp add: put_jobs_other graph_def)
  moreover have "\<exists>k. mget (jobs (put_jobs (staged_list clock nxt detail stages) s)) (j_ID j) = Some k
      \<and> j_CDIPState k = nxt \<and> same_request j k" if "j \<in> set stages" for j
    using staged_member [OF assms(1) that, of clock nxt detail] staged_same by metis
  ultimately show ?thesis using assms(2-4) by (simp add: moved_def put_jobs_other)
qed

text \<open>The completed parent beside its completed stages.\<close>

lemma complete_parent:
  assumes "graph s pid parent stages"
  shows "\<exists>p. CompleteCoordinatorJob now pid body [] s = (put_job pid p s, Some p) \<and> j_Status p = StatusSucceeded \<and> j_Result p = TrimSpace body"
proof -
  have "j_ID parent = pid" using assms by (auto simp: graph_def job_ids_ok_def)
  then show ?thesis using assms by (simp add: CompleteCoordinatorJob_def graph_def Let_def)
qed

lemma moved_complete:
  assumes "graph s pid parent stages" and "\<forall>j \<in> set stages. current_stage j = StageDecode" and "j_Status p = StatusSucceeded"
  shows "moved s (put_job pid p (put_jobs (staged_list clock StageCompleted detail stages) s)) pid parent stages StageDecode StageCompleted"
proof -
  have "\<exists>k. mget (jobs (put_jobs (staged_list clock StageCompleted detail stages) s)) (j_ID j) = Some k
      \<and> j_CDIPState k = StageCompleted \<and> same_request j k" if "j \<in> set stages" for j
    using staged_member [OF assms(1) that, of clock StageCompleted detail] staged_same by metis
  then show ?thesis
    using assms(2,3) graph_stage [OF assms(1)] by (auto simp: moved_def put_jobs_other)
qed

lemma all_stages_loop_iff: "all_stages_loop state js \<longleftrightarrow> (\<forall>j \<in> set js. current_stage j = state)"
  by (induction js) (auto simp: current_stage_def)

lemma allCDIPStagesIn_iff: "allCDIPStagesIn js state \<longleftrightarrow> js \<noteq> [] \<and> (\<forall>j \<in> set js. current_stage j = state)"
  by (simp add: allCDIPStagesIn_def all_stages_loop_iff)

lemma map_sum_Inr [simp]: "map_sum id f x = Inr y \<longleftrightarrow> (\<exists>a. x = Inr a \<and> y = f a)"
  by (cases x) auto

lemma command_graph_Inr:
  "command_graph ord state t step pid s = Inr (parent, stages, messages) \<longleftrightarrow>
     stage_graph ord pid s = Inr (parent, stages) \<and> stages_in state stages = None
     \<and> command_messages t parent step stages = Inr messages"
  by (auto simp: command_graph_def split: sum.splits option.splits)

lemma distributed_result_Some: "\<exists>body. distributed_result parent stages output = Some body"
  by (simp add: distributed_result_def)

text \<open>Two listings of the jobs give the same graph, up to the order of stages that share an index.\<close>

lemma update_moves:
  assumes "graph s pid parent stages" and "stage_graph ord pid s = Inr (parent', stages')" and "order_of ord (jobs s)"
    and "\<forall>j \<in> set stages. current_stage j = frm" and "next_boundary frm = Some nxt"
  shows "update_stages clock nxt detail stages' s = (put_jobs (staged_list clock nxt detail stages') s, None)"
    and "graph s pid parent' stages'" and "set stages' = set stages" and "parent' = parent" and "j_ID parent' = pid"
proof -
  have ids: "job_ids_ok s" using assms(1) by (simp add: graph_def)
  show g: "graph s pid parent' stages'" "j_ID parent' = pid" using stage_graph_Inr [OF ids assms(3,2)] by blast+
  show eq: "set stages' = set stages" "parent' = parent" using graph_unique [OF assms(1) g(1)] by blast+
  show "update_stages clock nxt detail stages' s = (put_jobs (staged_list clock nxt detail stages') s, None)"
    using graph_update [OF g(1) _ next_boundary_allowed [OF assms(5)]] assms(4) eq(1) by simp
qed

lemma prepare_moves:
  assumes "graph s pid parent stages" and "\<And>k. order_of (ords k) (jobs s)" and "\<forall>j \<in> set stages. current_stage j = StagePlanned"
  shows "case prepareCDIPDistributedJob ords clock pid s of
      (s', Inl e) \<Rightarrow> s' = s | (s', Inr a) \<Rightarrow> moved s s' pid parent stages StagePlanned StagePreparing"
proof (cases "stage_graph (ords 0) pid s")
  case (Inr g)
  then obtain parent' stages' where g: "stage_graph (ords 0) pid s = Inr (parent', stages')" by (cases g) simp
  note moves = update_moves [OF assms(1) g assms(2,3), of StagePreparing]
  have "moved s (put_jobs (staged_list clock StagePreparing detail stages') s) pid parent stages StagePlanned StagePreparing" for detail
    using moved_update [OF moves(2), of StagePlanned StagePreparing clock detail] assms(3) moves(3,4) by (simp add: moved_def)
  then show ?thesis
    using moves(1) by (simp add: prepareCDIPDistributedJob_def g split: sum.splits)
qed (simp add: prepareCDIPDistributedJob_def)

lemma prefill_moves:
  assumes "graph s pid parent stages" and "\<And>k. order_of (ords k) (jobs s)" and "\<forall>j \<in> set stages. current_stage j = StageReady"
  shows "case startCDIPPrefill ords clock pid s of
      (s', Inl e) \<Rightarrow> s' = s | (s', Inr a) \<Rightarrow> moved s s' pid parent stages StageReady StagePrefill"
proof (cases "command_graph (ords 0) StageReady MessageStagePrefill 0 pid s")
  case (Inr g)
  then obtain parent' stages' messages where cg: "command_graph (ords 0) StageReady MessageStagePrefill 0 pid s = Inr (parent', stages', messages)"
    by (cases g) simp
  then have g: "stage_graph (ords 0) pid s = Inr (parent', stages')" by (simp add: command_graph_Inr)
  note moves = update_moves [OF assms(1) g assms(2,3), of StagePrefill]
  have "moved s (put_jobs (staged_list clock StagePrefill detail stages') s) pid parent stages StageReady StagePrefill" for detail
    using moved_update [OF moves(2), of StageReady StagePrefill clock detail] assms(3) moves(3,4) by (simp add: moved_def)
  then show ?thesis
    using moves(1) by (simp add: startCDIPPrefill_def cg)
qed (simp add: startCDIPPrefill_def)

lemma decode_moves:
  assumes "graph s pid parent stages" and "\<And>k. order_of (ords k) (jobs s)" and "\<forall>j \<in> set stages. current_stage j = StagePrefill"
  shows "case startCDIPDecode ords clock bus pid step (s, b) of
      ((s', b'), r) \<Rightarrow> if \<exists>a. r = Ok a then moved s s' pid parent stages StagePrefill StageDecode else s' = s"
proof -
  define st where "st = (if step = 0 then 1 else step)"
  show ?thesis
  proof (cases "command_graph (ords 0) StagePrefill MessageStageDecode st pid s")
    case (Inr g)
    then obtain parent' stages' messages where
      cg: "command_graph (ords 0) StagePrefill MessageStageDecode st pid s = Inr (parent', stages', messages)"
      by (cases g) simp
    then have g: "stage_graph (ords 0) pid s = Inr (parent', stages')" by (simp only: command_graph_Inr)
    note moves = update_moves [OF assms(1) g assms(2,3), of StageDecode]
    have "moved s (put_jobs (staged_list clock StageDecode detail stages') s) pid parent stages StagePrefill StageDecode" for detail
      using moved_update [OF moves(2), of StagePrefill StageDecode clock detail] assms(3) moves(3,4) by (simp add: moved_def)
    moreover obtain b' rr where "relay_loop bus parent' st 0 [] stages' b = (b', rr)" by fastforce
    ultimately show ?thesis
      using moves(1) by (cases rr) (simp_all add: startCDIPDecode_def cg flip: st_def)
  qed (simp add: startCDIPDecode_def flip: st_def)
qed

lemma complete_moves:
  assumes "graph s pid parent stages" and "\<And>k. order_of (ords k) (jobs s)" and "\<forall>j \<in> set stages. current_stage j = StageDecode"
  shows "case completeCDIPDistributedJob ords clock pid out s of
      (s', Inl e) \<Rightarrow> s' = s | (s', Inr a) \<Rightarrow> moved s s' pid parent stages StageDecode StageCompleted"
proof (cases "command_graph (ords 0) StageDecode MessageStageComplete 0 pid s")
  case (Inr g)
  then obtain parent' stages' messages where
    cg: "command_graph (ords 0) StageDecode MessageStageComplete 0 pid s = Inr (parent', stages', messages)"
    by (cases g) simp
  then have g: "stage_graph (ords 0) pid s = Inr (parent', stages')" by (simp add: command_graph_Inr)
  let ?ks = "staged_list clock StageCompleted ''coordinator sent stage.complete'' stages'"
  note moves = update_moves [OF assms(1) g assms(2,3), of StageCompleted]
  obtain body where body: "distributed_result parent' stages' (if blank out then ''CDIP distributed inference completed'' else out) = Some body"
    using distributed_result_Some by blast
  obtain p where p: "CompleteCoordinatorJob (clock (length stages')) pid body [] (put_jobs ?ks s) = (put_job pid p (put_jobs ?ks s), Some p)"
    "j_Status p = StatusSucceeded"
    using complete_parent [OF graph_put_jobs [OF moves(2) refl]] moves(4) by fastforce
  have "moved s (put_job pid p (put_jobs ?ks s)) pid parent stages StageDecode StageCompleted"
    using moved_complete [OF moves(2) _ p(2)] assms(3) moves(3,4) by (simp add: moved_def)
  then show ?thesis
    using moves(1,5) body p(1) by (simp add: completeCDIPDistributedJob_def Let_def cg)
qed (simp add: completeCDIPDistributedJob_def)

text \<open>
  C28. A step of the coordinator is all or nothing, whatever its transport does: either the store is as before, or the step
  succeeded, all stages of the parent were at the same boundary, each has moved over it, and no other job has changed but the
  parent, which has succeeded if that was the last boundary.
\<close>

theorem advance_all_or_nothing:
  assumes "reachable s" and "\<And>k. order_of (ords k) (jobs s)"
    and "advanceCDIPDistributedJob ords clock bus pid step output (s, b) = ((s', b'), r)"
  shows "s' = s \<or> (\<exists>parent stages frm nxt a. stage_graph (ords 0) pid s = Inr (parent, stages) \<and> r = Ok a
    \<and> moved s s' pid parent stages frm nxt)"
proof (cases "stage_graph (ords 0) pid s")
  case (Inl e)
  with assms(3) show ?thesis by (simp add: advanceCDIPDistributedJob_def)
next
  case (Inr pg)
  then obtain parent stages where g: "stage_graph (ords 0) pid s = Inr (parent, stages)" by (cases pg) simp
  have "job_ids_ok s" using reachable_wf [OF assms(1)] by (simp add: state_wf_ids)
  note graph = stage_graph_Inr [OF this assms(2) g]
  define later where "later = after 1 ords"
  have orders: "order_of (later k) (jobs s)" for k using assms(2) by (simp add: later_def)
  have ne: "stages \<noteq> []" using graph(1) by (auto simp: graph_def)
  have only: "allCDIPStagesIn stages X \<longleftrightarrow> X = frm" if "\<forall>j \<in> set stages. current_stage j = frm" for frm X
    using ne that by (cases stages) (auto simp: allCDIPStagesIn_iff)
  note run = assms(3) [unfolded advanceCDIPDistributedJob_def, folded later_def]
  consider (same) frm where "\<forall>j \<in> set stages. current_stage j = frm" "frm \<in> {StagePlanned, StageReady, StagePrefill, StageDecode}"
    | (mixed) "\<forall>frm \<in> {StagePlanned, StageReady, StagePrefill, StageDecode}. \<not> allCDIPStagesIn stages frm"
    using ne by (auto simp: allCDIPStagesIn_iff)
  then show ?thesis
  proof cases
    case same
    note [simp] = only [OF same(1)]
    consider "frm = StagePlanned" | "frm = StageReady" | "frm = StagePrefill" | "frm = StageDecode" using same(2) by blast
    then show ?thesis
    proof cases
      case 1
      then show ?thesis
        using run g graph(2) prepare_moves [where ords = later and clock = clock, OF graph(1) orders] same(1)
        by (auto simp: with_bus_def split: prod.splits sum.splits)
    next
      case 2
      then show ?thesis
        using run g graph(2) prefill_moves [where ords = later and clock = clock, OF graph(1) orders] same(1)
        by (auto simp: with_bus_def split: prod.splits sum.splits)
    next
      case 3
      obtain s2 b2 rr where "startCDIPDecode later clock bus pid step (s, b) = ((s2, b2), rr)" by (metis prod.exhaust)
      then show ?thesis
        using 3 run g graph(2) decode_moves [where ords = later and clock = clock and bus = bus and step = step and b = b, OF graph(1) orders] same(1)
        by (cases rr) auto
    next
      case 4
      then show ?thesis
        using run g graph(2) complete_moves [where ords = later and clock = clock and out = "output", OF graph(1) orders] same(1)
        by (auto simp: with_bus_def split: prod.splits sum.splits)
    qed
  next
    case mixed
    then show ?thesis using run g by simp
  qed
qed

end
