(* ===== verification/Relay.thy ===== *)
theory Relay
  imports Boundaries
begin

section \<open>Decoding relays an activation over every boundary\<close>

text \<open>
  What the decode step does with the activation transport. Over any transport that keeps the contract of
  \<open>activation_bus\<close>, each stage but the last sends one frame and the coordinator receives exactly that frame; over the memory
  transport of the manager this is what happens unless a downstream stage has no worker, and then the call never returns.
\<close>

definition relayed :: "'b ActivationTransport \<Rightarrow> Job \<Rightarrow> u64 \<Rightarrow> nat \<Rightarrow> Job \<Rightarrow> Job \<Rightarrow> ActivationFrame" where
  "relayed T parent step i upstream downstream = activation_frame (decode_request T parent step i upstream downstream)"

text \<open>The stages of a decode: named, as the messages require.\<close>

definition named :: "Job \<Rightarrow> bool" where
  "named j \<longleftrightarrow> \<not> blank (j_ID j)"

lemma not_blank_consts: "\<not> blank ''application/vnd.cmesh.activation+binary''"
  by code_simp

lemma expect_chunk: "expect_type (NewEnvelope MessageActivationChunk) MessageActivationChunk = None"
  by simp

lemma relayed_valid:
  assumes "named parent" and "named upstream"
  shows "ActivationFrame_Validate (relayed T parent step i upstream downstream) = None"
  using assms
  by (simp add: ActivationFrame_Validate_def ActivationChunk_Validate_def relayed_def activation_frame_def decode_request_def
      named_def not_blank_consts expect_chunk Let_def)

lemma stream_valid: "named parent \<Longrightarrow> named upstream \<Longrightarrow>
   validateStreamID \<lparr>sid_ParentJobID = j_ID parent, sid_StageJobID = j_ID upstream\<rparr> = None"
  by (auto simp: validateStreamID_def named_def)

lemma relayed_stream [simp]:
  "ac_ParentJobID (af_Header (relayed T parent step i upstream downstream)) = j_ID parent"
  "ac_StageJobID (af_Header (relayed T parent step i upstream downstream)) = j_ID upstream"
  by (simp_all add: relayed_def activation_frame_def decode_request_def Let_def)

lemma stageCommandResult_named:
  assumes "named parent" and "named upstream"
  shows "\<exists>result. stageCommandResult False kind (decode_request T parent step i upstream downstream) = Inr result
    \<and> cs_ActivationFrame result = None"
  using assms by (auto simp: stageCommandResult_def decode_request_def named_def)

lemma decode_request_fields [simp]:
  "cq_ActivationTransport (decode_request T parent step i upstream downstream) = Some T"
  "cq_DownstreamNodeID (decode_request T parent step i upstream downstream) = j_AssignedTo downstream"
  "cq_ActivationPayload (decode_request T parent step i upstream downstream) \<noteq> []"
  "request_stream (decode_request T parent step i upstream downstream) = \<lparr>sid_ParentJobID = j_ID parent, sid_StageJobID = j_ID upstream\<rparr>"
  by (simp_all add: decode_request_def request_stream_def)

context activation_bus
begin

lemma relay_stage_returns:
  assumes "named parent" and "named upstream" and "\<not> blank (j_AssignedTo downstream)"
    and "idle b \<lparr>sid_ParentJobID = j_ID parent, sid_StageJobID = j_ID upstream\<rparr>"
  shows "\<exists>b'. relay_stage T parent step i upstream downstream b = (b', Ok (af_Header (relayed T parent step i upstream downstream)))
    \<and> (\<forall>r. idle b r \<longrightarrow> idle b' r)"
proof -
  let ?s = "\<lparr>sid_ParentJobID = j_ID parent, sid_StageJobID = j_ID upstream\<rparr>"
  let ?f = "relayed T parent step i upstream downstream"
  note valid = stream_valid [OF assms(1,2)] relayed_valid [OF assms(1,2), of T step i downstream]
  obtain b0 where b0: "tr_OpenReader T Background ?s b = (b0, Returns ())" "\<forall>r. idle b r \<longrightarrow> idle b0 r"
    using open_reader [OF valid(1) assms(4)] by blast
  then have "idle b0 ?s" using assms(4) by blast
  from relay [OF valid(1) this valid(2)] obtain b1 b2 b3 where bus:
    "tr_OpenWriter T Background ?s (j_AssignedTo downstream) b0 = (b1, Returns ())"
    "tr_Send T Background ?s ?f b1 = (b2, Returns ())" "tr_Receive T Background ?s b2 = (b3, Returns ?f)"
    "\<forall>r. idle b0 r \<longrightarrow> idle b3 r" by fastforce
  obtain result where result: "stageCommandResult False ''cdip.stage_decode'' (decode_request T parent step i upstream downstream) = Inr result"
    using stageCommandResult_named [OF assms(1,2)] by blast
  have "DecodeStage Background (decode_request T parent step i upstream downstream) b0 =
      (b2, Ok (result\<lparr>cs_ActivationFrame := Some (af_Header ?f), cs_ActivationBytes := int (length (af_Payload ?f))\<rparr>))"
    using result bus(1,2) assms(3) by (simp add: DecodeStage_def Background_def on_return_def relayed_def Let_def)
  then have "relay_stage T parent step i upstream downstream b = (b3, Ok (af_Header ?f))"
    using b0(1) bus(3) valid(2) by (simp add: relay_stage_def on_return_def)
  then show ?thesis using b0(2) bus(4) by blast
qed

lemma relay_loop_returns:
  assumes "named parent" and "list_all named stages" and "list_all (\<lambda>j. \<not> blank (j_AssignedTo j)) (tl stages)"
    and "\<And>j. j \<in> set stages \<Longrightarrow> idle b \<lparr>sid_ParentJobID = j_ID parent, sid_StageJobID = j_ID j\<rparr>"
  shows "\<exists>b'. relay_loop T parent step i frames stages b =
      (b', Ok (frames @ map (\<lambda>k. af_Header (relayed T parent step (i + k) (stages ! k) (stages ! Suc k))) [0..<length stages - 1]))
    \<and> (\<forall>r. idle b r \<longrightarrow> idle b' r)"
  using assms
proof (induction stages arbitrary: i frames b)
  case (Cons upstream js)
  show ?case
  proof (cases js)
    case Nil
    then show ?thesis by auto
  next
    case (Cons downstream stages)
    let ?f = "af_Header (relayed T parent step i upstream downstream)"
    obtain b1 where b1: "relay_stage T parent step i upstream downstream b = (b1, Ok ?f)" "\<forall>r. idle b r \<longrightarrow> idle b1 r"
      using relay_stage_returns [of parent upstream downstream b step i] Cons.prems Cons by auto
    have "list_all (\<lambda>j. \<not> blank (j_AssignedTo j)) (tl js)" using Cons.prems(3) Cons by simp
    then obtain b2 where b2: "relay_loop T parent step (Suc i) (frames @ [?f]) js b1 = (b2, Ok ((frames @ [?f])
        @ map (\<lambda>k. af_Header (relayed T parent step (Suc i + k) (js ! k) (js ! Suc k))) [0..<length js - 1]))"
      "\<forall>r. idle b1 r \<longrightarrow> idle b2 r"
      using Cons.IH [of b1 "Suc i" "frames @ [?f]"] Cons.prems b1(2) by auto
    have "[0..<length (upstream # js) - 1] = 0 # map Suc [0..<length js - 1]"
      using Cons by (simp add: map_Suc_upt upt_conv_Cons del: upt_Suc)
    then show ?thesis using b1 b2 Cons by (auto simp: comp_def)
  qed
qed auto

end

subsection \<open>The memory transport\<close>

lemma memory_relay_hangs:
  assumes "named parent" and "named upstream" and "blank (j_AssignedTo downstream)"
    and "memory_idle b \<lparr>sid_ParentJobID = j_ID parent, sid_StageJobID = j_ID upstream\<rparr>"
  shows "\<exists>b'. relay_stage memory_transport parent step i upstream downstream b = (b', Hang)"
proof -
  let ?s = "\<lparr>sid_ParentJobID = j_ID parent, sid_StageJobID = j_ID upstream\<rparr>"
  obtain b1 where b1: "open_stream Background ?s b = (b1, Returns ())" "mget (mt_streams b1) ?s = Some \<lparr>ch_frames = [], ch_closed = False\<rparr>"
    using memory_open_idle [OF stream_valid [OF assms(1,2)] assms(4)] by blast
  obtain result where "stageCommandResult False ''cdip.stage_decode'' (decode_request memory_transport parent step i upstream downstream) = Inr result"
    using stageCommandResult_named [OF assms(1,2)] by blast
  then have "DecodeStage Background (decode_request memory_transport parent step i upstream downstream) b1 = (b1, Ok result)"
    using assms(3) by (simp add: DecodeStage_def Background_def)
  moreover have "memory_Receive Background ?s b1 = (b1, Blocks)"
    using b1(2) by (simp add: memory_Receive_def Background_def)
  ultimately show ?thesis
    using b1(1) by (simp add: relay_stage_def on_return_def memory_transport_def memory_OpenReader_def)
qed

lemma memory_relay_loop_hangs:
  assumes "named parent" and "list_all named stages" and "\<not> list_all (\<lambda>j. \<not> blank (j_AssignedTo j)) (tl stages)"
    and "\<And>j. j \<in> set stages \<Longrightarrow> memory_idle b \<lparr>sid_ParentJobID = j_ID parent, sid_StageJobID = j_ID j\<rparr>"
  shows "\<exists>b'. relay_loop memory_transport parent step i frames stages b = (b', Hang)"
  using assms
proof (induction stages arbitrary: i frames b)
  case (Cons upstream js)
  show ?case
  proof (cases js)
    case Nil
    with Cons.prems(3) show ?thesis by simp
  next
    case (Cons downstream stages)
    show ?thesis
    proof (cases "blank (j_AssignedTo downstream)")
      case True
      then show ?thesis
        using memory_relay_hangs [of parent upstream downstream b step i] Cons.prems Cons by auto
    next
      case False
      let ?f = "af_Header (relayed memory_transport parent step i upstream downstream)"
      obtain b1 where b1: "relay_stage memory_transport parent step i upstream downstream b = (b1, Ok ?f)" "\<forall>r. memory_idle b r \<longrightarrow> memory_idle b1 r"
        using memory_bus.relay_stage_returns [of parent upstream downstream b step i] Cons.prems Cons False by auto
      then show ?thesis
        using Cons.IH [of b1 "Suc i" "frames @ [?f]"] Cons.prems Cons False by auto
    qed
  qed
qed auto

subsection \<open>The decode step\<close>

lemma stages_in_None: "stages_in state js = None \<longleftrightarrow> list_all (\<lambda>j. j_CDIPState j = state) js"
  by (induction js) auto

lemma expect_known: "KnownMessageType t \<Longrightarrow> expect_type (NewEnvelope t) t = None"
  by simp

lemma command_messages_ok:
  assumes "stage_command_type t" and "named parent" and "list_all (\<lambda>j. named j \<and> 0 \<le> j_CDIPStageIndex j) js"
  shows "command_messages t parent step js = Inr (map (stage_command t parent step) js)"
proof -
  have known: "KnownMessageType t" using assms(1) by (cases t) auto
  have "StageCommand_Validate (stage_command t parent step j) t = None" if "named j" "0 \<le> j_CDIPStageIndex j" for j
    using assms(1,2) that expect_known [OF known] by (simp add: StageCommand_Validate_def stage_command_def named_def)
  then show ?thesis using assms(3) by (induction js) simp_all
qed

lemma command_graph_ok:
  assumes "stage_graph ord pid s = Inr (parent, stages)" and "stage_command_type t" and "named parent"
    and "list_all (\<lambda>j. j_CDIPState j = state \<and> named j \<and> 0 \<le> j_CDIPStageIndex j) stages"
  shows "command_graph ord state t step pid s = Inr (parent, stages, map (stage_command t parent step) stages)"
proof -
  have "list_all (\<lambda>j. j_CDIPState j = state) stages" "list_all (\<lambda>j. named j \<and> 0 \<le> j_CDIPStageIndex j) stages"
    using assms(4) by (simp_all add: list_all_iff)
  then show ?thesis using command_messages_ok [OF assms(2,3)] assms(1) by (simp add: command_graph_Inr stages_in_None)
qed

text \<open>
  C29. The decode step over the manager's memory transport: if every stage but the first has a worker, the step
  returns, one frame has crossed each boundary of the pipeline, in order, as the upstream stage sent it, every stage has moved to
  decode and the streams are empty again; if some stage has none, the call never returns.
\<close>

theorem decode_relays_every_boundary:
  assumes "reachable s" and "\<And>k. order_of (ords k) (jobs s)" and "stage_graph (ords 0) pid s = Inr (parent, stages)"
    and "list_all (\<lambda>j. j_CDIPState j = StagePrefill \<and> named j \<and> 0 \<le> j_CDIPStageIndex j) stages" and "named parent"
    and "\<And>j. j \<in> set stages \<Longrightarrow> memory_idle b \<lparr>sid_ParentJobID = pid, sid_StageJobID = j_ID j\<rparr>"
  shows "if list_all (\<lambda>j. \<not> blank (j_AssignedTo j)) (tl stages)
    then \<exists>s' b' a. startCDIPDecode ords clock memory_transport pid step (s, b) = ((s', b'), Ok a)
      \<and> cm_ActivationFrames a = map (\<lambda>k. af_Header (relayed memory_transport parent (if step = 0 then 1 else step) k
            (stages ! k) (stages ! Suc k))) [0..<length stages - 1]
      \<and> moved s s' pid parent stages StagePrefill StageDecode \<and> (\<forall>r. memory_idle b r \<longrightarrow> memory_idle b' r)
    else \<exists>b'. startCDIPDecode ords clock memory_transport pid step (s, b) = ((s, b'), Hang)"
proof -
  define st where "st = (if step = 0 then 1 else step)"
  have "job_ids_ok s" using reachable_wf [OF assms(1)] by (simp add: state_wf_ids)
  note graph = stage_graph_Inr [OF this assms(2,3)]
  have cg: "command_graph (ords 0) StagePrefill MessageStageDecode st pid s = Inr (parent, stages, map (stage_command MessageStageDecode parent st) stages)"
    by (rule command_graph_ok [OF assms(3) _ assms(5,4)]) simp
  have all: "list_all named stages" "\<forall>j \<in> set stages. current_stage j = StagePrefill"
    using assms(4) by (auto simp: list_all_iff current_stage_def)
  note idle = assms(6) [folded graph(2)]
  note moves = decode_moves [where ords = ords and clock = clock and bus = memory_transport and step = step and b = b, OF graph(1) assms(2) all(2)]
  show ?thesis
  proof (cases "list_all (\<lambda>j. \<not> blank (j_AssignedTo j)) (tl stages)")
    case True
    from memory_bus.relay_loop_returns [OF assms(5) all(1) True idle, of st 0 "[]"]
    obtain b' where b': "relay_loop memory_transport parent st 0 [] stages b =
        (b', Ok (map (\<lambda>k. af_Header (relayed memory_transport parent st k (stages ! k) (stages ! Suc k))) [0..<length stages - 1]))"
      "\<forall>r. memory_idle b r \<longrightarrow> memory_idle b' r" by auto
    have "update_stages clock StageDecode detail stages s = (put_jobs (staged_list clock StageDecode detail stages) s, None)" for detail
      by (rule update_moves(1) [OF graph(1) assms(3,2) all(2)]) simp
    then show ?thesis
      using True b' moves by (auto simp: startCDIPDecode_def cg command_result_def simp flip: st_def)
  next
    case False
    obtain b' where "relay_loop memory_transport parent st 0 [] stages b = (b', Hang)"
      using memory_relay_loop_hangs [OF assms(5) all(1) False idle] by blast
    then show ?thesis using False by (simp add: startCDIPDecode_def cg flip: st_def)
  qed
qed

end
