(* ===== verification/Drive.thy ===== *)
theory Drive
  imports Relay
begin

section \<open>A distributed generation runs to its end\<close>

text \<open>
  The composition of coordinator, stage runtime reports and transport: a generation whose workers report their stages ready is
  brought to its end by four coordinator steps, and the mock coordinator does the same alone. Also the reachable demonstration
  state that the witnesses of the coordinator's properties use.
\<close>

subsection \<open>Stages the coordinator can drive\<close>

definition drivable :: "Job \<Rightarrow> Job list \<Rightarrow> bool" where
  "drivable parent stages \<longleftrightarrow> named parent \<and> distinct (map j_CDIPStageIndex stages)
     \<and> list_all (\<lambda>j. named j \<and> 0 \<le> j_CDIPStageIndex j \<and> \<not> blank (j_AssignedTo j)) stages"

lemma list_all_staged:
  "(\<And>now j. P (staged nxt detail now j) = P j) \<Longrightarrow> list_all P (staged_list clock nxt detail js) = list_all P js"
  by (induction js arbitrary: clock) simp_all

lemma drivable_staged [simp]: "drivable parent (staged_list clock nxt detail js) \<longleftrightarrow> drivable parent js"
  by (simp add: drivable_def map_staged_list list_all_staged staged_same named_def)

lemma drivable_sort: "mset ks = mset js \<Longrightarrow> drivable parent js \<Longrightarrow> drivable parent ks"
  using mset_eq_imp_distinct_iff [of "map j_CDIPStageIndex ks" "map j_CDIPStageIndex js"]
  by (auto simp: drivable_def list_all_iff dest: mset_eq_setD)

text \<open>The workers of the stages report in some order; a report is accepted from the worker of the stage only.\<close>

fun workers_report :: "clock \<Rightarrow> (Job \<Rightarrow> string) \<Rightarrow> Job list \<Rightarrow> State \<Rightarrow> State" where
  "workers_report clock result [] s = s"
| "workers_report clock result (j # js) s =
     workers_report (after 1 clock) result js
       (fst (handleCDIPStageComplete (clock 0) \<lparr>co_NodeID = j_AssignedTo j, co_Result = result j, co_Error = []\<rparr> (j_ID j) s))"

lemma workers_report_moves:
  assumes "distinct (map j_ID js)"
    and "\<And>j. j \<in> set js \<Longrightarrow> mget (jobs s) (j_ID j) = Some j \<and> j_Type j = JobGenerateStage \<and> j_CDIPState j = StagePreparing"
    and "\<And>j. j \<in> set js \<Longrightarrow> decode_stage_worker_result (result j) = Some ''cdip.stage_ready''"
  shows "workers_report clock result js s = put_jobs (staged_list clock StageReady ''worker reported cdip.stage_ready'' js) s"
  using assms
proof (induction js arbitrary: clock s)
  case (Cons j js)
  let ?k = "staged StageReady ''worker reported cdip.stage_ready'' (clock 0) j"
  have "CanTransition (current_stage j) StageReady"
    using Cons.prems(2) [of j] by (simp add: current_stage_def CanTransition.simps)
  then have "handleCDIPStageComplete (clock 0) \<lparr>co_NodeID = j_AssignedTo j, co_Result = result j, co_Error = []\<rparr> (j_ID j) s
      = (put_job (j_ID j) ?k s, Some ?k, True)"
    using Cons.prems(2) [of j] Cons.prems(3) [of j] UpdateCDIPStageState_moves [of s j StageReady "clock 0"]
    by (simp add: handleCDIPStageComplete_def Job_lookup_def)
  moreover have "mget (jobs (put_job (j_ID j) ?k s)) (j_ID i) = Some i" if "i \<in> set js" for i
    using Cons.prems(1,2) that by (auto simp: image_iff)
  ultimately show ?case using Cons.IH [of "put_job (j_ID j) ?k s" "after 1 clock"] Cons.prems by simp
qed simp

text \<open>Any order of the reports leaves the same graph.\<close>

lemma graph_put_any:
  assumes "graph s pid parent stages" and "mset rs = mset stages" and "ks = staged_list clock nxt detail rs"
  shows "graph (put_jobs ks s) pid parent (go_sort stage_job_less ks)"
  by (rule graph_put [OF assms]) (simp_all add: stage_order.go_sort_sorted)

subsection \<open>Each step of the coordinator goes through\<close>

lemma orders_put:
  assumes "graph s pid parent stages" and "mset rs = mset stages" and "order_of ord (jobs s)"
  shows "order_of ord (jobs (put_jobs (staged_list clock nxt detail rs) s))"
proof -
  have "mget (jobs s) (j_ID j) \<noteq> None" if "j \<in> set (staged_list clock nxt detail rs)" for j
    using staged_list_from [OF that] graph_stage [OF assms(1)] mset_eq_setD [OF assms(2)] by auto
  from keys_put_jobs [OF this] show ?thesis using assms(3) by (simp add: order_of_def)
qed

lemma drivable_command:
  assumes "graph s pid parent stages" and "drivable parent stages" and "order_of ord (jobs s)" and "stage_command_type t"
    and "\<forall>j \<in> set stages. j_CDIPState j = frm"
  shows "command_graph ord frm t step pid s = Inr (parent, stages, map (stage_command t parent step) stages)"
proof -
  have "distinct (map j_CDIPStageIndex stages)" "named parent" "list_all (\<lambda>j. j_CDIPState j = frm \<and> named j \<and> 0 \<le> j_CDIPStageIndex j) stages"
    using assms(2,5) by (auto simp: drivable_def list_all_iff)
  then show ?thesis using command_graph_ok [OF graph_stage_graph [OF assms(1,3)] assms(4)] by blast
qed

text \<open>What a step leaves: the same graph one boundary further, its streams idle.\<close>

definition at_boundary :: "State \<Rightarrow> id \<Rightarrow> Job \<Rightarrow> Job list \<Rightarrow> StageState \<Rightarrow> bool" where
  "at_boundary s pid parent stages st \<longleftrightarrow> graph s pid parent stages \<and> drivable parent stages \<and> (\<forall>j \<in> set stages. current_stage j = st)"

lemma at_boundary_state: "at_boundary s pid parent stages st \<Longrightarrow> st \<noteq> StagePlanned \<Longrightarrow> j \<in> set stages \<Longrightarrow> j_CDIPState j = st"
  by (auto simp: at_boundary_def current_stage_def split: if_splits)

lemma at_boundary_all:
  assumes "at_boundary s pid parent stages st"
  shows "allCDIPStagesIn stages X \<longleftrightarrow> X = st"
  using assms by (cases stages) (auto simp: allCDIPStagesIn_iff at_boundary_def graph_def)

lemma at_boundary_update:
  assumes "at_boundary s pid parent stages frm" and "nxt \<noteq> StageUnset" and "CanTransition frm nxt"
  shows "update_stages clock nxt detail stages s = (put_jobs (staged_list clock nxt detail stages) s, None)"
    and "at_boundary (put_jobs (staged_list clock nxt detail stages) s) pid parent (staged_list clock nxt detail stages) nxt"
proof -
  have g: "graph s pid parent stages" "\<forall>j \<in> set stages. current_stage j = frm" using assms(1) by (simp_all add: at_boundary_def)
  show "update_stages clock nxt detail stages s = (put_jobs (staged_list clock nxt detail stages) s, None)"
    by (rule graph_update [OF g assms(3)])
  show "at_boundary (put_jobs (staged_list clock nxt detail stages) s) pid parent (staged_list clock nxt detail stages) nxt"
    using graph_put_jobs [OF g(1) refl] assms(1,2) staged_list_state by (fastforce simp: at_boundary_def current_stage_def)
qed

lemma at_boundary_graph: "at_boundary s pid parent stages st \<Longrightarrow> order_of ord (jobs s) \<Longrightarrow> stage_graph ord pid s = Inr (parent, stages)"
  by (auto simp: at_boundary_def drivable_def intro: graph_stage_graph)

lemma at_boundary_pid: "at_boundary s pid parent stages st \<Longrightarrow> j_ID parent = pid"
  by (auto simp: at_boundary_def graph_def job_ids_ok_def)

lemma at_boundary_next:
  assumes "at_boundary s pid parent stages frm" and "nxt \<noteq> StageUnset" and "CanTransition frm nxt"
  shows "\<exists>stages'. at_boundary (put_jobs (staged_list clock nxt detail stages) s) pid parent stages' nxt
    \<and> j_ID ` set stages' = j_ID ` set stages"
  using at_boundary_update(2) [OF assms] staged_list_ids by blast

lemma at_boundary_orders:
  "at_boundary s pid parent stages frm \<Longrightarrow> order_of ord (jobs s) \<Longrightarrow>
     order_of ord (jobs (put_jobs (staged_list clock nxt detail stages) s))"
  by (rule orders_put [of s pid parent stages]) (simp_all add: at_boundary_def)

lemma prepare_step:
  assumes "at_boundary s pid parent stages StagePlanned" and "\<And>k. order_of (ords k) (jobs s)"
    and "prepare_messages parent stages = Inr messages"
  shows "\<exists>s' stages' a. advanceCDIPDistributedJob ords clock T pid step out (s, b) = ((s', b), Ok a)
    \<and> at_boundary s' pid parent stages' StagePreparing \<and> (\<forall>ord. order_of ord (jobs s) \<longrightarrow> order_of ord (jobs s'))
    \<and> ad_StageJobs a = stages' \<and> j_ID ` set stages' = j_ID ` set stages"
proof -
  let ?ks = "staged_list clock StagePreparing ''coordinator sent stage.prepare'' stages"
  have up: "CanTransition StagePlanned StagePreparing" by (simp add: CanTransition.simps)
  note step = at_boundary_update [OF assms(1) _ up, of clock "''coordinator sent stage.prepare''"]
  note orders = at_boundary_orders [OF assms(1), of _ clock StagePreparing "''coordinator sent stage.prepare''"]
  have "cdipStageJobsForParent (Jobs (ords 2) (put_jobs ?ks s)) pid = ?ks"
    using step(2) orders [OF assms(2)] by (intro graph_list) (auto simp: at_boundary_def drivable_def)
  then show ?thesis
    using at_boundary_all [OF assms(1)] at_boundary_graph [OF assms(1) assms(2)] at_boundary_pid [OF assms(1)] step assms(3) orders
    by (auto simp: advanceCDIPDistributedJob_def prepareCDIPDistributedJob_def with_bus_def advance_prepare_def numeral_2_eq_2)
qed

lemma prefill_step:
  assumes "at_boundary s pid parent stages StageReady" and "\<And>k. order_of (ords k) (jobs s)"
  shows "\<exists>s' stages' a. advanceCDIPDistributedJob ords clock T pid step out (s, b) = ((s', b), Ok a)
    \<and> at_boundary s' pid parent stages' StagePrefill \<and> (\<forall>ord. order_of ord (jobs s) \<longrightarrow> order_of ord (jobs s'))
    \<and> j_ID ` set stages' = j_ID ` set stages"
proof -
  have up: "CanTransition StageReady StagePrefill" by (simp add: CanTransition.simps)
  note step = at_boundary_update [OF assms(1) _ up, of clock "''coordinator sent stage.prefill''"]
  have "command_graph (ords 1) StageReady MessageStagePrefill 0 pid s = Inr (parent, stages, map (stage_command MessageStagePrefill parent 0) stages)"
    using assms(1) at_boundary_state [OF assms(1)] by (intro drivable_command assms(2)) (simp_all add: at_boundary_def)
  then show ?thesis
    using at_boundary_all [OF assms(1)] at_boundary_graph [OF assms(1) assms(2)] at_boundary_pid [OF assms(1)] step(1)
      at_boundary_next [OF assms(1) _ up, of clock] at_boundary_orders [OF assms(1)]
    by (auto simp: advanceCDIPDistributedJob_def startCDIPPrefill_def with_bus_def)
qed

definition streams_idle :: "MemoryActivationTransport \<Rightarrow> id \<Rightarrow> bool" where
  "streams_idle b pid \<longleftrightarrow> (\<forall>j. memory_idle b \<lparr>sid_ParentJobID = pid, sid_StageJobID = j\<rparr>)"

lemma decode_step:
  assumes "at_boundary s pid parent stages StagePrefill" and "\<And>k. order_of (ords k) (jobs s)" and "streams_idle b pid"
  shows "\<exists>s' b' stages' a. advanceCDIPDistributedJob ords clock memory_transport pid step out (s, b) = ((s', b'), Ok a)
    \<and> at_boundary s' pid parent stages' StageDecode \<and> (\<forall>ord. order_of ord (jobs s) \<longrightarrow> order_of ord (jobs s'))
    \<and> streams_idle b' pid \<and> length (ad_ActivationFrames a) = length stages - 1
    \<and> j_ID ` set stages' = j_ID ` set stages"
proof -
  define st where "st = (if step = 0 then 1 else step)"
  have up: "CanTransition StagePrefill StageDecode" by (simp add: CanTransition.simps)
  note step = at_boundary_update [OF assms(1) _ up, of clock "''coordinator sent stage.decode''"]
  have cg: "command_graph (ords 1) StagePrefill MessageStageDecode st pid s = Inr (parent, stages, map (stage_command MessageStageDecode parent st) stages)"
    using assms(1) at_boundary_state [OF assms(1)] by (intro drivable_command assms(2)) (simp_all add: at_boundary_def)
  have d: "named parent" "list_all named stages" "list_all (\<lambda>j. \<not> blank (j_AssignedTo j)) (tl stages)"
    using assms(1) by (auto simp: at_boundary_def drivable_def list_all_iff dest: list.set_sel(2)) (metis list.sel(2) list.set_sel(2))
  from memory_bus.relay_loop_returns [OF d, of b st 0 "[]"] assms(3) at_boundary_pid [OF assms(1)]
  obtain b' frames where b': "relay_loop memory_transport parent st 0 [] stages b = (b', Ok frames)" "length frames = length stages - 1"
    "\<forall>r. memory_idle b r \<longrightarrow> memory_idle b' r" by (auto simp: streams_idle_def)
  show ?thesis
    using at_boundary_all [OF assms(1)] at_boundary_graph [OF assms(1) assms(2)] at_boundary_pid [OF assms(1)] step(1) cg b'
      at_boundary_next [OF assms(1) _ up, of clock] at_boundary_orders [OF assms(1)] assms(3)
    by (auto simp: advanceCDIPDistributedJob_def startCDIPDecode_def streams_idle_def advance_command_def command_result_def
        simp flip: st_def)
qed

text \<open>The end: the parent and each of its stages has succeeded.\<close>

definition finished :: "State \<Rightarrow> id \<Rightarrow> Job list \<Rightarrow> bool" where
  "finished s pid stages \<longleftrightarrow> (\<exists>p. mget (jobs s) pid = Some p \<and> j_Status p = StatusSucceeded)
     \<and> (\<forall>j \<in> set stages. \<exists>k. mget (jobs s) (j_ID j) = Some k \<and> j_Status k = StatusSucceeded \<and> j_CDIPState k = StageCompleted)"

lemma staged_completed: "j_Status (staged StageCompleted detail now j) = StatusSucceeded"
  by (simp add: staged_def stage_status_def)

lemma finished_put:
  assumes "graph s pid parent stages" and "j_Status p = StatusSucceeded"
  shows "finished (put_job pid p (put_jobs (staged_list clock StageCompleted detail stages) s)) pid stages"
proof -
  have "\<exists>k. mget (jobs (put_jobs (staged_list clock StageCompleted detail stages) s)) (j_ID j) = Some k
      \<and> j_Status k = StatusSucceeded \<and> j_CDIPState k = StageCompleted" if "j \<in> set stages" for j
    using staged_member [OF assms(1) that, of clock StageCompleted detail] staged_completed staged_same(2) by metis
  then show ?thesis using assms(2) graph_stage [OF assms(1)] by (auto simp: finished_def)
qed

lemma complete_step:
  assumes "at_boundary s pid parent stages StageDecode" and "\<And>k. order_of (ords k) (jobs s)"
  shows "\<exists>s' a. advanceCDIPDistributedJob ords clock T pid step out (s, b) = ((s', b), Ok a) \<and> finished s' pid stages
    \<and> ad_Action a = ''complete''"
proof -
  let ?ks = "staged_list clock StageCompleted ''coordinator sent stage.complete'' stages"
  have up: "CanTransition StageDecode StageCompleted" by (simp add: CanTransition.simps)
  note step = at_boundary_update [OF assms(1) _ up, of clock "''coordinator sent stage.complete''"]
  have g: "graph s pid parent stages" using assms(1) by (simp add: at_boundary_def)
  have cg: "command_graph (ords 1) StageDecode MessageStageComplete 0 pid s = Inr (parent, stages, map (stage_command MessageStageComplete parent 0) stages)"
    using assms(1) at_boundary_state [OF assms(1)] by (intro drivable_command assms(2)) (simp_all add: at_boundary_def)
  obtain body where body: "distributed_result parent stages (if blank out then ''CDIP distributed inference completed'' else out) = Some body"
    using distributed_result_Some by blast
  obtain p where "CompleteCoordinatorJob (clock (length stages)) pid body [] (put_jobs ?ks s) = (put_job pid p (put_jobs ?ks s), Some p)"
    "j_Status p = StatusSucceeded"
    using complete_parent [OF graph_put_jobs [OF g refl]] by fastforce
  then show ?thesis
    using at_boundary_all [OF assms(1)] at_boundary_graph [OF assms(1) assms(2)] at_boundary_pid [OF assms(1)] step(1) cg body
      finished_put [OF g, of p clock "''coordinator sent stage.complete''"]
    by (auto simp: advanceCDIPDistributedJob_def completeCDIPDistributedJob_def with_bus_def advance_command_def command_result_def Let_def)
qed

lemma report_step:
  assumes "at_boundary s pid parent stages StagePreparing" and "mset rs = mset stages"
    and "\<And>j. decode_stage_worker_result (result j) = Some ''cdip.stage_ready''"
  shows "\<exists>stages'. at_boundary (workers_report clock result rs s) pid parent stages' StageReady
    \<and> (\<forall>ord. order_of ord (jobs s) \<longrightarrow> order_of ord (jobs (workers_report clock result rs s)))
    \<and> j_ID ` set stages' = j_ID ` set stages"
proof -
  let ?ks = "staged_list clock StageReady ''worker reported cdip.stage_ready'' rs"
  have g: "graph s pid parent stages" "drivable parent rs" "set rs = set stages" "distinct (map j_ID rs)"
    using assms(1,2) drivable_sort mset_eq_imp_distinct_iff [of "map j_ID rs" "map j_ID stages"]
    by (auto simp: at_boundary_def graph_def dest: mset_eq_setD)
  have "workers_report clock result rs s = put_jobs ?ks s"
    using g(3,4) graph_stage [OF g(1)] at_boundary_state [OF assms(1)] assms(3) by (intro workers_report_moves) auto
  moreover have "drivable parent (go_sort stage_job_less ?ks)" using drivable_sort [OF mset_go_sort] g(2) by simp
  moreover have "current_stage j = StageReady" if "j \<in> set (go_sort stage_job_less ?ks)" for j
    using staged_list_state [of j clock StageReady] that by (simp add: current_stage_def)
  ultimately show ?thesis
    using graph_put_any [OF g(1) assms(2) refl, of clock StageReady] orders_put [OF g(1) assms(2)] g(3)
    by (intro exI [of _ "go_sort stage_job_less ?ks"]) (auto simp: at_boundary_def)
qed

subsection \<open>The whole run\<close>

text \<open>
  Four calls of the coordinator, with the reports of the workers between the first and the second. Every call has orders and clock
  readings of its own; the workers report in the order that \<open>perm\<close> picks.
\<close>

definition then_run ::
  "(State \<times> 'b) \<times> (coordinator_error, 'a) run \<Rightarrow> (State \<times> 'b \<Rightarrow> 'a \<Rightarrow> (State \<times> 'b) \<times> (coordinator_error, 'c) run)
     \<Rightarrow> (State \<times> 'b) \<times> (coordinator_error, 'c) run" where
  "then_run r k = (case r of (sb, Ok a) \<Rightarrow> k sb a | (sb, Err e) \<Rightarrow> (sb, Err e) | (sb, Hang) \<Rightarrow> (sb, Hang) | (sb, Crash) \<Rightarrow> (sb, Crash))"

lemma then_run_Ok [simp]: "then_run (sb, Ok a) k = k sb a"
  by (simp add: then_run_def)

definition distributed_run ::
  "(nat \<Rightarrow> orders) \<Rightarrow> (nat \<Rightarrow> clock) \<Rightarrow> (Job list \<Rightarrow> Job list) \<Rightarrow> (Job \<Rightarrow> string) \<Rightarrow> id \<Rightarrow> u64 \<Rightarrow> string
     \<Rightarrow> State \<times> MemoryActivationTransport \<Rightarrow> (State \<times> MemoryActivationTransport) \<times> (coordinator_error, CDIPAdvanceResult) run" where
  "distributed_run ords clocks perm result pid step out sb =
     then_run (advanceCDIPDistributedJob (ords 0) (clocks 0) memory_transport pid step out sb) (\<lambda>(s1, b1) a.
     then_run (advanceCDIPDistributedJob (ords 1) (clocks 2) memory_transport pid step out
        (workers_report (clocks 1) result (perm (ad_StageJobs a)) s1, b1)) (\<lambda>sb2 _.
     then_run (advanceCDIPDistributedJob (ords 2) (clocks 3) memory_transport pid step out sb2) (\<lambda>sb3 _.
     advanceCDIPDistributedJob (ords 3) (clocks 4) memory_transport pid step out sb3)))"

lemma finished_ids:
  assumes "j_ID ` set js = j_ID ` set ks"
  shows "finished s pid js \<longleftrightarrow> finished s pid ks"
proof -
  have by_id: "finished s pid xs \<longleftrightarrow> (\<exists>p. mget (jobs s) pid = Some p \<and> j_Status p = StatusSucceeded)
      \<and> (\<forall>i \<in> j_ID ` set xs. \<exists>k. mget (jobs s) i = Some k \<and> j_Status k = StatusSucceeded \<and> j_CDIPState k = StageCompleted)" for xs
    by (simp add: finished_def)
  show ?thesis by (simp only: by_id assms)
qed

text \<open>
  C30. A distributed generation whose stages are planned with a worker each, whose stage inputs pass the coordinator's checks
  and whose workers report their stages ready, in whatever order, comes to its end: prepare, prefill, decode and complete succeed, the parent job and
  every stage job have succeeded, and the activation streams are empty.
\<close>

theorem distributed_run_completes:
  assumes "reachable s" and "\<And>c k. order_of (ords c k) (jobs s)" and "stage_graph (ords 0 0) pid s = Inr (parent, stages)"
    and "drivable parent stages" and "list_all (\<lambda>j. current_stage j = StagePlanned) stages"
    and "prepare_messages parent stages = Inr messages" and "streams_idle b pid" and "\<And>js. mset (perm js) = mset js"
    and "\<And>j. decode_stage_worker_result (result j) = Some ''cdip.stage_ready''"
  shows "\<exists>s' b' a. distributed_run ords clocks perm result pid step out (s, b) = ((s', b'), Ok a)
    \<and> ad_Action a = ''complete'' \<and> finished s' pid stages \<and> streams_idle b' pid"
proof -
  have "job_ids_ok s" using reachable_wf [OF assms(1)] by (simp add: state_wf_ids)
  then have "at_boundary s pid parent stages StagePlanned"
    using stage_graph_Inr [OF _ assms(2,3)] assms(4,5) by (simp add: at_boundary_def list_all_iff)
  from prepare_step [where ords = "ords 0" and clock = "clocks 0" and T = memory_transport and step = step and out = out and b = b, OF this assms(2,6)]
  obtain s1 stages1 a1 where one: "advanceCDIPDistributedJob (ords 0) (clocks 0) memory_transport pid step out (s, b) = ((s1, b), Ok a1)"
    "at_boundary s1 pid parent stages1 StagePreparing" "\<forall>ord. order_of ord (jobs s) \<longrightarrow> order_of ord (jobs s1)"
    "ad_StageJobs a1 = stages1" "j_ID ` set stages1 = j_ID ` set stages" by blast
  define s2 where "s2 = workers_report (clocks 1) result (perm stages1) s1"
  from report_step [where clock = "clocks 1" and result = result, OF one(2) assms(8,9)] obtain stages2 where two: "at_boundary s2 pid parent stages2 StageReady"
    "\<forall>ord. order_of ord (jobs s1) \<longrightarrow> order_of ord (jobs s2)" "j_ID ` set stages2 = j_ID ` set stages1"
    unfolding s2_def by blast
  have ord2: "order_of (ords 1 k) (jobs s2)" for k using assms(2) one(3) two(2) by blast
  from prefill_step [where ords = "ords 1" and clock = "clocks 2" and T = memory_transport and step = step and out = out and b = b, OF two(1) ord2]
  obtain s3 stages3 a3 where three: "advanceCDIPDistributedJob (ords 1) (clocks 2) memory_transport pid step out (s2, b) = ((s3, b), Ok a3)"
    "at_boundary s3 pid parent stages3 StagePrefill" "\<forall>ord. order_of ord (jobs s2) \<longrightarrow> order_of ord (jobs s3)"
    "j_ID ` set stages3 = j_ID ` set stages2" by blast
  have ord3: "order_of (ords 2 k) (jobs s3)" for k using assms(2) one(3) two(2) three(3) by blast
  from decode_step [where ords = "ords 2" and clock = "clocks 3" and step = step and out = out, OF three(2) ord3 assms(7)]
  obtain s4 b4 stages4 a4 where four: "advanceCDIPDistributedJob (ords 2) (clocks 3) memory_transport pid step out (s3, b) = ((s4, b4), Ok a4)"
    "at_boundary s4 pid parent stages4 StageDecode" "\<forall>ord. order_of ord (jobs s3) \<longrightarrow> order_of ord (jobs s4)" "streams_idle b4 pid"
    "j_ID ` set stages4 = j_ID ` set stages3" by blast
  have ord4: "order_of (ords 3 k) (jobs s4)" for k using assms(2) one(3) two(2) three(3) four(3) by blast
  from complete_step [where ords = "ords 3" and clock = "clocks 4" and T = memory_transport and step = step and out = out and b = b4, OF four(2) ord4]
  obtain s5 a5 where five: "advanceCDIPDistributedJob (ords 3) (clocks 4) memory_transport pid step out (s4, b4) = ((s5, b4), Ok a5)"
    "finished s5 pid stages4" "ad_Action a5 = ''complete''" by blast
  have "finished s5 pid stages" using five(2) finished_ids four(5) three(4) two(3) one(5) by metis
  moreover have "distributed_run ords clocks perm result pid step out (s, b) = ((s5, b4), Ok a5)"
    using one(1,4) three(1) four(1) five(1) by (simp add: distributed_run_def s2_def)
  ultimately show ?thesis using five(3) four(4) by blast
qed

subsection \<open>The coordinator stays within the reachable states\<close>

lemma reachable_result: "reachable (fst r) \<Longrightarrow> r = (s, x) \<Longrightarrow> reachable s"
  by simp

lemma stage_reachable: "reachable s \<Longrightarrow> reachable (fst (UpdateCDIPStageState now i nxt detail s))"
  using reachable.step [of s "OpStage now i nxt detail"] by simp

lemma coordinator_reachable: "reachable s \<Longrightarrow> reachable (fst (CompleteCoordinatorJob now i body err s))"
  using reachable.step [of s "OpCoordinator now i body err"] by simp

lemma update_stages_reachable: "reachable s \<Longrightarrow> reachable (fst (update_stages clock nxt detail js s))"
proof (induction js arbitrary: clock s)
  case (Cons j js)
  obtain s' r where "UpdateCDIPStageState (clock 0) (j_ID j) nxt detail s = (s', r)" by fastforce
  with stage_reachable [OF Cons.prems] Cons.IH [of s'] show ?case by (auto split: option.splits) (metis fst_conv)+
qed simp

lemma mock_prepare_reachable: "reachable s \<Longrightarrow> reachable (fst (mock_prepare clock js s))"
proof (induction js arbitrary: clock s)
  case (Cons j js)
  obtain s1 r1 where 1: "UpdateCDIPStageState (clock 0) (j_ID j) StagePreparing ''mock coordinator preparing stage'' s = (s1, r1)" by fastforce
  obtain s2 r2 where 2: "UpdateCDIPStageState (clock 1) (j_ID j) StageReady ''mock coordinator stage ready'' s1 = (s2, r2)" by fastforce
  have "reachable s1" using stage_reachable [OF Cons.prems] 1 by (metis fst_conv)
  moreover from stage_reachable [OF this] have "reachable s2" using 2 by (metis fst_conv)
  ultimately show ?case using Cons.IH [of s2] 1 2 by (auto split: option.splits)
qed simp

lemmas reachable_step_results =
  update_stages_reachable [THEN reachable_result] coordinator_reachable [THEN reachable_result]

lemma and_then_reachable:
  "reachable (fst r) \<Longrightarrow> (\<And>s. reachable s \<Longrightarrow> reachable (fst (k s))) \<Longrightarrow> reachable (fst (and_then r k))"
  by (cases r) (auto simp: and_then_def split: option.splits)

lemma prepare_reachable: "reachable s \<Longrightarrow> reachable (fst (prepareCDIPDistributedJob ords clock pid s))"
  by (auto simp: prepareCDIPDistributedJob_def split: sum.splits prod.splits option.splits intro: reachable_step_results)

lemma prefill_reachable: "reachable s \<Longrightarrow> reachable (fst (startCDIPPrefill ords clock pid s))"
  by (auto simp: startCDIPPrefill_def split: sum.splits prod.splits option.splits intro: reachable_step_results)

lemma decode_reachable: "reachable s \<Longrightarrow> reachable (fst (fst (startCDIPDecode ords clock bus pid step (s, b))))"
  by (auto simp: startCDIPDecode_def Let_def split: sum.splits prod.splits option.splits run.splits intro: reachable_step_results)

lemma complete_reachable: "reachable s \<Longrightarrow> reachable (fst (completeCDIPDistributedJob ords clock pid out s))"
  by (auto simp: completeCDIPDistributedJob_def Let_def split: sum.splits prod.splits option.splits intro: reachable_step_results)

lemma mock_reachable:
  assumes "reachable s"
  shows "reachable (fst (runCDIPMockCoordinator ords clock pid s))"
proof -
  have "reachable (fst (and_then (mock_prepare clock js s) (\<lambda>s1. and_then (update_stages c2 n2 d2 js s1) (\<lambda>s2.
      and_then (update_stages c3 n3 d3 js s2) (\<lambda>s3. update_stages c4 n4 d4 js s3)))))" for js c2 n2 d2 c3 n3 d3 c4 n4 d4
    using assms by (intro and_then_reachable update_stages_reachable mock_prepare_reachable)
  note chain = reachable_result [OF this]
  show ?thesis
    using assms unfolding runCDIPMockCoordinator_def Let_def
    by (auto split: sum.splits prod.splits option.splits intro: chain coordinator_reachable [THEN reachable_result])
qed

lemma with_bus_fst: "fst (fst (with_bus b f r)) = fst r"
  by (cases r) (auto simp: with_bus_def split: sum.splits)

lemma advance_reachable: "reachable s \<Longrightarrow> reachable (fst (fst (advanceCDIPDistributedJob ords clock bus pid step out (s, b))))"
  by (simp add: advanceCDIPDistributedJob_def with_bus_fst prepare_reachable prefill_reachable decode_reachable complete_reachable
      split: sum.splits prod.splits)

lemma complete_stage_reachable: "reachable s \<Longrightarrow> reachable (fst (handleCDIPStageComplete now req i s))"
  by (auto simp: handleCDIPStageComplete_def split: prod.splits option.splits intro: stage_reachable [THEN reachable_result])

lemma advance_loop_reachable: "reachable (fst sb) \<Longrightarrow> reachable (fst (fst (advance_jobs_loop bus envs js sb)))"
proof (induction bus envs js sb rule: advance_jobs_loop.induct)
  case (2 bus envs job js sb)
  obtain s b where sb: "sb = (s, b)" by fastforce
  obtain s' b' r where adv: "advanceCDIPDistributedJob (fst (envs 0)) (snd (envs 0)) bus (j_ID job) 0 [] (s, b) = ((s', b'), r)"
    by (metis prod.exhaust)
  have "reachable s'" using advance_reachable [of s "fst (envs 0)" "snd (envs 0)" bus "j_ID job" 0 "[]" b] "2.prems" adv by (simp add: sb)
  then show ?case using 2 adv by (cases r) (auto simp: sb)
qed auto


end
