(* ===== verification/Demo.thy ===== *)
theory Demo
  imports Drive Guarantees
begin

section \<open>A distributed generation to try the coordinator on\<close>

text \<open>
  A reachable state with a distributed parent job and two planned stage jobs, as the manager creates them, and the
  properties of the coordinator on it.
\<close>

definition demo_parent_request :: CreateRequest where
  "demo_parent_request = \<lparr>cr_Type = JobGenerateDistributed, cr_Input = [], cr_RequestedBy = ''dashboard-chat'', cr_AssignedTo = [],
     cr_Requirements = demo_req 0, cr_MaxAttempts = 1, cr_NoAutoAssign = True, cr_CDIPState = StageUnset,
     cr_CDIPParentJobID = [], cr_CDIPStageIndex = 0\<rparr>"

definition demo_distributed :: State where
  "demo_distributed = exec (OpBatch 20 [(Some [2], demo_env 20, stage_job_request demo_parent demo_generate 0),
       (Some [3], demo_env 20, stage_job_request demo_parent demo_generate 1)])
     (exec (OpCreate (Some [1]) 10 (demo_env 10) demo_parent_request) (NewState 5))"

lemma demo_distributed_reachable: "reachable demo_distributed"
  unfolding demo_distributed_def
  by (intro reachable.intros) (simp_all add: demo_parent_request_def stage_job_request_def int64_range_def)

definition demo_coordinator_job :: Job where
  "demo_coordinator_job = (new_job ''job-01'' 10 demo_parent_request)\<lparr>j_LastFailure := ''waiting for coordinator''\<rparr>"

definition demo_stage_job :: "id \<Rightarrow> nat \<Rightarrow> Job" where
  "demo_stage_job i k = (new_job i 20 (stage_job_request demo_parent demo_generate k))\<lparr>j_AssignedTo := dsi_NodeID (dgi_Stages demo_generate ! k),
     j_LastFailure := ''waiting for coordinator''\<rparr>"

lemma demo_newIDs: "newJobID (Some [1]) = ''job-01''" "newJobID (Some [2]) = ''job-02''" "newJobID (Some [3]) = ''job-03''"
  by code_simp+

lemma demo_distributed_jobs: "jobs demo_distributed =
   [(''job-01'', demo_coordinator_job), (''job-02'', demo_stage_job ''job-02'' 0), (''job-03'', demo_stage_job ''job-03'' 1)]"
  by (simp add: demo_distributed_def Let_def CreateJob_def CreateJobsBatch_def NewState_def demo_newIDs place_job_def put_job_def mput_def
      demo_coordinator_job_def demo_stage_job_def demo_parent_request_def stage_job_request_def new_job_def)

definition demo_order :: "id list" where
  "demo_order = [''job-03'', ''job-01'', ''job-02'']"

lemma demo_stage_job_fields [simp]:
  "j_ID (demo_stage_job i k) = i" "j_Type (demo_stage_job i k) = JobGenerateStage" "j_CDIPParentJobID (demo_stage_job i k) = ''job-01''"
  "j_CDIPStageIndex (demo_stage_job i k) = dsi_Index (dgi_Stages demo_generate ! k)" "current_stage (demo_stage_job i k) = StagePlanned"
  "j_AssignedTo (demo_stage_job i k) = dsi_NodeID (dgi_Stages demo_generate ! k)" "j_CreatedAt (demo_stage_job i k) = 20"
  "j_Input (demo_stage_job i k) = marshal_stage_job_input (stage_job_input demo_parent demo_generate k)"
  by (simp_all add: demo_stage_job_def new_job_def stage_job_request_def demo_parent_def current_stage_def)

lemma demo_coordinator_fields [simp]:
  "j_ID demo_coordinator_job = ''job-01''" "j_Type demo_coordinator_job = JobGenerateDistributed" "j_Status demo_coordinator_job = StatusQueued"
  by (simp_all add: demo_coordinator_job_def new_job_def demo_parent_request_def)

lemma demo_nodes: "dsi_NodeID (dgi_Stages demo_generate ! 0) = ''a''" "dsi_NodeID (dgi_Stages demo_generate ! Suc 0) = ''b''"
   "dsi_Index (dgi_Stages demo_generate ! 0) = 0" "dsi_Index (dgi_Stages demo_generate ! Suc 0) = 1"
  by (simp_all add: demo_generate_def demo_stages_def)

lemma demo_order_of: "order_of demo_order (jobs demo_distributed)"
  by (auto simp: order_of_def demo_order_def demo_distributed_jobs mkeys_def)

definition demo_stages_of :: "Job list" where
  "demo_stages_of = [demo_stage_job ''job-02'' 0, demo_stage_job ''job-03'' 1]"

lemma demo_graph: "stage_graph demo_order ''job-01'' demo_distributed = Inr (demo_coordinator_job, demo_stages_of)"
  by (simp add: stage_graph_def Job_lookup_def demo_distributed_jobs mget_def Jobs_def demo_order_def cdipStageJobsForParent_def
      stage_of_parent_def go_sort_def stage_job_less_def demo_nodes demo_stages_of_def Let_def)

lemma demo_blank: "\<not> blank ''job-01''" "\<not> blank ''job-02''" "\<not> blank ''job-03''" "\<not> blank ''a''" "\<not> blank ''b''"
  by code_simp+

lemma demo_drivable: "drivable demo_coordinator_job demo_stages_of"
  by (simp add: drivable_def named_def demo_stages_of_def demo_nodes demo_blank)

lemma demo_inputs_clean: "clean_stage_job_input (stage_job_input demo_parent demo_generate 0)" "clean_stage_job_input (stage_job_input demo_parent demo_generate 1)"
  by code_simp+

lemma demo_prepare_valid: "StagePrepare_Validate (stage_prepare demo_coordinator_job (demo_stage_job i k) (stage_job_input demo_parent demo_generate k)) = None"
  if "k \<in> {0, 1}" "\<not> blank i"
proof -
  have "sji_ModelID (stage_job_input demo_parent demo_generate k) = ''qwen''" "\<not> blank ''qwen''"
    by (simp_all add: stage_job_input_def demo_generate_def) code_simp
  moreover have "\<not> blank (s_NodeID (sh_Stage (sji_Shard (stage_job_input demo_parent demo_generate k))))
     \<and> 0 < Layers (sh_Stage (sji_Shard (stage_job_input demo_parent demo_generate k)))"
    using that(1) demo_blank by (auto simp: stage_job_input_def demo_generate_def demo_stages_def Layers_def wrap64_def)
  ultimately show ?thesis using that(2) demo_blank expect_known [of MessageStagePrepare]
    by (simp add: StagePrepare_Validate_def stage_prepare_def)
qed

lemma demo_messages: "\<exists>messages. prepare_messages demo_coordinator_job demo_stages_of = Inr messages"
proof -
  have "decode_DistributedStageJobInput (j_Input (demo_stage_job i k)) = Some (stage_job_input demo_parent demo_generate k)" if "k \<in> {0, 1}" for i k
    using that demo_inputs_clean decode_marshal_stage_job by auto
  moreover have "sji_ParentJobID (stage_job_input demo_parent demo_generate k) = ''job-01''" for k
    by (simp add: stage_job_input_def demo_parent_def)
  ultimately show ?thesis
    using demo_prepare_valid demo_blank by (simp add: demo_stages_of_def)
qed

lemma demo_boundary: "at_boundary demo_distributed ''job-01'' demo_coordinator_job demo_stages_of StagePlanned"
proof -
  have "job_ids_ok demo_distributed" using reachable_wf [OF demo_distributed_reachable] by (simp add: state_wf_ids)
  from stage_graph_Inr(1) [OF this demo_order_of demo_graph] show ?thesis
    using demo_drivable by (simp add: at_boundary_def demo_stages_of_def)
qed

definition demo_bus :: MemoryActivationTransport where
  "demo_bus = NewMemoryActivationTransport 8"

lemma demo_bus_idle: "memory_idle demo_bus r" "streams_idle demo_bus pid"
  by (simp_all add: demo_bus_def streams_idle_def memory_idle_def NewMemoryActivationTransport_def)

theorem advance_all_or_nothing_witness:
  "\<exists>s' b' stages a. advanceCDIPDistributedJob (\<lambda>_. demo_order) (\<lambda>_. 30) memory_transport ''job-01'' 0 [] (demo_distributed, demo_bus) = ((s', b'), Ok a)
     \<and> moved demo_distributed s' ''job-01'' demo_coordinator_job stages StagePlanned StagePreparing"
proof -
  obtain messages where messages: "prepare_messages demo_coordinator_job demo_stages_of = Inr messages" using demo_messages by blast
  obtain s' stages' a where step: "advanceCDIPDistributedJob (\<lambda>_. demo_order) (\<lambda>_. 30) memory_transport ''job-01'' 0 [] (demo_distributed, demo_bus)
      = ((s', demo_bus), Ok a)" "at_boundary s' ''job-01'' demo_coordinator_job stages' StagePreparing"
    using prepare_step [where ords = "\<lambda>_. demo_order" and clock = "\<lambda>_. 30" and T = memory_transport and step = 0 and out = "[]"
        and b = demo_bus, OF demo_boundary demo_order_of messages] by blast
  have "s' \<noteq> demo_distributed"
  proof
    assume "s' = demo_distributed"
    then have g: "graph demo_distributed ''job-01'' demo_coordinator_job stages'" "\<forall>j \<in> set stages'. current_stage j = StagePreparing"
      "graph demo_distributed ''job-01'' demo_coordinator_job demo_stages_of" "\<forall>j \<in> set demo_stages_of. current_stage j = StagePlanned"
      using step(2) demo_boundary by (simp_all add: at_boundary_def)
    have "demo_stages_of \<noteq> []" by (simp add: demo_stages_of_def)
    with graph_unique [OF g(1,3)] g(2,4) show False by (cases demo_stages_of) auto
  qed
  with advance_all_or_nothing [OF demo_distributed_reachable demo_order_of step(1)] demo_graph
  obtain frm nxt where m: "moved demo_distributed s' ''job-01'' demo_coordinator_job demo_stages_of frm nxt" by auto
  then have "frm = StagePlanned" by (simp add: moved_def demo_stages_of_def)
  moreover from this m have "nxt = StagePreparing" by (simp add: moved_def)
  ultimately have "moved demo_distributed s' ''job-01'' demo_coordinator_job demo_stages_of StagePlanned StagePreparing"
    using m by simp
  with step(1) show ?thesis by blast
qed

text \<open>The same state with its stages in prefill.\<close>

definition demo_prefill :: State where
  "demo_prefill = fst (update_stages (\<lambda>_. 23) StagePrefill [] demo_stages_of (fst (update_stages (\<lambda>_. 22) StageReady [] demo_stages_of
     (fst (update_stages (\<lambda>_. 21) StagePreparing [] demo_stages_of demo_distributed)))))"

lemma update_stages_ids:
  assumes "map j_ID js = map j_ID ks"
  shows "update_stages clock nxt detail js s = update_stages clock nxt detail ks s"
proof -
  have "length js = length ks" using assms by (rule map_eq_imp_length_eq)
  then show ?thesis
    using assms by (induction js ks arbitrary: clock s rule: list_induct2) (auto split: prod.splits option.splits)
qed

lemma demo_prefill_boundary:
  "\<exists>stages. at_boundary demo_prefill ''job-01'' demo_coordinator_job stages StagePrefill \<and> order_of demo_order (jobs demo_prefill)
     \<and> length stages = 2"
proof -
  let ?one = "staged_list (\<lambda>_. 21) StagePreparing [] demo_stages_of"
  let ?two = "staged_list (\<lambda>_. 22) StageReady [] ?one"
  let ?three = "staged_list (\<lambda>_. 23) StagePrefill [] ?two"
  have ids: "map j_ID ?one = map j_ID demo_stages_of" "map j_ID ?two = map j_ID demo_stages_of"
    by (simp_all add: map_staged_list)
  have path: "CanTransition StagePlanned StagePreparing" "CanTransition StagePreparing StageReady" "CanTransition StageReady StagePrefill"
    by (simp_all add: CanTransition.simps)
  note s1 = at_boundary_update [OF demo_boundary _ path(1), of "\<lambda>_. 21" "[]"]
  note s2 = at_boundary_update [OF s1(2) _ path(2), of "\<lambda>_. 22" "[]"]
  note s3 = at_boundary_update [OF s2(2) _ path(3), of "\<lambda>_. 23" "[]"]
  note o1 = at_boundary_orders [OF demo_boundary demo_order_of, of "\<lambda>_. 21" StagePreparing "[]"]
  note o2 = at_boundary_orders [OF s1(2) o1, of "\<lambda>_. 22" StageReady "[]"]
  note o3 = at_boundary_orders [OF s2(2) o2, of "\<lambda>_. 23" StagePrefill "[]"]
  have "demo_prefill = put_jobs ?three (put_jobs ?two (put_jobs ?one demo_distributed))"
    using s1(1) s2(1) s3(1) update_stages_ids [OF ids(1), of "\<lambda>_. 22" StageReady "[]"] update_stages_ids [OF ids(2), of "\<lambda>_. 23" StagePrefill "[]"]
    by (simp add: demo_prefill_def)
  moreover have "length ?three = 2" by (simp add: demo_stages_of_def)
  ultimately show ?thesis using s3(2) o3 by auto
qed

lemma demo_prefill_reachable: "reachable demo_prefill"
  unfolding demo_prefill_def by (intro update_stages_reachable demo_distributed_reachable)

theorem decode_relays_every_boundary_witness:
  "\<exists>s' b' a. startCDIPDecode (\<lambda>_. demo_order) (\<lambda>_. 30) memory_transport ''job-01'' 7 (demo_prefill, demo_bus) = ((s', b'), Ok a)
     \<and> length (cm_ActivationFrames a) = 1"
proof -
  obtain stages where b: "at_boundary demo_prefill ''job-01'' demo_coordinator_job stages StagePrefill" "order_of demo_order (jobs demo_prefill)"
    "length stages = 2"
    using demo_prefill_boundary by blast
  have "list_all (\<lambda>j. j_CDIPState j = StagePrefill \<and> named j \<and> 0 \<le> j_CDIPStageIndex j) stages" "named demo_coordinator_job"
    "list_all (\<lambda>j. \<not> blank (j_AssignedTo j)) (tl stages)"
    using b(1) at_boundary_state [OF b(1)]
    by (auto simp: at_boundary_def drivable_def list_all_iff) (metis list.sel(2) list.set_sel(2))
  then show ?thesis
    using decode_relays_every_boundary [where ords = "\<lambda>_. demo_order" and clock = "\<lambda>_. 30" and step = 7, OF demo_prefill_reachable b(2)
        at_boundary_graph [OF b(1,2)] _ _ demo_bus_idle(1)] b(3) by auto
qed

theorem distributed_run_completes_witness:
  "\<exists>s' b' a. distributed_run (\<lambda>_ _. demo_order) (\<lambda>c _. 30 + int c) rev (\<lambda>_. ''{\"kind\":\"cdip.stage_ready\"}'') ''job-01'' 0 [] (demo_distributed, demo_bus)
     = ((s', b'), Ok a) \<and> ad_Action a = ''complete'' \<and> finished s' ''job-01'' demo_stages_of"
proof -
  obtain messages where messages: "prepare_messages demo_coordinator_job demo_stages_of = Inr messages" using demo_messages by blast
  have "decode_stage_worker_result ''{\"kind\":\"cdip.stage_ready\"}'' = Some ''cdip.stage_ready''" by code_simp
  moreover have "list_all (\<lambda>j. current_stage j = StagePlanned) demo_stages_of" by (simp add: demo_stages_of_def)
  ultimately show ?thesis
    using distributed_run_completes [where ords = "\<lambda>_ _. demo_order" and clocks = "\<lambda>c _. 30 + int c" and perm = rev
        and result = "\<lambda>_. ''{\"kind\":\"cdip.stage_ready\"}''" and step = 0 and out = "[]", OF demo_distributed_reachable demo_order_of demo_graph demo_drivable _
        messages demo_bus_idle(2)] by auto
qed


end
