(* ===== verification/Findings.thy ===== *)
theory Findings
  imports Demo
begin

section \<open>What the model shows about the code\<close>

text \<open>
  Behaviour of the modelled code that its callers would not expect, each as a theorem.
\<close>

text \<open>
  The planner gives every worker at least one layer, also a worker whose memory beyond the stage overhead is smaller than one layer:
  the stage then needs more memory than the worker allows, and nothing checks it (buildDistributedStages).
\<close>

definition too_small :: "DistributedPlanStage \<Rightarrow> bool" where
  "too_small st \<longleftrightarrow> pl_AllowedMemoryBytes st < pl_MemoryBytes st"

theorem planned_stage_overloads_worker:
  "list_ex too_small (buildDistributedStages demo_model [demo_worker ''a'' (4 * gb), demo_worker ''b'' (513 * 1048576)] 24)"
  by code_simp

text \<open>
  The state of a stage job is checked, not its status: a stage job that has failed, because its worker went offline, is driven on and reported as
  succeeded (UpdateCDIPStageState).
\<close>

theorem failed_stage_succeeds:
  assumes "mget (jobs s) (j_ID j) = Some j" and "j_Type j = JobGenerateStage" and "j_Status j = StatusFailed" and "j_CDIPState j = StageDecode"
  shows "\<exists>k. mget (jobs (fst (UpdateCDIPStageState now (j_ID j) StageCompleted detail s))) (j_ID j) = Some k \<and> j_Status k = StatusSucceeded"
proof -
  have "CanTransition (current_stage j) StageCompleted" using assms(4) by (simp add: current_stage_def CanTransition.simps)
  from UpdateCDIPStageState_moves [OF assms(1,2) this, of now detail] show ?thesis by (simp add: staged_completed)
qed

theorem failed_stage_succeeds_example:
  "\<exists>s j k. mget (jobs s) (j_ID j) = Some j \<and> j_Status j = StatusFailed
     \<and> mget (jobs (fst (UpdateCDIPStageState 9 (j_ID j) StageCompleted [] s))) (j_ID j) = Some k \<and> j_Status k = StatusSucceeded"
proof -
  define j where "j = (demo_stage_job ''job-02'' 0)\<lparr>j_Status := StatusFailed, j_CDIPState := StageDecode\<rparr>"
  define s where "s = put_job ''job-02'' j demo_distributed"
  have j: "j_ID j = ''job-02''" "j_Type j = JobGenerateStage" "j_Status j = StatusFailed" "j_CDIPState j = StageDecode"
    by (simp_all add: j_def)
  then have "mget (jobs s) (j_ID j) = Some j" by (simp add: s_def)
  with failed_stage_succeeds [OF this j(2-4)] j(3) show ?thesis by blast
qed

end
