(* ===== verification/RpcPool.thy ===== *)
theory RpcPool
  imports Views Protocol
begin

section \<open>The pool of RPC endpoints (internal/manager/server.go)\<close>

text \<open>
  The manager lists the llama.cpp RPC endpoints that online workers report, checks them by dialling, ranks them by their recorded
  health and leaves out the ones that failed too often. Dialling is an argument: the latency and the error of the k-th dial of a
  check. A Go set of strings is the list of its members.
\<close>

definition rpcEndpointQuarantineConsecutiveFailures :: int where "rpcEndpointQuarantineConsecutiveFailures = 3"
definition distributedRPCMaxScheduledEndpoints :: nat where "distributedRPCMaxScheduledEndpoints = 8"

record RuntimeStageProbeSummary =
  sps_Workers :: int
  sps_RuntimeReadyWorkers :: int
  sps_StageProbeWorkers :: int
  sps_ReadyStageRuntimeWorkers :: int
  sps_BlockedStageRuntimeWorkers :: int

record RuntimeStageProbeWorker =
  spw_NodeID :: string
  spw_NodeName :: string
  spw_Status :: NodeStatus
  spw_Runtime :: string
  spw_RuntimeReady :: bool
  spw_Probes :: "StageRuntimeResource list"

record RuntimeRPCPoolSummary =
  rps_Workers :: int
  rps_RuntimeReadyWorkers :: int
  rps_RPCReadyWorkers :: int
  rps_Endpoints :: int

record RuntimeRPCPoolWorker =
  rpw_NodeID :: string
  rpw_NodeName :: string
  rpw_Status :: NodeStatus
  rpw_Runtime :: string
  rpw_RuntimeReady :: bool
  rpw_RPC :: RPCRuntimeResource
  rpw_Capabilities :: "string list"

record RuntimeRPCSmokeResult =
  smr_Endpoint :: string
  smr_Ready :: bool
  smr_LatencyMS :: int
  smr_Error :: string

record RuntimeRPCSmokeReport =
  smp_Checked :: int
  smp_Ready :: int
  smp_Failed :: int
  smp_TimeoutMS :: int
  smp_DurationMS :: int
  smp_Results :: "RuntimeRPCSmokeResult list"
  smp_RunnableNow :: bool

subsection \<open>What the workers report\<close>

fun probe_runtimes ::
  "Node \<Rightarrow> RuntimeResource list \<Rightarrow> RuntimeStageProbeSummary \<times> RuntimeStageProbeWorker list
     \<Rightarrow> RuntimeStageProbeSummary \<times> RuntimeStageProbeWorker list" where
  "probe_runtimes node [] acc = acc"
| "probe_runtimes node (rt # rts) (summary, workers) =
     (let s1 = (if rt_Ready rt then summary\<lparr>sps_RuntimeReadyWorkers := sps_RuntimeReadyWorkers summary + 1\<rparr> else summary)
      in if rt_StageRuntimes rt = [] then probe_runtimes node rts (s1, workers)
         else let s2 = s1\<lparr>sps_StageProbeWorkers := sps_StageProbeWorkers s1 + 1\<rparr>;
             s3 = (if list_ex sr_Ready (rt_StageRuntimes rt)
               then s2\<lparr>sps_ReadyStageRuntimeWorkers := sps_ReadyStageRuntimeWorkers s2 + 1\<rparr>
               else s2\<lparr>sps_BlockedStageRuntimeWorkers := sps_BlockedStageRuntimeWorkers s2 + 1\<rparr>)
           in probe_runtimes node rts (s3, workers @ [\<lparr>spw_NodeID = n_ID node, spw_NodeName = nodeDisplayName node,
                spw_Status = n_Status node, spw_Runtime = rt_Name rt, spw_RuntimeReady = rt_Ready rt,
                spw_Probes = rt_StageRuntimes rt\<rparr>]))"

fun probe_nodes ::
  "Node list \<Rightarrow> RuntimeStageProbeSummary \<times> RuntimeStageProbeWorker list \<Rightarrow> RuntimeStageProbeSummary \<times> RuntimeStageProbeWorker list" where
  "probe_nodes [] acc = acc"
| "probe_nodes (node # ns) (summary, workers) =
     (if n_Role node \<noteq> NodeRoleWorker then probe_nodes ns (summary, workers)
      else probe_nodes ns (probe_runtimes node (rs_Runtimes (n_Resources node))
             (summary\<lparr>sps_Workers := sps_Workers summary + 1\<rparr>, workers)))"

definition probe_less :: "RuntimeStageProbeWorker \<Rightarrow> RuntimeStageProbeWorker \<Rightarrow> bool" where
  "probe_less a b = (if spw_NodeName a \<noteq> spw_NodeName b then spw_NodeName a < spw_NodeName b else spw_Runtime a < spw_Runtime b)"

definition runtimeStageProbeReport :: "Node list \<Rightarrow> RuntimeStageProbeSummary \<times> RuntimeStageProbeWorker list" where
  "runtimeStageProbeReport ns =
     (case probe_nodes ns (\<lparr>sps_Workers = 0, sps_RuntimeReadyWorkers = 0, sps_StageProbeWorkers = 0,
        sps_ReadyStageRuntimeWorkers = 0, sps_BlockedStageRuntimeWorkers = 0\<rparr>, []) of
        (summary, workers) \<Rightarrow> (summary, go_sort probe_less workers))"

text \<open>The loop over the RPC runtimes of one ready runtime; the last two results are the workers and the endpoints seen.\<close>

type_synonym pool_acc = "RuntimeRPCPoolSummary \<times> RuntimeRPCPoolWorker list \<times> string list"

definition pool_worker :: "Node \<Rightarrow> RuntimeResource \<Rightarrow> RPCRuntimeResource \<Rightarrow> RuntimeRPCPoolWorker" where
  "pool_worker node rt rpc = \<lparr>rpw_NodeID = n_ID node, rpw_NodeName = nodeDisplayName node, rpw_Status = n_Status node,
     rpw_Runtime = rt_Name rt, rpw_RuntimeReady = rt_Ready rt, rpw_RPC = rpc, rpw_Capabilities = rt_Capabilities rt\<rparr>"

fun pool_rpcs :: "Node \<Rightarrow> RuntimeResource \<Rightarrow> RPCRuntimeResource list \<Rightarrow> pool_acc \<Rightarrow> pool_acc" where
  "pool_rpcs node rt [] acc = acc"
| "pool_rpcs node rt (rpc # rpcs) (summary, workers, endpoints) =
     (let endpoint = TrimSpace (rpc_Endpoint rpc);
          usable = (rpc_Ready rpc \<and> endpoint \<noteq> []);
          summary' = (if usable then summary\<lparr>rps_RPCReadyWorkers := rps_RPCReadyWorkers summary + 1\<rparr> else summary);
          endpoints' = (if usable \<and> endpoint \<notin> set endpoints then endpoints @ [endpoint] else endpoints)
      in pool_rpcs node rt rpcs (summary', workers @ [pool_worker node rt rpc], endpoints'))"

fun pool_runtimes :: "Node \<Rightarrow> RuntimeResource list \<Rightarrow> pool_acc \<Rightarrow> pool_acc" where
  "pool_runtimes node [] acc = acc"
| "pool_runtimes node (rt # rts) (summary, workers, endpoints) =
     (if \<not> rt_Ready rt then pool_runtimes node rts (summary, workers, endpoints)
      else pool_runtimes node rts (pool_rpcs node rt (rt_RPCRuntimes rt)
             (summary\<lparr>rps_RuntimeReadyWorkers := rps_RuntimeReadyWorkers summary + 1\<rparr>, workers, endpoints)))"

fun pool_nodes :: "Node list \<Rightarrow> pool_acc \<Rightarrow> pool_acc" where
  "pool_nodes [] acc = acc"
| "pool_nodes (node # ns) (summary, workers, endpoints) =
     (if n_Role node \<noteq> NodeRoleWorker \<or> n_Status node \<noteq> NodeStatusOnline then pool_nodes ns (summary, workers, endpoints)
      else pool_nodes ns (pool_runtimes node (rs_Runtimes (n_Resources node))
             (summary\<lparr>rps_Workers := rps_Workers summary + 1\<rparr>, workers, endpoints)))"

definition pool_worker_less :: "RuntimeRPCPoolWorker \<Rightarrow> RuntimeRPCPoolWorker \<Rightarrow> bool" where
  "pool_worker_less a b = (if rpw_NodeName a \<noteq> rpw_NodeName b then rpw_NodeName a < rpw_NodeName b
     else rpc_Endpoint (rpw_RPC a) < rpc_Endpoint (rpw_RPC b))"

definition runtimeRPCPoolReport :: "Node list \<Rightarrow> RuntimeRPCPoolSummary \<times> RuntimeRPCPoolWorker list \<times> string list" where
  "runtimeRPCPoolReport ns =
     (case pool_nodes ns (\<lparr>rps_Workers = 0, rps_RuntimeReadyWorkers = 0, rps_RPCReadyWorkers = 0, rps_Endpoints = 0\<rparr>, [], []) of
        (summary, workers, endpoints) \<Rightarrow>
          (summary\<lparr>rps_Endpoints := int (length endpoints)\<rparr>, go_sort pool_worker_less workers, go_sort (<) endpoints))"

subsection \<open>Health, rank and quarantine\<close>

definition cleanEndpointList :: "string list \<Rightarrow> string list" where
  "cleanEndpointList endpoints = clean_loop [] endpoints"

fun health_loop :: "(string, RPCHealthRecord) go_map \<Rightarrow> RPCHealthRecord list \<Rightarrow> (string, RPCHealthRecord) go_map" where
  "health_loop out [] = out"
| "health_loop out (r # rs) =
     (let endpoint = TrimSpace (hr_Endpoint r) in health_loop (if endpoint \<noteq> [] then mput endpoint r out else out) rs)"

definition rpcHealthByEndpoint :: "RPCHealthRecord list \<Rightarrow> (string, RPCHealthRecord) go_map" where
  "rpcHealthByEndpoint health = health_loop [] health"

definition rpcEndpointQuarantined :: "RPCHealthRecord \<Rightarrow> bool" where
  "rpcEndpointQuarantined r \<longleftrightarrow> \<not> hr_Ready r \<and> hr_ConsecutiveFailures r \<ge> rpcEndpointQuarantineConsecutiveFailures"

definition rpcHealthRank :: "RPCHealthRecord option \<Rightarrow> int" where
  "rpcHealthRank r = (case r of None \<Rightarrow> 1 | Some r \<Rightarrow> if hr_Ready r then 0 else 2)"

definition rank_less :: "(string, RPCHealthRecord) go_map \<Rightarrow> string \<Rightarrow> string \<Rightarrow> bool" where
  "rank_less health a b =
     (let left = mget health a; right = mget health b
      in if rpcHealthRank left \<noteq> rpcHealthRank right then rpcHealthRank left < rpcHealthRank right
         else (case (left, right) of
             (Some l, Some r) \<Rightarrow>
               if hr_ConsecutiveFailures l \<noteq> hr_ConsecutiveFailures r then hr_ConsecutiveFailures l < hr_ConsecutiveFailures r
               else if hr_Failures l \<noteq> hr_Failures r then hr_Failures l < hr_Failures r
               else if hr_LastLatencyMS l \<noteq> hr_LastLatencyMS r then
                 (if hr_LastLatencyMS l = 0 then False
                  else if hr_LastLatencyMS r = 0 then True
                  else hr_LastLatencyMS l < hr_LastLatencyMS r)
               else a < b
           | _ \<Rightarrow> a < b))"

definition rankRPCEndpoints :: "string list \<Rightarrow> RPCHealthRecord list \<Rightarrow> string list" where
  "rankRPCEndpoints endpoints health =
     (let out = cleanEndpointList endpoints
      in if length out \<le> 1 then out else go_sort (rank_less (rpcHealthByEndpoint health)) out)"

definition usable_endpoint :: "(string, RPCHealthRecord) go_map \<Rightarrow> string \<Rightarrow> bool" where
  "usable_endpoint health endpoint =
     (case mget health endpoint of Some r \<Rightarrow> \<not> rpcEndpointQuarantined r | None \<Rightarrow> True)"

definition usableRPCEndpoints :: "string list \<Rightarrow> RPCHealthRecord list \<Rightarrow> bool \<Rightarrow> string list" where
  "usableRPCEndpoints endpoints health includeQuarantined =
     (let ranked = rankRPCEndpoints endpoints health
      in if includeQuarantined then ranked else filter (usable_endpoint (rpcHealthByEndpoint health)) ranked)"

definition quarantinedRPCEndpoints :: "string list \<Rightarrow> RPCHealthRecord list \<Rightarrow> string list" where
  "quarantinedRPCEndpoints endpoints health =
     (let endpointSet = cleanEndpointList endpoints
      in go_sort (<) (map hr_Endpoint (filter (\<lambda>r. hr_Endpoint r \<in> set endpointSet \<and> rpcEndpointQuarantined r) health)))"

fun workers_by_loop :: "(string, RuntimeRPCPoolWorker) go_map \<Rightarrow> RuntimeRPCPoolWorker list \<Rightarrow> (string, RuntimeRPCPoolWorker) go_map" where
  "workers_by_loop out [] = out"
| "workers_by_loop out (w # ws) =
     (let endpoint = TrimSpace (rpc_Endpoint (rpw_RPC w))
      in if endpoint = [] then workers_by_loop out ws
         else if mget out endpoint = None then workers_by_loop (mput endpoint w out) ws
         else workers_by_loop out ws)"

definition rpcWorkersByEndpoint :: "RuntimeRPCPoolWorker list \<Rightarrow> (string, RuntimeRPCPoolWorker) go_map" where
  "rpcWorkersByEndpoint workers = workers_by_loop [] workers"

subsection \<open>Checking the endpoints\<close>

text \<open>A dial is given the endpoint and the timeout in nanoseconds.\<close>

type_synonym dialler = "nat \<Rightarrow> string \<Rightarrow> int \<Rightarrow> int \<times> string option"

definition smokeRuntimeRPCEndpoint :: "(string \<Rightarrow> int \<Rightarrow> int \<times> string option) \<Rightarrow> string \<Rightarrow> int \<Rightarrow> RuntimeRPCSmokeResult" where
  "smokeRuntimeRPCEndpoint dial endpoint0 timeout =
     (let endpoint = TrimSpace endpoint0;
          result = \<lparr>smr_Endpoint = endpoint, smr_Ready = False, smr_LatencyMS = 0, smr_Error = []\<rparr>
      in if endpoint = [] then result\<lparr>smr_Error := ''empty endpoint''\<rparr>
         else (case dial endpoint timeout of
             (latency, Some err) \<Rightarrow> result\<lparr>smr_LatencyMS := latency, smr_Error := err\<rparr>
           | (latency, None) \<Rightarrow> result\<lparr>smr_LatencyMS := latency, smr_Ready := True\<rparr>))"

fun smoke_loop :: "dialler \<Rightarrow> int \<Rightarrow> nat \<Rightarrow> string list \<Rightarrow> RuntimeRPCSmokeReport \<Rightarrow> RuntimeRPCSmokeReport" where
  "smoke_loop dial timeout k [] report = report"
| "smoke_loop dial timeout k (endpoint # endpoints) report =
     (let result = smokeRuntimeRPCEndpoint (dial k) endpoint timeout;
          report1 = (if smr_Ready result then report\<lparr>smp_Ready := smp_Ready report + 1\<rparr>
            else report\<lparr>smp_Failed := smp_Failed report + 1\<rparr>)
      in smoke_loop dial timeout (Suc k) endpoints (report1\<lparr>smp_Results := smp_Results report1 @ [result]\<rparr>))"

definition smokeRuntimeRPCEndpoints :: "dialler \<Rightarrow> int \<Rightarrow> string list \<Rightarrow> int \<Rightarrow> RuntimeRPCSmokeReport" where
  "smokeRuntimeRPCEndpoints dial duration endpoints timeout =
     (let report = smoke_loop dial timeout 0 endpoints \<lparr>smp_Checked = int (length endpoints), smp_Ready = 0, smp_Failed = 0,
        smp_TimeoutMS = 0, smp_DurationMS = 0, smp_Results = [], smp_RunnableNow = False\<rparr>
      in report\<lparr>smp_DurationMS := duration, smp_RunnableNow := smp_Checked report > 0 \<and> smp_Failed report = 0\<rparr>)"

definition health_update :: "time \<Rightarrow> (string, RuntimeRPCPoolWorker) go_map \<Rightarrow> RuntimeRPCSmokeResult \<Rightarrow> RPCHealthUpdate" where
  "health_update now byEndpoint result =
     \<lparr>hu_Endpoint = smr_Endpoint result,
      hu_NodeID = (case mget byEndpoint (smr_Endpoint result) of None \<Rightarrow> [] | Some w \<Rightarrow> rpw_NodeID w),
      hu_NodeName = (case mget byEndpoint (smr_Endpoint result) of None \<Rightarrow> [] | Some w \<Rightarrow> rpw_NodeName w),
      hu_Ready = smr_Ready result, hu_LatencyMS = smr_LatencyMS result, hu_Error = smr_Error result, hu_CheckedAt = now\<rparr>"

fun record_loop :: "time \<Rightarrow> (string, RuntimeRPCPoolWorker) go_map \<Rightarrow> RuntimeRPCSmokeResult list \<Rightarrow> State \<Rightarrow> State" where
  "record_loop now byEndpoint [] s = s"
| "record_loop now byEndpoint (result # results) s =
     record_loop now byEndpoint results (fst (PutRPCHealth now (health_update now byEndpoint result) s))"

definition recordRPCHealthReport :: "time \<Rightarrow> RuntimeRPCPoolWorker list \<Rightarrow> RuntimeRPCSmokeReport \<Rightarrow> State \<Rightarrow> State" where
  "recordRPCHealthReport now workers report s = record_loop now (rpcWorkersByEndpoint workers) (smp_Results report) s"

text \<open>The readings of a check: the dials, its duration and the time that is recorded.\<close>

record check_env =
  ck_dial :: dialler
  ck_duration :: int
  ck_now :: time

definition refreshRuntimeRPCHealth :: "time \<Rightarrow> nodes_env \<Rightarrow> check_env \<Rightarrow> int \<Rightarrow> State \<Rightarrow> State \<times> RuntimeRPCSmokeReport" where
  "refreshRuntimeRPCHealth now v ck timeout0 s =
     (let timeoutMS = (let t = (if timeout0 < 100 then 100 else timeout0) in if t > 5000 then 5000 else t);
          (s1, ns) = Nodes now v s;
          (_, workers, endpoints) = runtimeRPCPoolReport ns;
          report = smokeRuntimeRPCEndpoints (ck_dial ck) (ck_duration ck)
            (usableRPCEndpoints endpoints (RPCHealth s1) True) (timeoutMS * 1000000);
          s2 = recordRPCHealthReport (ck_now ck) workers report s1
      in (s2, report\<lparr>smp_TimeoutMS := timeoutMS\<rparr>))"

end
