(* ===== verification/RpcPlan.thy ===== *)
theory RpcPlan
  imports RpcPool
begin

section \<open>Planning a generation over RPC endpoints (internal/manager/server.go)\<close>

text \<open>
  The plan of a distributed RPC generation: the endpoints that are usable, or that answered a check, without those of the
  coordinator and of busy workers, at most eight; the back ends; the blockers. A plan reads the cluster twice and may record
  a check in the manager's state in between, so it is a step of the state.
\<close>

text \<open>
  The readings of one request: the clock, random bytes, and the orders of the maps, each counted in the order of the calls of one
  kind (\<open>se_jobs\<close> the listings of jobs, \<open>se_nodes\<close> those of nodes, \<open>se_list\<close> those of conversations and memories,
  \<open>se_pick\<close> and \<open>se_queue\<close> the worker selections of created jobs and of queue passes), and the check of the endpoints.
\<close>

record server_env =
  se_clock :: "nat \<Rightarrow> time"
  se_rand :: "nat \<Rightarrow> 8 word list option"
  se_jobs :: "nat \<Rightarrow> id list"
  se_nodes :: "nat \<Rightarrow> nodes_env"
  se_list :: "nat \<Rightarrow> id list"
  se_kinds :: "id \<Rightarrow> BenchmarkKind list"
  se_pick :: "nat \<Rightarrow> pick_env"
  se_queue :: "nat \<Rightarrow> jobs_env"
  se_memory :: memory_env
  se_check :: check_env

text \<open>The k-th listing of the nodes, at the k-th reading of the clock.\<close>

definition list_nodes :: "server_env \<Rightarrow> nat \<Rightarrow> State \<Rightarrow> State \<times> Node list" where
  "list_nodes e k s = Nodes (se_clock e k) (se_nodes e k) s"

record ModelDistributedRPCBackend =
  rpb_NodeID :: string
  rpb_NodeName :: string
  rpb_Runtime :: string
  rpb_Endpoint :: string
  rpb_HealthStatus :: string
  rpb_LatencyMS :: int
  rpb_Error :: string

record ModelDistributedRPCPlan =
  rpp_ModelID :: string
  rpp_Mode :: string
  rpp_CoordinatorNodeID :: string
  rpp_CoordinatorNodeName :: string
  rpp_ExecutableNow :: bool
  rpp_Blockers :: "string list"
  rpp_Warnings :: "string list"
  rpp_RPCEndpoints :: "string list"
  rpp_Backends :: "ModelDistributedRPCBackend list"
  rpp_RPCPool :: RuntimeRPCPoolSummary
  rpp_HealthChecked :: bool

record ModelDistributedRPCReadiness =
  rrd_Ready :: bool
  rrd_ModelID :: string
  rrd_NodeID :: string
  rrd_Blockers :: "string list"
  rrd_RPCEndpoints :: "string list"
  rrd_RPCPool :: RuntimeRPCPoolSummary
  rrd_Plan :: ModelDistributedRPCPlan

subsection \<open>Scheduling the endpoints\<close>

fun count_active :: "(string, int) go_map \<Rightarrow> Job list \<Rightarrow> (string, int) go_map" where
  "count_active out [] = out"
| "count_active out (job # js) =
     (if j_AssignedTo job = [] then count_active out js
      else if j_Status job = StatusScheduled \<or> j_Status job = StatusRunning
        then count_active (mput (j_AssignedTo job) ((case mget out (j_AssignedTo job) of None \<Rightarrow> 0 | Some n \<Rightarrow> n) + 1) out) js
      else count_active out js)"

definition activeJobsByWorker :: "Job list \<Rightarrow> (string, int) go_map" where
  "activeJobsByWorker js = count_active [] js"

definition worker_node :: "(string, RuntimeRPCPoolWorker) go_map \<Rightarrow> string \<Rightarrow> string" where
  "worker_node byEndpoint endpoint = (case mget byEndpoint endpoint of None \<Rightarrow> [] | Some w \<Rightarrow> rpw_NodeID w)"

definition on_coordinator :: "(string, RuntimeRPCPoolWorker) go_map \<Rightarrow> string \<Rightarrow> string \<Rightarrow> bool" where
  "on_coordinator byEndpoint coordinator endpoint \<longleftrightarrow> coordinator \<noteq> [] \<and> worker_node byEndpoint endpoint = coordinator"

definition on_busy :: "(string, RuntimeRPCPoolWorker) go_map \<Rightarrow> (string, int) go_map \<Rightarrow> string \<Rightarrow> bool" where
  "on_busy byEndpoint activeJobs endpoint \<longleftrightarrow> worker_node byEndpoint endpoint \<noteq> []
     \<and> (case mget activeJobs (worker_node byEndpoint endpoint) of None \<Rightarrow> 0 | Some n \<Rightarrow> n) > 0"

text \<open>The loop: the endpoints kept, and how many were left out because of the coordinator and because of busy workers.\<close>

fun schedule_endpoints ::
  "(string, RuntimeRPCPoolWorker) go_map \<Rightarrow> (string, int) go_map \<Rightarrow> string \<Rightarrow> string list \<Rightarrow> string list \<times> int \<times> int
     \<Rightarrow> string list \<times> int \<times> int" where
  "schedule_endpoints byEndpoint activeJobs coordinator [] acc = acc"
| "schedule_endpoints byEndpoint activeJobs coordinator (endpoint # endpoints) (out, excludedCoordinator, excludedBusy) =
     (if on_coordinator byEndpoint coordinator endpoint
      then schedule_endpoints byEndpoint activeJobs coordinator endpoints (out, excludedCoordinator + 1, excludedBusy)
      else if on_busy byEndpoint activeJobs endpoint
      then schedule_endpoints byEndpoint activeJobs coordinator endpoints (out, excludedCoordinator, excludedBusy + 1)
      else schedule_endpoints byEndpoint activeJobs coordinator endpoints (out @ [endpoint], excludedCoordinator, excludedBusy))"

definition scheduleDistributedRPCEndpoints ::
  "string list \<Rightarrow> RuntimeRPCPoolWorker list \<Rightarrow> (string, int) go_map \<Rightarrow> string \<Rightarrow> nat \<Rightarrow> string list \<times> string list" where
  "scheduleDistributedRPCEndpoints endpoints workers activeJobs coordinator maxEndpoints =
     (case schedule_endpoints (rpcWorkersByEndpoint workers) activeJobs coordinator (cleanEndpointList endpoints) ([], 0, 0) of
        (out, excludedCoordinator, excludedBusy) \<Rightarrow>
        let capped = (maxEndpoints > 0 \<and> length out > maxEndpoints)
        in (if capped then take maxEndpoints out else out,
            (if capped then [''distributed rpc fanout capped at '' @ show_int (int maxEndpoints) @ '' endpoint(s)''] else [])
            @ (if excludedCoordinator > 0
               then [show_int excludedCoordinator @ '' rpc endpoint(s) on the coordinator worker were excluded''] else [])
            @ (if excludedBusy > 0 then [show_int excludedBusy @ '' rpc endpoint(s) on busy workers were excluded''] else [])))"

subsection \<open>The back ends\<close>

fun results_loop :: "(string, RuntimeRPCSmokeResult) go_map \<Rightarrow> RuntimeRPCSmokeResult list \<Rightarrow> (string, RuntimeRPCSmokeResult) go_map" where
  "results_loop out [] = out"
| "results_loop out (r # rs) = results_loop (mput (smr_Endpoint r) r out) rs"

definition backend_health ::
  "bool \<Rightarrow> (string, RPCHealthRecord) go_map \<Rightarrow> (string, RuntimeRPCSmokeResult) go_map \<Rightarrow> string \<Rightarrow> string \<times> int \<times> string" where
  "backend_health checked_now records results endpoint =
     (if \<not> checked_now then
        (case mget records endpoint of
           Some r \<Rightarrow> if rpcEndpointQuarantined r
             then (''quarantined'', 0, ''endpoint has '' @ show_int (hr_ConsecutiveFailures r) @ '' consecutive health failures'')
             else (''unchecked'', 0, [])
         | None \<Rightarrow> (''unchecked'', 0, []))
      else (case mget results endpoint of
           Some result \<Rightarrow> (if smr_Ready result then ''ready'' else ''failed'', smr_LatencyMS result, smr_Error result)
         | None \<Rightarrow> (''failed'', 0, ''endpoint was not checked'')))"

fun backends_loop ::
  "bool \<Rightarrow> (string, RPCHealthRecord) go_map \<Rightarrow> (string, RuntimeRPCSmokeResult) go_map \<Rightarrow> RuntimeRPCPoolWorker list
     \<Rightarrow> ModelDistributedRPCBackend list" where
  "backends_loop checked_now records results [] = []"
| "backends_loop checked_now records results (worker # workers) =
     (let endpoint = TrimSpace (rpc_Endpoint (rpw_RPC worker))
      in if \<not> rpw_RuntimeReady worker \<or> \<not> rpc_Ready (rpw_RPC worker) \<or> endpoint = []
         then backends_loop checked_now records results workers
         else (case backend_health checked_now records results endpoint of (status, latency, err) \<Rightarrow>
           \<lparr>rpb_NodeID = rpw_NodeID worker, rpb_NodeName = rpw_NodeName worker, rpb_Runtime = rpw_Runtime worker,
            rpb_Endpoint = endpoint, rpb_HealthStatus = status, rpb_LatencyMS = latency, rpb_Error = err\<rparr>
           # backends_loop checked_now records results workers))"

subsection \<open>The plan\<close>

definition coordinator_id :: "string \<Rightarrow> ModelSummary \<Rightarrow> string" where
  "coordinator_id nodeID summary =
     (if TrimSpace nodeID \<noteq> [] then TrimSpace nodeID
      else (case List.find mi_GenerateReady (ms_Installed summary) of Some install \<Rightarrow> mi_NodeID install | None \<Rightarrow> []))"

definition coordinator_name :: "string \<Rightarrow> Node list \<Rightarrow> string" where
  "coordinator_name nodeID ns =
     (if nodeID = [] then []
      else (case List.find (\<lambda>node. n_ID node = nodeID) ns of Some node \<Rightarrow> nodeDisplayName node | None \<Rightarrow> []))"

definition coordinator_blockers :: "string \<Rightarrow> ModelSummary \<Rightarrow> string list" where
  "coordinator_blockers nodeID summary =
     (if nodeID = [] then [''select a worker with this model installed'']
      else if \<not> modelInstalledOn summary nodeID then [''model is not installed on the selected worker'']
      else if \<not> modelGeneratableOn summary nodeID then
        (if modelGenerateBlockedReason summary nodeID \<noteq> [] then [modelGenerateBlockedReason summary nodeID]
         else [''selected worker cannot generate this model''])
      else [])"

text \<open>The check inside a plan: the new state, the results, the endpoints, the blockers and the warnings.\<close>

definition check_endpoints ::
  "server_env \<Rightarrow> string list \<Rightarrow> RuntimeRPCPoolWorker list \<Rightarrow> int \<Rightarrow> State
     \<Rightarrow> State \<times> RuntimeRPCSmokeResult list \<times> string list \<times> string list \<times> string list" where
  "check_endpoints e endpoints workers healthTimeout s =
     (let report = smokeRuntimeRPCEndpoints (ck_dial (se_check e)) (ck_duration (se_check e))
            (usableRPCEndpoints endpoints (RPCHealth s) True) (if healthTimeout \<le> 0 then 1000000000 else healthTimeout);
          s' = recordRPCHealthReport (ck_now (se_check e)) workers report s;
          readyEndpoints = map smr_Endpoint (filter smr_Ready (smp_Results report))
      in (s', smp_Results report, usableRPCEndpoints readyEndpoints (RPCHealth s') False,
          if smp_Ready report = 0 then [''no reachable llama.cpp rpc endpoints passed health check''] else [],
          if smp_Failed report > 0
          then [show_int (smp_Failed report) @ '' llama.cpp rpc endpoint(s) failed health check and will be excluded''] else []))"

definition modelDistributedRPCPlan ::
  "server_env \<Rightarrow> Model \<Rightarrow> string \<Rightarrow> bool \<Rightarrow> int \<Rightarrow> State \<Rightarrow> State \<times> ModelDistributedRPCPlan" where
  "modelDistributedRPCPlan e model nodeID checkHealth healthTimeout s =
     (let (s1, ns) = list_nodes e 0 s;
          (pool, workers, endpoints) = runtimeRPCPoolReport ns;
          health = RPCHealth s1;
          quarantined = quarantinedRPCEndpoints endpoints health;
          warnings0 = (if length quarantined > 0 \<and> \<not> checkHealth
            then [show_int (int (length quarantined)) @ '' llama.cpp rpc endpoint(s) are quarantined after repeated health failures''] else []);
          healthChecked = (checkHealth \<and> length endpoints > 0);
          (s2, results, usable, blockers1, warnings1) = (if healthChecked then check_endpoints e endpoints workers healthTimeout s1
            else (s1, [], usableRPCEndpoints endpoints health False, [], []));
          backends = backends_loop healthChecked (rpcHealthByEndpoint health) (results_loop [] results) workers;
          blockers2 = (if usable = [] \<and> \<not> healthChecked then [''no active llama.cpp rpc endpoints are available''] else []);
          js = Jobs (se_jobs e 0) s2;
          (s3, ns') = list_nodes e 1 s2;
          modelSummary = hd (modelSummaries [model] js ns');
          coordinator = coordinator_id nodeID modelSummary;
          (scheduled, warnings2) = scheduleDistributedRPCEndpoints usable workers (activeJobsByWorker (Jobs (se_jobs e 1) s3))
            coordinator distributedRPCMaxScheduledEndpoints;
          blockers = blockers1 @ blockers2 @ coordinator_blockers coordinator modelSummary
            @ (if scheduled = [] then [''no schedulable llama.cpp rpc endpoints are available''] else [])
      in (s3, \<lparr>rpp_ModelID = m_ID model, rpp_Mode = ''llama.cpp-rpc'', rpp_CoordinatorNodeID = coordinator,
          rpp_CoordinatorNodeName = coordinator_name coordinator ns, rpp_ExecutableNow = (blockers = []),
          rpp_Blockers = blockers, rpp_Warnings = warnings0 @ warnings1 @ warnings2, rpp_RPCEndpoints = scheduled,
          rpp_Backends = backends, rpp_RPCPool = pool, rpp_HealthChecked = healthChecked\<rparr>))"

definition modelDistributedRPCReadiness :: "server_env \<Rightarrow> Model \<Rightarrow> string \<Rightarrow> State \<Rightarrow> State \<times> ModelDistributedRPCReadiness" where
  "modelDistributedRPCReadiness e model nodeID s =
     (let (s', plan) = modelDistributedRPCPlan e model nodeID False 0 s
      in (s', \<lparr>rrd_Ready = rpp_ExecutableNow plan, rrd_ModelID = rpp_ModelID plan, rrd_NodeID = rpp_CoordinatorNodeID plan,
          rrd_Blockers = rpp_Blockers plan, rrd_RPCEndpoints = rpp_RPCEndpoints plan, rrd_RPCPool = rpp_RPCPool plan,
          rrd_Plan = plan\<rparr>))"

subsection \<open>The execution plan of the job\<close>

fun rpcPlanContainsEndpoint :: "string list \<Rightarrow> string \<Rightarrow> bool" where
  "rpcPlanContainsEndpoint [] endpoint = False"
| "rpcPlanContainsEndpoint (candidate # candidates) endpoint =
     (if candidate = endpoint then True else rpcPlanContainsEndpoint candidates endpoint)"

definition job_backend :: "ModelDistributedRPCBackend \<Rightarrow> DistributedRPCBackend" where
  "job_backend b = \<lparr>be_NodeID = rpb_NodeID b, be_NodeName = rpb_NodeName b, be_Runtime = rpb_Runtime b, be_Endpoint = rpb_Endpoint b,
     be_HealthStatus = rpb_HealthStatus b, be_LatencyMS = rpb_LatencyMS b, be_Error = rpb_Error b\<rparr>"

text \<open>The planning time as RFC 3339 text without a fraction; the years 0 to 9999 are padded to four digits.\<close>

definition format_rfc3339 :: "time \<Rightarrow> string" where
  "format_rfc3339 t =
     (let secs = t div 1000000000; days = secs div 86400; sod = secs mod 86400
      in case civil_from_days days of (y, m, d) \<Rightarrow>
        pad 4 y @ ''-'' @ pad 2 m @ ''-'' @ pad 2 d @ ''T'' @ pad 2 (sod div 3600) @ '':''
          @ pad 2 (sod div 60 mod 60) @ '':'' @ pad 2 (sod mod 60) @ ''Z'')"

definition distributedRPCExecutionPlanForJob ::
  "8 word list option \<Rightarrow> time \<Rightarrow> ModelDistributedRPCPlan \<Rightarrow> DistributedRPCExecutionPlan" where
  "distributedRPCExecutionPlanForJob rnd now plan =
     \<lparr>ep_ID = newJobID rnd, ep_Protocol = DistributedRPCProtocol, ep_ProtocolVersion = DistributedRPCProtocolVersion,
      ep_PlanSchemaVersion = DistributedRPCPlanSchemaVersion, ep_Mode = rpp_Mode plan, ep_ModelID = rpp_ModelID plan,
      ep_CoordinatorNodeID = rpp_CoordinatorNodeID plan, ep_CoordinatorNodeName = rpp_CoordinatorNodeName plan,
      ep_RPCEndpoints = rpp_RPCEndpoints plan,
      ep_Backends = map job_backend (filter (\<lambda>b. rpcPlanContainsEndpoint (rpp_RPCEndpoints plan) (rpb_Endpoint b)) (rpp_Backends plan)),
      ep_HealthChecked = rpp_HealthChecked plan, ep_PlannedAt = format_rfc3339 now\<rparr>"

end
