(* ===== verification/RpcHealth.thy ===== *)
theory RpcHealth
  imports RpcPool Manager "HOL-Library.Product_Lexorder"
begin

section \<open>Ranking and quarantine of RPC endpoints\<close>

text \<open>
  The ranking is a sort by a key: endpoints that answered last time, then unknown ones, then failing ones; among known ones fewer
  failures and a smaller latency first, 0 standing for no measurement; the name decides. An endpoint is left out exactly when it was
  checked and its last three checks failed.
\<close>

subsection \<open>The rank is a key\<close>

definition rank_key :: "(string, RPCHealthRecord) go_map \<Rightarrow> string \<Rightarrow> int \<times> int \<times> int \<times> bool \<times> int \<times> string" where
  "rank_key health e =
     (case mget health e of
        None \<Rightarrow> (1, 0, 0, False, 0, e)
      | Some r \<Rightarrow> (if hr_Ready r then 0 else 2, hr_ConsecutiveFailures r, hr_Failures r, hr_LastLatencyMS r = 0, hr_LastLatencyMS r, e))"

lemma rank_less_key: "rank_less health a b \<longleftrightarrow> rank_key health a < rank_key health b"
  by (auto simp: rank_less_def rank_key_def rpcHealthRank_def Let_def less_prod_def' split: option.splits)

interpretation rank: strict_weak_order "rank_less health" for health
  by unfold_locales (auto simp: rank_less_key)

lemma rank_less_total: "a \<noteq> b \<Longrightarrow> rank_less health a b \<or> rank_less health b a"
proof -
  assume "a \<noteq> b"
  then have "rank_key health a \<noteq> rank_key health b" by (auto simp: rank_key_def split: option.splits)
  then show ?thesis by (auto simp: rank_less_key neq_iff)
qed

lemma sorted_strict:
  assumes "distinct xs" and "sorted_wrt (\<lambda>x y. \<not> rank_less health y x) xs"
  shows "sorted_wrt (rank_less health) xs"
  using assms
proof (induction xs)
  case (Cons x xs)
  have "rank_less health x y" if "y \<in> set xs" for y
    using Cons.prems that rank_less_total [of x y health] by auto
  with Cons show ?case by simp
qed simp

lemma sorted_unique:
  assumes "sorted_wrt (rank_less health) xs" and "sorted_wrt (rank_less health) ys" and "set xs = set ys"
  shows "xs = ys"
proof -
  have "inj (rank_key health)" by (rule injI) (auto simp: rank_key_def split: option.splits)
  moreover have "sorted_wrt (<) (map (rank_key health) zs)" if "sorted_wrt (rank_less health) zs" for zs
    using that by (auto simp: sorted_wrt_map rank_less_key elim: sorted_wrt_mono_rel [rotated])
  then have "map (rank_key health) xs = map (rank_key health) ys"
    using assms by (intro strict_sorted_equal) auto
  ultimately show ?thesis by (simp add: inj_map_eq_map)
qed

lemma clean_endpoints:
  "set (cleanEndpointList es) = {e \<in> TrimSpace ` set es. e \<noteq> []}" "distinct (cleanEndpointList es)"
  by (simp_all add: cleanEndpointList_def clean_loop_set clean_loop_distinct)

lemma ranked_set: "set (rankRPCEndpoints es health) = set (cleanEndpointList es)"
  and ranked_distinct: "distinct (rankRPCEndpoints es health)"
  by (simp_all add: rankRPCEndpoints_def Let_def clean_endpoints)

lemma ranked_sorted: "sorted_wrt (rank_less (rpcHealthByEndpoint health)) (rankRPCEndpoints es health)"
proof (cases "length (cleanEndpointList es) \<le> 1")
  case True
  then have "sorted_wrt P (cleanEndpointList es)" for P by (cases "cleanEndpointList es") auto
  with True show ?thesis by (simp add: rankRPCEndpoints_def Let_def)
next
  case False
  then show ?thesis
    by (simp add: rankRPCEndpoints_def Let_def sorted_strict rank.go_sort_sorted clean_endpoints)
qed


subsection \<open>Quarantine\<close>

text \<open>The health record of an endpoint, found through the sorted list of all records.\<close>

lemma health_loop_other: "e \<notin> TrimSpace ` hr_Endpoint ` set rs \<Longrightarrow> mget (health_loop out rs) e = mget out e"
  by (induction rs arbitrary: out) (auto simp: Let_def)

lemma health_loop_get:
  assumes "r \<in> set rs" and "distinct (map (\<lambda>r. TrimSpace (hr_Endpoint r)) rs)" and "TrimSpace (hr_Endpoint r) \<noteq> []"
  shows "mget (health_loop out rs) (TrimSpace (hr_Endpoint r)) = Some r"
  using assms
proof (induction rs arbitrary: out)
  case (Cons q rs)
  show ?case
  proof (cases "r = q")
    case True
    with Cons.prems have "TrimSpace (hr_Endpoint r) \<notin> TrimSpace ` hr_Endpoint ` set rs" by (auto simp: image_image)
    with Cons.prems True show ?thesis by (simp add: Let_def health_loop_other)
  next
    case False
    with Cons show ?thesis by (simp add: Let_def)
  qed
qed simp

lemma health_by_endpoint:
  assumes "map_all health_ok (rpcHealth s)"
  shows "mget (rpcHealthByEndpoint (RPCHealth s)) e = mget (rpcHealth s) e"
proof -
  let ?m = "rpcHealth s"
  have ok: "hr_Endpoint r = k" "TrimSpace k = k" "k \<noteq> []" if "(k, r) \<in> set ?m" for k r
    using assms that by (auto simp: map_all_def health_ok_def mget_iff_set)
  have keys: "map (\<lambda>r. TrimSpace (hr_Endpoint r)) (mvals ?m) = mkeys ?m"
    using ok by (auto simp: mvals_def mkeys_def)
  have "mset (map (\<lambda>r. TrimSpace (hr_Endpoint r)) (RPCHealth s)) = mset (mkeys ?m)"
    using keys by (metis RPCHealth_def mset_go_sort mset_map)
  moreover have "distinct (mkeys ?m)" using assms by (simp add: map_all_def map_wf_def mkeys_def)
  ultimately have dist: "distinct (map (\<lambda>r. TrimSpace (hr_Endpoint r)) (RPCHealth s))" by (metis mset_eq_imp_distinct_iff)
  show ?thesis
  proof (cases "mget ?m e")
    case None
    then have "e \<notin> TrimSpace ` hr_Endpoint ` set (RPCHealth s)"
      using arg_cong [OF keys, of set] by (simp add: RPCHealth_def mget_None_iff image_image)
    with None show ?thesis by (simp add: rpcHealthByEndpoint_def health_loop_other)
  next
    case (Some r)
    then have "(e, r) \<in> set ?m" by (rule mget_in_set)
    moreover from this have "r \<in> set (RPCHealth s)" by (auto simp: RPCHealth_def mvals_in)
    ultimately show ?thesis
      using health_loop_get [OF _ dist, of r "[]"] ok [of e r] Some by (simp add: rpcHealthByEndpoint_def)
  qed
qed

text \<open>What one check does to the record of its endpoint.\<close>

definition checked :: "bool \<Rightarrow> RPCHealthRecord option \<Rightarrow> RPCHealthRecord \<Rightarrow> bool" where
  "checked ready old r \<longleftrightarrow> hr_Ready r = ready
     \<and> hr_ConsecutiveFailures r = (if ready then 0 else wrap64 ((case old of None \<Rightarrow> 0 | Some o' \<Rightarrow> hr_ConsecutiveFailures o') + 1))"

lemma PutRPCHealth_checked:
  assumes "TrimSpace (hu_Endpoint u) = e" and "e \<noteq> []"
  shows "\<exists>r. mget (rpcHealth (fst (PutRPCHealth now u s))) e = Some r \<and> checked (hu_Ready u) (mget (rpcHealth s) e) r"
  using assms by (auto simp: PutRPCHealth_def Let_def checked_def zero_health_def split: option.splits)

lemma PutRPCHealth_other:
  "TrimSpace (hu_Endpoint u) \<noteq> e \<Longrightarrow> mget (rpcHealth (fst (PutRPCHealth now u s))) e = mget (rpcHealth s) e"
  by (auto simp: PutRPCHealth_def Let_def)

text \<open>The outcomes of the checks of an endpoint in a run of the manager, oldest first.\<close>

fun check_of :: "string \<Rightarrow> manager_op \<Rightarrow> bool list" where
  "check_of e (OpHealth now u) = (if TrimSpace (hu_Endpoint u) = e then [hu_Ready u] else [])"
| "check_of e _ = []"

definition checks_of :: "string \<Rightarrow> manager_op list \<Rightarrow> bool list" where
  "checks_of e ops = concat (map (check_of e) ops)"

definition run_ops :: "manager_op list \<Rightarrow> State \<Rightarrow> State" where
  "run_ops ops s = fold exec ops s"

lemma run_ops_snoc [simp]: "run_ops (ops @ [op]) s = exec op (run_ops ops s)"
  by (simp add: run_ops_def)

lemma checks_of_snoc [simp]: "checks_of e (ops @ [op]) = checks_of e ops @ check_of e op"
  by (simp add: checks_of_def)

text \<open>Only a check changes the health records.\<close>

lemma nodes_loop_health: "rpcHealth (fst (nodes_loop now qs ks out s)) = rpcHealth s"
proof (induction ks arbitrary: out s)
  case (Cons k ks)
  have "rpcHealth (fst (nodes_one now qs n s)) = rpcHealth s" for n by (simp add: nodes_one_def Let_def)
  with Cons show ?case by (auto split: option.splits prod.splits) (metis fst_conv)
qed simp

lemma complete_health: "rpcHealth (fst (CompleteJob now env q i req s)) = rpcHealth s"
proof -
  have append: "rpcHealth (appendAssistantMessageForJobLocked j t s) = rpcHealth s" for j t s
    by (auto simp: appendAssistantMessageForJobLocked_def Let_def split: prod.splits option.splits)
  have cleanup: "rpcHealth (fst (cleanupModelPersistenceForDeleteJobLocked j s)) = rpcHealth s" for j s
    by (auto simp: cleanupModelPersistenceForDeleteJobLocked_def delete_memories_of_def delete_conversations_of_def split: option.splits)
  show ?thesis
    by (auto simp: CompleteJob_def Let_def append split: option.splits prod.splits) (metis append cleanup fst_conv)+
qed

lemma exec_health:
  assumes "check_of e op = []"
  shows "mget (rpcHealth (exec op s)) e = mget (rpcHealth s) e"
  using assms
proof (cases op)
  case (OpHealth now u)
  with assms show ?thesis by (simp add: PutRPCHealth_other split: if_splits)
next
  case (OpBatch now rs)
  then show ?thesis using rest_fields [OF rest_batch] by (simp add: CreateJobsBatch_def)
next
  case (OpNext now ord n)
  then show ?thesis using rest_fields [OF rest_Next] by (simp add: NextJobForWorker_def)
qed (auto simp: RegisterWorker_def Heartbeat_op_def MarkWorkerOffline_def markWorkerOfflineLocked_def Nodes_def nodes_loop_health
    PutBenchmark_def CreateJob_def complete_health UpdateJobProgress_def UpdateCDIPStageState_def CompleteCoordinatorJob_def
    CancelJob_def AppendConversationMessage_def DeleteConversation_def UpsertMemory_def DeleteMemory_def
    DeleteMemoriesByModel_def delete_memories_of_def Let_def split: option.splits)

lemma check_of_cases: "check_of e op = [] \<or> (\<exists>now u. op = OpHealth now u \<and> TrimSpace (hu_Endpoint u) = e \<and> check_of e op = [hu_Ready u])"
  by (cases op) auto

text \<open>The record of an endpoint: its readiness is the last outcome, its consecutive failures the failures at the end.\<close>

definition failures_at_end :: "bool list \<Rightarrow> nat" where
  "failures_at_end cs = length (takeWhile Not (rev cs))"

lemma health_after_checks:
  assumes "e \<noteq> []" and "length (checks_of e ops) < 2 ^ 63"
  shows "case mget (rpcHealth (run_ops ops (NewState t))) e of
      None \<Rightarrow> checks_of e ops = []
    | Some r \<Rightarrow> checks_of e ops \<noteq> [] \<and> hr_Ready r = last (checks_of e ops)
        \<and> hr_ConsecutiveFailures r = int (failures_at_end (checks_of e ops))"
  using assms(2)
proof (induction ops rule: rev_induct)
  case Nil
  then show ?case by (simp add: run_ops_def checks_of_def NewState_def)
next
  case (snoc op ops)
  let ?cs = "checks_of e ops" and ?s = "run_ops ops (NewState t)"
  from check_of_cases [of e op] show ?case
  proof (elim disjE exE conjE)
    assume "check_of e op = []"
    with snoc show ?thesis by (simp add: exec_health split: option.splits)
  next
    fix now u
    assume op: "op = OpHealth now u" "TrimSpace (hu_Endpoint u) = e" "check_of e op = [hu_Ready u]"
    from PutRPCHealth_checked [OF op(2) assms(1)] obtain r where
      r: "mget (rpcHealth (exec op ?s)) e = Some r" "checked (hu_Ready u) (mget (rpcHealth ?s) e) r" using op(1) by fastforce
    have "failures_at_end ?cs \<le> length ?cs" unfolding failures_at_end_def by (metis length_rev length_takeWhile_le)
    then have "int64_range (int (failures_at_end ?cs) + 1)"
      using snoc.prems op(3) by (simp add: int64_range_def)
    with r snoc op(3) show ?thesis
      by (auto simp: checked_def failures_at_end_def int64_range_def split: option.splits)
  qed
qed

lemma three_first: "3 \<le> length (takeWhile Not xs) \<longleftrightarrow> (\<exists>ys. xs = False # False # False # ys)"
  by (cases xs; cases "tl xs"; cases "tl (tl xs)") auto

lemma three_failures: "3 \<le> failures_at_end cs \<longleftrightarrow> (\<exists>ds. cs = ds @ [False, False, False])"
proof -
  have "cs = ds @ [False, False, False] \<longleftrightarrow> rev cs = False # False # False # rev ds" for ds
    by (metis append_Cons append_Nil append_assoc rev.simps(2) rev_rev_ident)
  then show ?thesis unfolding failures_at_end_def three_first by (metis rev_rev_ident)
qed

lemma no_failures_at_end: "cs \<noteq> [] \<Longrightarrow> last cs \<Longrightarrow> failures_at_end cs = 0"
  by (cases cs rule: rev_cases) (simp_all add: failures_at_end_def)

lemma run_ops_reachable: "reachable s \<Longrightarrow> list_all op_ok ops \<Longrightarrow> reachable (run_ops ops s)"
  by (induction ops rule: rev_induct) (auto simp: run_ops_def intro: reachable.step)

text \<open>
  C33. Whatever else the manager does, an endpoint is offered for RPC generation exactly unless its last three checks failed: three
  failures in a row quarantine it, one success lifts the quarantine.
\<close>

theorem quarantine_after_three_failures:
  assumes "list_all op_ok ops" and "e \<noteq> []" and "length (checks_of e ops) < 2 ^ 63"
  shows "usable_endpoint (rpcHealthByEndpoint (RPCHealth (run_ops ops (NewState t)))) e
    \<longleftrightarrow> (\<nexists>cs. checks_of e ops = cs @ [False, False, False])"
proof -
  have "reachable (run_ops ops (NewState t))" using run_ops_reachable [OF reachable.init assms(1)] .
  then have "map_all health_ok (rpcHealth (run_ops ops (NewState t)))" using reachable_wf by (simp add: state_wf_def)
  then have "usable_endpoint (rpcHealthByEndpoint (RPCHealth (run_ops ops (NewState t)))) e
      \<longleftrightarrow> \<not> failures_at_end (checks_of e ops) \<ge> 3"
    using health_after_checks [OF assms(2,3), of t] no_failures_at_end [of "checks_of e ops"]
    by (auto simp: usable_endpoint_def health_by_endpoint rpcEndpointQuarantined_def rpcEndpointQuarantineConsecutiveFailures_def
        failures_at_end_def [of "[]"] split: option.splits)
  then show ?thesis by (simp add: three_failures)
qed

definition failed_check :: "time \<Rightarrow> manager_op" where
  "failed_check t = OpHealth t \<lparr>hu_Endpoint = ''10.0.0.2:50052'', hu_NodeID = [], hu_NodeName = [], hu_Ready = False,
     hu_LatencyMS = 0, hu_Error = ''refused'', hu_CheckedAt = t\<rparr>"

theorem quarantine_after_three_failures_witness:
  "\<not> usable_endpoint (rpcHealthByEndpoint (RPCHealth (run_ops [failed_check 1, failed_check 2, failed_check 3] (NewState 0)))) ''10.0.0.2:50052''"
proof -
  have "checks_of ''10.0.0.2:50052'' [failed_check 1, failed_check 2, failed_check 3] = [] @ [False, False, False]"
    by (simp add: checks_of_def failed_check_def TrimSpace_id space_runes_def)
  moreover have "list_all op_ok [failed_check 1, failed_check 2, failed_check 3]" by (simp add: failed_check_def)
  ultimately show ?thesis
    using quarantine_after_three_failures [of "[failed_check 1, failed_check 2, failed_check 3]" "''10.0.0.2:50052''" 0] by fastforce
qed

end
