(* ===== verification/RpcGuarantees.thy ===== *)
theory RpcGuarantees
  imports RpcPlan RpcHealth Guarantees
begin

section \<open>What an RPC plan promises\<close>

text \<open>
  An RPC plan uses only endpoints that online workers report, none on its coordinator and none on a busy worker, and a plan without
  blockers makes an execution plan that the protocol accepts.
\<close>

subsection \<open>Identifiers of nodes\<close>

lemma trimmed_away: "trim_left_fuel n ps s = [] \<Longrightarrow> \<exists>qs. set qs \<subseteq> set ps \<and> s = concat qs"
proof (induction n arbitrary: s)
  case 0
  then show ?case by (intro exI [of _ "[]"]) simp
next
  case (Suc n)
  show ?case
  proof (cases "strip_any ps s")
    case None
    with Suc.prems show ?thesis by (intro exI [of _ "[]"]) simp
  next
    case (Some t)
    then obtain p where p: "p \<in> set ps" "s = p @ t" by (blast dest: strip_any_Some)
    from Suc Some obtain qs where "set qs \<subseteq> set ps" "t = concat qs" by auto
    with p show ?thesis by (intro exI [of _ "p # qs"]) simp
  qed
qed

lemma not_blank_start:
  assumes "strip_any space_runes s = None" and "s \<noteq> []"
  shows "\<not> blank s"
proof
  assume "blank s"
  then have "trim_left (map rev space_runes) (rev s) = []" using assms(1) by (simp add: blank_def TrimSpace_def trim_left_id)
  then obtain qs where qs: "set qs \<subseteq> set (map rev space_runes)" "rev s = concat qs"
    unfolding trim_left_def by (blast dest: trimmed_away)
  have "qs \<noteq> []" using qs(2) assms(2) by auto
  then obtain rs q where "qs = rs @ [q]" by (cases qs rule: rev_cases) auto
  then have "rev s = concat rs @ q" "rev q \<in> set space_runes" using qs by auto
  then have "s = rev q @ rev (concat rs)" by (metis rev_append rev_rev_ident)
  with \<open>rev q \<in> set space_runes\<close> assms(1) show False by (auto simp: strip_any_None)
qed

lemma newNodeID_not_blank: "\<not> blank (newNodeID r)"
  by (rule not_blank_start) (simp_all add: newNodeID_def space_runes_def split: option.splits)

text \<open>Only registration adds a node, so every stored identifier has been made by \<open>newNodeID\<close>.\<close>

definition named_nodes :: "State \<Rightarrow> bool" where
  "named_nodes s \<longleftrightarrow> (\<forall>i n. mget (nodes s) i = Some n \<longrightarrow> n_ID n = i \<and> (\<exists>r. i = newNodeID r))"

lemma named_put: "named_nodes s \<Longrightarrow> n_ID n = i \<Longrightarrow> mget (nodes s) i = Some m \<Longrightarrow> named_nodes (put_node i n s)"
  by (auto simp: named_nodes_def)

lemma named_new: "named_nodes s \<Longrightarrow> n_ID n = newNodeID r \<Longrightarrow> named_nodes (put_node (newNodeID r) n s)"
  by (auto simp: named_nodes_def)

lemma named_same: "nodes t = nodes s \<Longrightarrow> named_nodes s \<Longrightarrow> named_nodes t"
  by (simp add: named_nodes_def)

lemma named_fail: "named_nodes s \<Longrightarrow> named_nodes (failActiveJobsForWorkerLocked q n now reason s)"
  by (rule named_same) simp

lemma named_schedule: "named_nodes s \<Longrightarrow> named_nodes (scheduleQueuedJobsLocked q now s)"
  by (rule named_same) simp

lemma named_node: "named_nodes s \<Longrightarrow> mget (nodes s) i = Some n \<Longrightarrow> n_ID n = i"
  by (simp add: named_nodes_def)

lemma named_nodes_one:
  assumes "named_nodes s" and "mget (nodes s) k = Some n"
  shows "named_nodes (fst (nodes_one now qs n s))"
  using assms named_node [OF assms]
  by (auto simp: nodes_one_def Let_def intro!: named_fail named_put)

lemma named_nodes_loop: "named_nodes s \<Longrightarrow> named_nodes (fst (nodes_loop now qs ks out s))"
proof (induction ks arbitrary: out s)
  case (Cons k ks)
  show ?case
  proof (cases "mget (nodes s) k")
    case (Some n)
    obtain s' n' where one: "nodes_one now qs n s = (s', n')" by force
    with named_nodes_one [OF Cons.prems Some, of now qs] have "named_nodes s'" by simp
    with Some one Cons.IH show ?thesis by simp
  qed (use Cons in simp)
qed simp

lemma complete_nodes: "nodes (fst (CompleteJob now env q i req s)) = nodes s"
  by (auto simp: CompleteJob_def Let_def split: option.splits prod.splits dest!: cleanup_nodes)

lemma exec_named: "named_nodes s \<Longrightarrow> named_nodes (exec op s)"
proof (cases op)
  case (OpRegister rnd now q req)
  assume "named_nodes s"
  then show ?thesis unfolding OpRegister by (auto simp: RegisterWorker_def Let_def intro!: named_schedule named_new)
next
  case (OpHeartbeat now q hb)
  assume "named_nodes s"
  then show ?thesis unfolding OpHeartbeat using named_node [of s]
    by (auto simp: Heartbeat_op_def intro!: named_schedule named_put split: option.splits)
next
  case (OpOffline now q n)
  assume "named_nodes s"
  then show ?thesis unfolding OpOffline using named_node [of s]
    by (auto simp: MarkWorkerOffline_def markWorkerOfflineLocked_def intro!: named_fail named_put split: option.splits)
next
  case (OpNodes now v)
  assume "named_nodes s"
  then show ?thesis unfolding OpNodes by (simp add: Nodes_def named_nodes_loop)
next
  case (OpBatch now rs)
  assume "named_nodes s"
  then show ?thesis unfolding OpBatch using rest_fields [OF rest_batch] by (auto simp: CreateJobsBatch_def intro: named_same)
next
  case (OpNext now ord n)
  assume "named_nodes s"
  then show ?thesis unfolding OpNext using rest_fields [OF rest_Next] by (auto simp: NextJobForWorker_def intro: named_same)
qed (auto simp: PutBenchmark_def PutRPCHealth_def CreateJob_def complete_nodes UpdateJobProgress_def UpdateCDIPStageState_def
    CompleteCoordinatorJob_def CancelJob_def AppendConversationMessage_def upsertExtractedMemoriesLocked_def DeleteConversation_def
    UpsertMemory_def DeleteMemory_def DeleteMemoriesByModel_def delete_memories_of_def Let_def intro: named_same
    split: option.splits)

lemma reachable_named: "reachable s \<Longrightarrow> named_nodes s"
proof (induction rule: reachable.induct)
  case (init now)
  then show ?case by (simp add: named_nodes_def NewState_def)
qed (simp add: exec_named)

text \<open>So the nodes that a listing returns have identifiers that are not blank.\<close>

lemma nodes_loop_ids:
  assumes "named_nodes s" and "\<And>n. n \<in> set out \<Longrightarrow> \<not> blank (n_ID n)"
  shows "n \<in> set (snd (nodes_loop now qs ks out s)) \<Longrightarrow> \<not> blank (n_ID n)"
  using assms
proof (induction ks arbitrary: out s)
  case (Cons k ks)
  show ?case
  proof (cases "mget (nodes s) k")
    case None
    with Cons show ?thesis by simp
  next
    case (Some m)
    obtain s' m' where one: "nodes_one now qs m s = (s', m')" by force
    with named_nodes_one [OF Cons.prems(2) Some, of now qs] have "named_nodes s'" by simp
    moreover have "n_ID m' = k" "\<exists>r. k = newNodeID r"
      using one Some Cons.prems(2) by (auto simp: nodes_one_def Let_def named_nodes_def split: if_splits)
    then have "\<not> blank (n_ID m')" using newNodeID_not_blank by auto
    ultimately show ?thesis using Cons.IH [of "out @ [m']" s'] Cons.prems Some one by auto
  qed
qed simp

lemma list_nodes_ids: "reachable s \<Longrightarrow> list_nodes e k s = (s', ns) \<Longrightarrow> n \<in> set ns \<Longrightarrow> \<not> blank (n_ID n)"
  using nodes_loop_ids [of s "[]" n "se_clock e k" "v_jobs (se_nodes e k)" "v_nodes (se_nodes e k)"] reachable_named [of s]
  by (simp add: list_nodes_def Nodes_def)

subsection \<open>What the pool report promises\<close>

definition serves :: "RuntimeRPCPoolWorker \<Rightarrow> string \<Rightarrow> bool" where
  "serves w e \<longleftrightarrow> rpw_RuntimeReady w \<and> rpc_Ready (rpw_RPC w) \<and> TrimSpace (rpc_Endpoint (rpw_RPC w)) = e"

definition pool_ok :: "Node list \<Rightarrow> RuntimeRPCPoolWorker list \<Rightarrow> string list \<Rightarrow> bool" where
  "pool_ok ns workers endpoints \<longleftrightarrow> (\<forall>w \<in> set workers. \<exists>n \<in> set ns. online_worker n \<and> rpw_NodeID w = n_ID n)
     \<and> (\<forall>e \<in> set endpoints. e \<noteq> [] \<and> TrimSpace e = e \<and> (\<exists>w \<in> set workers. serves w e))"

lemma pool_rpcs_ok:
  assumes "pool_ok ns workers endpoints" and "node \<in> set ns" and "online_worker node" and "rt_Ready rt"
    and "pool_rpcs node rt rpcs (summary, workers, endpoints) = (summary', workers', endpoints')"
  shows "pool_ok ns workers' endpoints'"
  using assms(1,5)
proof (induction rpcs arbitrary: summary workers endpoints)
  case (Cons rpc rpcs)
  let ?w = "pool_worker node rt rpc" and ?e = "TrimSpace (rpc_Endpoint rpc)"
  have "pool_ok ns (workers @ [?w]) endpoints"
    using Cons.prems(1) assms(2,3) by (auto simp: pool_ok_def pool_worker_def)
  moreover have "serves ?w ?e" if "rpc_Ready rpc" using that assms(4) by (simp add: serves_def pool_worker_def)
  ultimately have "pool_ok ns (workers @ [?w]) (if (rpc_Ready rpc \<and> ?e \<noteq> []) \<and> ?e \<notin> set endpoints then endpoints @ [?e] else endpoints)"
    by (auto simp: pool_ok_def)
  then show ?case using Cons.IH Cons.prems(2) by (simp only: pool_rpcs.simps Let_def)
qed simp

lemma pool_runtimes_ok:
  assumes "pool_ok ns workers endpoints" and "node \<in> set ns" and "online_worker node"
    and "pool_runtimes node rts (summary, workers, endpoints) = (summary', workers', endpoints')"
  shows "pool_ok ns workers' endpoints'"
  using assms(1,4)
proof (induction rts arbitrary: summary workers endpoints)
  case (Cons rt rts)
  show ?case
  proof (cases "rt_Ready rt")
    case True
    obtain s1 w1 e1 where one: "pool_rpcs node rt (rt_RPCRuntimes rt)
        (summary\<lparr>rps_RuntimeReadyWorkers := rps_RuntimeReadyWorkers summary + 1\<rparr>, workers, endpoints) = (s1, w1, e1)" by (metis prod.exhaust)
    show ?thesis using Cons.IH [OF pool_rpcs_ok [OF Cons.prems(1) assms(2,3) True one]] Cons.prems(2) one True by simp
  qed (use Cons in simp)
qed simp

lemma pool_nodes_ok:
  assumes "pool_ok ns0 workers endpoints" and "set ns \<subseteq> set ns0"
    and "pool_nodes ns (summary, workers, endpoints) = (summary', workers', endpoints')"
  shows "pool_ok ns0 workers' endpoints'"
  using assms
proof (induction ns arbitrary: summary workers endpoints)
  case (Cons node ns)
  show ?case
  proof (cases "online_worker node")
    case True
    obtain s1 w1 e1 where one: "pool_runtimes node (rs_Runtimes (n_Resources node))
        (summary\<lparr>rps_Workers := rps_Workers summary + 1\<rparr>, workers, endpoints) = (s1, w1, e1)" by (metis prod.exhaust)
    have "node \<in> set ns0" using Cons.prems(2) by simp
    from Cons.IH [OF pool_runtimes_ok [OF Cons.prems(1) this True one]] Cons.prems(2,3) one True
    show ?thesis by (simp add: online_worker_def)
  next
    case False
    then have "n_Role node \<noteq> NodeRoleWorker \<or> n_Status node \<noteq> NodeStatusOnline" by (simp add: online_worker_def)
    with Cons show ?thesis by simp
  qed
qed simp

lemma pool_report_ok:
  assumes "runtimeRPCPoolReport ns = (pool, workers, endpoints)"
  shows "pool_ok ns workers endpoints"
proof -
  obtain summary' workers' endpoints' where loop: "pool_nodes ns (\<lparr>rps_Workers = 0, rps_RuntimeReadyWorkers = 0,
      rps_RPCReadyWorkers = 0, rps_Endpoints = 0\<rparr>, [], []) = (summary', workers', endpoints')" by (metis prod.exhaust)
  have "pool_ok ns [] []" by (simp add: pool_ok_def)
  from pool_nodes_ok [OF this _ loop] assms loop show ?thesis by (auto simp: runtimeRPCPoolReport_def pool_ok_def)
qed

subsection \<open>What the plan does with the pool\<close>

lemma smoke_results:
  "smp_Results (smoke_loop dial timeout k es report) =
     smp_Results report @ map (\<lambda>(i, e). smokeRuntimeRPCEndpoint (dial i) e timeout) (zip [k..<k + length es] es)"
proof (induction es arbitrary: k report)
  case (Cons e es)
  have "[k..<k + length (e # es)] = k # [Suc k..<Suc k + length es]" using upt_conv_Cons [of k "k + length (e # es)"] by simp
  with Cons show ?case by (simp add: Let_def)
qed simp

lemma smoke_endpoint: "smr_Endpoint (smokeRuntimeRPCEndpoint dial e timeout) = TrimSpace e"
  by (auto simp: smokeRuntimeRPCEndpoint_def Let_def split: prod.splits option.splits)

lemma smoke_endpoints: "smr_Endpoint ` set (smp_Results (smokeRuntimeRPCEndpoints dial duration es timeout)) \<subseteq> TrimSpace ` set es"
  by (auto simp: smokeRuntimeRPCEndpoints_def Let_def smoke_results smoke_endpoint dest: set_zip_rightD)

lemma usable_subset: "set (usableRPCEndpoints es health inc) \<subseteq> TrimSpace ` set es" "distinct (usableRPCEndpoints es health inc)"
  using ranked_set [of es health] ranked_distinct [of es health] clean_endpoints(1) [of es]
  by (auto simp: usableRPCEndpoints_def Let_def)

lemma checked_subset:
  assumes "check_endpoints e endpoints workers t s = (s', results, usable, bs, ws)" and "\<And>x. x \<in> set endpoints \<Longrightarrow> TrimSpace x = x"
  shows "set usable \<subseteq> set endpoints"
proof
  fix x assume "x \<in> set usable"
  then obtain r where r: "r \<in> set results" "x = TrimSpace (smr_Endpoint r)" "smr_Ready r"
    using assms(1) usable_subset(1) by (fastforce simp: check_endpoints_def Let_def)
  then have "smr_Endpoint r \<in> TrimSpace ` set (usableRPCEndpoints endpoints (RPCHealth s) True)"
    using assms(1) smoke_endpoints by (fastforce simp: check_endpoints_def Let_def)
  with r(2) usable_subset(1) assms(2) show "x \<in> set endpoints" by fastforce
qed

lemma schedule_endpoints_out:
  "fst (schedule_endpoints byEndpoint activeJobs c es (out, i, j)) =
     out @ filter (\<lambda>x. \<not> on_coordinator byEndpoint c x \<and> \<not> on_busy byEndpoint activeJobs x) es"
  by (induction es arbitrary: out i j) auto

lemma scheduled_endpoints:
  assumes "scheduleDistributedRPCEndpoints es workers activeJobs c m = (out, ws)" and "m > 0"
  shows "distinct out" "length out \<le> m" "set out \<subseteq> {e \<in> TrimSpace ` set es. e \<noteq> []}"
    "\<And>x. x \<in> set out \<Longrightarrow> \<not> on_coordinator (rpcWorkersByEndpoint workers) c x \<and> \<not> on_busy (rpcWorkersByEndpoint workers) activeJobs x"
proof -
  let ?xs = "filter (\<lambda>x. \<not> on_coordinator (rpcWorkersByEndpoint workers) c x \<and> \<not> on_busy (rpcWorkersByEndpoint workers) activeJobs x)
      (cleanEndpointList es)"
  have out: "out = take m ?xs"
    using assms schedule_endpoints_out [of "rpcWorkersByEndpoint workers" activeJobs c "cleanEndpointList es" "[]" 0 0]
    by (auto simp: scheduleDistributedRPCEndpoints_def Let_def split: prod.splits)
  then show "length out \<le> m" "distinct out" by (simp_all add: clean_endpoints)
  show "set out \<subseteq> {e \<in> TrimSpace ` set es. e \<noteq> []}"
    using out set_take_subset [of m ?xs] clean_endpoints(1) [of es] by auto
  show "\<And>x. x \<in> set out \<Longrightarrow> \<not> on_coordinator (rpcWorkersByEndpoint workers) c x \<and> \<not> on_busy (rpcWorkersByEndpoint workers) activeJobs x"
    using out set_take_subset [of m ?xs] by auto
qed

lemma backends_endpoints:
  "rpb_Endpoint ` set (backends_loop checked_now records results workers) = {e. e \<noteq> [] \<and> (\<exists>w \<in> set workers. serves w e)}"
  by (induction workers) (auto simp: Let_def serves_def case_prod_unfold)

lemma backends_loop_nodes:
  "b \<in> set (backends_loop checked_now records results workers) \<Longrightarrow>
     TrimSpace (rpb_Endpoint b) = rpb_Endpoint b \<and> (\<exists>w \<in> set workers. rpb_NodeID b = rpw_NodeID w)"
  by (induction workers) (auto simp: Let_def split: prod.splits if_splits)

lemma rpcPlanContainsEndpoint_iff: "rpcPlanContainsEndpoint es e \<longleftrightarrow> e \<in> set es"
  by (induction es) auto

lemma count_active_get:
  "mget (count_active out js) n =
     (let k = int (length (filter (\<lambda>j. j_AssignedTo j = n \<and> active (j_Status j)) js))
      in if n = [] \<or> k = 0 then mget out n else Some ((case mget out n of None \<Rightarrow> 0 | Some i \<Rightarrow> i) + k))"
  by (induction js arbitrary: out) (auto simp: Let_def active_def split: option.splits)

lemma on_busy_iff:
  "on_busy byEndpoint (activeJobsByWorker js) x \<longleftrightarrow> worker_node byEndpoint x \<noteq> []
     \<and> (\<exists>j \<in> set js. j_AssignedTo j = worker_node byEndpoint x \<and> active (j_Status j))"
  by (auto simp: on_busy_def activeJobsByWorker_def count_active_get Let_def filter_empty_conv)

lemma workers_by_keep: "mget out x = Some w \<Longrightarrow> mget (workers_by_loop out ws) x = Some w"
proof (induction ws arbitrary: out)
  case (Cons u ws)
  then have "mget (mput (TrimSpace (rpc_Endpoint (rpw_RPC u))) u out) x = Some w"
    if "mget out (TrimSpace (rpc_Endpoint (rpw_RPC u))) = None" using that by auto
  with Cons show ?case by (auto simp: Let_def)
qed simp

lemma workers_by_get:
  assumes "w \<in> set ws" and "TrimSpace (rpc_Endpoint (rpw_RPC w)) = x" and "x \<noteq> []" and "mget out x = None"
  shows "\<exists>v. mget (workers_by_loop out ws) x = Some v \<and> v \<in> set ws"
  using assms
proof (induction ws arbitrary: out)
  case (Cons u ws)
  show ?case
  proof (cases "TrimSpace (rpc_Endpoint (rpw_RPC u)) = x")
    case True
    then have "mget (workers_by_loop out (u # ws)) x = Some u"
      using Cons.prems by (simp add: Let_def workers_by_keep)
    then show ?thesis by simp
  next
    case False
    let ?e = "TrimSpace (rpc_Endpoint (rpw_RPC u))"
    let ?out = "if ?e = [] \<or> mget out ?e \<noteq> None then out else mput ?e u out"
    have "w \<in> set ws" using Cons.prems False by auto
    moreover have "mget ?out x = None" using Cons.prems(4) False by auto
    moreover have "workers_by_loop out (u # ws) = workers_by_loop ?out ws" by (simp add: Let_def)
    ultimately show ?thesis using Cons.IH [of ?out] Cons.prems(2,3) by auto
  qed
qed simp

lemma rpc_workers_get:
  "w \<in> set ws \<Longrightarrow> TrimSpace (rpc_Endpoint (rpw_RPC w)) = x \<Longrightarrow> x \<noteq> [] \<Longrightarrow>
     \<exists>v. mget (rpcWorkersByEndpoint ws) x = Some v \<and> v \<in> set ws"
  using workers_by_get [of w ws x "[]"] by (simp add: rpcWorkersByEndpoint_def)

subsection \<open>The states of a plan are reachable\<close>

lemma list_nodes_reachable: "reachable s \<Longrightarrow> list_nodes e k s = (s', ns) \<Longrightarrow> reachable s'"
  using reachable.step [of s "OpNodes (se_clock e k) (se_nodes e k)"] by (simp add: list_nodes_def)

lemma record_reachable: "reachable s \<Longrightarrow> reachable (recordRPCHealthReport now workers report s)"
proof -
  have "reachable s \<Longrightarrow> reachable (record_loop now byEndpoint results s)" for byEndpoint results
  proof (induction results arbitrary: s)
    case (Cons r results)
    then have "reachable (exec (OpHealth now (health_update now byEndpoint r)) s)" by (intro reachable.step) simp_all
    with Cons.IH show ?case by simp
  qed simp
  then show "reachable s \<Longrightarrow> ?thesis" by (simp add: recordRPCHealthReport_def)
qed

lemma check_reachable: "reachable s \<Longrightarrow> check_endpoints e es workers t s = (s', x) \<Longrightarrow> reachable s'"
  by (auto simp: check_endpoints_def Let_def intro: record_reachable)

subsection \<open>The parts of a plan\<close>

definition plan_of_pool :: "server_env \<Rightarrow> Model \<Rightarrow> string \<Rightarrow> Node list \<Rightarrow> RuntimeRPCPoolWorker list \<Rightarrow> string list \<Rightarrow> State \<Rightarrow> State
    \<Rightarrow> ModelDistributedRPCPlan \<Rightarrow> bool" where
  "plan_of_pool e model nodeID ns workers endpoints s2 s' plan \<longleftrightarrow>
     (\<exists>usable results records js ns' ws. list_nodes e 1 s2 = (s', ns') \<and> set usable \<subseteq> set endpoints
       \<and> scheduleDistributedRPCEndpoints usable workers (activeJobsByWorker (Jobs (se_jobs e 1) s')) (rpp_CoordinatorNodeID plan) 8
           = (rpp_RPCEndpoints plan, ws)
       \<and> rpp_Backends plan = backends_loop (rpp_HealthChecked plan) records results workers
       \<and> rpp_CoordinatorNodeID plan = coordinator_id nodeID (hd (modelSummaries [model] js ns'))
       \<and> rpp_ModelID plan = m_ID model \<and> rpp_Mode plan = ''llama.cpp-rpc''
       \<and> (rpp_ExecutableNow plan \<longrightarrow> rpp_RPCEndpoints plan \<noteq> [] \<and> rpp_CoordinatorNodeID plan \<noteq> []))"

lemma plan_parts:
  assumes "modelDistributedRPCPlan e model nodeID checkHealth t s = (s', plan)" and "reachable s"
  obtains s1 ns pool workers endpoints s2 where "list_nodes e 0 s = (s1, ns)" "runtimeRPCPoolReport ns = (pool, workers, endpoints)"
    "reachable s2" "plan_of_pool e model nodeID ns workers endpoints s2 s' plan"
proof -
  obtain s1 ns where n: "list_nodes e 0 s = (s1, ns)" by force
  obtain pool workers endpoints where r: "runtimeRPCPoolReport ns = (pool, workers, endpoints)" by (metis prod.exhaust)
  define checked_now where "checked_now = (checkHealth \<and> length endpoints > 0)"
  obtain s2 results usable b1 w1 where c: "(if checked_now then check_endpoints e endpoints workers t s1
      else (s1, [], usableRPCEndpoints endpoints (RPCHealth s1) False, [], [])) = (s2, results, usable, b1, w1)" by (metis prod.exhaust)
  obtain s3 ns' where n': "list_nodes e 1 s2 = (s3, ns')" by force
  have ok: "pool_ok ns workers endpoints" using pool_report_ok [OF r] .
  then have trim: "TrimSpace x = x" if "x \<in> set endpoints" for x using that by (simp add: pool_ok_def)
  have "set usable \<subseteq> set endpoints"
  proof (cases checked_now)
    case True
    with c checked_subset trim show ?thesis by metis
  next
    case False
    with c have "usable = usableRPCEndpoints endpoints (RPCHealth s1) False" by auto
    with usable_subset(1) trim show ?thesis by fastforce
  qed
  moreover have "reachable s1" using list_nodes_reachable [OF assms(2) n] .
  then have "reachable s2" using c check_reachable by (auto split: if_splits)
  moreover have "plan_of_pool e model nodeID ns workers endpoints s2 s' plan"
  proof -
    let ?js = "Jobs (se_jobs e 0) s2" and ?records = "rpcHealthByEndpoint (RPCHealth s1)" and ?results = "results_loop [] results"
    define coordinator where "coordinator = coordinator_id nodeID (hd (modelSummaries [model] ?js ns'))"
    obtain scheduled ws where sch: "scheduleDistributedRPCEndpoints usable workers (activeJobsByWorker (Jobs (se_jobs e 1) s3))
        coordinator distributedRPCMaxScheduledEndpoints = (scheduled, ws)" by force
    note unfolded = assms(1) [unfolded modelDistributedRPCPlan_def Let_def n r prod.case, folded checked_now_def, unfolded c prod.case n',
        folded coordinator_def, unfolded sch prod.case]
    from unfolded have "s' = s3" "rpp_RPCEndpoints plan = scheduled" "rpp_CoordinatorNodeID plan = coordinator"
      "rpp_Backends plan = backends_loop (rpp_HealthChecked plan) ?records ?results workers" "rpp_ModelID plan = m_ID model"
      "rpp_Mode plan = ''llama.cpp-rpc''"
      "rpp_ExecutableNow plan \<longrightarrow> scheduled \<noteq> [] \<and> coordinator \<noteq> []"
      by (auto simp: coordinator_blockers_def)
    with n' sch \<open>set usable \<subseteq> set endpoints\<close> show ?thesis
      unfolding plan_of_pool_def
      by (intro exI [of _ usable] exI [of _ ?records] exI [of _ ?results] exI [of _ ?js] exI [of _ ns'] exI [of _ ws])
        (simp add: coordinator_def distributedRPCMaxScheduledEndpoints_def)
  qed
  ultimately show ?thesis using that n r by blast
qed

text \<open>The endpoints of the plan.\<close>

lemma plan_endpoints:
  assumes "plan_of_pool e model nodeID ns workers endpoints s2 s' plan" and "pool_ok ns workers endpoints"
  shows "distinct (rpp_RPCEndpoints plan)" "length (rpp_RPCEndpoints plan) \<le> 8" "set (rpp_RPCEndpoints plan) \<subseteq> set endpoints"
    "x \<in> set (rpp_RPCEndpoints plan) \<Longrightarrow> \<not> on_coordinator (rpcWorkersByEndpoint workers) (rpp_CoordinatorNodeID plan) x
      \<and> \<not> on_busy (rpcWorkersByEndpoint workers) (activeJobsByWorker (Jobs (se_jobs e 1) s')) x"
proof -
  from assms(1) obtain usable ws where q: "set usable \<subseteq> set endpoints"
    "scheduleDistributedRPCEndpoints usable workers (activeJobsByWorker (Jobs (se_jobs e 1) s')) (rpp_CoordinatorNodeID plan) 8
       = (rpp_RPCEndpoints plan, ws)" unfolding plan_of_pool_def by blast
  note out = scheduled_endpoints [OF q(2)]
  show "distinct (rpp_RPCEndpoints plan)" "length (rpp_RPCEndpoints plan) \<le> 8" using out(1,2) by simp_all
  have "TrimSpace ` set usable = set usable" using q(1) assms(2) by (auto simp: pool_ok_def image_iff subset_iff)
  with out(3) q(1) show "set (rpp_RPCEndpoints plan) \<subseteq> set endpoints" by auto
  show "x \<in> set (rpp_RPCEndpoints plan) \<Longrightarrow> \<not> on_coordinator (rpcWorkersByEndpoint workers) (rpp_CoordinatorNodeID plan) x
      \<and> \<not> on_busy (rpcWorkersByEndpoint workers) (activeJobsByWorker (Jobs (se_jobs e 1) s')) x" using out(4) by simp
qed

text \<open>The coordinator is the node asked for, trimmed, or a listed worker: its identifier is not blank.\<close>

lemma coordinator_not_blank:
  assumes "coordinator_id nodeID (hd (modelSummaries [model] js ns)) \<noteq> []" and "\<And>n. n \<in> set ns \<Longrightarrow> \<not> blank (n_ID n)"
  shows "\<not> blank (coordinator_id nodeID (hd (modelSummaries [model] js ns)))"
proof (cases "TrimSpace nodeID = []")
  case False
  then show ?thesis by (simp add: coordinator_id_def blank_def)
next
  case True
  let ?summary = "hd (modelSummaries [model] js ns)"
  from True assms(1) obtain i where i: "List.find mi_GenerateReady (ms_Installed ?summary) = Some i"
    by (auto simp: coordinator_id_def split: option.splits)
  have "ms_Installed (fold summary_job js' summary) = ms_Installed summary" for js' summary
    by (induction js' arbitrary: summary) (simp_all add: summary_job_def Let_def)
  then have "set (ms_Installed ?summary) = set (model_installs model (go_sort (\<lambda>a b. j_UpdatedAt a < j_UpdatedAt b) js) ns)"
    by (simp add: modelSummaries_def model_summary_def Let_def)
  moreover have "i \<in> set (ms_Installed ?summary)" using i by (auto simp: find_Some_iff)
  ultimately have "\<exists>n \<in> set ns. mi_NodeID i = n_ID n"
    by (auto simp: model_installs_def model_install_def Let_def split: prod.splits)
  with i True assms(2) show ?thesis by (auto simp: coordinator_id_def)
qed

lemma catalog_not_blank: "list_all (\<lambda>m. \<not> blank (m_ID m)) Catalog"
  by code_simp

lemma found_not_blank: "Find i = Some model \<Longrightarrow> \<not> blank (m_ID model)"
proof -
  have "find_model ms i = Some model \<Longrightarrow> model \<in> set ms" for ms by (induction ms) (auto split: if_splits)
  then show "Find i = Some model \<Longrightarrow> ?thesis" using catalog_not_blank by (auto simp: Find_def Catalog_def list_all_iff)
qed

lemma job_plan_fields:
  "ep_Protocol (distributedRPCExecutionPlanForJob rnd now plan) = DistributedRPCProtocol"
  "ep_ProtocolVersion (distributedRPCExecutionPlanForJob rnd now plan) = DistributedRPCProtocolVersion"
  "ep_PlanSchemaVersion (distributedRPCExecutionPlanForJob rnd now plan) = DistributedRPCPlanSchemaVersion"
  "ep_Mode (distributedRPCExecutionPlanForJob rnd now plan) = rpp_Mode plan"
  "ep_ModelID (distributedRPCExecutionPlanForJob rnd now plan) = rpp_ModelID plan"
  "ep_CoordinatorNodeID (distributedRPCExecutionPlanForJob rnd now plan) = rpp_CoordinatorNodeID plan"
  "ep_RPCEndpoints (distributedRPCExecutionPlanForJob rnd now plan) = rpp_RPCEndpoints plan"
  by (simp_all add: distributedRPCExecutionPlanForJob_def)

lemma protocol_not_blank: "\<not> blank DistributedRPCProtocol"
  by (rule not_blank_start) (simp_all add: DistributedRPCProtocol_def space_runes_def)

text \<open>
  C34. An RPC plan without blockers makes an execution plan that the protocol accepts, for the model and the coordinator of the
  plan: the server never refuses its own plan.
\<close>

theorem executable_plan_is_accepted:
  assumes "reachable s" and "Find i = Some model" and "modelDistributedRPCPlan e model nodeID checkHealth t s = (s', plan)"
    and "rpp_ExecutableNow plan"
  shows "ValidateDistributedRPCExecutionPlan (distributedRPCExecutionPlanForJob rnd now plan) (m_ID model) (rpp_CoordinatorNodeID plan) = None"
proof -
  from plan_parts [OF assms(3,1)] obtain s1 ns pool workers endpoints s2 where
    p: "list_nodes e 0 s = (s1, ns)" "runtimeRPCPoolReport ns = (pool, workers, endpoints)" "reachable s2"
      "plan_of_pool e model nodeID ns workers endpoints s2 s' plan" by blast
  then obtain results records js ns' where
    q: "list_nodes e 1 s2 = (s', ns')" "rpp_Backends plan = backends_loop (rpp_HealthChecked plan) records results workers"
      "rpp_CoordinatorNodeID plan = coordinator_id nodeID (hd (modelSummaries [model] js ns'))" "rpp_ModelID plan = m_ID model"
      "rpp_Mode plan = ''llama.cpp-rpc''" "rpp_RPCEndpoints plan \<noteq> []" "rpp_CoordinatorNodeID plan \<noteq> []"
    using assms(4) unfolding plan_of_pool_def by blast
  have pool: "pool_ok ns workers endpoints" using pool_report_ok [OF p(2)] .
  have ids: "\<not> blank (rpw_NodeID w)" if "w \<in> set workers" for w
    using pool that list_nodes_ids [OF assms(1) p(1)] by (fastforce simp: pool_ok_def)
  note sub = plan_endpoints(3) [OF p(4) pool]
  then have trim: "TrimSpace x = x \<and> x \<noteq> []" if "x \<in> set (rpp_RPCEndpoints plan)" for x using that pool by (auto simp: pool_ok_def)
  obtain x where x: "x \<in> set (rpp_RPCEndpoints plan)" using q(6) by (cases "rpp_RPCEndpoints plan") auto
  then have "x \<in> rpb_Endpoint ` set (rpp_Backends plan)"
    using sub pool q(2) by (auto simp: backends_endpoints pool_ok_def)
  with x have "ep_Backends (distributedRPCExecutionPlanForJob rnd now plan) \<noteq> []"
    by (auto simp: distributedRPCExecutionPlanForJob_def rpcPlanContainsEndpoint_iff filter_empty_conv)
  moreover have "cleanRPCEndpoints (rpp_RPCEndpoints plan) \<noteq> []"
    using x trim by (auto simp: cleanRPCEndpoints_Nil blank_def)
  moreover have "validate_backends (cleanRPCEndpoints (rpp_RPCEndpoints plan)) (ep_Backends (distributedRPCExecutionPlanForJob rnd now plan)) = None"
    unfolding validate_backends_None
  proof
    fix b assume "b \<in> set (ep_Backends (distributedRPCExecutionPlanForJob rnd now plan))"
    then obtain b' where b: "b' \<in> set (rpp_Backends plan)" "rpb_Endpoint b' \<in> set (rpp_RPCEndpoints plan)" "b = job_backend b'"
      by (auto simp: distributedRPCExecutionPlanForJob_def rpcPlanContainsEndpoint_iff)
    then have "\<exists>w \<in> set workers. rpb_NodeID b' = rpw_NodeID w" using backends_loop_nodes q(2) by metis
    with b ids trim show "\<not> blank (be_Endpoint b) \<and> TrimSpace (be_Endpoint b) \<in> set (cleanRPCEndpoints (rpp_RPCEndpoints plan))
        \<and> \<not> blank (be_NodeID b)"
      by (fastforce simp: job_backend_def cleanRPCEndpoints_set blank_def)
  qed
  moreover have "\<not> blank (rpp_CoordinatorNodeID plan)"
    using coordinator_not_blank [OF _ list_nodes_ids [OF p(3) q(1)]] q(3,7) by metis
  moreover have "\<not> blank ''llama.cpp-rpc''" by (rule not_blank_start) (simp_all add: space_runes_def)
  ultimately show ?thesis
    using found_not_blank [OF assms(2)] q(4,5)
    by (simp add: ValidateDistributedRPCExecutionPlan_def protocol_not_blank job_plan_fields)
qed

text \<open>
  C35. The endpoints of an RPC plan are at most eight different endpoints that online workers of the first listing report as
  ready; the worker that an endpoint belongs to is not the coordinator and has no scheduled or running job.
\<close>

theorem plan_endpoints_are_free:
  assumes "reachable s" and "modelDistributedRPCPlan e model nodeID checkHealth t s = (s', plan)"
  shows "distinct (rpp_RPCEndpoints plan) \<and> length (rpp_RPCEndpoints plan) \<le> 8
    \<and> (\<exists>pool workers endpoints. runtimeRPCPoolReport (snd (list_nodes e 0 s)) = (pool, workers, endpoints)
         \<and> list_all (\<lambda>x. (\<exists>n \<in> set (snd (list_nodes e 0 s)). online_worker n \<and> worker_node (rpcWorkersByEndpoint workers) x = n_ID n)
              \<and> (\<exists>w \<in> set workers. serves w x)
              \<and> worker_node (rpcWorkersByEndpoint workers) x \<noteq> rpp_CoordinatorNodeID plan
              \<and> (\<nexists>j. j \<in> set (Jobs (se_jobs e 1) s') \<and> j_AssignedTo j = worker_node (rpcWorkersByEndpoint workers) x
                     \<and> active (j_Status j)))
            (rpp_RPCEndpoints plan))"
proof -
  from plan_parts [OF assms(2,1)] obtain s1 ns pool workers endpoints s2 where
    p: "list_nodes e 0 s = (s1, ns)" "runtimeRPCPoolReport ns = (pool, workers, endpoints)" "reachable s2"
      "plan_of_pool e model nodeID ns workers endpoints s2 s' plan" by blast
  have pool: "pool_ok ns workers endpoints" using pool_report_ok [OF p(2)] .
  note pe = plan_endpoints [OF p(4) pool]
  have "(\<exists>n \<in> set ns. online_worker n \<and> worker_node (rpcWorkersByEndpoint workers) x = n_ID n) \<and> (\<exists>w \<in> set workers. serves w x)"
    if x: "x \<in> set (rpp_RPCEndpoints plan)" for x
  proof -
    have e: "x \<noteq> []" "\<exists>w \<in> set workers. serves w x" using x pe(3) pool by (auto simp: pool_ok_def)
    have "\<exists>w. mget (rpcWorkersByEndpoint workers) x = Some w \<and> w \<in> set workers"
      using e by (auto simp: serves_def intro: rpc_workers_get)
    with e pool show ?thesis by (auto simp: worker_node_def pool_ok_def)
  qed note owner = this
  have "worker_node (rpcWorkersByEndpoint workers) x \<noteq> []" if "x \<in> set (rpp_RPCEndpoints plan)" for x
    using owner [OF that] list_nodes_ids [OF assms(1) p(1)] not_blank_nonempty by metis
  note named = this
  have free: "worker_node (rpcWorkersByEndpoint workers) x \<noteq> rpp_CoordinatorNodeID plan
      \<and> (\<nexists>j. j \<in> set (Jobs (se_jobs e 1) s') \<and> j_AssignedTo j = worker_node (rpcWorkersByEndpoint workers) x \<and> active (j_Status j))"
    if "x \<in> set (rpp_RPCEndpoints plan)" for x
    using pe(4) [OF that] named [OF that] unfolding on_busy_iff on_coordinator_def by metis
  have "list_all (\<lambda>x. (\<exists>n \<in> set ns. online_worker n \<and> worker_node (rpcWorkersByEndpoint workers) x = n_ID n)
              \<and> (\<exists>w \<in> set workers. serves w x)
              \<and> worker_node (rpcWorkersByEndpoint workers) x \<noteq> rpp_CoordinatorNodeID plan
              \<and> (\<nexists>j. j \<in> set (Jobs (se_jobs e 1) s') \<and> j_AssignedTo j = worker_node (rpcWorkersByEndpoint workers) x
                     \<and> active (j_Status j))) (rpp_RPCEndpoints plan)"
    unfolding list_all_iff using owner free by (intro ballI conjI) blast+
  with pe(1,2) p(1,2) show ?thesis by simp
qed

subsection \<open>A cluster with two workers\<close>

definition demo_runtime :: "string \<Rightarrow> RuntimeResource" where
  "demo_runtime endpoint = zero_runtime\<lparr>rt_Name := RuntimeLlamaCPP, rt_Ready := True,
     rt_RPCRuntimes := [\<lparr>rpc_Name = ''rpc-server'', rpc_Ready = True, rpc_ServerPath = [], rpc_Endpoint = endpoint,
       rpc_Protocol = [], rpc_Blockers = []\<rparr>]\<rparr>"

definition demo_rpc_join :: "string \<Rightarrow> string \<Rightarrow> ModelResource list \<Rightarrow> JoinRequest" where
  "demo_rpc_join name endpoint ms = \<lparr>jr_NodeName = name, jr_Role = NodeRoleWorker, jr_Endpoint = [], jr_JoinToken = [],
     jr_Resources = zero_resources\<lparr>rs_CPU := \<lparr>cpu_CoresTotal = 8, cpu_CoresAllowed = 4\<rparr>,
       rs_Models := ms, rs_Runtimes := [demo_runtime endpoint]\<rparr>\<rparr>"

definition demo_installed :: ModelResource where
  "demo_installed = \<lparr>mr_ID = ''qwen2.5-0.5b-instruct-q4-k-m'', mr_Name = [], mr_Family = [], mr_Runtime = [], mr_Path = [], mr_Bytes = 1,
     mr_Ready = True, mr_Error = [], mr_InstalledAt = 0\<rparr>"

definition demo_rpc_queue :: jobs_env where
  "demo_rpc_queue = \<lparr>q_jobs = [], q_pick = \<lambda>_. \<lparr>p_now = 0, p_nodes = [], p_kinds = \<lambda>_. []\<rparr>\<rparr>"

definition demo_rpc_ops :: "manager_op list" where
  "demo_rpc_ops = [OpRegister (Some [1]) 10 demo_rpc_queue (demo_rpc_join ''alpha'' ''10.0.0.1:50052'' [demo_installed]),
     OpRegister (Some [2]) 11 demo_rpc_queue (demo_rpc_join ''beta'' '' 10.0.0.2:50052 '' [])]"

definition demo_rpc_cluster :: State where
  "demo_rpc_cluster = run_ops demo_rpc_ops (NewState 5)"

definition demo_rpc_env :: server_env where
  "demo_rpc_env = \<lparr>se_clock = \<lambda>_. 20, se_rand = \<lambda>_. Some [9, 9], se_jobs = \<lambda>_. [],
     se_nodes = \<lambda>_. \<lparr>v_nodes = [newNodeID (Some [1]), newNodeID (Some [2])], v_jobs = \<lambda>_. demo_rpc_queue\<rparr>,
     se_list = \<lambda>_. [], se_kinds = \<lambda>_. [], se_pick = \<lambda>_. \<lparr>p_now = 0, p_nodes = [], p_kinds = \<lambda>_. []\<rparr>, se_queue = \<lambda>_. demo_rpc_queue,
     se_memory = \<lparr>x_lower = id, x_rnd = \<lambda>_. None, x_order = \<lambda>_. []\<rparr>,
     se_check = \<lparr>ck_dial = \<lambda>_ _ _. (3, None), ck_duration = 7, ck_now = 21\<rparr>\<rparr>"

lemma demo_rpc_reachable: "reachable demo_rpc_cluster"
  unfolding demo_rpc_cluster_def by (rule run_ops_reachable [OF reachable.init]) (simp add: demo_rpc_ops_def)

definition demo_rpc_node :: "string \<Rightarrow> string \<Rightarrow> string \<Rightarrow> ModelResource list \<Rightarrow> time \<Rightarrow> Node" where
  "demo_rpc_node i name endpoint ms t = \<lparr>n_ID = i, n_Name = name, n_Role = NodeRoleWorker, n_Status = NodeStatusOnline, n_Endpoint = [],
     n_Resources = jr_Resources (demo_rpc_join name endpoint ms), n_JoinedAt = t, n_UpdatedAt = t\<rparr>"

definition demo_rpc_state :: State where
  "demo_rpc_state = \<lparr>startedAt = 5, heartbeatTimeout = 30000000000,
     nodes = [(''node-01'', demo_rpc_node ''node-01'' ''alpha'' ''10.0.0.1:50052'' [demo_installed] 10),
       (''node-02'', demo_rpc_node ''node-02'' ''beta'' '' 10.0.0.2:50052 '' [] 11)], benchmarks = [],
     rpcHealth = [], jobs = [], conversations = [], memories = []\<rparr>"

lemma demo_rpc_ids: "newNodeID (Some [1]) = ''node-01''" "newNodeID (Some [2]) = ''node-02''" by code_simp+

lemma demo_cluster_state: "demo_rpc_cluster = demo_rpc_state"
  by (simp add: demo_rpc_cluster_def demo_rpc_ops_def run_ops_def NewState_def RegisterWorker_def scheduleQueuedJobsLocked_def Let_def demo_rpc_ids
     demo_rpc_queue_def put_node_def mput_def demo_rpc_state_def demo_rpc_node_def demo_rpc_join_def)

abbreviation alpha where "alpha \<equiv> demo_rpc_node ''node-01'' ''alpha'' ''10.0.0.1:50052'' [demo_installed] 10"

abbreviation beta where "beta \<equiv> demo_rpc_node ''node-02'' ''beta'' '' 10.0.0.2:50052 '' [] 11"

lemma demo_list: "list_nodes demo_rpc_env k demo_rpc_state = (demo_rpc_state, [alpha, beta])"
  by (simp add: list_nodes_def Nodes_def demo_rpc_env_def demo_rpc_state_def mget_def nodes_one_def deriveNodeStatus_def demo_rpc_node_def
     time_Sub_def Let_def demo_rpc_ids)

lemma demo_pool: "snd (snd (runtimeRPCPoolReport [alpha, beta])) = [''10.0.0.1:50052'', ''10.0.0.2:50052'']"
  "map (worker_node (rpcWorkersByEndpoint (fst (snd (runtimeRPCPoolReport [alpha, beta]))))) [''10.0.0.1:50052'', ''10.0.0.2:50052''] = [''node-01'', ''node-02'']"
  by code_simp+

lemma demo_installs: "installed_on (hd Catalog) [alpha, beta] = [''node-01'']" "map mi_NodeID (filter mi_GenerateReady (model_installs (hd Catalog) [] [alpha,beta])) = [''node-01'']"
  by code_simp+

lemma summary_without_jobs: "modelSummaries [model] [] ns = [model_summary ns [] model]"
  "modelInstalledOn (model_summary ns [] model) i \<longleftrightarrow> i \<in> set (installed_on model ns)"
  "modelGeneratableOn (model_summary ns [] model) i \<longleftrightarrow> i \<in> set (map mi_NodeID (filter mi_GenerateReady (model_installs model [] ns)))"
proof -
  have empty: "go_sort (<) xs = [] \<longleftrightarrow> xs = []" for xs :: "string list" by (metis length_go_sort length_0_conv)
  show "modelSummaries [model] [] ns = [model_summary ns [] model]" by (simp add: modelSummaries_def go_sort_def[of _ "[]"])
  have "set (ms_InstalledOn (model_summary ns [] model)) = set (installed_on model ns)" by (simp add: model_summary_def Let_def empty)
  moreover have "set (ms_GeneratableOn (model_summary ns [] model)) = set (map mi_NodeID (filter mi_GenerateReady (model_installs model [] ns)))"
    by (simp add: model_summary_def Let_def empty)
  ultimately show "modelInstalledOn (model_summary ns [] model) i \<longleftrightarrow> i \<in> set (installed_on model ns)"
    "modelGeneratableOn (model_summary ns [] model) i \<longleftrightarrow> i \<in> set (map mi_NodeID (filter mi_GenerateReady (model_installs model [] ns)))"
    by (auto simp only: modelInstalledOn_def modelGeneratableOn_def list_ex_iff)
qed

lemma demo_check: "(case check_endpoints demo_rpc_env [''10.0.0.1:50052'',''10.0.0.2:50052''] (fst (snd (runtimeRPCPoolReport [alpha, beta]))) 0 demo_rpc_state of (x, y, es, bs, z) \<Rightarrow> 
  es = [''10.0.0.1:50052'',''10.0.0.2:50052''] \<and> bs = [] \<and> nodes x = nodes demo_rpc_state \<and> jobs x = [] \<and> heartbeatTimeout x = heartbeatTimeout demo_rpc_state)"
  by code_simp

lemma demo_list_again: "list_nodes demo_rpc_env 1 x = (x, [alpha, beta])" if "nodes x = nodes demo_rpc_state" "heartbeatTimeout x = heartbeatTimeout demo_rpc_state" for x
  using that by (simp add: list_nodes_def Nodes_def demo_rpc_env_def demo_rpc_state_def mget_def nodes_one_def deriveNodeStatus_def demo_rpc_node_def
     time_Sub_def Let_def demo_rpc_ids)

lemma demo_no_jobs: "Jobs (se_jobs demo_rpc_env k) x = []" by (simp add: Jobs_def demo_rpc_env_def map_filter_def)

lemma demo_trim: "TrimSpace ''node-01'' = ''node-01''" by code_simp

lemma demo_schedule:
  "fst (scheduleDistributedRPCEndpoints [''10.0.0.1:50052'', ''10.0.0.2:50052''] (fst (snd (runtimeRPCPoolReport [alpha, beta])))
     (activeJobsByWorker []) ''node-01'' distributedRPCMaxScheduledEndpoints) = [''10.0.0.2:50052'']"
  by code_simp

lemma demo_plan_executable:
  "rpp_ExecutableNow (snd (modelDistributedRPCPlan demo_rpc_env (hd Catalog) ''node-01'' True 0 demo_rpc_state))"
proof -
  obtain pool workers es where p: "runtimeRPCPoolReport [alpha, beta] = (pool, workers, es)" by (metis surj_pair)
  then have es: "es = [''10.0.0.1:50052'', ''10.0.0.2:50052'']" "workers = fst (snd (runtimeRPCPoolReport [alpha, beta]))" using demo_pool(1) by simp_all
  obtain x y fs bs z where c: "check_endpoints demo_rpc_env es workers 0 demo_rpc_state = (x, y, fs, bs, z)" by (metis surj_pair)
  with demo_check es have x: "fs = es" "bs = []" "nodes x = nodes demo_rpc_state" "heartbeatTimeout x = heartbeatTimeout demo_rpc_state" by auto
  have co: "coordinator_id ''node-01'' s = ''node-01''" for s by (simp add: coordinator_id_def demo_trim)
  obtain sch w where s: "scheduleDistributedRPCEndpoints es workers (activeJobsByWorker []) ''node-01'' distributedRPCMaxScheduledEndpoints = (sch, w)"
    by (metis surj_pair)
  with demo_schedule es have sch: "sch \<noteq> []" by simp
  have hc: "(0 < length es) = True" "es \<noteq> []" using es(1) by simp_all
  have cb: "coordinator_blockers ''node-01'' (model_summary [alpha, beta] [] (hd Catalog)) = []"
    unfolding coordinator_blockers_def summary_without_jobs demo_installs by simp
  have "rpp_Blockers (snd (modelDistributedRPCPlan demo_rpc_env (hd Catalog) ''node-01'' True 0 demo_rpc_state)) = []"
    unfolding modelDistributedRPCPlan_def demo_list p c Let_def prod.case hc if_True simp_thms x demo_list_again [OF x(3,4)] demo_no_jobs summary_without_jobs(1) list.sel co s cb if_False sch append_Nil
    by (simp only: prod.sel ModelDistributedRPCPlan.select_convs sch append_Nil simp_thms if_False)
  moreover have "rpp_ExecutableNow p = (rpp_Blockers p = [])" if "p = snd (modelDistributedRPCPlan e m n b t s)" for p e m n b t s
    unfolding that modelDistributedRPCPlan_def Let_def by (simp only: case_prod_beta prod.sel ModelDistributedRPCPlan.select_convs)
  ultimately show ?thesis by blast
qed

lemma demo_found: "Find (m_ID (hd Catalog)) = Some (hd Catalog)"
  by code_simp
text \<open>The plan of the cluster for the first model of the catalog, with the first worker as its coordinator.\<close>

lemma executable_plan_is_accepted_witness:
  "ValidateDistributedRPCExecutionPlan
     (distributedRPCExecutionPlanForJob (Some [1]) 20 (snd (modelDistributedRPCPlan demo_rpc_env (hd Catalog) ''node-01'' True 0 demo_rpc_state)))
     (m_ID (hd Catalog))
     (rpp_CoordinatorNodeID (snd (modelDistributedRPCPlan demo_rpc_env (hd Catalog) ''node-01'' True 0 demo_rpc_state))) = None"
  by (rule executable_plan_is_accepted [OF demo_rpc_reachable [unfolded demo_cluster_state] demo_found surjective_pairing demo_plan_executable])

lemma plan_endpoints_are_free_witness:
  "case modelDistributedRPCPlan demo_rpc_env (hd Catalog) ''node-01'' True 0 demo_rpc_state of (s', plan) \<Rightarrow>
     rpp_ExecutableNow plan \<and> distinct (rpp_RPCEndpoints plan) \<and> length (rpp_RPCEndpoints plan) \<le> 8"
  using plan_endpoints_are_free [OF demo_rpc_reachable [unfolded demo_cluster_state], of demo_rpc_env "hd Catalog" "''node-01''" True 0,
      OF surjective_pairing] demo_plan_executable
  by (simp only: case_prod_beta simp_thms)

end
