(* ===== verification/Summaries.thy ===== *)
theory Summaries
  imports Views
begin

section \<open>Runs, benchmarks and active generations (internal/manager/server.go)\<close>

text \<open>
  The views that the server computes from the list of jobs: the most recent jobs, the runs over RPC endpoints with what the
  workers reported about them, the cluster benchmarks grouped by the run that \<open>requested_by\<close> names, and the generation that is
  active in a conversation. A Go \<open>int\<close> that counts list entries is an \<open>int\<close>.
\<close>

subsection \<open>Text\<close>

text \<open>\<open>strings.ReplaceAll\<close> for a text of one character.\<close>

definition ReplaceChar :: "char \<Rightarrow> string \<Rightarrow> string \<Rightarrow> string" where
  "ReplaceChar c r s = concat (map (\<lambda>x. if x = c then r else [x]) s)"

subsection \<open>Lists of nodes and jobs\<close>

definition onlineWorkerNodes :: "Node list \<Rightarrow> Node list" where
  "onlineWorkerNodes ns = go_sort (\<lambda>a b. n_UpdatedAt a > n_UpdatedAt b) (filter online_worker ns)"

definition offlineWorkerCount :: "Node list \<Rightarrow> int" where
  "offlineWorkerCount ns = int (length (filter (\<lambda>n. n_Role n = NodeRoleWorker \<and> n_Status n \<noteq> NodeStatusOnline) ns))"

definition nodesByID :: "Node list \<Rightarrow> (id, Node) go_map" where
  "nodesByID ns = foldl (\<lambda>out n. mput (n_ID n) n out) [] ns"

definition limited :: "int \<Rightarrow> 'a list \<Rightarrow> 'a list" where
  "limited limit out = (if limit > 0 \<and> int (length out) > limit then take (nat limit) out else out)"

definition recentJobs :: "Job list \<Rightarrow> int \<Rightarrow> Job list" where
  "recentJobs js limit = limited limit (go_sort (\<lambda>a b. j_UpdatedAt a > j_UpdatedAt b) js)"

definition recentChatJobs :: "Job list \<Rightarrow> int \<Rightarrow> Job list" where
  "recentChatJobs js limit =
     recentJobs (filter (\<lambda>job. (j_Type job = JobGenerate \<or> j_Type job = JobGenerateDistributedRPC)
       \<and> (j_RequestedBy job = ''dashboard-chat'' \<or> j_RequestedBy job = ''dashboard-chat-rpc'')
       \<and> j_Status job = StatusSucceeded \<and> \<not> blank (j_Result job)) js) limit"

definition pending :: "Job \<Rightarrow> bool" where
  "pending job \<longleftrightarrow> j_Status job = StatusQueued \<or> j_Status job = StatusScheduled \<or> j_Status job = StatusRunning"

definition hasActiveJobs :: "Job list \<Rightarrow> bool" where
  "hasActiveJobs js = list_ex pending js"

definition activeJobCount :: "Job list \<Rightarrow> int" where
  "activeJobCount js = int (length (filter pending js))"

definition schedulerJobs :: "Job list \<Rightarrow> Job list" where
  "schedulerJobs js = go_sort (\<lambda>a b. j_UpdatedAt a > j_UpdatedAt b) (filter pending js)"

definition isModelJob :: "Job \<Rightarrow> bool" where
  "isModelJob job \<longleftrightarrow> j_Type job \<in> {JobInstall, JobDelete, JobGenerate, JobGenerateDistributedRPC, JobGenerateDistributed,
     JobGenerateStage, JobRepair, JobCleanup}"

definition modelJobCount :: "Job list \<Rightarrow> int" where
  "modelJobCount js = int (length (filter isModelJob js))"

subsection \<open>Runs over RPC endpoints\<close>

record DistributedRunSummary =
  dr_JobID :: string
  dr_Status :: Status
  dr_ModelID :: string
  dr_PlanID :: string
  dr_Mode :: string
  dr_CoordinatorNodeID :: string
  dr_CoordinatorNodeName :: string
  dr_Protocol :: string
  dr_ProtocolVersion :: int
  dr_SchemaVersion :: int
  dr_Runtime :: string
  dr_RuntimeVersion :: string
  dr_WorkerRuntime :: string
  dr_Endpoints :: "string list"
  dr_EndpointCount :: int
  dr_DurationMS :: int
  dr_Output :: string
  dr_Error :: string
  dr_CreatedAt :: time
  dr_FinishedAt :: time

definition zero_result :: DistributedRPCExecutionResult where
  "zero_result = \<lparr>er_Protocol = [], er_ProtocolVersion = 0, er_PlanSchemaVersion = 0, er_PlanID = [], er_Kind = [],
     er_ModelID = [], er_Output = [], er_Runtime = [], er_RuntimeVersion = [], er_WorkerRuntime = [], er_RPCEndpoints = [],
     er_RPCEndpointCount = 0, er_DurationMS = 0, er_CompletedAt = []\<rparr>"

definition result_fields :: "(string \<times> DistributedRPCExecutionResult field_decoder) list" where
  "result_fields =
     [(''protocol'', dstr (\<lambda>s. er_Protocol_update (\<lambda>_. s))),
      (''protocol_version'', dint (\<lambda>i. er_ProtocolVersion_update (\<lambda>_. i))),
      (''plan_schema_version'', dint (\<lambda>i. er_PlanSchemaVersion_update (\<lambda>_. i))),
      (''plan_id'', dstr (\<lambda>s. er_PlanID_update (\<lambda>_. s))),
      (''kind'', dstr (\<lambda>s. er_Kind_update (\<lambda>_. s))),
      (''model_id'', dstr (\<lambda>s. er_ModelID_update (\<lambda>_. s))),
      (''output'', dstr (\<lambda>s. er_Output_update (\<lambda>_. s))),
      (''runtime'', dstr (\<lambda>s. er_Runtime_update (\<lambda>_. s))),
      (''runtime_version'', dstr (\<lambda>s. er_RuntimeVersion_update (\<lambda>_. s))),
      (''worker_runtime'', dstr (\<lambda>s. er_WorkerRuntime_update (\<lambda>_. s))),
      (''rpc_endpoints'', dslice dec_string (\<lambda>ss. er_RPCEndpoints_update (\<lambda>_. ss))),
      (''rpc_endpoint_count'', dint (\<lambda>i. er_RPCEndpointCount_update (\<lambda>_. i))),
      (''duration_ms'', dint (\<lambda>i. er_DurationMS_update (\<lambda>_. i))),
      (''completed_at'', dstr (\<lambda>s. er_CompletedAt_update (\<lambda>_. s)))]"

definition distributedRPCExecutionResult :: "Job \<Rightarrow> DistributedRPCExecutionResult option" where
  "distributedRPCExecutionResult job =
     (if j_Type job \<noteq> JobGenerateDistributedRPC \<or> blank (j_Result job) then None
      else (case Unmarshal [(''execution_result'', dstruct (decode_struct result_fields zero_result) (\<lambda>x _. x))] zero_result
              (j_Result job) of
          None \<Rightarrow> None
        | Some result \<Rightarrow> if blank (er_Protocol result) then None else Some result))"

text \<open>The parts of the summary of a run: what the job says, what its input says and what the worker reported.\<close>

definition run_of_job :: "Job \<Rightarrow> DistributedRunSummary" where
  "run_of_job job = \<lparr>dr_JobID = j_ID job, dr_Status = j_Status job, dr_ModelID = [], dr_PlanID = [], dr_Mode = [],
     dr_CoordinatorNodeID = [], dr_CoordinatorNodeName = [], dr_Protocol = [], dr_ProtocolVersion = 0, dr_SchemaVersion = 0,
     dr_Runtime = [], dr_RuntimeVersion = [], dr_WorkerRuntime = [], dr_Endpoints = [], dr_EndpointCount = 0,
     dr_DurationMS = 0, dr_Output = [], dr_Error = firstNonEmptyString [j_Error job, j_LastFailure job],
     dr_CreatedAt = j_CreatedAt job, dr_FinishedAt = j_FinishedAt job\<rparr>"

definition run_input :: "DistributedRPCGenerateInput \<Rightarrow> DistributedRunSummary \<Rightarrow> DistributedRunSummary" where
  "run_input input r =
     (let p = rg_ExecutionPlan input
      in r\<lparr>dr_ModelID := rg_ModelID input, dr_PlanID := ep_ID p, dr_Mode := ep_Mode p,
        dr_CoordinatorNodeID := ep_CoordinatorNodeID p, dr_CoordinatorNodeName := ep_CoordinatorNodeName p,
        dr_Protocol := ep_Protocol p, dr_ProtocolVersion := ep_ProtocolVersion p, dr_SchemaVersion := ep_PlanSchemaVersion p,
        dr_Endpoints := ep_RPCEndpoints p, dr_EndpointCount := int (length (ep_RPCEndpoints p))\<rparr>)"

definition run_result :: "DistributedRPCExecutionResult \<Rightarrow> DistributedRunSummary \<Rightarrow> DistributedRunSummary" where
  "run_result result r =
     r\<lparr>dr_PlanID := firstNonEmptyString [er_PlanID result, dr_PlanID r],
       dr_Protocol := firstNonEmptyString [er_Protocol result, dr_Protocol r],
       dr_ProtocolVersion := (if er_ProtocolVersion result \<noteq> 0 then er_ProtocolVersion result else dr_ProtocolVersion r),
       dr_SchemaVersion := (if er_PlanSchemaVersion result \<noteq> 0 then er_PlanSchemaVersion result else dr_SchemaVersion r),
       dr_Runtime := er_Runtime result, dr_RuntimeVersion := er_RuntimeVersion result, dr_WorkerRuntime := er_WorkerRuntime result,
       dr_Endpoints := er_RPCEndpoints result,
       dr_EndpointCount := (if er_RPCEndpointCount result = 0 then int (length (er_RPCEndpoints result))
         else er_RPCEndpointCount result),
       dr_DurationMS := er_DurationMS result, dr_Output := er_Output result\<rparr>"

definition run_summary :: "Job \<Rightarrow> DistributedRunSummary" where
  "run_summary job =
     (let r1 = (case decode_DistributedRPCGenerateInput (j_Input job) of
            None \<Rightarrow> run_of_job job | Some input \<Rightarrow> run_input input (run_of_job job))
      in case distributedRPCExecutionResult job of None \<Rightarrow> r1 | Some result \<Rightarrow> run_result result r1)"

definition distributedRunSummaries :: "Job list \<Rightarrow> int \<Rightarrow> DistributedRunSummary list" where
  "distributedRunSummaries js limit =
     limited limit (go_sort (\<lambda>a b. dr_CreatedAt a > dr_CreatedAt b)
       (map run_summary (filter (\<lambda>job. j_Type job = JobGenerateDistributedRPC) js)))"

subsection \<open>The generation of a conversation\<close>

definition distributed_generate_fields :: "(string \<times> DistributedGenerateInput field_decoder) list" where
  "distributed_generate_fields =
     [(''model_id'', dstr (\<lambda>s. dgi_ModelID_update (\<lambda>_. s))),
      (''prompt'', dstr (\<lambda>s. dgi_Prompt_update (\<lambda>_. s))),
      (''messages'', dslice dec_message (\<lambda>ms. dgi_Messages_update (\<lambda>_. ms))),
      (''system_prompt'', dstr (\<lambda>s. dgi_SystemPrompt_update (\<lambda>_. s))),
      (''conversation_id'', dstr (\<lambda>s. dgi_ConversationID_update (\<lambda>_. s))),
      (''max_tokens'', dint (\<lambda>i. dgi_MaxTokens_update (\<lambda>_. i))),
      (''temperature'', dstr (\<lambda>s. dgi_Temperature_update (\<lambda>_. s))),
      (''mode'', dstr (\<lambda>s. dgi_Mode_update (\<lambda>_. s))),
      (''stages'', dslice (decode_struct stage_input_fields zero_stage_input) (\<lambda>xs. dgi_Stages_update (\<lambda>_. xs))),
      (''shards'', dslice (decode_struct shard_fields zero_shard) (\<lambda>xs. dgi_Shards_update (\<lambda>_. xs)))]"

definition zero_distributed_generate :: DistributedGenerateInput where
  "zero_distributed_generate = \<lparr>dgi_ModelID = [], dgi_Prompt = [], dgi_Messages = [], dgi_SystemPrompt = [],
     dgi_ConversationID = [], dgi_MaxTokens = 0, dgi_Temperature = [], dgi_Mode = [], dgi_Stages = [], dgi_Shards = []\<rparr>"

definition decode_DistributedGenerateInput :: "string \<Rightarrow> DistributedGenerateInput option" where
  "decode_DistributedGenerateInput t = Unmarshal distributed_generate_fields zero_distributed_generate t"

definition jobConversationID :: "Job \<Rightarrow> string" where
  "jobConversationID job =
     (if j_Type job = JobGenerate then
        (case decode_GenerateInput (j_Input job) of None \<Rightarrow> [] | Some input \<Rightarrow> gi_ConversationID input)
      else if j_Type job = JobGenerateDistributedRPC then
        (case decode_DistributedRPCGenerateInput (j_Input job) of None \<Rightarrow> [] | Some input \<Rightarrow> rg_ConversationID input)
      else if j_Type job = JobGenerateDistributed then
        (case decode_DistributedGenerateInput (j_Input job) of None \<Rightarrow> [] | Some input \<Rightarrow> dgi_ConversationID input)
      else [])"

fun active_generate_loop :: "string \<Rightarrow> Job list \<Rightarrow> string" where
  "active_generate_loop conversationID [] = []"
| "active_generate_loop conversationID (job # js) =
     (if j_Type job \<noteq> JobGenerate \<and> j_Type job \<noteq> JobGenerateDistributedRPC \<and> j_Type job \<noteq> JobGenerateDistributed
      then active_generate_loop conversationID js
      else if \<not> pending job then active_generate_loop conversationID js
      else if jobConversationID job = conversationID then j_ID job
      else active_generate_loop conversationID js)"

definition activeGenerateJobForConversation :: "Job list \<Rightarrow> string \<Rightarrow> string" where
  "activeGenerateJobForConversation js conversationID =
     (if TrimSpace conversationID = [] then [] else active_generate_loop (TrimSpace conversationID) js)"

subsection \<open>Cluster benchmarks\<close>

record ClusterBenchmarkSummary =
  cb_ID :: string
  cb_RequestedBy :: string
  cb_Size :: int
  cb_Iterations :: int
  cb_Status :: string
  cb_Workers :: int
  cb_Completed :: int
  cb_Failed :: int
  cb_Active :: int
  cb_TotalGFLOPS :: f64
  cb_Jobs :: "Job list"
  cb_CreatedAt :: time
  cb_UpdatedAt :: time

definition clusterBenchmarkRequestedBy :: "string \<Rightarrow> string \<Rightarrow> string" where
  "clusterBenchmarkRequestedBy runID label =
     (if TrimSpace label = [] then ''cluster-benchmark:'' @ runID
      else ''cluster-benchmark:'' @ runID @ '':'' @ ReplaceChar (CHR '':'') ''-'' (TrimSpace label))"

definition clusterBenchmarkRunID :: "string \<Rightarrow> string option" where
  "clusterBenchmarkRunID requestedBy =
     (case Split (CHR '':'') requestedBy of
        p # q # ps \<Rightarrow> if p \<noteq> ''cluster-benchmark'' \<or> q = [] then None else Some q
      | _ \<Rightarrow> None)"

definition computeJobInput :: "string \<Rightarrow> int \<times> int" where
  "computeJobInput input =
     (case Unmarshal [(''size'', dint (\<lambda>i. map_prod (\<lambda>_. i) id)), (''iterations'', dint (\<lambda>i. map_prod id (\<lambda>_. i)))] (0, 0) input of
        None \<Rightarrow> (0, 0) | Some p \<Rightarrow> p)"

text \<open>A JSON number decoded into a \<open>float64\<close>; one out of range is an error.\<close>

fun dfloat :: "(f64 \<Rightarrow> 'a \<Rightarrow> 'a) \<Rightarrow> 'a field_decoder" where
  "dfloat upd a (JNum l) = map_option (\<lambda>x. upd x a) (ParseFloat l)"
| "dfloat upd a JNull = Some a"
| "dfloat upd a _ = None"

definition computeJobGFLOPS :: "Job \<Rightarrow> f64" where
  "computeJobGFLOPS job =
     (if j_Result job = [] then fzero
      else (case Unmarshal [(''gflops'', dfloat (\<lambda>x _. x))] fzero (j_Result job) of None \<Rightarrow> fzero | Some x \<Rightarrow> x))"

definition benchmark_add :: "ClusterBenchmarkSummary \<Rightarrow> nat \<times> Job \<Rightarrow> ClusterBenchmarkSummary" where
  "benchmark_add summary x =
     (let (i, job) = x;
          s1 = (if i = 0 \<or> j_CreatedAt job < cb_CreatedAt summary then summary\<lparr>cb_CreatedAt := j_CreatedAt job\<rparr> else summary);
          s2 = (if j_UpdatedAt job > cb_UpdatedAt s1 then s1\<lparr>cb_UpdatedAt := j_UpdatedAt job\<rparr> else s1);
          s3 = (if cb_Size s2 = 0 \<or> cb_Iterations s2 = 0
            then s2\<lparr>cb_Size := fst (computeJobInput (j_Input job)), cb_Iterations := snd (computeJobInput (j_Input job))\<rparr> else s2)
      in if j_Status job = StatusSucceeded
         then s3\<lparr>cb_Completed := cb_Completed s3 + 1, cb_TotalGFLOPS := fadd (cb_TotalGFLOPS s3) (computeJobGFLOPS job)\<rparr>
         else if j_Status job = StatusFailed \<or> j_Status job = StatusCanceled then s3\<lparr>cb_Failed := cb_Failed s3 + 1\<rparr>
         else if pending job then s3\<lparr>cb_Active := cb_Active s3 + 1\<rparr>
         else s3)"

definition benchmark_status :: "ClusterBenchmarkSummary \<Rightarrow> string" where
  "benchmark_status summary =
     (if cb_Active summary > 0 then ''running''
      else if cb_Failed summary > 0 \<and> cb_Completed summary > 0 then ''partial_failed''
      else if cb_Failed summary > 0 then ''failed''
      else if cb_Completed summary = cb_Workers summary \<and> cb_Workers summary > 0 then ''succeeded''
      else ''queued'')"

definition buildClusterBenchmarkSummary :: "string \<Rightarrow> string \<Rightarrow> Job list \<Rightarrow> ClusterBenchmarkSummary" where
  "buildClusterBenchmarkSummary runID requestedBy js =
     (let summary = foldl benchmark_add
        \<lparr>cb_ID = runID, cb_RequestedBy = requestedBy, cb_Size = 0, cb_Iterations = 0, cb_Status = [], cb_Workers = int (length js),
         cb_Completed = 0, cb_Failed = 0, cb_Active = 0, cb_TotalGFLOPS = fzero, cb_Jobs = recentJobs js 0, cb_CreatedAt = 0,
         cb_UpdatedAt = 0\<rparr> (enumerate 0 js)
      in summary\<lparr>cb_Status := benchmark_status summary\<rparr>)"

fun group_loop :: "(string, Job list) go_map \<Rightarrow> Job list \<Rightarrow> (string, Job list) go_map" where
  "group_loop grouped [] = grouped"
| "group_loop grouped (job # js) =
     (case clusterBenchmarkRunID (j_RequestedBy job) of
        None \<Rightarrow> group_loop grouped js
      | Some runID \<Rightarrow> group_loop (mput runID ((case mget grouped runID of None \<Rightarrow> [] | Some xs \<Rightarrow> xs) @ [job]) grouped) js)"

text \<open>The order in which the groups are visited is an argument.\<close>

definition clusterBenchmarkSummaries :: "string list \<Rightarrow> Job list \<Rightarrow> int \<Rightarrow> ClusterBenchmarkSummary list" where
  "clusterBenchmarkSummaries ord js limit =
     (let grouped = group_loop [] js;
          out = List.map_filter (\<lambda>runID. map_option (\<lambda>xs. buildClusterBenchmarkSummary runID (j_RequestedBy (hd xs)) xs)
            (mget grouped runID)) ord
      in limited limit (go_sort (\<lambda>a b. cb_UpdatedAt a > cb_UpdatedAt b) out))"

definition maxClusterBenchmarkGFLOPS :: "ClusterBenchmarkSummary list \<Rightarrow> f64" where
  "maxClusterBenchmarkGFLOPS xs = foldl (\<lambda>m x. if fless m (cb_TotalGFLOPS x) then cb_TotalGFLOPS x else m) fzero xs"

definition matrixJobRequirements :: "int \<Rightarrow> Requirements" where
  "matrixJobRequirements size0 =
     \<lparr>req_CPUCores = 1, req_MemoryBytes = (if size0 \<le> 0 then 0 else word_of_int size0 * word_of_int size0 * 8 * 3),
      req_DiskBytes = 0, req_GPURequired = False, req_VRAMBytes = 0\<rparr>"

end
