(* ===== verification/Bodies.thy ===== *)
theory Bodies
  imports Summaries HttpTransport
begin

section \<open>What requests carry: decoding their bodies (encoding/json on the request types)\<close>

text \<open>
  The decoders of the structs that clients post. A body is decoded from the first JSON value of its text
  (\<open>json.NewDecoder(r.Body).Decode\<close>); text after it is not looked at. Times are read by the fast path of \<open>time.Time\<close>'s RFC 3339
  parser; the spellings that only its fallback accepts (an hour of one digit, a comma before the fraction) count as errors here, and
  an escaped character inside a time counts as the character.
\<close>

subsection \<open>Times\<close>

definition days_from_civil :: "int \<Rightarrow> int \<Rightarrow> int \<Rightarrow> int" where
  "days_from_civil y0 m d =
     (let y = (if m \<le> 2 then y0 - 1 else y0); era = y div 400; yoe = y - era * 400;
          doy = (153 * (if m > 2 then m - 3 else m + 9) + 2) div 5 + d - 1; doe = yoe * 365 + yoe div 4 - yoe div 100 + doy
      in era * 146097 + doe - 306)"

definition leap_year :: "int \<Rightarrow> bool" where
  "leap_year y \<longleftrightarrow> y mod 4 = 0 \<and> (y mod 100 \<noteq> 0 \<or> y mod 400 = 0)"

definition days_in :: "int \<Rightarrow> int \<Rightarrow> int" where
  "days_in m y = (if m = 2 then (if leap_year y then 29 else 28) else if m \<in> {4, 6, 9, 11} then 30 else 31)"

text \<open>A number of a fixed number of digits within bounds, and the rest of the text.\<close>

definition read_num :: "nat \<Rightarrow> int \<Rightarrow> int \<Rightarrow> string \<Rightarrow> (int \<times> string) option" where
  "read_num n lo hi s =
     (if length s < n \<or> \<not> list_all is_digit (take n s) then None
      else let v = digits_val (take n s) in if lo \<le> v \<and> v \<le> hi then Some (v, drop n s) else None)"

definition read_char :: "char \<Rightarrow> string \<Rightarrow> string option" where
  "read_char c s = (case s of x # xs \<Rightarrow> if x = c then Some xs else None | [] \<Rightarrow> None)"

text \<open>The digits after the point beyond the ninth are dropped.\<close>

definition read_fraction :: "string \<Rightarrow> int \<times> string" where
  "read_fraction s =
     (case s of
        p # x # xs \<Rightarrow>
          if p = CHR ''.'' \<and> is_digit x then
            (let ds = takeWhile is_digit (x # xs); nine = take 9 (ds @ replicate 9 (CHR ''0''))
             in (digits_val nine, dropWhile is_digit (x # xs)))
          else (0, s)
      | _ \<Rightarrow> (0, s))"

definition read_zone :: "string \<Rightarrow> int option" where
  "read_zone s =
     (if s = ''Z'' then Some 0
      else case s of
          sign # xs \<Rightarrow>
            if sign \<noteq> CHR ''+'' \<and> sign \<noteq> CHR ''-'' then None
            else Option.bind (read_num 2 0 23 xs) (\<lambda>(hh, s1).
              Option.bind (read_char (CHR '':'') s1) (\<lambda>s2.
              Option.bind (read_num 2 0 59 s2) (\<lambda>(mm, s3).
                if s3 \<noteq> [] then None
                else Some ((if sign = CHR ''-'' then - 1 else 1) * (hh * 3600 + mm * 60)))))
        | [] \<Rightarrow> None)"

definition parse_time :: "string \<Rightarrow> time option" where
  "parse_time s =
     Option.bind (read_num 4 0 9999 s) (\<lambda>(y, s1).
     Option.bind (read_char (CHR ''-'') s1) (\<lambda>s2.
     Option.bind (read_num 2 1 12 s2) (\<lambda>(m, s3).
     Option.bind (read_char (CHR ''-'') s3) (\<lambda>s4.
     Option.bind (read_num 2 1 (days_in m y) s4) (\<lambda>(d, s5).
     Option.bind (read_char (CHR ''T'') s5) (\<lambda>s6.
     Option.bind (read_num 2 0 23 s6) (\<lambda>(hh, s7).
     Option.bind (read_char (CHR '':'') s7) (\<lambda>s8.
     Option.bind (read_num 2 0 59 s8) (\<lambda>(mm, s9).
     Option.bind (read_char (CHR '':'') s9) (\<lambda>s10.
     Option.bind (read_num 2 0 59 s10) (\<lambda>(ss, s11).
       case read_fraction s11 of (ns, s12) \<Rightarrow>
         map_option (\<lambda>off. (days_from_civil y m d * 86400 + hh * 3600 + mm * 60 + ss - off) * 1000000000 + ns)
           (read_zone s12))))))))))))"

fun dtime :: "(time \<Rightarrow> 'a \<Rightarrow> 'a) \<Rightarrow> 'a field_decoder" where
  "dtime upd a (JStr s) = map_option (\<lambda>t. upd t a) (parse_time s)"
| "dtime upd a JNull = Some a"
| "dtime upd a _ = None"

text \<open>A nested struct is decoded over the value it has.\<close>

definition dnested :: "(string \<times> 'b field_decoder) list \<Rightarrow> ('a \<Rightarrow> 'b) \<Rightarrow> ('b \<Rightarrow> 'a \<Rightarrow> 'a) \<Rightarrow> 'a field_decoder" where
  "dnested flds get upd a v = map_option (\<lambda>b. upd b a) (decode_struct flds (get a) v)"

fun decode_members :: "(string, string) go_map \<Rightarrow> (string \<times> json) list \<Rightarrow> (string, string) go_map option" where
  "decode_members out [] = Some out"
| "decode_members out ((k, v) # kvs) = Option.bind (dec_string v) (\<lambda>s. decode_members (mput k s out) kvs)"

text \<open>\<open>map[string]string\<close>: a null member is the empty string, null itself the nil map.\<close>

fun dstrings :: "('a \<Rightarrow> (string, string) go_map) \<Rightarrow> ((string, string) go_map \<Rightarrow> 'a \<Rightarrow> 'a) \<Rightarrow> 'a field_decoder" where
  "dstrings get upd a (JObj kvs) = map_option (\<lambda>m. upd m a) (decode_members (get a) kvs)"
| "dstrings get upd a JNull = Some (upd [] a)"
| "dstrings get upd a _ = None"

subsection \<open>Resources\<close>

definition cpu_fields :: "(string \<times> CPUResources field_decoder) list" where
  "cpu_fields =
     [(''cores_total'', dint (\<lambda>i. cpu_CoresTotal_update (\<lambda>_. i))),
      (''cores_allowed'', dint (\<lambda>i. cpu_CoresAllowed_update (\<lambda>_. i)))]"

definition memory_fields :: "(string \<times> MemoryResources field_decoder) list" where
  "memory_fields =
     [(''total_bytes'', du64 (\<lambda>w. mem_TotalBytes_update (\<lambda>_. w))),
      (''allowed_bytes'', du64 (\<lambda>w. mem_AllowedBytes_update (\<lambda>_. w)))]"

definition gpu_fields :: "(string \<times> GPUResources field_decoder) list" where
  "gpu_fields =
     [(''name'', dstr (\<lambda>s. gpu_Name_update (\<lambda>_. s))),
      (''vendor'', dstr (\<lambda>s. gpu_Vendor_update (\<lambda>_. s))),
      (''total_vram_bytes'', du64 (\<lambda>w. gpu_TotalVRAMBytes_update (\<lambda>_. w))),
      (''allowed_vram_bytes'', du64 (\<lambda>w. gpu_AllowedVRAMBytes_update (\<lambda>_. w))),
      (''compute_compatible'', dbool (\<lambda>b. gpu_ComputeCompatible_update (\<lambda>_. b)))]"

definition storage_fields :: "(string \<times> StorageResources field_decoder) list" where
  "storage_fields =
     [(''total_bytes'', du64 (\<lambda>w. st_TotalBytes_update (\<lambda>_. w))),
      (''allowed_bytes'', du64 (\<lambda>w. st_AllowedBytes_update (\<lambda>_. w))),
      (''free_bytes'', du64 (\<lambda>w. st_FreeBytes_update (\<lambda>_. w))),
      (''used_by_models_bytes'', du64 (\<lambda>w. st_UsedByModelsBytes_update (\<lambda>_. w))),
      (''used_by_runtimes_bytes'', du64 (\<lambda>w. st_UsedByRuntimesBytes_update (\<lambda>_. w))),
      (''used_by_cache_bytes'', du64 (\<lambda>w. st_UsedByCacheBytes_update (\<lambda>_. w))),
      (''partial_model_bytes'', du64 (\<lambda>w. st_PartialModelBytes_update (\<lambda>_. w))),
      (''partial_model_files'', dint (\<lambda>i. st_PartialModelFiles_update (\<lambda>_. i))),
      (''orphan_model_bytes'', du64 (\<lambda>w. st_OrphanModelBytes_update (\<lambda>_. w))),
      (''orphan_model_dirs'', dint (\<lambda>i. st_OrphanModelDirs_update (\<lambda>_. i)))]"

definition model_resource_fields :: "(string \<times> ModelResource field_decoder) list" where
  "model_resource_fields =
     [(''id'', dstr (\<lambda>s. mr_ID_update (\<lambda>_. s))),
      (''name'', dstr (\<lambda>s. mr_Name_update (\<lambda>_. s))),
      (''family'', dstr (\<lambda>s. mr_Family_update (\<lambda>_. s))),
      (''runtime'', dstr (\<lambda>s. mr_Runtime_update (\<lambda>_. s))),
      (''path'', dstr (\<lambda>s. mr_Path_update (\<lambda>_. s))),
      (''bytes'', du64 (\<lambda>w. mr_Bytes_update (\<lambda>_. w))),
      (''ready'', dbool (\<lambda>b. mr_Ready_update (\<lambda>_. b))),
      (''error'', dstr (\<lambda>s. mr_Error_update (\<lambda>_. s))),
      (''installed_at'', dtime (\<lambda>t. mr_InstalledAt_update (\<lambda>_. t)))]"

definition rpc_runtime_fields :: "(string \<times> RPCRuntimeResource field_decoder) list" where
  "rpc_runtime_fields =
     [(''name'', dstr (\<lambda>s. rpc_Name_update (\<lambda>_. s))),
      (''ready'', dbool (\<lambda>b. rpc_Ready_update (\<lambda>_. b))),
      (''server_path'', dstr (\<lambda>s. rpc_ServerPath_update (\<lambda>_. s))),
      (''endpoint'', dstr (\<lambda>s. rpc_Endpoint_update (\<lambda>_. s))),
      (''protocol'', dstr (\<lambda>s. rpc_Protocol_update (\<lambda>_. s))),
      (''blockers'', dslice dec_string (\<lambda>ss. rpc_Blockers_update (\<lambda>_. ss)))]"

definition stage_runtime_fields :: "(string \<times> StageRuntimeResource field_decoder) list" where
  "stage_runtime_fields =
     [(''name'', dstr (\<lambda>s. sr_Name_update (\<lambda>_. s))),
      (''ready'', dbool (\<lambda>b. sr_Ready_update (\<lambda>_. b))),
      (''cli_ready'', dbool (\<lambda>b. sr_CLIReady_update (\<lambda>_. b))),
      (''binary_path'', dstr (\<lambda>s. sr_BinaryPath_update (\<lambda>_. s))),
      (''required_hooks'', dslice dec_string (\<lambda>ss. sr_RequiredHooks_update (\<lambda>_. ss))),
      (''blockers'', dslice dec_string (\<lambda>ss. sr_Blockers_update (\<lambda>_. ss)))]"

definition zero_rpc_runtime :: RPCRuntimeResource where
  "zero_rpc_runtime = \<lparr>rpc_Name = [], rpc_Ready = False, rpc_ServerPath = [], rpc_Endpoint = [], rpc_Protocol = [], rpc_Blockers = []\<rparr>"

definition zero_stage_runtime :: StageRuntimeResource where
  "zero_stage_runtime = \<lparr>sr_Name = [], sr_Ready = False, sr_CLIReady = False, sr_BinaryPath = [], sr_RequiredHooks = [], sr_Blockers = []\<rparr>"

definition zero_model_resource :: ModelResource where
  "zero_model_resource = \<lparr>mr_ID = [], mr_Name = [], mr_Family = [], mr_Runtime = [], mr_Path = [], mr_Bytes = 0, mr_Ready = False,
     mr_Error = [], mr_InstalledAt = 0\<rparr>"

definition zero_gpu :: GPUResources where
  "zero_gpu = \<lparr>gpu_Name = [], gpu_Vendor = [], gpu_TotalVRAMBytes = 0, gpu_AllowedVRAMBytes = 0, gpu_ComputeCompatible = False\<rparr>"

definition runtime_fields :: "(string \<times> RuntimeResource field_decoder) list" where
  "runtime_fields =
     [(''name'', dstr (\<lambda>s. rt_Name_update (\<lambda>_. s))),
      (''ready'', dbool (\<lambda>b. rt_Ready_update (\<lambda>_. b))),
      (''version'', dstr (\<lambda>s. rt_Version_update (\<lambda>_. s))),
      (''platform'', dstr (\<lambda>s. rt_Platform_update (\<lambda>_. s))),
      (''binary_path'', dstr (\<lambda>s. rt_BinaryPath_update (\<lambda>_. s))),
      (''source'', dstr (\<lambda>s. rt_Source_update (\<lambda>_. s))),
      (''capabilities'', dslice dec_string (\<lambda>ss. rt_Capabilities_update (\<lambda>_. ss))),
      (''rpc_runtimes'', dslice (decode_struct rpc_runtime_fields zero_rpc_runtime) (\<lambda>xs. rt_RPCRuntimes_update (\<lambda>_. xs))),
      (''stage_runtimes'', dslice (decode_struct stage_runtime_fields zero_stage_runtime) (\<lambda>xs. rt_StageRuntimes_update (\<lambda>_. xs))),
      (''error'', dstr (\<lambda>s. rt_Error_update (\<lambda>_. s)))]"

definition snapshot_fields :: "(string \<times> ResourceSnapshot field_decoder) list" where
  "snapshot_fields =
     [(''cpu'', dnested cpu_fields rs_CPU (\<lambda>x. rs_CPU_update (\<lambda>_. x))),
      (''memory'', dnested memory_fields rs_Memory (\<lambda>x. rs_Memory_update (\<lambda>_. x))),
      (''gpu'', dslice (decode_struct gpu_fields zero_gpu) (\<lambda>xs. rs_GPU_update (\<lambda>_. xs))),
      (''storage'', dnested storage_fields rs_Storage (\<lambda>x. rs_Storage_update (\<lambda>_. x))),
      (''job_slots'', dint (\<lambda>i. rs_JobSlots_update (\<lambda>_. i))),
      (''models'', dslice (decode_struct model_resource_fields zero_model_resource) (\<lambda>xs. rs_Models_update (\<lambda>_. xs))),
      (''runtimes'', dslice (decode_struct runtime_fields zero_runtime) (\<lambda>xs. rs_Runtimes_update (\<lambda>_. xs)))]"

subsection \<open>Requests of workers\<close>

definition role_of :: "string \<Rightarrow> NodeRole" where
  "role_of s = (if s = ''manager'' then NodeRoleManager else if s = ''worker'' then NodeRoleWorker else NodeRoleOther s)"

definition join_fields :: "(string \<times> JoinRequest field_decoder) list" where
  "join_fields =
     [(''node_name'', dstr (\<lambda>s. jr_NodeName_update (\<lambda>_. s))),
      (''role'', dstr (\<lambda>s. jr_Role_update (\<lambda>_. role_of s))),
      (''endpoint'', dstr (\<lambda>s. jr_Endpoint_update (\<lambda>_. s))),
      (''join_token'', dstr (\<lambda>s. jr_JoinToken_update (\<lambda>_. s))),
      (''resources'', dnested snapshot_fields jr_Resources (\<lambda>x. jr_Resources_update (\<lambda>_. x)))]"

definition decode_join :: "string \<Rightarrow> JoinRequest option" where
  "decode_join = decode_first join_fields
     \<lparr>jr_NodeName = [], jr_Role = NodeRoleOther [], jr_Endpoint = [], jr_JoinToken = [], jr_Resources = zero_resources\<rparr>"

definition heartbeat_fields :: "(string \<times> Heartbeat field_decoder) list" where
  "heartbeat_fields =
     [(''node_id'', dstr (\<lambda>s. hb_NodeID_update (\<lambda>_. s))),
      (''at'', dtime (\<lambda>t. hb_At_update (\<lambda>_. t))),
      (''resources'', dnested snapshot_fields hb_Resources (\<lambda>x. hb_Resources_update (\<lambda>_. x)))]"

definition decode_heartbeat :: "string \<Rightarrow> Heartbeat option" where
  "decode_heartbeat = decode_first heartbeat_fields \<lparr>hb_NodeID = [], hb_At = 0, hb_Resources = zero_resources\<rparr>"

record LeaveRequest =
  lv_NodeID :: string
  lv_At :: time

definition decode_leave :: "string \<Rightarrow> LeaveRequest option" where
  "decode_leave = decode_first
     [(''node_id'', dstr (\<lambda>s. lv_NodeID_update (\<lambda>_. s))), (''at'', dtime (\<lambda>t. lv_At_update (\<lambda>_. t)))] \<lparr>lv_NodeID = [], lv_At = 0\<rparr>"

definition kind_of :: "string \<Rightarrow> BenchmarkKind" where
  "kind_of s = (if s = ''cpu'' then BenchmarkCPU else if s = ''memory'' then BenchmarkMemory else if s = ''disk'' then BenchmarkDisk
     else if s = ''network'' then BenchmarkNetwork else if s = ''ai'' then BenchmarkAI else BenchmarkOther s)"

definition benchmark_fields :: "(string \<times> BenchmarkResult field_decoder) list" where
  "benchmark_fields =
     [(''node_id'', dstr (\<lambda>s. br_NodeID_update (\<lambda>_. s))),
      (''kind'', dstr (\<lambda>s. br_Kind_update (\<lambda>_. kind_of s))),
      (''score'', dfloat (\<lambda>x. br_Score_update (\<lambda>_. x))),
      (''unit'', dstr (\<lambda>s. br_Unit_update (\<lambda>_. s))),
      (''duration'', dint (\<lambda>i. br_Duration_update (\<lambda>_. i))),
      (''created_at'', dtime (\<lambda>t. br_CreatedAt_update (\<lambda>_. t))),
      (''metadata'', dstrings br_Metadata (\<lambda>m. br_Metadata_update (\<lambda>_. m)))]"

definition decode_benchmark :: "string \<Rightarrow> BenchmarkResult option" where
  "decode_benchmark = decode_first benchmark_fields \<lparr>br_NodeID = [], br_Kind = BenchmarkOther [], br_Score = fzero, br_Unit = [],
     br_Duration = 0, br_CreatedAt = 0, br_Metadata = []\<rparr>"

definition decode_complete :: "string \<Rightarrow> CompleteRequest option" where
  "decode_complete = decode_first
     [(''node_id'', dstr (\<lambda>s. co_NodeID_update (\<lambda>_. s))),
      (''result'', dstr (\<lambda>s. co_Result_update (\<lambda>_. s))),
      (''error'', dstr (\<lambda>s. co_Error_update (\<lambda>_. s)))] \<lparr>co_NodeID = [], co_Result = [], co_Error = []\<rparr>"

definition decode_progress :: "string \<Rightarrow> ProgressRequest option" where
  "decode_progress = decode_first
     [(''node_id'', dstr (\<lambda>s. pr_NodeID_update (\<lambda>_. s))),
      (''progress_bytes'', dint (\<lambda>i. pr_ProgressBytes_update (\<lambda>_. i))),
      (''total_bytes'', dint (\<lambda>i. pr_TotalBytes_update (\<lambda>_. i))),
      (''progress_percent'', dfloat (\<lambda>x. pr_ProgressPercent_update (\<lambda>_. x))),
      (''progress_label'', dstr (\<lambda>s. pr_ProgressLabel_update (\<lambda>_. s)))]
     \<lparr>pr_NodeID = [], pr_ProgressBytes = 0, pr_TotalBytes = 0, pr_ProgressPercent = fzero, pr_ProgressLabel = []\<rparr>"

subsection \<open>Requests of the operator\<close>

definition requirements_fields :: "(string \<times> Requirements field_decoder) list" where
  "requirements_fields =
     [(''cpu_cores'', dint (\<lambda>i. req_CPUCores_update (\<lambda>_. i))),
      (''memory_bytes'', du64 (\<lambda>w. req_MemoryBytes_update (\<lambda>_. w))),
      (''disk_bytes'', du64 (\<lambda>w. req_DiskBytes_update (\<lambda>_. w))),
      (''gpu_required'', dbool (\<lambda>b. req_GPURequired_update (\<lambda>_. b))),
      (''vram_bytes'', du64 (\<lambda>w. req_VRAMBytes_update (\<lambda>_. w)))]"

definition stage_state_of :: "string \<Rightarrow> StageState" where
  "stage_state_of s = (if s = ''planned'' then StagePlanned else if s = ''preparing'' then StagePreparing
     else if s = ''ready'' then StageReady else if s = ''prefill'' then StagePrefill else if s = ''decode'' then StageDecode
     else if s = ''completed'' then StageCompleted else if s = ''failed'' then StageFailed
     else if s = ''aborted'' then StageAborted else StageOther s)"

definition create_fields :: "(string \<times> CreateRequest field_decoder) list" where
  "create_fields =
     [(''type'', dstr (\<lambda>s. cr_Type_update (\<lambda>_. s))),
      (''input'', dstr (\<lambda>s. cr_Input_update (\<lambda>_. s))),
      (''requested_by'', dstr (\<lambda>s. cr_RequestedBy_update (\<lambda>_. s))),
      (''assigned_to'', dstr (\<lambda>s. cr_AssignedTo_update (\<lambda>_. s))),
      (''requirements'', dnested requirements_fields cr_Requirements (\<lambda>x. cr_Requirements_update (\<lambda>_. x))),
      (''max_attempts'', dint (\<lambda>i. cr_MaxAttempts_update (\<lambda>_. i))),
      (''no_auto_assign'', dbool (\<lambda>b. cr_NoAutoAssign_update (\<lambda>_. b))),
      (''cdip_state'', dstr (\<lambda>s. cr_CDIPState_update (\<lambda>_. stage_state_of s))),
      (''cdip_parent_job_id'', dstr (\<lambda>s. cr_CDIPParentJobID_update (\<lambda>_. s))),
      (''cdip_stage_index'', dint (\<lambda>i. cr_CDIPStageIndex_update (\<lambda>_. i)))]"

definition no_requirements :: Requirements where
  "no_requirements = \<lparr>req_CPUCores = 0, req_MemoryBytes = 0, req_DiskBytes = 0, req_GPURequired = False, req_VRAMBytes = 0\<rparr>"

definition zero_create :: CreateRequest where
  "zero_create = \<lparr>cr_Type = [], cr_Input = [], cr_RequestedBy = [], cr_AssignedTo = [], cr_Requirements = no_requirements,
     cr_MaxAttempts = 0, cr_NoAutoAssign = False, cr_CDIPState = StageUnset, cr_CDIPParentJobID = [], cr_CDIPStageIndex = 0\<rparr>"

definition decode_create :: "string \<Rightarrow> CreateRequest option" where
  "decode_create = decode_first create_fields zero_create"

record clusterBenchmarkRequest =
  cq_Size :: int
  cq_Iterations :: int
  cq_RequestedBy :: string

definition decode_cluster_benchmark :: "string \<Rightarrow> clusterBenchmarkRequest option" where
  "decode_cluster_benchmark = decode_first
     [(''size'', dint (\<lambda>i. cq_Size_update (\<lambda>_. i))),
      (''iterations'', dint (\<lambda>i. cq_Iterations_update (\<lambda>_. i))),
      (''requested_by'', dstr (\<lambda>s. cq_RequestedBy_update (\<lambda>_. s)))] \<lparr>cq_Size = 0, cq_Iterations = 0, cq_RequestedBy = []\<rparr>"

record generate_request =
  gq_NodeID :: string
  gq_Prompt :: string
  gq_ConversationID :: string
  gq_SystemPrompt :: string
  gq_MaxTokens :: int
  gq_Temperature :: string

definition zero_generate_request :: generate_request where
  "zero_generate_request = \<lparr>gq_NodeID = [], gq_Prompt = [], gq_ConversationID = [], gq_SystemPrompt = [], gq_MaxTokens = 0,
     gq_Temperature = []\<rparr>"

text \<open>The struct of the distributed generation has no \<open>node_id\<close>.\<close>

definition distributed_request_fields :: "(string \<times> generate_request field_decoder) list" where
  "distributed_request_fields =
     [(''prompt'', dstr (\<lambda>s. gq_Prompt_update (\<lambda>_. s))),
      (''conversation_id'', dstr (\<lambda>s. gq_ConversationID_update (\<lambda>_. s))),
      (''system_prompt'', dstr (\<lambda>s. gq_SystemPrompt_update (\<lambda>_. s))),
      (''max_tokens'', dint (\<lambda>i. gq_MaxTokens_update (\<lambda>_. i))),
      (''temperature'', dstr (\<lambda>s. gq_Temperature_update (\<lambda>_. s)))]"

definition decode_distributed_request :: "string \<Rightarrow> generate_request option" where
  "decode_distributed_request = decode_first distributed_request_fields zero_generate_request"

definition decode_generate_request :: "string \<Rightarrow> generate_request option" where
  "decode_generate_request = decode_first ((''node_id'', dstr (\<lambda>s. gq_NodeID_update (\<lambda>_. s))) # distributed_request_fields)
     zero_generate_request"

definition decode_node_id :: "string \<Rightarrow> string option" where
  "decode_node_id = decode_first [(''node_id'', dstr (\<lambda>s _. s))] []"

definition decode_memory_request :: "string \<Rightarrow> Memory option" where
  "decode_memory_request = decode_first
     [(''model_id'', dstr (\<lambda>s. me_ModelID_update (\<lambda>_. s))),
      (''key'', dstr (\<lambda>s. me_Key_update (\<lambda>_. s))),
      (''value'', dstr (\<lambda>s. me_Value_update (\<lambda>_. s))),
      (''source'', dstr (\<lambda>s. me_Source_update (\<lambda>_. s))),
      (''conversation_id'', dstr (\<lambda>s. me_ConversationID_update (\<lambda>_. s)))]
     \<lparr>me_ID = [], me_ModelID = [], me_Key = [], me_Value = [], me_Source = [], me_ConversationID = [], me_CreatedAt = 0,
      me_UpdatedAt = 0\<rparr>"

text \<open>\<open>_ = json.NewDecoder(r.Body).Decode(&req)\<close>: the error is dropped. Text that does not parse leaves the struct as it is; members of a
  wrong type are skipped.\<close>

definition decode_ignoring_errors :: "(string \<times> 'a field_decoder) list \<Rightarrow> 'a \<Rightarrow> string \<Rightarrow> 'a" where
  "decode_ignoring_errors flds zero s =
     (case parse_value (Suc (length s)) 0 s of
        Some (JObj kvs, t) \<Rightarrow> fst (decode_fields flds kvs (zero, True))
      | _ \<Rightarrow> zero)"

end
