(* ===== verification/Capacity.thy ===== *)
theory Capacity
  imports Summaries RpcPlan
begin

section \<open>Readiness and capacity of the cluster (internal/manager/server.go)\<close>

text \<open>
  The readiness checks of the dashboard and the capacity report: which catalog models run on one worker, which would
  fit over several, what is missing for the others, what each worker contributes, and the difference between two snapshots.
  Byte counts are \<open>uint64\<close>, differences \<open>int64\<close>, shares \<open>float64\<close>.
\<close>

subsection \<open>Readiness\<close>

record ReadinessCheck =
  rc_Name :: string
  rc_Status :: string
  rc_Detail :: string
  rc_Action :: string
  rc_Tab :: string

record ReadinessSummary =
  ry_Status :: string
  ry_WorkersOnline :: int
  ry_RuntimeReadyWorkers :: int
  ry_InstalledModels :: int
  ry_GeneratableModels :: int
  ry_ActiveJobs :: int
  ry_RecentFailures :: int
  ry_Checks :: "ReadinessCheck list"

abbreviation readiness_check :: "string \<Rightarrow> string \<Rightarrow> string \<Rightarrow> string \<Rightarrow> string \<Rightarrow> ReadinessCheck" where
  "readiness_check name status detail action tab \<equiv>
     \<lparr>rc_Name = name, rc_Status = status, rc_Detail = detail, rc_Action = action, rc_Tab = tab\<rparr>"

definition readinessWorkersCheck :: "int \<Rightarrow> ReadinessCheck" where
  "readinessWorkersCheck workersOnline =
     (if workersOnline = 0
      then readiness_check ''Workers'' ''blocked'' ''No workers are online.'' ''Invite and start at least one worker.'' ''workers''
      else readiness_check ''Workers'' ''ready'' (show_int workersOnline @ '' online worker(s).'') ''Worker plane is available.'' ''workers'')"

definition readinessRuntimeCheck :: "int \<Rightarrow> int \<Rightarrow> ReadinessCheck" where
  "readinessRuntimeCheck workersOnline runtimeReadyWorkers =
     (if workersOnline = 0
      then readiness_check ''Runtime'' ''blocked'' ''No worker runtime can be checked.'' ''Connect a worker first.'' ''workers''
      else if runtimeReadyWorkers = 0
      then readiness_check ''Runtime'' ''blocked'' ''No online worker reports a ready AI runtime.''
        ''Open worker app and repair llama.cpp runtime.'' ''workers''
      else if runtimeReadyWorkers < workersOnline
      then readiness_check ''Runtime'' ''warn''
        (show_int runtimeReadyWorkers @ '' of '' @ show_int workersOnline @ '' worker(s) have ready runtime.'')
        ''Repair runtime on workers that report missing llama.cpp.'' ''workers''
      else readiness_check ''Runtime'' ''ready'' (show_int runtimeReadyWorkers @ '' worker(s) runtime-ready.'')
        ''Runtime plane is available.'' ''workers'')"

definition readinessModelsCheck :: "int \<Rightarrow> int \<Rightarrow> ReadinessCheck" where
  "readinessModelsCheck installedModels generatableModels =
     (if installedModels = 0
      then readiness_check ''Models'' ''blocked'' ''No model is installed.'' ''Install a small catalog model first.'' ''models''
      else if generatableModels = 0
      then readiness_check ''Models'' ''blocked'' (show_int installedModels @ '' model(s) installed but none are runtime-ready.'')
        ''Repair runtime or reinstall the model on a ready worker.'' ''models''
      else if generatableModels < installedModels
      then readiness_check ''Models'' ''warn'' (show_int installedModels @ '' installed, '' @ show_int generatableModels @ '' ready for chat.'')
        ''Some installed models are not generatable yet.'' ''models''
      else readiness_check ''Models'' ''ready'' (show_int generatableModels @ '' model(s) ready for chat.'')
        ''Model chat can run locally.'' ''chat'')"

definition readinessJobsCheck :: "int \<Rightarrow> ReadinessCheck" where
  "readinessJobsCheck activeJobs =
     (if activeJobs = 0 then readiness_check ''Jobs'' ''ready'' ''No active jobs.'' ''Scheduler is idle.'' ''jobs''
      else readiness_check ''Jobs'' ''warn'' (show_int activeJobs @ '' queued/scheduled/running job(s).'')
        ''Wait for active jobs before release smoke testing.'' ''scheduler'')"

definition readinessFailuresCheck :: "int \<Rightarrow> ReadinessCheck" where
  "readinessFailuresCheck recentFailures =
     (if recentFailures = 0
      then readiness_check ''Failures'' ''ready'' ''No recent terminal failures.'' ''Recent job history is clean.'' ''model-activity''
      else readiness_check ''Failures'' ''warn'' (show_int recentFailures @ '' recent failed/canceled job(s).'')
        ''Review Model Activity and Jobs before release.'' ''model-activity'')"

definition nodeAnyRuntimeReady :: "Node \<Rightarrow> bool" where
  "nodeAnyRuntimeReady node = list_ex rt_Ready (rs_Runtimes (n_Resources node))"

definition runtimeReadyWorkerCount :: "Node list \<Rightarrow> int" where
  "runtimeReadyWorkerCount ns = int (length (filter (\<lambda>node. list_ex rt_Ready (rs_Runtimes (n_Resources node))) ns))"

definition recentFailureCount :: "time \<Rightarrow> Job list \<Rightarrow> int" where
  "recentFailureCount now js =
     (let cutoff = now - 24 * 3600 * 1000000000
      in int (length (filter (\<lambda>job. \<not> j_UpdatedAt job < cutoff
           \<and> (j_Status job = StatusFailed \<or> j_Status job = StatusCanceled)) js)))"

definition installedModelCount :: "ModelSummary list \<Rightarrow> int" where
  "installedModelCount xs = int (length (filter (\<lambda>s. ms_InstalledOn s \<noteq> []) xs))"

definition installedModelInstanceCount :: "ModelSummary list \<Rightarrow> int" where
  "installedModelInstanceCount xs = foldl (\<lambda>n s. n + int (length (ms_Installed s))) 0 xs"

definition generatableModelCount :: "ModelSummary list \<Rightarrow> int" where
  "generatableModelCount xs = int (length (filter (\<lambda>s. ms_GeneratableOn s \<noteq> [] \<and> ms_Status s \<noteq> ''deleting'') xs))"

fun readiness_status :: "string \<Rightarrow> ReadinessCheck list \<Rightarrow> string" where
  "readiness_status status [] = status"
| "readiness_status status (check # checks) =
     (if rc_Status check = ''blocked'' then ''blocked''
      else readiness_status (if rc_Status check = ''warn'' \<and> status = ''ready'' then ''warn'' else status) checks)"

definition clusterReadiness :: "time \<Rightarrow> Node list \<Rightarrow> ModelSummary list \<Rightarrow> Job list \<Rightarrow> ReadinessSummary" where
  "clusterReadiness now onlineNodes modelsView jobsList =
     (let online = int (length onlineNodes); ready = runtimeReadyWorkerCount onlineNodes;
          installed = installedModelCount modelsView; generatable = generatableModelCount modelsView;
          activeJobs = activeJobCount jobsList; failures = recentFailureCount now jobsList;
          checks = [readinessWorkersCheck online, readinessRuntimeCheck online ready, readinessModelsCheck installed generatable,
            readinessJobsCheck activeJobs, readinessFailuresCheck failures]
      in \<lparr>ry_Status = readiness_status ''ready'' checks, ry_WorkersOnline = online, ry_RuntimeReadyWorkers = ready,
          ry_InstalledModels = installed, ry_GeneratableModels = generatable, ry_ActiveJobs = activeJobs,
          ry_RecentFailures = failures, ry_Checks = checks\<rparr>)"

subsection \<open>Placement texts\<close>

definition modelPlacementClass :: "ModelPlacementPlan \<Rightarrow> string" where
  "modelPlacementClass plan =
     (if mp_RunnableNow plan then ''model-placement-card is-ready''
      else if mp_Feasible plan then ''model-placement-card is-estimate''
      else ''model-placement-card is-blocked'')"

definition modelPlacementLabel :: "ModelPlacementPlan \<Rightarrow> string" where
  "modelPlacementLabel plan =
     (if mp_Mode plan = ''single_worker'' then ''Single-worker ready''
      else if mp_Mode plan = ''sharded_estimate'' then ''Sharded estimate'' else ''Blocked'')"

definition modelPlacementHint :: "ModelPlacementPlan \<Rightarrow> string" where
  "modelPlacementHint plan =
     (if mp_RunnableNow plan then
        (if length (mp_SingleNodeCandidates plan) = 1 then ''Can run on 1 online worker.''
         else ''Can run on '' @ show_int (int (length (mp_SingleNodeCandidates plan))) @ '' online workers.'')
      else if mp_Feasible plan then
        ''Aggregate resources fit across '' @ show_int (int (length (mp_Shards plan)))
          @ '' workers, but distributed model execution is not implemented yet.''
      else if mp_Blockers plan \<noteq> [] then Join (mp_Blockers plan) '' | ''
      else ''No viable placement found.'')"

definition failure_reasons :: "ModelCapability list \<Rightarrow> string list" where
  "failure_reasons capabilities =
     take 2 (map (\<lambda>c. mc_Name c @ '': '' @ Join (mc_Reasons c) ''; '') (filter (\<lambda>c. \<not> mc_Capable c \<and> mc_Reasons c \<noteq> []) capabilities))"

definition modelFailureHint :: "ModelSummary \<Rightarrow> string" where
  "modelFailureHint summary =
     (if \<not> blank (ms_LastError summary) \<and> \<not> Contains (ms_LastError summary) ''unsupported job type''
      then ''Last model job failed: '' @ ms_LastError summary
      else if ms_CapableNodes summary > 0 \<or> ms_Capabilities summary = [] then []
      else if failure_reasons (ms_Capabilities summary) = [] then []
      else ''No capable worker yet. '' @ Join (failure_reasons (ms_Capabilities summary)) '' | '')"

subsection \<open>Capacity\<close>

record CapacityModel =
  cp_ID :: string
  cp_Name :: string
  cp_Parameters :: string
  cp_Quant :: string
  cp_RequiredMemory :: u64
  cp_RequiredDisk :: u64
  cp_PlacementMode :: string
  cp_PlacementHint :: string
  cp_CandidateWorkers :: int
  cp_ShardWorkers :: int

record CapacityWorker =
  cw_NodeID :: string
  cw_Name :: string
  cw_AllowedCPUCores :: int
  cw_AllowedMemoryBytes :: u64
  cw_AllowedStorageBytes :: u64
  cw_FreeStorageBytes :: u64
  cw_AllowedVRAMBytes :: u64
  cw_JobSlots :: int
  cw_RuntimeReady :: bool
  cw_InstalledModels :: int
  cw_RunnableModels :: int
  cw_LargestRunnableModel :: CapacityModel
  cw_MemorySharePercent :: f64
  cw_StorageSharePercent :: f64
  cw_FreeStorageSharePct :: f64
  cw_VRAMSharePercent :: f64

record CapacityTarget =
  ct_Model :: CapacityModel
  ct_MemoryShortBytes :: u64
  ct_DiskShortBytes :: u64
  ct_AggregateMemoryBytes :: u64
  ct_AggregateDiskBytes :: u64
  ct_Blockers :: "string list"

record CapacitySummary =
  cc_WorkersOnline :: int
  cc_AllowedCPUCores :: int
  cc_AllowedMemoryBytes :: u64
  cc_AllowedStorageBytes :: u64
  cc_FreeStorageBytes :: u64
  cc_AllowedVRAMBytes :: u64
  cc_CatalogModels :: int
  cc_SingleWorkerRunnableModels :: int
  cc_ShardedEstimateModels :: int
  cc_BlockedModels :: int
  cc_LargestSingleWorkerModel :: CapacityModel
  cc_LargestShardedModel :: CapacityModel
  cc_Workers :: "CapacityWorker list"
  cc_SingleWorkerRunnable :: "CapacityModel list"
  cc_ShardedEstimate :: "CapacityModel list"
  cc_Blocked :: "CapacityModel list"
  cc_UnlockTargets :: "CapacityTarget list"

record CapacitySnapshot =
  sn_ID :: string
  sn_Label :: string
  sn_CreatedAt :: time
  sn_Summary :: ClusterSummary
  sn_Capacity :: CapacitySummary

record CapacityDelta =
  cd_BaselineID :: string
  cd_CurrentID :: string
  cd_WorkersOnlineDelta :: int
  cd_AllowedCPUCoresDelta :: int
  cd_AllowedMemoryBytesDelta :: int
  cd_AllowedStorageBytesDelta :: int
  cd_FreeStorageBytesDelta :: int
  cd_AllowedVRAMBytesDelta :: int
  cd_SingleWorkerRunnableDelta :: int
  cd_ShardedEstimateDelta :: int
  cd_BlockedModelsDelta :: int
  cd_NewSingleWorkerRunnableModels :: "CapacityModel list"
  cd_NewShardedEstimateModels :: "CapacityModel list"

definition zero_capacity_model :: CapacityModel where
  "zero_capacity_model = \<lparr>cp_ID = [], cp_Name = [], cp_Parameters = [], cp_Quant = [], cp_RequiredMemory = 0, cp_RequiredDisk = 0,
     cp_PlacementMode = [], cp_PlacementHint = [], cp_CandidateWorkers = 0, cp_ShardWorkers = 0\<rparr>"

definition shortfall :: "u64 \<Rightarrow> u64 \<Rightarrow> u64" where
  "shortfall required available = (if required \<le> available then 0 else required - available)"

definition capacityModelFromPlacement :: "ModelSummary \<Rightarrow> ModelPlacementPlan \<Rightarrow> CapacityModel" where
  "capacityModelFromPlacement summary plan =
     (let m = ms_Model summary
      in \<lparr>cp_ID = m_ID m, cp_Name = m_Name m, cp_Parameters = m_Parameters m, cp_Quant = m_Quant m,
          cp_RequiredMemory = m_MemoryBytes m, cp_RequiredDisk = m_DiskBytes m, cp_PlacementMode = mp_Mode plan,
          cp_PlacementHint = modelPlacementHint plan, cp_CandidateWorkers = int (length (mp_SingleNodeCandidates plan)),
          cp_ShardWorkers = int (length (mp_Shards plan))\<rparr>)"

definition capacityTargetFromPlacement :: "CapacityModel \<Rightarrow> ModelPlacementPlan \<Rightarrow> CapacityTarget" where
  "capacityTargetFromPlacement model plan =
     \<lparr>ct_Model = model, ct_MemoryShortBytes = shortfall (mp_RequiredMemoryBytes plan) (mp_AggregateMemoryBytes plan),
      ct_DiskShortBytes = shortfall (mp_RequiredDiskBytes plan) (mp_AggregateDiskBytes plan),
      ct_AggregateMemoryBytes = mp_AggregateMemoryBytes plan, ct_AggregateDiskBytes = mp_AggregateDiskBytes plan,
      ct_Blockers = mp_Blockers plan\<rparr>"

definition larger_model :: "CapacityModel \<Rightarrow> CapacityModel \<Rightarrow> CapacityModel" where
  "larger_model m best = (if cp_RequiredMemory m > cp_RequiredMemory best then m else best)"

definition capacity_add :: "CapacitySummary \<Rightarrow> ModelSummary \<Rightarrow> CapacitySummary" where
  "capacity_add c modelSummary =
     (let plan = modelPlacementPlan modelSummary; m = capacityModelFromPlacement modelSummary plan
      in if mp_RunnableNow plan then
           c\<lparr>cc_SingleWorkerRunnableModels := cc_SingleWorkerRunnableModels c + 1,
             cc_SingleWorkerRunnable := cc_SingleWorkerRunnable c @ [m],
             cc_LargestSingleWorkerModel := larger_model m (cc_LargestSingleWorkerModel c)\<rparr>
         else if mp_Feasible plan then
           c\<lparr>cc_ShardedEstimateModels := cc_ShardedEstimateModels c + 1,
             cc_ShardedEstimate := cc_ShardedEstimate c @ [m],
             cc_LargestShardedModel := larger_model m (cc_LargestShardedModel c)\<rparr>
         else
           c\<lparr>cc_BlockedModels := cc_BlockedModels c + 1, cc_Blocked := cc_Blocked c @ [m],
             cc_UnlockTargets := cc_UnlockTargets c @ [capacityTargetFromPlacement m plan]\<rparr>)"

definition target_less :: "CapacityTarget \<Rightarrow> CapacityTarget \<Rightarrow> bool" where
  "target_less left right =
     (let l = ct_MemoryShortBytes left + ct_DiskShortBytes left; r = ct_MemoryShortBytes right + ct_DiskShortBytes right
      in if l \<noteq> r then l < r else cp_RequiredMemory (ct_Model left) < cp_RequiredMemory (ct_Model right))"

fun modelCapabilityForNode :: "ModelCapability list \<Rightarrow> string \<Rightarrow> ModelCapability option" where
  "modelCapabilityForNode [] nodeID = None"
| "modelCapabilityForNode (c # cs) nodeID = (if mc_NodeID c = nodeID then Some c else modelCapabilityForNode cs nodeID)"

definition percentOf :: "u64 \<Rightarrow> u64 \<Rightarrow> f64" where
  "percentOf value whole =
     (if whole = 0 then fzero else fdiv (fmul (f64_of_u64 value) (Fin 100)) (f64_of_u64 whole))"

definition worker_model_add :: "string \<Rightarrow> CapacityWorker \<Rightarrow> ModelSummary \<Rightarrow> CapacityWorker" where
  "worker_model_add nodeID w modelSummary =
     (case modelCapabilityForNode (ms_Capabilities modelSummary) nodeID of
        None \<Rightarrow> w
      | Some capability \<Rightarrow>
        if \<not> mc_Capable capability then w
        else w\<lparr>cw_RunnableModels := cw_RunnableModels w + 1,
          cw_LargestRunnableModel := larger_model (capacityModelFromPlacement modelSummary (modelPlacementPlan modelSummary))
            (cw_LargestRunnableModel w)\<rparr>)"

definition capacity_worker :: "ClusterSummary \<Rightarrow> ModelSummary list \<Rightarrow> Node \<Rightarrow> CapacityWorker" where
  "capacity_worker summary modelsView node =
     (let r = n_Resources node; whole = cs_Resources summary; vram = foldl (\<lambda>v gpu. v + gpu_AllowedVRAMBytes gpu) 0 (rs_GPU r)
      in foldl (worker_model_add (n_ID node))
        \<lparr>cw_NodeID = n_ID node, cw_Name = nodeDisplayName node, cw_AllowedCPUCores = cpu_CoresAllowed (rs_CPU r),
         cw_AllowedMemoryBytes = mem_AllowedBytes (rs_Memory r), cw_AllowedStorageBytes = st_AllowedBytes (rs_Storage r),
         cw_FreeStorageBytes = st_FreeBytes (rs_Storage r), cw_AllowedVRAMBytes = vram, cw_JobSlots = rs_JobSlots r,
         cw_RuntimeReady = nodeAnyRuntimeReady node, cw_InstalledModels = int (length (rs_Models r)), cw_RunnableModels = 0,
         cw_LargestRunnableModel = zero_capacity_model,
         cw_MemorySharePercent = percentOf (mem_AllowedBytes (rs_Memory r)) (mem_AllowedBytes (rs_Memory whole)),
         cw_StorageSharePercent = percentOf (st_AllowedBytes (rs_Storage r)) (st_AllowedBytes (rs_Storage whole)),
         cw_FreeStorageSharePct = percentOf (st_FreeBytes (rs_Storage r)) (st_FreeBytes (rs_Storage whole)),
         cw_VRAMSharePercent = percentOf vram (cs_VRAMAllowedBytes summary)\<rparr> modelsView)"

definition capacity_worker_less :: "CapacityWorker \<Rightarrow> CapacityWorker \<Rightarrow> bool" where
  "capacity_worker_less a b = (if cw_AllowedMemoryBytes a \<noteq> cw_AllowedMemoryBytes b
     then cw_AllowedMemoryBytes a > cw_AllowedMemoryBytes b else cw_Name a < cw_Name b)"

definition capacityWorkers :: "ClusterSummary \<Rightarrow> ModelSummary list \<Rightarrow> Node list \<Rightarrow> CapacityWorker list" where
  "capacityWorkers summary modelsView onlineNodes =
     go_sort capacity_worker_less (map (capacity_worker summary modelsView) onlineNodes)"

definition clusterCapacity :: "ClusterSummary \<Rightarrow> ModelSummary list \<Rightarrow> Node list \<Rightarrow> CapacitySummary" where
  "clusterCapacity summary modelsView onlineNodes =
     (let r = cs_Resources summary;
          c = foldl capacity_add
            \<lparr>cc_WorkersOnline = cs_WorkersOnline summary, cc_AllowedCPUCores = cpu_CoresAllowed (rs_CPU r),
             cc_AllowedMemoryBytes = mem_AllowedBytes (rs_Memory r), cc_AllowedStorageBytes = st_AllowedBytes (rs_Storage r),
             cc_FreeStorageBytes = st_FreeBytes (rs_Storage r), cc_AllowedVRAMBytes = cs_VRAMAllowedBytes summary,
             cc_CatalogModels = int (length modelsView), cc_SingleWorkerRunnableModels = 0, cc_ShardedEstimateModels = 0,
             cc_BlockedModels = 0, cc_LargestSingleWorkerModel = zero_capacity_model,
             cc_LargestShardedModel = zero_capacity_model, cc_Workers = [], cc_SingleWorkerRunnable = [], cc_ShardedEstimate = [],
             cc_Blocked = [], cc_UnlockTargets = []\<rparr> modelsView
      in c\<lparr>cc_UnlockTargets := take 5 (go_sort target_less (cc_UnlockTargets c)),
           cc_Workers := capacityWorkers summary modelsView onlineNodes\<rparr>)"

text \<open>The conversion of a \<open>uint64\<close> to \<open>int64\<close> and the negation wrap around.\<close>

definition uint64Delta :: "u64 \<Rightarrow> u64 \<Rightarrow> int" where
  "uint64Delta current baseline =
     (if current \<ge> baseline then wrap64 (uint (current - baseline)) else wrap64 (- wrap64 (uint (baseline - current))))"

definition newCapacityModels :: "CapacityModel list \<Rightarrow> CapacityModel list \<Rightarrow> CapacityModel list" where
  "newCapacityModels baseline current =
     (let seen = map cp_ID baseline in filter (\<lambda>m. cp_ID m \<noteq> [] \<and> cp_ID m \<notin> set seen) current)"

definition capacityDelta :: "CapacitySnapshot \<Rightarrow> CapacitySnapshot \<Rightarrow> CapacityDelta" where
  "capacityDelta baseline current =
     (let b = sn_Capacity baseline; c = sn_Capacity current
      in \<lparr>cd_BaselineID = sn_ID baseline, cd_CurrentID = sn_ID current,
          cd_WorkersOnlineDelta = wrap64 (cc_WorkersOnline c - cc_WorkersOnline b),
          cd_AllowedCPUCoresDelta = wrap64 (cc_AllowedCPUCores c - cc_AllowedCPUCores b),
          cd_AllowedMemoryBytesDelta = uint64Delta (cc_AllowedMemoryBytes c) (cc_AllowedMemoryBytes b),
          cd_AllowedStorageBytesDelta = uint64Delta (cc_AllowedStorageBytes c) (cc_AllowedStorageBytes b),
          cd_FreeStorageBytesDelta = uint64Delta (cc_FreeStorageBytes c) (cc_FreeStorageBytes b),
          cd_AllowedVRAMBytesDelta = uint64Delta (cc_AllowedVRAMBytes c) (cc_AllowedVRAMBytes b),
          cd_SingleWorkerRunnableDelta = wrap64 (cc_SingleWorkerRunnableModels c - cc_SingleWorkerRunnableModels b),
          cd_ShardedEstimateDelta = wrap64 (cc_ShardedEstimateModels c - cc_ShardedEstimateModels b),
          cd_BlockedModelsDelta = wrap64 (cc_BlockedModels c - cc_BlockedModels b),
          cd_NewSingleWorkerRunnableModels = newCapacityModels (cc_SingleWorkerRunnable b) (cc_SingleWorkerRunnable c),
          cd_NewShardedEstimateModels = newCapacityModels (cc_ShardedEstimate b) (cc_ShardedEstimate c)\<rparr>)"

definition newCapacitySnapshotID :: "8 word list option \<Rightarrow> string" where
  "newCapacitySnapshotID rnd = (case rnd of None \<Rightarrow> ''cap-unknown'' | Some buf \<Rightarrow> ''cap-'' @ hex_encode buf)"

text \<open>The readings of the clock after those of the two listings are numbered on.\<close>

definition capacitySnapshot :: "server_env \<Rightarrow> string \<Rightarrow> State \<Rightarrow> State \<times> CapacitySnapshot" where
  "capacitySnapshot e label s =
     (let (s1, ns) = list_nodes e 0 s;
          jobsList = Jobs (se_jobs e 0) s1;
          (s2, summary) = ClusterSummary_op (se_clock e 1) (se_nodes e 1) (se_kinds e) s1 s1;
          modelsView = modelSummaries Catalog jobsList ns
      in (s2, \<lparr>sn_ID = newCapacitySnapshotID (se_rand e 0), sn_Label = TrimSpace label, sn_CreatedAt = se_clock e 2,
            sn_Summary = summary, sn_Capacity = clusterCapacity summary modelsView (onlineWorkerNodes ns)\<rparr>))"

type_synonym snapshots = "(string, CapacitySnapshot) go_map"

definition saveCapacitySnapshot :: "server_env \<Rightarrow> string \<Rightarrow> State \<times> snapshots \<Rightarrow> (State \<times> snapshots) \<times> CapacitySnapshot" where
  "saveCapacitySnapshot e label ss =
     (case capacitySnapshot e label (fst ss) of (s', snapshot) \<Rightarrow> ((s', mput (sn_ID snapshot) snapshot (snd ss)), snapshot))"

definition capacitySnapshots :: "string list \<Rightarrow> snapshots \<Rightarrow> CapacitySnapshot list" where
  "capacitySnapshots ord snapshots =
     go_sort (\<lambda>a b. sn_CreatedAt a > sn_CreatedAt b) (List.map_filter (mget snapshots) ord)"

definition capacitySnapshotByID :: "string \<Rightarrow> snapshots \<Rightarrow> CapacitySnapshot option" where
  "capacitySnapshotByID i snapshots = mget snapshots i"

end
