(* ===== verification/Requests.thy ===== *)
theory Requests
  imports Bodies Coordinator Capacity
begin

section \<open>Requests, answers and the operator's token (internal/manager/server.go)\<close>

text \<open>
  The HTTP interface of the manager. A request is its method, its path, its decoded query and cookies, its headers and the text of
  its body; an answer is a status code and the value that is written as JSON or as an error text. A handler takes the
  readings of its run (\<open>server_env\<close>), the request and the server, and returns the new server and the reply: an answer, none
  when the handler waits for ever, or an abort when it panics (\<open>net/http\<close> recovers and closes the connection, the state stays as it is
  at the panic). A handler is one step: other requests are not interleaved with it.
\<close>

record request =
  rq_Method :: string
  rq_Path :: string
  rq_Host :: string
  rq_Query :: "(string \<times> string) list"
  rq_Header :: "(string \<times> string) list"
  rq_Cookies :: "(string \<times> string) list"
  rq_Body :: string
  rq_TLS :: bool
  rq_Context :: ctx

text \<open>\<open>Query().Get\<close> and \<open>Cookie\<close> take the first value of a name; the names of headers are compared without case.\<close>

definition query_get :: "request \<Rightarrow> string \<Rightarrow> string" where
  "query_get r k = (case map_of (rq_Query r) k of None \<Rightarrow> [] | Some v \<Rightarrow> v)"

definition header_get :: "request \<Rightarrow> string \<Rightarrow> string" where
  "header_get r k = (case List.find (\<lambda>(n, v). map lower_char n = map lower_char k) (rq_Header r) of None \<Rightarrow> [] | Some (n, v) \<Rightarrow> v)"

definition TrimPrefix :: "string \<Rightarrow> string \<Rightarrow> string" where
  "TrimPrefix s p = (case strip_prefix p s of None \<Rightarrow> s | Some t \<Rightarrow> t)"

definition TrimSlashes :: "string \<Rightarrow> string" where
  "TrimSlashes s = TrimRightSlash (dropWhile (\<lambda>c. c = CHR ''/'') s)"

definition intQuery :: "request \<Rightarrow> string \<Rightarrow> int \<Rightarrow> int" where
  "intQuery r key fallback =
     (let raw = TrimSpace (query_get r key)
      in if raw = [] then fallback else (case Atoi raw of None \<Rightarrow> fallback | Some v \<Rightarrow> v))"

definition boolQuery :: "string \<Rightarrow> bool" where
  "boolQuery raw0 = (let raw = TrimSpace (ToLower raw0) in raw = ''1'' \<or> raw = ''true'' \<or> raw = ''yes'')"

subsection \<open>Answers\<close>

record RuntimeRPCPoolRefreshReport =
  rf_Report :: RuntimeRPCSmokeReport
  rf_Summary :: RuntimeRPCPoolSummary
  rf_Workers :: "RuntimeRPCPoolWorker list"
  rf_Endpoints :: "string list"
  rf_Health :: "RPCHealthRecord list"
  rf_LlamaCLIRPCArg :: string

record dashboard_status =
  ds_readiness_status :: string
  ds_workers_online :: int
  ds_workers_total :: int
  ds_ready_models :: int
  ds_active_jobs :: int
  ds_recent_failures :: int
  ds_jobs_total :: int
  ds_runtime_ready :: int
  ds_installed_models :: int
  ds_benchmark_score :: f64
  ds_updated_at_unix_ms :: int

record memory_preview =
  mw_ModelID :: string
  mw_Memories :: "Memory list"
  mw_MemoryContext :: string
  mw_EffectiveSystemPrompt :: string
  mw_Context :: PromptContextPreview

record InvitePageData =
  iv_ManagerURL :: string
  iv_JoinToken :: string
  iv_DesktopInviteURL :: string
  iv_DownloadURL :: string
  iv_ReleaseDownloadBase :: string

record dashboard_data =
  da_Summary :: ClusterSummary
  da_OnlineNodes :: "Node list"
  da_OfflineWorkerCount :: int
  da_Benchmarks :: "(id, NodeBenchmarkSummary) go_map"
  da_ClusterBenchmarks :: "ClusterBenchmarkSummary list"
  da_Models :: "ModelSummary list"
  da_RPCPool :: RuntimeRPCPoolSummary
  da_RPCWorkers :: "RuntimeRPCPoolWorker list"
  da_RPCEndpoints :: "string list"
  da_RPCHealth :: "RPCHealthRecord list"
  da_Readiness :: ReadinessSummary
  da_Capacity :: CapacitySummary
  da_NodesByID :: "(id, Node) go_map"
  da_WorkerActiveJobs :: "(string, int) go_map"
  da_MaxClusterGFLOPS :: f64
  da_Jobs :: "Job list"
  da_DistributedRuns :: "DistributedRunSummary list"
  da_ChatJobs :: "Job list"
  da_Conversations :: "Conversation list"
  da_Memories :: "Memory list"
  da_InviteURL :: string

text \<open>What goes wrong: a text of the handler, or an error value whose text is written.\<close>

datatype problem =
    Message string
  | UndecodableBody
  | MemoryProblem memory_error
  | TransportProblem transport_error
  | CoordinatorProblem coordinator_error
  | StageJobProblem stage_job_error
  | PlanProblem protocol_error
  | InstallConflict string ModelPlacementPlan
  | DistributedConflict string DistributedModelPlan
  | RPCConflict string ModelDistributedRPCPlan

datatype (plugins only: code) answer =
    Problem problem
  | LoginPage string
  | NoContent
  | Redirect string
  | DashboardPage dashboard_data
  | InvitePage InvitePageData
  | Healthy
  | ClusterBody ClusterSummary
  | CapacityBody ClusterSummary CapacitySummary "(CapacitySnapshot \<times> CapacityDelta) option"
  | SnapshotList "CapacitySnapshot list"
  | SnapshotBody CapacitySnapshot "(CapacitySnapshot \<times> CapacityDelta) option"
  | StatusBody dashboard_status
  | StageProbes RuntimeStageProbeSummary "RuntimeStageProbeWorker list"
  | RPCPoolBody RuntimeRPCPoolSummary "RuntimeRPCPoolWorker list" "string list" "RPCHealthRecord list" string
  | RPCRefreshBody RuntimeRPCPoolRefreshReport
  | RPCSmokeBody RuntimeRPCSmokeReport
  | NodeList "Node list"
  | BenchmarkList "BenchmarkResult list" "(id, NodeBenchmarkSummary) go_map"
  | BenchmarkBody BenchmarkResult
  | ClusterBenchmarkList "ClusterBenchmarkSummary list"
  | ClusterBenchmarkBody ClusterBenchmarkSummary
  | JobList "Job list"
  | JobBody Job
  | RunList "DistributedRunSummary list" int
  | ModelList "ModelSummary list" int int ModelCatalogFilters
  | ModelBody ModelSummary
  | PlacementBody ModelPlacementPlan
  | DistributedPlanBody DistributedModelPlan PlanProposal ShardManifest
  | DistributedAccepted Job "Job list" DistributedModelPlan bool
  | RPCPlanBody ModelDistributedRPCPlan
  | RPCReadinessBody ModelDistributedRPCReadiness
  | ConversationList "Conversation list"
  | ConversationBody Conversation
  | ConversationDeleted id
  | MemoryList "Memory list"
  | MemoryBody Memory
  | MemoriesDeleted int
  | MemoryDeleted
  | MemoryPreviewBody memory_preview
  | StageBody Job StageState
  | AdvanceBody CDIPAdvanceResult
  | PrepareBody CDIPPrepareResult
  | CommandBody CDIPCommandResult
  | MockRunBody CDIPMockRunResult
  | FrameAccepted StreamID u64 int
  | FrameBody ActivationFrame
  | JoinedBody JoinResponse
  | NextJobBody "Job option"
  | WorkerStatus string

text \<open>The last component of a reply is the token that it sets as the cookie \<open>cmesh_operator_token\<close>, and whether the cookie is secure.\<close>

datatype reply = Reply int answer "(string \<times> bool) option" | NoReply | Aborted

subsection \<open>The server\<close>

record ServerOptions =
  op_Addr :: string
  op_JoinToken :: string
  op_OperatorToken :: string
  op_PublicURL :: string
  op_BackgroundCDIPAdvance :: bool
  op_CDIPAdvanceEvery :: int
  op_BackgroundRPCHealth :: bool
  op_RPCHealthEvery :: int
  op_RPCHealthTimeout :: int

record server =
  sv_addr :: string
  sv_state :: State
  sv_joinToken :: string
  sv_operatorToken :: string
  sv_publicURL :: string
  sv_backgroundCDIPAdvance :: bool
  sv_cdipAdvanceEvery :: int
  sv_backgroundRPCHealth :: bool
  sv_rpcHealthRefreshEvery :: int
  sv_rpcHealthTimeout :: int
  sv_bus :: MemoryActivationTransport
  sv_snapshots :: snapshots

definition NewServerWithOptions :: "ServerOptions \<Rightarrow> State \<Rightarrow> server" where
  "NewServerWithOptions options s =
     \<lparr>sv_addr = op_Addr options, sv_state = s, sv_joinToken = op_JoinToken options, sv_operatorToken = op_OperatorToken options,
      sv_publicURL = TrimRightSlash (op_PublicURL options), sv_backgroundCDIPAdvance = op_BackgroundCDIPAdvance options,
      sv_cdipAdvanceEvery = (if op_CDIPAdvanceEvery options \<le> 0 then 1000000000 else op_CDIPAdvanceEvery options),
      sv_backgroundRPCHealth = op_BackgroundRPCHealth options,
      sv_rpcHealthRefreshEvery = (if op_RPCHealthEvery options \<le> 0 then 10 * 1000000000 else op_RPCHealthEvery options),
      sv_rpcHealthTimeout = (if op_RPCHealthTimeout options \<le> 0 then 1000000000 else op_RPCHealthTimeout options),
      sv_bus = NewMemoryActivationTransport 8, sv_snapshots = []\<rparr>"

type_synonym handler = "server_env \<Rightarrow> request \<Rightarrow> server \<Rightarrow> server \<times> reply"

text \<open>\<open>writeJSON\<close>, \<open>http.Error\<close> and \<open>http.NotFound\<close>.\<close>

definition answer_with :: "int \<Rightarrow> answer \<Rightarrow> server \<Rightarrow> server \<times> reply" where
  "answer_with status a sv = (sv, Reply status a None)"

definition http_error :: "int \<Rightarrow> string \<Rightarrow> server \<Rightarrow> server \<times> reply" where
  "http_error status msg sv = answer_with status (Problem (Message msg)) sv"

definition not_found :: "server \<Rightarrow> server \<times> reply" where
  "not_found sv = http_error 404 ''404 page not found'' sv"

definition method_not_allowed :: "server \<Rightarrow> server \<times> reply" where
  "method_not_allowed sv = http_error 405 ''method not allowed'' sv"

text \<open>The rest of a handler after a call of the store; the state is put back into the server.\<close>

definition on_state :: "(State \<Rightarrow> State \<times> 'a) \<Rightarrow> ('a \<Rightarrow> server \<Rightarrow> server \<times> reply) \<Rightarrow> server \<Rightarrow> server \<times> reply" where
  "on_state f k sv = (case f (sv_state sv) of (s', a) \<Rightarrow> k a (sv\<lparr>sv_state := s'\<rparr>))"

subsection \<open>The operator\<close>

definition hasOperatorAuth :: "server \<Rightarrow> request \<Rightarrow> bool" where
  "hasOperatorAuth sv r \<longleftrightarrow>
     sv_operatorToken sv = []
     \<or> query_get r ''token'' = sv_operatorToken sv
     \<or> header_get r ''X-CMesh-Operator-Token'' = sv_operatorToken sv
     \<or> TrimPrefix (header_get r ''Authorization'') ''Bearer '' = sv_operatorToken sv
     \<or> map_of (rq_Cookies r) ''cmesh_operator_token'' = Some (sv_operatorToken sv)"

definition set_cookie :: "string \<Rightarrow> bool \<Rightarrow> server \<times> reply \<Rightarrow> server \<times> reply" where
  "set_cookie token secure sr = (case sr of (sv, Reply status a c) \<Rightarrow> (sv, Reply status a (Some (token, secure))) | _ \<Rightarrow> sr)"

text \<open>\<open>requireOperatorAuth\<close> around the rest of the handler.\<close>

definition requireOperatorAuth :: "bool \<Rightarrow> request \<Rightarrow> (server \<Rightarrow> server \<times> reply) \<Rightarrow> server \<Rightarrow> server \<times> reply" where
  "requireOperatorAuth html r k sv =
     (if sv_operatorToken sv = [] then k sv
      else if hasOperatorAuth sv r then
        (if query_get r ''token'' = sv_operatorToken sv
         then set_cookie (query_get r ''token'') (header_get r ''X-Forwarded-Proto'' = ''https'' \<or> rq_TLS r) (k sv)
         else k sv)
      else if html then answer_with 401 (LoginPage (rq_Path r)) sv
      else http_error 401 ''operator token required'' sv)"

definition requireCDIPActivationAuth :: "request \<Rightarrow> Job \<Rightarrow> (server \<Rightarrow> server \<times> reply) \<Rightarrow> server \<Rightarrow> server \<times> reply" where
  "requireCDIPActivationAuth r stageJob k sv =
     (if hasOperatorAuth sv r then k sv
      else let header = TrimSpace (header_get r ''X-CMesh-Node-ID'');
               nodeID = (if header = [] then TrimSpace (query_get r ''node_id'') else header)
        in if nodeID = [] then http_error 401 ''operator token or worker node id required'' sv
           else if nodeID \<in> set (cdipActivationAllowedNodes stageJob) then k sv
           else http_error 403 ''worker is not allowed to access this activation stream'' sv)"

end
