(* ===== verification/WorkerRequests.thy ===== *)
theory WorkerRequests
  imports Requests
begin

section \<open>Requests of workers, about jobs and about CDIP stages (internal/manager/server.go)\<close>

text \<open>
  The handlers that workers call (join, heartbeat, leave, next job, progress, completion and the relay of activation
  frames) and those that the operator uses to look at jobs, workers and RPC endpoints and to drive a distributed generation.
\<close>

subsection \<open>Membership\<close>

definition handleWorkerJoin :: handler where
  "handleWorkerJoin e r sv =
     (if rq_Method r \<noteq> ''POST'' then method_not_allowed sv
      else (case decode_join (rq_Body r) of
          None \<Rightarrow> http_error 400 ''invalid request body'' sv
        | Some req \<Rightarrow>
          if jr_NodeName req = [] then http_error 400 ''node_name is required'' sv
          else if sv_joinToken sv \<noteq> [] \<and> jr_JoinToken req \<noteq> sv_joinToken sv then http_error 401 ''invalid join token'' sv
          else on_state (RegisterWorker (se_rand e 0) (se_clock e 0) (se_queue e 0) req)
            (\<lambda>resp. answer_with 201 (JoinedBody resp)) sv))"

definition handleWorkerHeartbeat :: handler where
  "handleWorkerHeartbeat e r sv =
     (if rq_Method r \<noteq> ''POST'' then method_not_allowed sv
      else (case decode_heartbeat (rq_Body r) of
          None \<Rightarrow> http_error 400 ''invalid request body'' sv
        | Some hb \<Rightarrow>
          if hb_NodeID hb = [] then http_error 400 ''node_id is required'' sv
          else on_state (Heartbeat_op (se_clock e 0) (se_queue e 0) hb)
            (\<lambda>ok. if \<not> ok then http_error 404 ''unknown node'' else answer_with 200 (WorkerStatus ''ok'')) sv))"

definition handleWorkerLeave :: handler where
  "handleWorkerLeave e r sv =
     (if rq_Method r \<noteq> ''POST'' then method_not_allowed sv
      else (case decode_leave (rq_Body r) of
          None \<Rightarrow> http_error 400 ''invalid request body'' sv
        | Some req \<Rightarrow>
          if lv_NodeID req = [] then http_error 400 ''node_id is required'' sv
          else on_state (MarkWorkerOffline (se_clock e 0) (se_queue e 0) (lv_NodeID req))
            (\<lambda>ok. if \<not> ok then http_error 404 ''unknown node'' else answer_with 200 (WorkerStatus ''offline'')) sv))"

definition handleWorkerNextJob :: "id \<Rightarrow> handler" where
  "handleWorkerNextJob nodeID e r sv =
     (if rq_Method r \<noteq> ''GET'' then method_not_allowed sv
      else on_state (NextJobForWorker (se_clock e 0) (se_jobs e 0) nodeID) (\<lambda>job. answer_with 200 (NextJobBody job)) sv)"

fun findNodeByID :: "Node list \<Rightarrow> string \<Rightarrow> Node option" where
  "findNodeByID [] nodeID = None"
| "findNodeByID (node # ns) nodeID = (if n_ID node = nodeID then Some node else findNodeByID ns nodeID)"

definition cleanup_request :: "string \<Rightarrow> CreateRequest" where
  "cleanup_request nodeID = zero_create\<lparr>cr_Type := JobCleanup, cr_Input := json_print (JObj (jstr_omit ''scope'' ''cache'')),
     cr_RequestedBy := ''dashboard-workers'', cr_AssignedTo := nodeID, cr_Requirements := no_requirements\<lparr>req_CPUCores := 1\<rparr>,
     cr_MaxAttempts := 1\<rparr>"

definition create_job :: "server_env \<Rightarrow> CreateRequest \<Rightarrow> State \<Rightarrow> State \<times> Job" where
  "create_job e req = CreateJob (se_rand e 0) (se_clock e 0) (se_pick e 0) req"

definition handleWorkerModelCleanup :: "id \<Rightarrow> handler" where
  "handleWorkerModelCleanup nodeID0 e r =
     requireOperatorAuth False r (\<lambda>sv.
       if rq_Method r \<noteq> ''POST'' then method_not_allowed sv
       else let nodeID = TrimSpace nodeID0
         in if nodeID = [] then http_error 400 ''node_id is required'' sv
            else on_state (list_nodes e 0) (\<lambda>ns sv. (case findNodeByID ns nodeID of
                None \<Rightarrow> http_error 404 ''worker not found'' sv
              | Some node \<Rightarrow>
                if n_Role node \<noteq> NodeRoleWorker then http_error 404 ''worker not found'' sv
                else if n_Status node \<noteq> NodeStatusOnline then http_error 409 ''worker is not online'' sv
                else on_state (create_job e (cleanup_request nodeID)) (\<lambda>job. answer_with 201 (JobBody job)) sv)) sv)"

definition handleWorkerRoutes :: handler where
  "handleWorkerRoutes e r sv =
     (case Split (CHR ''/'') (TrimPrefix (rq_Path r) ''/v1/workers/'') of
        [nodeID, a, b] \<Rightarrow> if a = ''jobs'' \<and> b = ''next'' then handleWorkerNextJob nodeID e r sv else not_found sv
      | [nodeID, a] \<Rightarrow> if a = ''model-cleanup'' then handleWorkerModelCleanup nodeID e r sv else not_found sv
      | _ \<Rightarrow> not_found sv)"

subsection \<open>Jobs\<close>

definition handleJobCancel :: "id \<Rightarrow> handler" where
  "handleJobCancel jobID e r sv =
     (if rq_Method r \<noteq> ''POST'' then method_not_allowed sv
      else requireOperatorAuth False r (on_state (CancelJob (se_clock e 0) (se_queue e 0) jobID)
        (\<lambda>job. case job of None \<Rightarrow> not_found | Some job \<Rightarrow> answer_with 200 (JobBody job))) sv)"

text \<open>The completion of a stage job is tried first; a job that is not handled there is completed as any other.\<close>

definition complete_job :: "id \<Rightarrow> CompleteRequest \<Rightarrow> server_env \<Rightarrow> server \<Rightarrow> server \<times> reply" where
  "complete_job jobID req e =
     on_state (CompleteJob (se_clock e 1) (se_pick e 0) (se_queue e 0) jobID req) (\<lambda>r sv. case r of
         Completed job \<Rightarrow> answer_with 200 (JobBody job) sv
       | Rejected \<Rightarrow> not_found sv
       | Panicked \<Rightarrow> (sv, Aborted))"

definition handleJobComplete :: "id \<Rightarrow> handler" where
  "handleJobComplete jobID e r sv =
     (if rq_Method r \<noteq> ''POST'' then method_not_allowed sv
      else (case decode_complete (rq_Body r) of
          None \<Rightarrow> http_error 400 ''invalid request body'' sv
        | Some req \<Rightarrow>
          if co_NodeID req = [] then http_error 400 ''node_id is required'' sv
          else on_state (handleCDIPStageComplete (se_clock e 0) req jobID) (\<lambda>h sv. case h of
              (Some job, True) \<Rightarrow> answer_with 200 (JobBody job) sv
            | (None, True) \<Rightarrow> http_error 409 ''invalid CDIP stage transition'' sv
            | (_, False) \<Rightarrow> complete_job jobID req e sv) sv))"

definition handleJobProgress :: "id \<Rightarrow> handler" where
  "handleJobProgress jobID e r sv =
     (if rq_Method r \<noteq> ''POST'' then method_not_allowed sv
      else (case decode_progress (rq_Body r) of
          None \<Rightarrow> http_error 400 ''invalid request body'' sv
        | Some req \<Rightarrow>
          if pr_NodeID req = [] then http_error 400 ''node_id is required'' sv
          else on_state (UpdateJobProgress (se_clock e 0) jobID req)
            (\<lambda>job. case job of None \<Rightarrow> not_found | Some job \<Rightarrow> answer_with 200 (JobBody job)) sv))"

definition show_job :: "id \<Rightarrow> request \<Rightarrow> server \<Rightarrow> server \<times> reply" where
  "show_job jobID r sv =
     (if rq_Method r \<noteq> ''GET'' then not_found sv
      else requireOperatorAuth False r (\<lambda>sv. case Job_lookup jobID (sv_state sv) of
          None \<Rightarrow> not_found sv | Some job \<Rightarrow> answer_with 200 (JobBody job) sv) sv)"

definition handleJob :: handler where
  "handleJob e r sv =
     (let path = TrimPrefix (rq_Path r) ''/v1/jobs/''
      in if path = [] then not_found sv
         else (case Split (CHR ''/'') path of
             [jobID, action] \<Rightarrow>
               if action = ''complete'' then handleJobComplete jobID e r sv
               else if action = ''progress'' then handleJobProgress jobID e r sv
               else if action = ''cancel'' then handleJobCancel jobID e r sv
               else not_found sv
           | [jobID] \<Rightarrow> show_job jobID r sv
           | _ \<Rightarrow> not_found sv))"

text \<open>\<open>CreateJob\<close> of the manager's state returns no error.\<close>

definition handleJobs :: handler where
  "handleJobs e r =
     requireOperatorAuth False r (\<lambda>sv.
       if rq_Method r = ''GET'' then answer_with 200 (JobList (Jobs (se_jobs e 0) (sv_state sv))) sv
       else if rq_Method r = ''POST'' then
         (case decode_create (rq_Body r) of
            None \<Rightarrow> http_error 400 ''invalid request body'' sv
          | Some req \<Rightarrow>
            if cr_Type req = [] then http_error 400 ''type is required'' sv
            else on_state (create_job e req) (\<lambda>job. answer_with 201 (JobBody job)) sv)
       else method_not_allowed sv)"

definition handleDistributedRuns :: handler where
  "handleDistributedRuns e r =
     requireOperatorAuth False r (\<lambda>sv.
       if rq_Method r \<noteq> ''GET'' then method_not_allowed sv
       else let l0 = intQuery r ''limit'' 50; l1 = (if l0 < 1 then 1 else l0); limit = (if l1 > 200 then 200 else l1)
         in answer_with 200 (RunList (distributedRunSummaries (Jobs (se_jobs e 0) (sv_state sv)) limit) limit) sv)"

subsection \<open>CDIP stages and distributed jobs\<close>

definition handleCDIPStage :: handler where
  "handleCDIPStage e r =
     requireOperatorAuth False r (\<lambda>sv.
       if rq_Method r \<noteq> ''POST'' then method_not_allowed sv
       else (case Split (CHR ''/'') (TrimSlashes (TrimPrefix (rq_Path r) ''/v1/cdip/stages/'')) of
           [jobID, action] \<Rightarrow>
             if jobID = [] \<or> action = [] then not_found sv
             else (case cdipStageAction action of
                 None \<Rightarrow> not_found sv
               | Some nxt \<Rightarrow>
                 let detail = decode_ignoring_errors [(''detail'', dstr (\<lambda>s _. s))] [] (rq_Body r)
                 in on_state (UpdateCDIPStageState (se_clock e 0) jobID nxt detail)
                      (\<lambda>job. case job of None \<Rightarrow> http_error 409 ''invalid CDIP stage transition''
                        | Some job \<Rightarrow> answer_with 200 (StageBody job (j_CDIPState job))) sv)
         | _ \<Rightarrow> not_found sv))"

text \<open>A command of the coordinator that only works on the store, and one that also uses the relay.\<close>

definition coordinator_call :: "(State \<Rightarrow> State \<times> (coordinator_error + 'a)) \<Rightarrow> ('a \<Rightarrow> answer) \<Rightarrow> server \<Rightarrow> server \<times> reply" where
  "coordinator_call f body =
     on_state f (\<lambda>r. case r of Inl err \<Rightarrow> answer_with 409 (Problem (CoordinatorProblem err)) | Inr a \<Rightarrow> answer_with 202 (body a))"

definition coordinator_run ::
  "(State \<times> MemoryActivationTransport \<Rightarrow> (State \<times> MemoryActivationTransport) \<times> (coordinator_error, 'a) run) \<Rightarrow> ('a \<Rightarrow> answer)
     \<Rightarrow> server \<Rightarrow> server \<times> reply" where
  "coordinator_run f body sv =
     (case f (sv_state sv, sv_bus sv) of ((s', b'), result) \<Rightarrow>
        let sv' = sv\<lparr>sv_state := s', sv_bus := b'\<rparr>
        in case result of
             Ok a \<Rightarrow> answer_with 202 (body a) sv'
           | Err err \<Rightarrow> answer_with 409 (Problem (CoordinatorProblem err)) sv'
           | run.Hang \<Rightarrow> (sv', NoReply)
           | Crash \<Rightarrow> (sv', Aborted))"

definition step_and_output :: "string \<Rightarrow> u64 \<times> string" where
  "step_and_output body =
     decode_ignoring_errors [(''step'', du64 (\<lambda>w. map_prod (\<lambda>_. w) id)), (''output'', dstr (\<lambda>s. map_prod id (\<lambda>_. s)))] (0, []) body"

definition posted_step :: "string \<Rightarrow> u64" where
  "posted_step body = decode_ignoring_errors [(''step'', du64 (\<lambda>w _. w))] 0 body"

definition posted_output :: "string \<Rightarrow> string" where
  "posted_output body = decode_ignoring_errors [(''output'', dstr (\<lambda>s _. s))] [] body"

definition handleCDIPJob :: handler where
  "handleCDIPJob e r =
     requireOperatorAuth False r (\<lambda>sv.
       if rq_Method r \<noteq> ''POST'' then method_not_allowed sv
       else (case Split (CHR ''/'') (TrimSlashes (TrimPrefix (rq_Path r) ''/v1/cdip/jobs/'')) of
           [jobID, action] \<Rightarrow>
             if jobID = [] then not_found sv
             else if action = ''advance'' then
               coordinator_run (advanceCDIPDistributedJob (se_jobs e) (se_clock e) memory_transport jobID
                 (fst (step_and_output (rq_Body r))) (snd (step_and_output (rq_Body r)))) AdvanceBody sv
             else if action = ''prepare'' then
               coordinator_call (prepareCDIPDistributedJob (se_jobs e) (se_clock e) jobID) PrepareBody sv
             else if action = ''prefill'' then
               coordinator_call (startCDIPPrefill (se_jobs e) (se_clock e) jobID) CommandBody sv
             else if action = ''decode'' then
               coordinator_run (startCDIPDecode (se_jobs e) (se_clock e) memory_transport jobID (posted_step (rq_Body r))) CommandBody sv
             else if action = ''complete'' then
               coordinator_call (completeCDIPDistributedJob (se_jobs e) (se_clock e) jobID (posted_output (rq_Body r))) CommandBody sv
             else if action = ''mock-run'' then
               coordinator_call (runCDIPMockCoordinator (se_jobs e) (se_clock e) jobID) MockRunBody sv
             else not_found sv
         | _ \<Rightarrow> not_found sv))"

subsection \<open>The relay of activation frames\<close>

text \<open>Sending waits for room in the stream for as long as the client stays; a poll waits until its timeout.\<close>

definition relay_post :: "request \<Rightarrow> StreamID \<Rightarrow> Job \<Rightarrow> server \<Rightarrow> server \<times> reply" where
  "relay_post r stream stageJob sv =
     (case decode_frame (rq_Body r) of
        None \<Rightarrow> http_error 400 ''invalid activation frame'' sv
      | Some frame \<Rightarrow>
        if ac_ParentJobID (af_Header frame) \<noteq> sid_ParentJobID stream \<or> ac_StageJobID (af_Header frame) \<noteq> sid_StageJobID stream
        then http_error 400 ''activation frame stream does not match URL'' sv
        else (case ActivationFrame_Validate frame of
            Some err \<Rightarrow> answer_with 400 (Problem (TransportProblem err)) sv
          | None \<Rightarrow>
            (case memory_OpenWriter (rq_Context r) stream (j_AssignedTo stageJob) (sv_bus sv) of
               (b, Returns _) \<Rightarrow>
                 (case memory_Send (rq_Context r) stream frame b of
                    (b', Returns _) \<Rightarrow> answer_with 202 (FrameAccepted stream (ac_Sequence (af_Header frame)) (int (length (af_Payload frame))))
                      (sv\<lparr>sv_bus := b'\<rparr>)
                  | (b', Fails err) \<Rightarrow> answer_with 409 (Problem (TransportProblem err)) (sv\<lparr>sv_bus := b'\<rparr>)
                  | (b', Blocks) \<Rightarrow> (sv\<lparr>sv_bus := b'\<rparr>, NoReply)
                  | (b', Panics) \<Rightarrow> (sv\<lparr>sv_bus := b'\<rparr>, Aborted))
             | (b, Fails err) \<Rightarrow> answer_with 409 (Problem (TransportProblem err)) (sv\<lparr>sv_bus := b\<rparr>)
             | (b, Blocks) \<Rightarrow> (sv\<lparr>sv_bus := b\<rparr>, NoReply)
             | (b, Panics) \<Rightarrow> (sv\<lparr>sv_bus := b\<rparr>, Aborted))))"

definition relay_receive :: "ctx \<Rightarrow> StreamID \<Rightarrow> MemoryActivationTransport \<Rightarrow> MemoryActivationTransport \<times> ActivationFrame outcome" where
  "relay_receive c stream b =
     (case memory_Receive c stream b of (b', Blocks) \<Rightarrow> memory_Receive (c\<lparr>ctx_done := True\<rparr>) stream b' | result \<Rightarrow> result)"

definition relay_get :: "request \<Rightarrow> StreamID \<Rightarrow> server \<Rightarrow> server \<times> reply" where
  "relay_get r stream sv =
     (case memory_OpenReader (rq_Context r) stream (sv_bus sv) of
        (b, Returns _) \<Rightarrow>
          (case relay_receive (rq_Context r) stream b of
             (b', Returns frame) \<Rightarrow> answer_with 200 (FrameBody frame) (sv\<lparr>sv_bus := b'\<rparr>)
           | (b', Fails err) \<Rightarrow>
             if err = ContextDone \<or> err = EOF then answer_with 204 NoContent (sv\<lparr>sv_bus := b'\<rparr>)
             else answer_with 409 (Problem (TransportProblem err)) (sv\<lparr>sv_bus := b'\<rparr>)
           | (b', Blocks) \<Rightarrow> (sv\<lparr>sv_bus := b'\<rparr>, NoReply)
           | (b', Panics) \<Rightarrow> (sv\<lparr>sv_bus := b'\<rparr>, Aborted))
      | (b, Fails err) \<Rightarrow> answer_with 409 (Problem (TransportProblem err)) (sv\<lparr>sv_bus := b\<rparr>)
      | (b, Blocks) \<Rightarrow> (sv\<lparr>sv_bus := b\<rparr>, NoReply)
      | (b, Panics) \<Rightarrow> (sv\<lparr>sv_bus := b\<rparr>, Aborted))"

definition handleCDIPActivation :: handler where
  "handleCDIPActivation e r sv =
     (case Split (CHR ''/'') (TrimSlashes (TrimPrefix (rq_Path r) ''/v1/cdip/activations/'')) of
        [parentJobID, stageJobID, frames] \<Rightarrow>
          if parentJobID = [] \<or> stageJobID = [] \<or> frames \<noteq> ''frames'' then not_found sv
          else (case validateCDIPActivationStream parentJobID stageJobID (sv_state sv) of
              None \<Rightarrow> http_error 404 ''CDIP activation stream not found'' sv
            | Some stageJob \<Rightarrow>
              requireCDIPActivationAuth r stageJob (\<lambda>sv.
                let stream = \<lparr>sid_ParentJobID = parentJobID, sid_StageJobID = stageJobID\<rparr>
                in if rq_Method r = ''POST'' then relay_post r stream stageJob sv
                   else if rq_Method r = ''GET'' then relay_get r stream sv
                   else method_not_allowed sv) sv)
      | _ \<Rightarrow> not_found sv)"

subsection \<open>Nodes, benchmarks and RPC endpoints\<close>

definition handleNodes :: handler where
  "handleNodes e r = requireOperatorAuth False r (on_state (list_nodes e 0) (\<lambda>ns. answer_with 200 (NodeList ns)))"

text \<open>The kinds compared with the empty string are those of \<open>BenchmarkOther\<close>; the answer shows the result as it was posted.\<close>

definition handleBenchmarks :: handler where
  "handleBenchmarks e r sv =
     (if rq_Method r = ''GET'' then
        requireOperatorAuth False r (\<lambda>sv. answer_with 200
          (BenchmarkList (Benchmarks (se_list e 0) (se_kinds e) (sv_state sv)) (BenchmarkSummaryByNode (se_kinds e) (sv_state sv))) sv) sv
      else if rq_Method r = ''POST'' then
        (case decode_benchmark (rq_Body r) of
           None \<Rightarrow> http_error 400 ''invalid request body'' sv
         | Some result \<Rightarrow>
           if br_NodeID result = [] then http_error 400 ''node_id is required'' sv
           else if br_Kind result = BenchmarkOther [] then http_error 400 ''kind is required'' sv
           else on_state (PutBenchmark (se_clock e 0) result)
             (\<lambda>ok. if \<not> ok then http_error 404 ''unknown node'' else answer_with 201 (BenchmarkBody result)) sv)
      else method_not_allowed sv)"

definition matrix_request :: "int \<Rightarrow> int \<Rightarrow> string \<Rightarrow> Node \<Rightarrow> CreateRequest" where
  "matrix_request size0 iterations requestedBy node = zero_create\<lparr>cr_Type := ''compute.matrix_multiply'',
     cr_Input := json_print (json_map [(''size'', JNum (show_int size0)), (''iterations'', JNum (show_int iterations))]),
     cr_RequestedBy := requestedBy, cr_AssignedTo := n_ID node, cr_Requirements := matrixJobRequirements size0\<rparr>"

fun create_each :: "server_env \<Rightarrow> nat \<Rightarrow> CreateRequest list \<Rightarrow> State \<Rightarrow> State \<times> Job list" where
  "create_each e k [] s = (s, [])"
| "create_each e k (req # reqs) s =
     (case CreateJob (se_rand e (Suc k)) (se_clock e (Suc k)) (se_pick e k) req s of (s1, job) \<Rightarrow>
        (case create_each e (Suc k) reqs s1 of (s2, js) \<Rightarrow> (s2, job # js)))"

definition handleClusterBenchmarks :: handler where
  "handleClusterBenchmarks e r =
     requireOperatorAuth False r (\<lambda>sv.
       if rq_Method r = ''GET'' then
         answer_with 200 (ClusterBenchmarkList (clusterBenchmarkSummaries (se_list e 0) (Jobs (se_jobs e 0) (sv_state sv)) 12)) sv
       else if rq_Method r = ''POST'' then
         (case decode_cluster_benchmark (rq_Body r) of
            None \<Rightarrow> http_error 400 ''invalid request body'' sv
          | Some req \<Rightarrow>
            let size0 = (if cq_Size req = 0 then 512 else cq_Size req);
                iterations = (if cq_Iterations req = 0 then 6 else cq_Iterations req)
            in if size0 < 16 \<or> size0 > 2048 then http_error 400 ''size must be between 16 and 2048'' sv
               else if iterations < 1 \<or> iterations > 100 then http_error 400 ''iterations must be between 1 and 100'' sv
               else on_state (list_nodes e 0) (\<lambda>all sv.
                 let ns = onlineWorkerNodes all; runID = newClusterBenchmarkID (se_rand e 0);
                     requestedBy = clusterBenchmarkRequestedBy runID (cq_RequestedBy req)
                 in if ns = [] then http_error 409 ''no online workers available'' sv
                    else on_state (create_each e 0 (map (matrix_request size0 iterations requestedBy) ns)) (\<lambda>created.
                      answer_with 201 (ClusterBenchmarkBody (buildClusterBenchmarkSummary runID requestedBy created))) sv) sv)
       else method_not_allowed sv)"

definition handleRuntimeStageProbes :: handler where
  "handleRuntimeStageProbes e r =
     requireOperatorAuth False r (\<lambda>sv.
       if rq_Method r \<noteq> ''GET'' then method_not_allowed sv
       else on_state (list_nodes e 0) (\<lambda>ns. case runtimeStageProbeReport ns of (summary, workers) \<Rightarrow>
         answer_with 200 (StageProbes summary workers)) sv)"

definition handleRuntimeRPCPool :: handler where
  "handleRuntimeRPCPool e r =
     requireOperatorAuth False r (\<lambda>sv.
       if rq_Method r \<noteq> ''GET'' then method_not_allowed sv
       else on_state (list_nodes e 0) (\<lambda>ns sv. case runtimeRPCPoolReport ns of (summary, workers, endpoints) \<Rightarrow>
         let health = RPCHealth (sv_state sv); ranked = usableRPCEndpoints endpoints health False
         in answer_with 200 (RPCPoolBody summary workers ranked health (Join ranked '','')) sv) sv)"

definition check_status :: "RuntimeRPCSmokeReport \<Rightarrow> int" where
  "check_status report = (if smp_Checked report = 0 then 409 else 200)"

definition refresh_pool :: "server_env \<Rightarrow> request \<Rightarrow> State \<Rightarrow> State \<times> RuntimeRPCSmokeReport" where
  "refresh_pool e r = refreshRuntimeRPCHealth (se_clock e 0) (se_nodes e 0) (se_check e) (intQuery r ''timeout_ms'' 1000)"

definition handleRuntimeRPCPoolRefresh :: handler where
  "handleRuntimeRPCPoolRefresh e r =
     requireOperatorAuth False r (\<lambda>sv.
       if rq_Method r \<noteq> ''POST'' then method_not_allowed sv
       else on_state (refresh_pool e r) (\<lambda>report. on_state (list_nodes e 1) (\<lambda>ns sv.
         case runtimeRPCPoolReport ns of (summary, workers, endpoints) \<Rightarrow>
           let health = RPCHealth (sv_state sv); ranked = usableRPCEndpoints endpoints health False
           in answer_with (check_status report) (RPCRefreshBody \<lparr>rf_Report = report, rf_Summary = summary, rf_Workers = workers,
                rf_Endpoints = ranked, rf_Health = health, rf_LlamaCLIRPCArg = Join ranked '',''\<rparr>) sv)) sv)"

definition handleRuntimeRPCPoolSmoke :: handler where
  "handleRuntimeRPCPoolSmoke e r =
     requireOperatorAuth False r (\<lambda>sv.
       if rq_Method r \<noteq> ''POST'' then method_not_allowed sv
       else on_state (refresh_pool e r) (\<lambda>report. answer_with (check_status report) (RPCSmokeBody report)) sv)"

end
