(* ===== verification/ModelRequests.thy ===== *)
theory ModelRequests
  imports WorkerRequests
begin

section \<open>Requests about models, conversations and memories (internal/manager/server.go)\<close>

text \<open>
  The handlers of the catalog: placement, plans, install, delete and repair jobs, and the three ways to generate (on one worker, over
  RPC endpoints, over pipeline stages), which first append the prompt to the conversation; and the handlers of conversations and
  memories. The stores of the manager implement \<open>conversationStore\<close> and \<open>memoryStore\<close>, so their type assertions succeed.
  The listings of jobs, of nodes, and of conversations and memories of a request are numbered in the order of the calls.
\<close>

subsection \<open>Conversations and memories of the store\<close>

definition recentConversations :: "id list \<Rightarrow> int \<Rightarrow> State \<Rightarrow> Conversation list" where
  "recentConversations ord limit s = limited limit (go_sort (\<lambda>a b. cv_UpdatedAt a > cv_UpdatedAt b) (list_conversations ord s))"

definition memoriesForModel :: "id list \<Rightarrow> string \<Rightarrow> State \<Rightarrow> Memory list" where
  "memoriesForModel ord modelID s = go_sort (\<lambda>a b. me_UpdatedAt a > me_UpdatedAt b) (Memories ord modelID s)"

definition recentMemories :: "id list \<Rightarrow> int \<Rightarrow> State \<Rightarrow> Memory list" where
  "recentMemories ord limit s = limited limit (memoriesForModel ord [] s)"

definition newlines :: string where "newlines = [CHR 0x0A, CHR 0x0A]"

definition systemPromptWithMemory :: "id list \<Rightarrow> string \<Rightarrow> string \<Rightarrow> State \<Rightarrow> string" where
  "systemPromptWithMemory ord systemPrompt modelID s =
     (let context = memoryContext modelID (memoriesForModel ord modelID s); base = TrimSpace systemPrompt
      in if context = [] then systemPrompt else if base = [] then context else base @ newlines @ context)"

definition modelDefaultSystemPrompt :: "Model \<Rightarrow> string" where
  "modelDefaultSystemPrompt model = qp_SystemPrompt (QualityPresetFor model)"

subsection \<open>Views of one model\<close>

text \<open>\<open>modelSummaries\<close> of a single model: a listing of the jobs, then one of the nodes.\<close>

definition one_summary :: "server_env \<Rightarrow> Model \<Rightarrow> State \<Rightarrow> State \<times> ModelSummary" where
  "one_summary e model s =
     (case list_nodes e 0 s of (s', ns) \<Rightarrow> (s', hd (modelSummaries [model] (Jobs (se_jobs e 0) s) ns)))"

definition handleModelDetail :: "Model \<Rightarrow> handler" where
  "handleModelDetail model e r sv =
     (if rq_Method r \<noteq> ''GET'' then method_not_allowed sv
      else on_state (one_summary e model) (\<lambda>summary. answer_with 200 (ModelBody summary)) sv)"

definition handleModelPlacement :: "Model \<Rightarrow> handler" where
  "handleModelPlacement model e r sv =
     (if rq_Method r \<noteq> ''GET'' then method_not_allowed sv
      else on_state (one_summary e model) (\<lambda>summary. answer_with 200 (PlacementBody (modelPlacementPlan summary))) sv)"

definition handleModelDistributedPlan :: "Model \<Rightarrow> handler" where
  "handleModelDistributedPlan model e r sv =
     (if rq_Method r \<noteq> ''GET'' then method_not_allowed sv
      else on_state (list_nodes e 0) (\<lambda>ns. let plan = distributedModelPlan model ns
        in answer_with 200 (DistributedPlanBody plan (cdipPlanProposal plan) (cdipShardManifest model plan))) sv)"

definition handleModelDistributedRPCPlan :: "Model \<Rightarrow> handler" where
  "handleModelDistributedRPCPlan model e r sv =
     (if rq_Method r \<noteq> ''GET'' then method_not_allowed sv
      else let nodeID = TrimSpace (query_get r ''node_id'');
               checkHealth = boolQuery (firstNonEmptyString [query_get r ''check'', query_get r ''health''])
        in on_state (modelDistributedRPCPlan e model nodeID checkHealth 1000000000) (\<lambda>plan. answer_with 200 (RPCPlanBody plan)) sv)"

definition handleModelDistributedRPCReadiness :: "Model \<Rightarrow> handler" where
  "handleModelDistributedRPCReadiness model e r sv =
     (if rq_Method r \<noteq> ''GET'' then method_not_allowed sv
      else on_state (modelDistributedRPCReadiness e model (TrimSpace (query_get r ''node_id'')))
        (\<lambda>readiness. answer_with 200 (RPCReadinessBody readiness)) sv)"

subsection \<open>Install, delete and repair\<close>

definition model_input :: "string \<Rightarrow> string" where
  "model_input modelID = json_print (JObj (jstr ''model_id'' modelID))"

definition model_requirements :: "Model \<Rightarrow> Requirements" where
  "model_requirements model = \<lparr>req_CPUCores = 1, req_MemoryBytes = m_MemoryBytes model, req_DiskBytes = m_DiskBytes model,
     req_GPURequired = False, req_VRAMBytes = m_VRAMBytes model\<rparr>"

definition install_request :: "Model \<Rightarrow> string \<Rightarrow> CreateRequest" where
  "install_request model nodeID = zero_create\<lparr>cr_Type := JobInstall, cr_Input := model_input (m_ID model),
     cr_RequestedBy := ''dashboard-models'', cr_AssignedTo := nodeID, cr_Requirements := model_requirements model, cr_MaxAttempts := 1\<rparr>"

definition handleModelInstall :: "Model \<Rightarrow> handler" where
  "handleModelInstall model e r sv =
     (if rq_Method r \<noteq> ''POST'' then method_not_allowed sv
      else let nodeID = decode_ignoring_errors [(''node_id'', dstr (\<lambda>s _. s))] [] (rq_Body r)
        in on_state (one_summary e model) (\<lambda>summary.
             case modelInstallEligibility summary nodeID of
               (False, reason) \<Rightarrow> answer_with 409 (Problem (InstallConflict reason (modelPlacementPlan summary)))
             | (True, _) \<Rightarrow> on_state (create_job (e\<lparr>se_clock := after 1 (se_clock e)\<rparr>) (install_request model nodeID))
                 (\<lambda>job. answer_with 201 (JobBody job))) sv)"

definition delete_request :: "Model \<Rightarrow> string \<Rightarrow> CreateRequest" where
  "delete_request model nodeID = zero_create\<lparr>cr_Type := JobDelete, cr_Input := model_input (m_ID model),
     cr_RequestedBy := ''dashboard-models'', cr_AssignedTo := nodeID, cr_MaxAttempts := 1\<rparr>"

definition repair_request :: "Model \<Rightarrow> string \<Rightarrow> CreateRequest" where
  "repair_request model nodeID = zero_create\<lparr>cr_Type := JobRepair, cr_Input := model_input (m_ID model),
     cr_RequestedBy := ''dashboard-models'', cr_AssignedTo := nodeID,
     cr_Requirements := (model_requirements model)\<lparr>req_DiskBytes := 0\<rparr>, cr_MaxAttempts := 1\<rparr>"

text \<open>Delete and repair differ in the job they create.\<close>

definition on_installed_model :: "(Model \<Rightarrow> string \<Rightarrow> CreateRequest) \<Rightarrow> Model \<Rightarrow> handler" where
  "on_installed_model job_request model e r sv =
     (if rq_Method r \<noteq> ''POST'' then method_not_allowed sv
      else (case decode_node_id (rq_Body r) of
          None \<Rightarrow> http_error 400 ''invalid request body'' sv
        | Some nodeID \<Rightarrow>
          if nodeID = [] then http_error 400 ''node_id is required'' sv
          else on_state (one_summary e model) (\<lambda>summary sv.
            if \<not> modelInstalledOn summary nodeID then http_error 409 ''model is not installed on the selected worker'' sv
            else let activeJobID = activeModelJobForNode (Jobs (se_jobs e 1) (sv_state sv)) (m_ID model) nodeID
              in if activeJobID \<noteq> [] then http_error 409 (''model has an active job on the selected worker: '' @ activeJobID) sv
                 else on_state (create_job (e\<lparr>se_clock := after 1 (se_clock e)\<rparr>) (job_request model nodeID))
                   (\<lambda>job. answer_with 201 (JobBody job)) sv) sv))"

definition handleModelDelete :: "Model \<Rightarrow> handler" where
  "handleModelDelete = on_installed_model delete_request"

definition handleModelRepair :: "Model \<Rightarrow> handler" where
  "handleModelRepair = on_installed_model repair_request"

subsection \<open>Generation\<close>

text \<open>The prompt, the token limit and the temperature of a request, with the defaults of the model.\<close>

definition request_conversation :: "server_env \<Rightarrow> generate_request \<Rightarrow> string" where
  "request_conversation e req = (let i = TrimSpace (gq_ConversationID req) in if i = [] then newConversationID (se_rand e 1) else i)"

definition request_prompt :: "Model \<Rightarrow> generate_request \<Rightarrow> string" where
  "request_prompt model req = (let p = TrimSpace (gq_SystemPrompt req) in if p = [] then modelDefaultSystemPrompt model else p)"

definition request_tokens :: "Model \<Rightarrow> generate_request \<Rightarrow> int" where
  "request_tokens model req = (if gq_MaxTokens req \<le> 0 then qp_MaxTokens (QualityPresetFor model) else gq_MaxTokens req)"

definition request_temperature :: "Model \<Rightarrow> generate_request \<Rightarrow> string" where
  "request_temperature model req =
     (let t = TrimSpace (gq_Temperature req) in if t = [] then qp_Temperature (QualityPresetFor model) else t)"

text \<open>What a generation is built from once its prompt is appended: the conversation, the system prompt with the memories of the model, and
  the part of the history that fits.\<close>

record generation =
  ge_Conversation :: string
  ge_SystemPrompt :: string
  ge_Messages :: "ChatMessage list"

definition append_prompt :: "server_env \<Rightarrow> time \<Rightarrow> Model \<Rightarrow> string \<Rightarrow> generate_request \<Rightarrow> State \<Rightarrow> State \<times> generation" where
  "append_prompt e now model nodeID req s =
     (let systemPrompt = request_prompt model req;
          (s', conversation) = AppendConversationMessage now (se_memory e) (request_conversation e req) (m_ID model) nodeID systemPrompt
            \<lparr>cm_Role = ''user'', cm_Content = gq_Prompt req\<rparr> s;
          effective = systemPromptWithMemory (se_list e 0) systemPrompt (m_ID model) s'
      in (s', \<lparr>ge_Conversation = cv_ID conversation, ge_SystemPrompt = effective,
           ge_Messages = budgetConversationMessages model effective (cv_Messages conversation) (request_tokens model req)\<rparr>))"

definition busy_conversation :: "string \<Rightarrow> server \<Rightarrow> server \<times> reply" where
  "busy_conversation jobID = http_error 409 (''conversation already has an active generate job: '' @ jobID)"

definition json_generate_input :: "GenerateInput \<Rightarrow> json" where
  "json_generate_input i = JObj (jstr ''model_id'' (gi_ModelID i) @ jstr ''prompt'' (gi_Prompt i)
     @ jarr_omit ''messages'' (map json_message (gi_Messages i)) @ jstr_omit ''system_prompt'' (gi_SystemPrompt i)
     @ jstr_omit ''conversation_id'' (gi_ConversationID i) @ jint_omit ''max_tokens'' (gi_MaxTokens i)
     @ jstr_omit ''temperature'' (gi_Temperature i) @ jstr_omit ''cache_dir'' (gi_CacheDir i))"

definition generate_job_request :: "Model \<Rightarrow> generate_request \<Rightarrow> generation \<Rightarrow> CreateRequest" where
  "generate_job_request model req g = zero_create\<lparr>cr_Type := JobGenerate,
     cr_Input := json_print (json_generate_input \<lparr>gi_ModelID = m_ID model, gi_Prompt = gq_Prompt req, gi_Messages = ge_Messages g,
       gi_SystemPrompt = ge_SystemPrompt g, gi_ConversationID = ge_Conversation g, gi_MaxTokens = request_tokens model req,
       gi_Temperature = request_temperature model req, gi_CacheDir = []\<rparr>),
     cr_RequestedBy := ''dashboard-chat'', cr_AssignedTo := gq_NodeID req, cr_Requirements := model_requirements model,
     cr_MaxAttempts := 1\<rparr>"

definition handleModelGenerate :: "Model \<Rightarrow> handler" where
  "handleModelGenerate model e r sv =
     (if rq_Method r \<noteq> ''POST'' then method_not_allowed sv
      else (case decode_generate_request (rq_Body r) of
          None \<Rightarrow> http_error 400 ''invalid request body'' sv
        | Some req \<Rightarrow>
          if blank (gq_Prompt req) then http_error 400 ''prompt is required'' sv
          else if gq_NodeID req = [] then http_error 400 ''node_id is required'' sv
          else on_state (one_summary e model) (\<lambda>summary sv.
            let activeJobID = activeGenerateJobForConversation (Jobs (se_jobs e 1) (sv_state sv)) (request_conversation e req)
            in if \<not> modelInstalledOn summary (gq_NodeID req) then http_error 409 ''model is not installed on the selected worker'' sv
               else if activeJobID \<noteq> [] then busy_conversation activeJobID sv
               else if \<not> modelGeneratableOn summary (gq_NodeID req)
               then http_error 409 (modelGenerateBlockedReason summary (gq_NodeID req)) sv
               else on_state (append_prompt e (se_clock e 1) model (gq_NodeID req) req) (\<lambda>g.
                 on_state (create_job (e\<lparr>se_clock := after 2 (se_clock e)\<rparr>) (generate_job_request model req g))
                   (\<lambda>job. answer_with 201 (JobBody job))) sv) sv))"

definition json_backend :: "DistributedRPCBackend \<Rightarrow> json" where
  "json_backend b = JObj (jstr ''node_id'' (be_NodeID b) @ jstr ''node_name'' (be_NodeName b) @ jstr ''runtime'' (be_Runtime b)
     @ jstr ''endpoint'' (be_Endpoint b) @ jstr_omit ''health_status'' (be_HealthStatus b) @ jint_omit ''latency_ms'' (be_LatencyMS b)
     @ jstr_omit ''error'' (be_Error b))"

text \<open>The list of endpoints of an executable plan is not nil, so it is written as an array.\<close>

definition json_plan :: "DistributedRPCExecutionPlan \<Rightarrow> json" where
  "json_plan p = JObj (jstr_omit ''id'' (ep_ID p) @ jstr ''protocol'' (ep_Protocol p)
     @ jint ''protocol_version'' (ep_ProtocolVersion p) @ jint ''plan_schema_version'' (ep_PlanSchemaVersion p)
     @ jstr ''mode'' (ep_Mode p) @ jstr ''model_id'' (ep_ModelID p) @ jstr_omit ''coordinator_node_id'' (ep_CoordinatorNodeID p)
     @ jstr_omit ''coordinator_node_name'' (ep_CoordinatorNodeName p) @ [(''rpc_endpoints'', JArr (map JStr (ep_RPCEndpoints p)))]
     @ jarr_omit ''backends'' (map json_backend (ep_Backends p)) @ [(''health_checked'', JBool (ep_HealthChecked p))]
     @ jstr_omit ''planned_at'' (ep_PlannedAt p))"

definition json_rpc_generate_input :: "DistributedRPCGenerateInput \<Rightarrow> json" where
  "json_rpc_generate_input i = JObj (jstr ''model_id'' (rg_ModelID i) @ jstr ''prompt'' (rg_Prompt i)
     @ jarr_omit ''messages'' (map json_message (rg_Messages i)) @ jstr_omit ''system_prompt'' (rg_SystemPrompt i)
     @ jstr_omit ''conversation_id'' (rg_ConversationID i) @ jint_omit ''max_tokens'' (rg_MaxTokens i)
     @ jstr_omit ''temperature'' (rg_Temperature i) @ [(''rpc_endpoints'', JArr (map JStr (rg_RPCEndpoints i))),
       (''execution_plan'', json_plan (rg_ExecutionPlan i))])"

definition rpc_generate_job_request :: "Model \<Rightarrow> generate_request \<Rightarrow> generation \<Rightarrow> ModelDistributedRPCPlan \<Rightarrow> DistributedRPCExecutionPlan \<Rightarrow> CreateRequest" where
  "rpc_generate_job_request model req g plan executionPlan = zero_create\<lparr>cr_Type := JobGenerateDistributedRPC,
     cr_Input := json_print (json_rpc_generate_input \<lparr>rg_ModelID = m_ID model, rg_Prompt = gq_Prompt req, rg_Messages = ge_Messages g,
       rg_SystemPrompt = ge_SystemPrompt g, rg_ConversationID = ge_Conversation g, rg_MaxTokens = request_tokens model req,
       rg_Temperature = request_temperature model req, rg_RPCEndpoints = rpp_RPCEndpoints plan, rg_ExecutionPlan = executionPlan\<rparr>),
     cr_RequestedBy := ''dashboard-chat-rpc'', cr_AssignedTo := rpp_CoordinatorNodeID plan, cr_Requirements := model_requirements model,
     cr_MaxAttempts := 1\<rparr>"

definition conflict_reason :: "string \<Rightarrow> string list \<Rightarrow> string" where
  "conflict_reason fallback blockers = (if blockers \<noteq> [] then Join blockers '' | '' else fallback)"

text \<open>The plan takes two listings of the jobs; the third looks for an active generation.\<close>

definition handleModelDistributedRPCGenerate :: "Model \<Rightarrow> handler" where
  "handleModelDistributedRPCGenerate model e r sv =
     (if rq_Method r \<noteq> ''POST'' then method_not_allowed sv
      else (case decode_generate_request (rq_Body r) of
          None \<Rightarrow> http_error 400 ''invalid request body'' sv
        | Some req \<Rightarrow>
          if blank (gq_Prompt req) then http_error 400 ''prompt is required'' sv
          else on_state (modelDistributedRPCPlan e model (gq_NodeID req) True 1000000000) (\<lambda>plan sv.
            if \<not> rpp_ExecutableNow plan then answer_with 409 (Problem (RPCConflict
              (conflict_reason ''distributed RPC model generate is not executable'' (rpp_Blockers plan)) plan)) sv
            else let activeJobID = activeGenerateJobForConversation (Jobs (se_jobs e 2) (sv_state sv)) (request_conversation e req)
              in if activeJobID \<noteq> [] then busy_conversation activeJobID sv
                 else on_state (append_prompt e (se_clock e 2) model (rpp_CoordinatorNodeID plan) req) (\<lambda>g.
                   let executionPlan = distributedRPCExecutionPlanForJob (se_rand e 2) (se_clock e 3) plan
                   in case ValidateDistributedRPCExecutionPlan executionPlan (m_ID model) (rpp_CoordinatorNodeID plan) of
                        Some err \<Rightarrow> answer_with 500 (Problem (PlanProblem err))
                      | None \<Rightarrow> on_state (create_job (e\<lparr>se_clock := after 4 (se_clock e)\<rparr>)
                          (rpc_generate_job_request model req g plan executionPlan)) (\<lambda>job. answer_with 201 (JobBody job))) sv) sv))"

definition json_distributed_generate_input :: "DistributedGenerateInput \<Rightarrow> json" where
  "json_distributed_generate_input i = JObj (jstr ''model_id'' (dgi_ModelID i) @ jstr ''prompt'' (dgi_Prompt i)
     @ jarr_omit ''messages'' (map json_message (dgi_Messages i)) @ jstr_omit ''system_prompt'' (dgi_SystemPrompt i)
     @ jstr_omit ''conversation_id'' (dgi_ConversationID i) @ jint_omit ''max_tokens'' (dgi_MaxTokens i)
     @ jstr_omit ''temperature'' (dgi_Temperature i) @ jstr ''mode'' (dgi_Mode i)
     @ [(''stages'', JArr (map json_stage_input (dgi_Stages i)))] @ jarr_omit ''shards'' (map json_shard (dgi_Shards i)))"

text \<open>The parent job carries the input without the shards, the stage jobs are made from the input with them.\<close>

definition parent_request :: "Model \<Rightarrow> DistributedModelPlan \<Rightarrow> DistributedGenerateInput \<Rightarrow> CreateRequest" where
  "parent_request model plan input = zero_create\<lparr>cr_Type := JobGenerateDistributed,
     cr_Input := json_print (json_distributed_generate_input (input\<lparr>dgi_Shards := []\<rparr>)), cr_RequestedBy := ''dashboard-chat'',
     cr_Requirements := (model_requirements model)\<lparr>req_CPUCores := int (length (dp_Stages plan))\<rparr>, cr_MaxAttempts := 1,
     cr_NoAutoAssign := True\<rparr>"

definition batch_of :: "server_env \<Rightarrow> CreateRequest list \<Rightarrow> (8 word list option \<times> pick_env \<times> CreateRequest) list" where
  "batch_of e reqs = map (\<lambda>(k, req). (se_rand e (k + 2), se_pick e (k + 1), req)) (enumerate 0 reqs)"

definition handleModelDistributedGenerate :: "Model \<Rightarrow> handler" where
  "handleModelDistributedGenerate model e r sv =
     (if rq_Method r \<noteq> ''POST'' then method_not_allowed sv
      else (case decode_distributed_request (rq_Body r) of
          None \<Rightarrow> http_error 400 ''invalid request body'' sv
        | Some req \<Rightarrow>
          if blank (gq_Prompt req) then http_error 400 ''prompt is required'' sv
          else on_state (list_nodes e 0) (\<lambda>ns sv.
            let plan = distributedModelPlan model ns;
                activeJobID = activeGenerateJobForConversation (Jobs (se_jobs e 0) (sv_state sv)) (request_conversation e req)
            in if \<not> dp_Feasible plan then answer_with 409 (Problem (DistributedConflict
                 (conflict_reason ''distributed model execution is not ready'' (dp_Blockers plan)) plan)) sv
               else if activeJobID \<noteq> [] then busy_conversation activeJobID sv
               else on_state (append_prompt e (se_clock e 1) model ''distributed'' req) (\<lambda>g.
                 let input = generate_input_of_plan model plan (gq_Prompt req) (ge_Messages g) (ge_SystemPrompt g) (ge_Conversation g)
                       (request_tokens model req) (request_temperature model req)
                 in on_state (create_job (e\<lparr>se_clock := after 2 (se_clock e)\<rparr>) (parent_request model plan input)) (\<lambda>parent.
                      case distributedStageJobRequests parent input of
                        Inl err \<Rightarrow> answer_with 500 (Problem (StageJobProblem err))
                      | Inr reqs \<Rightarrow> on_state (CreateJobsBatch (se_clock e 3) (batch_of e reqs))
                          (\<lambda>stageJobs. answer_with 202 (DistributedAccepted parent stageJobs plan (dp_ExecutableNow plan))))) sv) sv))"

subsection \<open>The routes of models\<close>

definition modelCatalogFiltersFromRequest :: "request \<Rightarrow> ModelCatalogFilters" where
  "modelCatalogFiltersFromRequest r =
     \<lparr>mf_Query = firstNonEmptyString [query_get r ''q'', query_get r ''query''], mf_Status = query_get r ''status'',
      mf_Family = query_get r ''family'', mf_CapableOnly = boolQuery (query_get r ''capable''), mf_Sort = query_get r ''sort''\<rparr>"

definition handleModels :: handler where
  "handleModels e r =
     requireOperatorAuth False r (\<lambda>sv.
       if rq_Method r \<noteq> ''GET'' \<and> rq_Method r \<noteq> ''DELETE'' then method_not_allowed sv
       else let filters = modelCatalogFiltersFromRequest r; js = Jobs (se_jobs e 0) (sv_state sv)
         in on_state (list_nodes e 0) (\<lambda>ns.
              let summaries = modelSummaries Catalog js ns; filtered = filterAndSortModelSummaries summaries filters
              in answer_with 200 (ModelList filtered (int (length summaries)) (int (length filtered)) filters)) sv)"

definition model_action :: "string \<Rightarrow> Model \<Rightarrow> handler" where
  "model_action action model e r =
     (if action = ''distributed-plan'' then handleModelDistributedPlan model e r
      else if action = ''distributed-rpc-plan'' then handleModelDistributedRPCPlan model e r
      else if action = ''distributed-rpc-readiness'' then handleModelDistributedRPCReadiness model e r
      else if action = ''distributed-rpc-generate'' then handleModelDistributedRPCGenerate model e r
      else if action = ''distributed-generate'' then handleModelDistributedGenerate model e r
      else if action = ''placement'' then handleModelPlacement model e r
      else if action = ''install'' then handleModelInstall model e r
      else if action = ''delete'' then handleModelDelete model e r
      else if action = ''repair'' then handleModelRepair model e r
      else if action = ''generate'' then handleModelGenerate model e r
      else not_found)"

definition handleModel :: handler where
  "handleModel e r =
     requireOperatorAuth False r (\<lambda>sv.
       let parts = Split (CHR ''/'') (TrimSlashes (TrimPrefix (rq_Path r) ''/v1/models/''))
       in if length parts > 2 \<or> hd parts = [] then not_found sv
          else (case Find (hd parts) of
              None \<Rightarrow> not_found sv
            | Some model \<Rightarrow>
              if length parts = 1 then handleModelDetail model e r sv else model_action (parts ! 1) model e r sv))"

subsection \<open>Conversations\<close>

definition handleConversations :: handler where
  "handleConversations e r =
     requireOperatorAuth False r (\<lambda>sv.
       if rq_Method r \<noteq> ''GET'' then method_not_allowed sv
       else answer_with 200 (ConversationList (recentConversations (se_list e 0) 100 (sv_state sv))) sv)"

definition handleConversation :: handler where
  "handleConversation e r =
     requireOperatorAuth False r (\<lambda>sv.
       if rq_Method r \<noteq> ''GET'' \<and> rq_Method r \<noteq> ''DELETE'' then method_not_allowed sv
       else let i = TrimSlashes (TrimPrefix (rq_Path r) ''/v1/conversations/'')
         in if i = [] then not_found sv
            else if rq_Method r = ''DELETE'' then
              on_state (DeleteConversation i) (\<lambda>ok. if \<not> ok then not_found else answer_with 200 (ConversationDeleted i)) sv
            else (case get_conversation i (sv_state sv) of
                None \<Rightarrow> not_found sv | Some conversation \<Rightarrow> answer_with 200 (ConversationBody conversation) sv))"

subsection \<open>Memories\<close>

text \<open>A posted memory: the identifier comes from the path.\<close>

definition decodeMemoryRequest :: "request \<Rightarrow> string \<Rightarrow> Memory option" where
  "decodeMemoryRequest r i = map_option (me_ID_update (\<lambda>_. TrimSpace i)) (decode_memory_request (rq_Body r))"

definition save_memory :: "string \<Rightarrow> int \<Rightarrow> server_env \<Rightarrow> request \<Rightarrow> server \<Rightarrow> server \<times> reply" where
  "save_memory i status e r sv =
     (case decodeMemoryRequest r i of
        None \<Rightarrow> answer_with 400 (Problem UndecodableBody) sv
      | Some memory \<Rightarrow> on_state (UpsertMemory (se_rand e 0) (se_clock e 0) memory)
          (\<lambda>saved. case saved of Inl err \<Rightarrow> answer_with 400 (Problem (MemoryProblem err)) | Inr m \<Rightarrow> answer_with status (MemoryBody m)) sv)"

definition handleMemories :: handler where
  "handleMemories e r =
     requireOperatorAuth False r (\<lambda>sv.
       if rq_Method r \<noteq> ''GET'' \<and> rq_Method r \<noteq> ''POST'' \<and> rq_Method r \<noteq> ''DELETE'' then method_not_allowed sv
       else let modelID = TrimSpace (query_get r ''model_id'')
         in if rq_Method r = ''POST'' then save_memory [] 201 e r sv
            else if rq_Method r = ''DELETE'' then
              (if modelID = [] then http_error 400 ''model_id is required'' sv
               else on_state (DeleteMemoriesByModel modelID) (\<lambda>n. answer_with 200 (MemoriesDeleted n)) sv)
            else answer_with 200 (MemoryList (memoriesForModel (se_list e 0) modelID (sv_state sv))) sv)"

definition handleMemoryPreview :: handler where
  "handleMemoryPreview e r sv =
     (if rq_Method r \<noteq> ''GET'' then method_not_allowed sv
      else (case Find (TrimSpace (query_get r ''model_id'')) of
          None \<Rightarrow> http_error 404 ''unknown model'' sv
        | Some model \<Rightarrow>
          let s = sv_state sv;
              systemPrompt0 = TrimSpace (query_get r ''system_prompt'');
              conversationID = TrimSpace (query_get r ''conversation_id'');
              draft = TrimSpace (query_get r ''prompt'');
              maxTokens = intQuery r ''max_tokens'' (qp_MaxTokens (QualityPresetFor model));
              systemPrompt1 = (if systemPrompt0 = [] then modelDefaultSystemPrompt model else systemPrompt0);
              (messages0, systemPrompt) = (case (if conversationID = [] then None else get_conversation conversationID s) of
                  None \<Rightarrow> ([], systemPrompt1)
                | Some conversation \<Rightarrow> (cv_Messages conversation,
                    if systemPrompt1 = [] \<and> cv_SystemPrompt conversation \<noteq> [] then cv_SystemPrompt conversation else systemPrompt1));
              messages = (if draft \<noteq> [] then messages0 @ [\<lparr>cm_Role = ''user'', cm_Content = draft\<rparr>] else messages0);
              ms = memoriesForModel (se_list e 0) (m_ID model) s;
              effective = systemPromptWithMemory (se_list e 1) systemPrompt (m_ID model) s
          in answer_with 200 (MemoryPreviewBody \<lparr>mw_ModelID = m_ID model, mw_Memories = ms,
               mw_MemoryContext = memoryContext (m_ID model) ms, mw_EffectiveSystemPrompt = effective,
               mw_Context = promptContextPreview model effective messages maxTokens\<rparr>) sv))"

definition handleMemory :: handler where
  "handleMemory e r =
     requireOperatorAuth False r (\<lambda>sv.
       let i = TrimSlashes (TrimPrefix (rq_Path r) ''/v1/memories/'')
       in if i = ''preview'' then handleMemoryPreview e r sv
          else if i = [] then not_found sv
          else if rq_Method r \<noteq> ''DELETE'' \<and> rq_Method r \<noteq> ''POST'' then method_not_allowed sv
          else if rq_Method r = ''POST'' then save_memory i 200 e r sv
          else on_state (DeleteMemory i) (\<lambda>ok. if \<not> ok then not_found else answer_with 200 MemoryDeleted) sv)"

end
