(* ===== verification/Server.thy ===== *)
theory Server
  imports ModelRequests
begin

section \<open>The server: pages, capacity reports and the dispatch of requests (internal/manager/server.go)\<close>

text \<open>
  The remaining handlers (health, cluster summary, capacity reports and their snapshots, the dashboard and invite pages), and
  \<open>ServeHTTP\<close>: the request multiplexer of the standard library with the patterns that \<open>NewServerWithOptions\<close> registers, and the
  work of the two background loops. The text of a page is made from its data by a template, which is not
  modelled: a page is its data. The version of the build is an argument, as a release build replaces it.
\<close>

subsection \<open>Health, cluster and capacity\<close>

definition handleHealth :: handler where
  "handleHealth e r = answer_with 200 Healthy"

definition cluster_summary :: "server_env \<Rightarrow> nat \<Rightarrow> State \<Rightarrow> State \<times> ClusterSummary" where
  "cluster_summary e k s = ClusterSummary_op (se_clock e k) (se_nodes e k) (se_kinds e) s s"

definition handleCluster :: handler where
  "handleCluster e r =
     requireOperatorAuth False r (on_state (cluster_summary e 0) (\<lambda>summary. answer_with 200 (ClusterBody summary)))"

text \<open>The comparison with the snapshot that the client names, if it names one: the answer with the comparison, or 404.\<close>

definition with_baseline ::
  "string \<Rightarrow> string \<Rightarrow> CapacitySnapshot \<Rightarrow> ((CapacitySnapshot \<times> CapacityDelta) option \<Rightarrow> server \<Rightarrow> server \<times> reply) \<Rightarrow> server
     \<Rightarrow> server \<times> reply" where
  "with_baseline baseline0 missing current k sv =
     (let baselineID = TrimSpace baseline0
      in if baselineID = [] then k None sv
         else (case capacitySnapshotByID baselineID (sv_snapshots sv) of
             None \<Rightarrow> http_error 404 missing sv
           | Some baseline \<Rightarrow> k (Some (baseline, capacityDelta baseline current)) sv))"

definition handleCapacity :: handler where
  "handleCapacity e r =
     requireOperatorAuth False r (\<lambda>sv.
       if rq_Method r \<noteq> ''GET'' then method_not_allowed sv
       else on_state (capacitySnapshot e []) (\<lambda>current.
         with_baseline (query_get r ''baseline'') ''baseline snapshot not found'' current
           (\<lambda>c. answer_with 200 (CapacityBody (sn_Summary current) (sn_Capacity current) c))) sv)"

definition label_and_compare :: "string \<Rightarrow> string \<times> string" where
  "label_and_compare body = decode_ignoring_errors
     [(''label'', dstr (\<lambda>s. map_prod (\<lambda>_. s) id)), (''compare_to'', dstr (\<lambda>s. map_prod id (\<lambda>_. s)))] ([], []) body"

definition handleCapacitySnapshots :: handler where
  "handleCapacitySnapshots e r =
     requireOperatorAuth False r (\<lambda>sv.
       if rq_Method r = ''GET'' then answer_with 200 (SnapshotList (capacitySnapshots (se_list e 0) (sv_snapshots sv))) sv
       else if rq_Method r = ''POST'' then
         (case label_and_compare (rq_Body r) of (label, compareTo) \<Rightarrow>
            (case saveCapacitySnapshot e label (sv_state sv, sv_snapshots sv) of ((s', snapshots'), snapshot) \<Rightarrow>
               with_baseline compareTo ''compare_to snapshot not found'' snapshot
                 (\<lambda>c. answer_with 201 (SnapshotBody snapshot c)) (sv\<lparr>sv_state := s', sv_snapshots := snapshots'\<rparr>)))
       else method_not_allowed sv)"

subsection \<open>The dashboard\<close>

text \<open>The Unix epoch is 62135596800 seconds after the zero time.\<close>

definition UnixMilli :: "time \<Rightarrow> int" where
  "UnixMilli t = (t - 62135596800000000000) div 1000000"

definition handleDashboardStatus :: handler where
  "handleDashboardStatus e r =
     requireOperatorAuth False r (\<lambda>sv.
       if rq_Method r \<noteq> ''GET'' then method_not_allowed sv
       else on_state (list_nodes e 0) (\<lambda>ns sv.
         let jobsList = Jobs (se_jobs e 0) (sv_state sv); modelsView = modelSummaries Catalog jobsList ns
         in on_state (cluster_summary e 1) (\<lambda>summary.
              let readiness = clusterReadiness (se_clock e 2) (onlineWorkerNodes ns) modelsView jobsList
              in answer_with 200 (StatusBody
                   \<lparr>ds_readiness_status = ry_Status readiness, ds_workers_online = cs_WorkersOnline summary,
                    ds_workers_total = cs_WorkersTotal summary, ds_ready_models = ry_GeneratableModels readiness,
                    ds_active_jobs = ry_ActiveJobs readiness, ds_recent_failures = ry_RecentFailures readiness,
                    ds_jobs_total = int (length jobsList), ds_runtime_ready = ry_RuntimeReadyWorkers readiness,
                    ds_installed_models = ry_InstalledModels readiness, ds_benchmark_score = cs_BenchmarkScore summary,
                    ds_updated_at_unix_ms = UnixMilli (se_clock e 3)\<rparr>)) sv) sv)"

definition handleDashboard :: handler where
  "handleDashboard e r sv =
     (if rq_Path r \<noteq> ''/'' then not_found sv
      else requireOperatorAuth True r (on_state (list_nodes e 0) (\<lambda>ns sv.
        let s = sv_state sv; allJobs = Jobs (se_jobs e 0) s; clusterBenchmarks = clusterBenchmarkSummaries (se_list e 0) allJobs 5;
            modelsView = modelSummaries Catalog allJobs ns; health = RPCHealth s
        in case runtimeRPCPoolReport ns of (pool, workers, endpoints) \<Rightarrow>
             on_state (cluster_summary e 1) (\<lambda>summary sv.
               let benchmarks = BenchmarkSummaryByNode (se_kinds e) (sv_state sv)
               in on_state (cluster_summary e 2) (\<lambda>again sv.
                    answer_with 200 (DashboardPage
                      \<lparr>da_Summary = summary, da_OnlineNodes = onlineWorkerNodes ns, da_OfflineWorkerCount = offlineWorkerCount ns,
                       da_Benchmarks = benchmarks, da_ClusterBenchmarks = clusterBenchmarks, da_Models = modelsView,
                       da_RPCPool = pool, da_RPCWorkers = workers, da_RPCEndpoints = rankRPCEndpoints endpoints health,
                       da_RPCHealth = health,
                       da_Readiness = clusterReadiness (se_clock e 3) (onlineWorkerNodes ns) modelsView allJobs,
                       da_Capacity = clusterCapacity again modelsView (onlineWorkerNodes ns), da_NodesByID = nodesByID ns,
                       da_WorkerActiveJobs = activeJobsByWorker allJobs, da_MaxClusterGFLOPS = maxClusterBenchmarkGFLOPS clusterBenchmarks,
                       da_Jobs = recentJobs allJobs 12, da_DistributedRuns = distributedRunSummaries allJobs 20,
                       da_ChatJobs = recentChatJobs allJobs 6,
                       da_Conversations = recentConversations (se_list e 1) 12 (sv_state sv),
                       da_Memories = recentMemories (se_list e 2) 12 (sv_state sv), da_InviteURL = ''/invite''\<rparr>) sv) sv) sv)) sv)"

subsection \<open>The invite page\<close>

text \<open>\<open>url.Values.Encode\<close> of the two values, whose keys it sorts: \<open>QueryEscape\<close> keeps letters, digits and four marks, writes a space
  as a plus sign and every other byte in hexadecimal.\<close>

definition unreserved :: "char \<Rightarrow> bool" where
  "unreserved c \<longleftrightarrow> (CHR ''a'' \<le> c \<and> c \<le> CHR ''z'') \<or> (CHR ''A'' \<le> c \<and> c \<le> CHR ''Z'') \<or> is_digit c
     \<or> c = CHR ''-'' \<or> c = CHR ''_'' \<or> c = CHR ''.'' \<or> c = CHR ''~''"

definition upper_hex :: "nat \<Rightarrow> char" where
  "upper_hex k = ''0123456789ABCDEF'' ! k"

definition QueryEscape :: "string \<Rightarrow> string" where
  "QueryEscape s = concat (map (\<lambda>c. if unreserved c then [c] else if c = CHR '' '' then ''+''
     else [CHR ''%'', upper_hex (of_char c div 16), upper_hex (of_char c mod 16)]) s)"

definition desktopInviteURL :: "string \<Rightarrow> string \<Rightarrow> string" where
  "desktopInviteURL managerURL joinToken =
     ''cmesh://join?'' @ ''manager='' @ QueryEscape managerURL @ ''&token='' @ QueryEscape joinToken"

definition releaseDownloadBase :: "string \<Rightarrow> string" where
  "releaseDownloadBase appVersion =
     (if strip_prefix ''v'' appVersion \<noteq> None
      then ''https://github.com/NythralHome/cmesh/releases/download/'' @ appVersion @ ''/''
      else ''https://github.com/NythralHome/cmesh/releases/latest/download/'')"

definition localManagerURL :: "request \<Rightarrow> string" where
  "localManagerURL r =
     (let proto = header_get r ''X-Forwarded-Proto''
      in (if proto = [] then ''http'' else proto) @ ''://'' @ (if rq_Host r = [] then ''127.0.0.1'' else rq_Host r))"

definition handleInvite :: "string \<Rightarrow> handler" where
  "handleInvite appVersion e r sv =
     (if rq_Method r \<noteq> ''GET'' \<and> rq_Method r \<noteq> ''DELETE'' then method_not_allowed sv
      else requireOperatorAuth True r (\<lambda>sv.
        if sv_joinToken sv = [] then http_error 409 ''worker join token is not configured'' sv
        else let managerURL = (if sv_publicURL sv = [] then localManagerURL r else sv_publicURL sv)
          in answer_with 200 (InvitePage
               \<lparr>iv_ManagerURL = managerURL, iv_JoinToken = sv_joinToken sv, iv_DesktopInviteURL = desktopInviteURL managerURL (sv_joinToken sv),
                iv_DownloadURL = releaseDownloadBase appVersion @ ''CMesh-Worker-Apple-Silicon.dmg'',
                iv_ReleaseDownloadBase = releaseDownloadBase appVersion\<rparr>) sv) sv)"

subsection \<open>Dispatch\<close>

text \<open>
  \<open>http.ServeMux\<close>: a path that is not clean is redirected to its clean form, a path that only lacks the final slash of a pattern
  to the path with it (\<open>CONNECT\<close> requests are not cleaned); otherwise the longest pattern wins. The request's path has no escaped
  characters.
\<close>

fun clean_segments :: "string list \<Rightarrow> string list \<Rightarrow> string list" where
  "clean_segments out [] = rev out"
| "clean_segments out (p # ps) =
     (if p = [] \<or> p = ''.'' then clean_segments out ps
      else if p = ''..'' then clean_segments (tl out) ps
      else clean_segments (p # out) ps)"

definition cleanPath :: "string \<Rightarrow> string" where
  "cleanPath p0 =
     (if p0 = [] then ''/''
      else let p = (if hd p0 = CHR ''/'' then p0 else CHR ''/'' # p0);
               np = CHR ''/'' # Join (clean_segments [] (Split (CHR ''/'') (tl p))) ''/''
        in if last p = CHR ''/'' \<and> np \<noteq> ''/'' then np @ ''/'' else np)"

definition exact_routes :: "string \<Rightarrow> (string \<times> handler) list" where
  "exact_routes appVersion =
     [(''/invite'', handleInvite appVersion), (''/health'', handleHealth), (''/v1/cluster'', handleCluster),
      (''/v1/capacity/snapshots'', handleCapacitySnapshots), (''/v1/capacity'', handleCapacity),
      (''/v1/dashboard/status'', handleDashboardStatus), (''/v1/distributed-runs'', handleDistributedRuns),
      (''/v1/runtime/stage-probes'', handleRuntimeStageProbes), (''/v1/runtime/rpc-pool'', handleRuntimeRPCPool),
      (''/v1/runtime/rpc-pool/refresh'', handleRuntimeRPCPoolRefresh), (''/v1/runtime/rpc-pool/smoke'', handleRuntimeRPCPoolSmoke),
      (''/v1/nodes'', handleNodes), (''/v1/benchmarks'', handleBenchmarks), (''/v1/cluster-benchmarks'', handleClusterBenchmarks),
      (''/v1/models'', handleModels), (''/v1/conversations'', handleConversations), (''/v1/memories'', handleMemories),
      (''/v1/jobs'', handleJobs), (''/v1/workers/join'', handleWorkerJoin), (''/v1/workers/heartbeat'', handleWorkerHeartbeat),
      (''/v1/workers/leave'', handleWorkerLeave)]"

definition prefix_routes :: "(string \<times> handler) list" where
  "prefix_routes =
     [(''/v1/models/'', handleModel), (''/v1/conversations/'', handleConversation), (''/v1/memories/'', handleMemory),
      (''/v1/jobs/'', handleJob), (''/v1/cdip/activations/'', handleCDIPActivation), (''/v1/cdip/jobs/'', handleCDIPJob),
      (''/v1/cdip/stages/'', handleCDIPStage), (''/v1/workers/'', handleWorkerRoutes)]"

text \<open>No prefix pattern is a prefix of another one, so at most one of them applies.\<close>

definition route :: "string \<Rightarrow> string \<Rightarrow> handler" where
  "route appVersion path =
     (case map_of (exact_routes appVersion) path of
        Some h \<Rightarrow> h
      | None \<Rightarrow> (case List.find (\<lambda>(p, h). strip_prefix p path \<noteq> None) prefix_routes of
            Some (p, h) \<Rightarrow> h
          | None \<Rightarrow> handleDashboard))"

definition redirected :: "string \<Rightarrow> string \<Rightarrow> bool" where
  "redirected appVersion path \<longleftrightarrow> map_of (exact_routes appVersion) path = None \<and> map_of prefix_routes (path @ ''/'') \<noteq> None"

definition ServeHTTP :: "string \<Rightarrow> handler" where
  "ServeHTTP appVersion e r sv =
     (let path = (if rq_Method r = ''CONNECT'' then rq_Path r else cleanPath (rq_Path r))
      in if redirected appVersion path then answer_with 301 (Redirect (path @ ''/'')) sv
         else if path \<noteq> rq_Path r then answer_with 301 (Redirect path) sv
         else route appVersion path e r sv)"

subsection \<open>The background loops\<close>

text \<open>One tick of each: advance the distributed jobs that have not ended, and check the RPC endpoints.\<close>

definition cdip_tick :: "server_env \<Rightarrow> (nat \<Rightarrow> orders \<times> clock) \<Rightarrow> server \<Rightarrow> server" where
  "cdip_tick e envs sv =
     (case advanceActiveCDIPJobs memory_transport (se_jobs e 0) envs (sv_state sv, sv_bus sv) of ((s', b'), _) \<Rightarrow>
        sv\<lparr>sv_state := s', sv_bus := b'\<rparr>)"

definition rpc_health_tick :: "server_env \<Rightarrow> server \<Rightarrow> server" where
  "rpc_health_tick e sv =
     sv\<lparr>sv_state := fst (refreshRuntimeRPCHealth (se_clock e 0) (se_nodes e 0) (se_check e) (sv_rpcHealthTimeout sv div 1000000) (sv_state sv))\<rparr>"

end
