(* ===== verification/Serving.thy ===== *)
theory Serving
  imports Server Drive RpcGuarantees
begin

section \<open>What every request promises\<close>

text \<open>
  The contract of the HTTP interface as a whole: whatever is posted, the store is left in a state that the manager's operations
  reach (so all the invariants of those states hold after it), the configuration of the server does not change, and the status is
  one of those that the handlers write; a request that is not answered is one to the relay or to the coordinator of a distributed
  job, or the completion of a job.
\<close>

subsection \<open>Decoders keep what they are told to keep\<close>

lemma find_field_mem: "find_field flds k = Some f \<Longrightarrow> \<exists>n. (n, f) \<in> set flds"
  by (auto simp: find_field_def List.find_Some_iff dest!: map_of_SomeD split: option.splits) (metis nth_mem)

lemma decode_fields_keep:
  assumes "\<And>k f a v b. (k, f) \<in> set flds \<Longrightarrow> P a \<Longrightarrow> f a v = Some b \<Longrightarrow> P b" and "P (fst st)"
  shows "P (fst (decode_fields flds kvs st))"
  using assms(2)
proof (induction kvs arbitrary: st)
  case (Cons kv kvs)
  obtain k v a ok where st: "kv = (k, v)" "st = (a, ok)" by (metis prod.exhaust)
  show ?case
  proof (cases "find_field flds k")
    case (Some f)
    then obtain n where "(n, f) \<in> set flds" using find_field_mem by metis
    with assms(1) [of n f a v] Cons st Some show ?thesis by (auto split: option.split)
  qed (use Cons st in simp)
qed simp

lemma decode_first_keep:
  assumes "\<And>k f a v b. (k, f) \<in> set flds \<Longrightarrow> P a \<Longrightarrow> f a v = Some b \<Longrightarrow> P b" and "P zero"
    and "decode_first flds zero t = Some x"
  shows "P x"
proof -
  obtain v where v: "decode_struct flds zero v = Some x"
    using assms(3) by (auto simp: decode_first_def split: option.splits)
  show ?thesis
  proof (cases v)
    case (JObj kvs)
    have "P (fst (decode_fields flds kvs (zero, True)))" using decode_fields_keep [of flds P "(zero, True)" kvs, OF assms(1)] assms(2) by simp
    with v JObj show ?thesis by (cases "decode_fields flds kvs (zero, True)") (auto simp: decode_struct_def split: if_splits)
  qed (use v assms(2) in \<open>simp_all add: decode_struct_def\<close>)
qed

lemma dint_in_range: "dint upd a v = Some b \<Longrightarrow> b = a \<or> (\<exists>i. int64_range i \<and> b = upd i a)"
  by (cases v) (auto simp: parse_int_lit_def Let_def split: if_splits prod.splits)

lemma field_results:
  "dstr upd2 a v = Some b \<Longrightarrow> b = a \<or> (\<exists>s. b = upd2 s a)"
  "dbool upd3 a v = Some b \<Longrightarrow> b = a \<or> (\<exists>s. b = upd3 s a)"
  "dnested flds get upd4 a v = Some b \<Longrightarrow> \<exists>x. b = upd4 x a"
  by (cases v; auto simp: dnested_def)+

text \<open>So a posted limit of attempts is a value of the Go type \<open>int\<close>.\<close>

lemma decode_create_range: "decode_create t = Some req \<Longrightarrow> int64_range (cr_MaxAttempts req)"
proof -
  assume req: "decode_create t = Some req"
  show ?thesis
  proof (rule decode_first_keep [of create_fields _ zero_create t, OF _ _ req [unfolded decode_create_def]])
    show "int64_range (cr_MaxAttempts b)"
      if "(k, f) \<in> set create_fields" "int64_range (cr_MaxAttempts a)" "f a v = Some b" for k f a v b
      using that unfolding create_fields_def
      by (auto dest!: dint_in_range field_results)
  qed (simp add: zero_create_def int64_range_def)
qed

subsection \<open>Calls of the store\<close>

named_theorems kept_reachable

lemma store_calls [kept_reachable]:
  "reachable s \<Longrightarrow> reachable (fst (RegisterWorker rnd now q jr s))"
  "reachable s \<Longrightarrow> reachable (fst (Heartbeat_op now q hb s))"
  "reachable s \<Longrightarrow> reachable (fst (MarkWorkerOffline now q n s))"
  "reachable s \<Longrightarrow> reachable (fst (Nodes now v s))"
  "reachable s \<Longrightarrow> reachable (fst (PutBenchmark now br s))"
  "reachable s \<Longrightarrow> reachable (fst (NextJobForWorker now ord n s))"
  "reachable s \<Longrightarrow> reachable (fst (CompleteJob now env q i co s))"
  "reachable s \<Longrightarrow> reachable (fst (UpdateJobProgress now i pr s))"
  "reachable s \<Longrightarrow> reachable (fst (UpdateCDIPStageState now i nxt detail s))"
  "reachable s \<Longrightarrow> reachable (fst (CancelJob now q i s))"
  "reachable s \<Longrightarrow> reachable (fst (AppendConversationMessage now x i m n p msg s))"
  "reachable s \<Longrightarrow> reachable (fst (DeleteConversation i s))"
  "reachable s \<Longrightarrow> reachable (fst (UpsertMemory rnd now mem s))"
  "reachable s \<Longrightarrow> reachable (fst (DeleteMemory i s))"
  "reachable s \<Longrightarrow> reachable (fst (DeleteMemoriesByModel m s))"
  using reachable.step [of s "OpRegister rnd now q jr"] reachable.step [of s "OpHeartbeat now q hb"]
    reachable.step [of s "OpOffline now q n"] reachable.step [of s "OpNodes now v"] reachable.step [of s "OpBenchmark now br"]
    reachable.step [of s "OpNext now ord n"] reachable.step [of s "OpComplete now env q i co"] reachable.step [of s "OpProgress now i pr"]
    reachable.step [of s "OpStage now i nxt detail"] reachable.step [of s "OpCancel now q i"]
    reachable.step [of s "OpAppend now x i m n p msg"] reachable.step [of s "OpDeleteConversation i"]
    reachable.step [of s "OpUpsertMemory rnd now mem"] reachable.step [of s "OpDeleteMemory i"] reachable.step [of s "OpDeleteMemories m"]
  by simp_all

lemma create_reachable [kept_reachable]:
  "reachable s \<Longrightarrow> int64_range (cr_MaxAttempts req) \<Longrightarrow> reachable (fst (create_job e req s))"
  using reachable.step [of s "OpCreate (se_rand e 0) (se_clock e 0) (se_pick e 0) req"] by (simp add: create_job_def)

lemma batch_reachable [kept_reachable]:
  assumes "reachable s" and "list_all (\<lambda>req. int64_range (cr_MaxAttempts req)) reqs"
  shows "reachable (fst (CreateJobsBatch now (batch_of e reqs) s))"
proof -
  have "list_all (\<lambda>(rnd, env, req). int64_range (cr_MaxAttempts req))
      (map (\<lambda>(k, req). (se_rand e (k + 2), se_pick e (k + 1), req)) (enumerate n reqs))" for n
    using assms(2) by (induction reqs arbitrary: n) auto
  then have "op_ok (OpBatch now (batch_of e reqs))" unfolding batch_of_def op_ok.simps by blast
  from reachable.step [OF assms(1) this] show ?thesis by simp
qed

lemma create_each_reachable [kept_reachable]:
  "reachable s \<Longrightarrow> list_all (\<lambda>req. int64_range (cr_MaxAttempts req)) reqs \<Longrightarrow> reachable (fst (create_each e k reqs s))"
proof (induction reqs arbitrary: k s)
  case (Cons req reqs)
  obtain s1 j where c: "CreateJob (se_rand e (Suc k)) (se_clock e (Suc k)) (se_pick e k) req s = (s1, j)" by fastforce
  have "reachable s1"
    using reachable.step [of s "OpCreate (se_rand e (Suc k)) (se_clock e (Suc k)) (se_pick e k) req"] Cons.prems c by simp
  with Cons show ?case by (auto simp: c split: prod.split) (metis fst_conv)
qed simp

lemma list_nodes_kept [kept_reachable]: "reachable s \<Longrightarrow> reachable (fst (list_nodes e k s))"
  by (simp add: list_nodes_def store_calls)

lemma summary_kept [kept_reachable]:
  "reachable s \<Longrightarrow> reachable (fst (cluster_summary e k s))"
  "reachable s \<Longrightarrow> reachable (fst (one_summary e model s))"
  "reachable s \<Longrightarrow> reachable (fst (capacitySnapshot e label s))"
  using list_nodes_kept [of s e 0] store_calls(4)
  by (auto simp: cluster_summary_def ClusterSummary_op_def one_summary_def capacitySnapshot_def list_nodes_def
      split: prod.splits) (metis fst_conv)+

lemma refresh_kept [kept_reachable]:
  "reachable s \<Longrightarrow> reachable (fst (refreshRuntimeRPCHealth now v ck t s))"
  "reachable s \<Longrightarrow> reachable (fst (refresh_pool e r s))"
  using store_calls(4) [of s]
  by (auto simp: refreshRuntimeRPCHealth_def refresh_pool_def Let_def split: prod.splits intro!: record_reachable) (metis fst_conv)+

lemma append_prompt_kept [kept_reachable]: "reachable s \<Longrightarrow> reachable (fst (append_prompt e now model n req s))"
  using store_calls(11) by (auto simp: append_prompt_def Let_def split: prod.splits) (metis fst_conv)

lemma plan_kept [kept_reachable]:
  "reachable s \<Longrightarrow> reachable (fst (modelDistributedRPCPlan e model n check t s))"
  "reachable s \<Longrightarrow> reachable (fst (modelDistributedRPCReadiness e model n s))"
proof -
  have plan: "reachable (fst (modelDistributedRPCPlan e model n check t s))" if "reachable s" for n check t
    using that unfolding modelDistributedRPCPlan_def Let_def
    by (auto split: prod.splits if_splits dest!: list_nodes_reachable [rotated] check_reachable [rotated])
  then show "reachable s \<Longrightarrow> reachable (fst (modelDistributedRPCPlan e model n check t s))" .
  show "reachable s \<Longrightarrow> reachable (fst (modelDistributedRPCReadiness e model n s))"
    using plan [of n False 0] by (simp add: modelDistributedRPCReadiness_def split: prod.split) (metis fst_conv)
qed


subsection \<open>The contract of a handler\<close>

definition statuses :: "int set" where
  "statuses = {200, 201, 202, 204, 301, 400, 401, 403, 404, 405, 409, 500}"

definition config :: "server \<Rightarrow> server" where
  "config sv = sv\<lparr>sv_state := NewState 0, sv_bus := NewMemoryActivationTransport 8, sv_snapshots := []\<rparr>"

text \<open>\<open>waits\<close> is whether the handler may leave the request without an answer.\<close>

definition serving :: "server \<Rightarrow> server \<Rightarrow> bool" where
  "serving sv0 sv \<longleftrightarrow> reachable (sv_state sv) \<and> config sv = config sv0"

fun written :: "bool \<Rightarrow> reply \<Rightarrow> bool" where
  "written waits (Reply status a c) = (status \<in> statuses)"
| "written waits NoReply = waits"
| "written waits Aborted = waits"

definition served :: "bool \<Rightarrow> server \<Rightarrow> server \<times> reply \<Rightarrow> bool" where
  "served waits sv0 sr \<longleftrightarrow> serving sv0 (fst sr) \<and> written waits (snd sr)"

named_theorems handlers

lemma serving_put [intro]:
  "serving sv0 sv \<Longrightarrow> reachable s \<Longrightarrow> serving sv0 (sv\<lparr>sv_state := s\<rparr>)"
  "serving sv0 sv \<Longrightarrow> serving sv0 (sv\<lparr>sv_bus := b\<rparr>)"
  "serving sv0 sv \<Longrightarrow> serving sv0 (sv\<lparr>sv_snapshots := sn\<rparr>)"
  by (simp_all add: serving_def config_def)

lemma served_answer [handlers]: "serving sv0 sv \<Longrightarrow> status \<in> statuses \<Longrightarrow> served w sv0 (answer_with status a sv)"
  by (simp add: served_def answer_with_def)

lemma served_problems [handlers]:
  "serving sv0 sv \<Longrightarrow> status \<in> statuses \<Longrightarrow> served w sv0 (http_error status msg sv)"
  "serving sv0 sv \<Longrightarrow> served w sv0 (not_found sv)"
  "serving sv0 sv \<Longrightarrow> served w sv0 (method_not_allowed sv)"
  by (simp_all add: http_error_def not_found_def method_not_allowed_def served_answer statuses_def)

lemma served_on_state [handlers]:
  assumes "serving sv0 sv" and "\<And>s. reachable s \<Longrightarrow> reachable (fst (f s))"
    and "\<And>a sv'. serving sv0 sv' \<Longrightarrow> served w sv0 (k a sv')"
  shows "served w sv0 (on_state f k sv)"
  using assms(1,3) assms(2) [of "sv_state sv"] by (auto simp: on_state_def serving_def config_def split: prod.split)

lemma served_nothing [handlers]: "serving sv0 sv \<Longrightarrow> served True sv0 (sv, NoReply)" "serving sv0 sv \<Longrightarrow> served True sv0 (sv, Aborted)"
  by (simp_all add: served_def)

lemma served_cookie: "served w sv0 sr \<Longrightarrow> served w sv0 (set_cookie t b sr)"
  by (cases sr; cases "snd sr") (auto simp: set_cookie_def served_def)

lemma served_operator [handlers]:
  assumes "serving sv0 sv" and "\<And>sv'. serving sv0 sv' \<Longrightarrow> served w sv0 (k sv')"
  shows "served w sv0 (requireOperatorAuth html r k sv)"
  using assms by (auto simp: requireOperatorAuth_def intro!: served_cookie handlers) (auto simp: statuses_def)

lemma status_codes [handlers]:
  "200 \<in> statuses" "201 \<in> statuses" "202 \<in> statuses" "204 \<in> statuses" "301 \<in> statuses" "400 \<in> statuses" "401 \<in> statuses"
  "403 \<in> statuses" "404 \<in> statuses" "405 \<in> statuses" "409 \<in> statuses" "500 \<in> statuses" "check_status report \<in> statuses"
  by (simp_all add: statuses_def check_status_def)

lemma request_ranges [handlers]:
  "int64_range (cr_MaxAttempts (cleanup_request n))" "int64_range (cr_MaxAttempts (install_request m n))"
  "int64_range (cr_MaxAttempts (delete_request m n))" "int64_range (cr_MaxAttempts (repair_request m n))"
  "int64_range (cr_MaxAttempts (generate_job_request m q g))" "int64_range (cr_MaxAttempts (rpc_generate_job_request m q g p x))"
  "int64_range (cr_MaxAttempts (parent_request m pl i))" "int64_range (cr_MaxAttempts (matrix_request a b c nd))"
  by (simp_all add: cleanup_request_def install_request_def delete_request_def repair_request_def generate_job_request_def
      rpc_generate_job_request_def parent_request_def matrix_request_def zero_create_def int64_range_def)

subsection \<open>Workers and jobs\<close>

lemma worker_handlers [handlers]:
  assumes "serving sv0 sv"
  shows "served w sv0 (handleWorkerJoin e r sv)" "served w sv0 (handleWorkerHeartbeat e r sv)"
    "served w sv0 (handleWorkerLeave e r sv)" "served w sv0 (handleWorkerNextJob n e r sv)" "served w sv0 (handleWorkerModelCleanup n e r sv)"
  using assms
  by (auto simp: handleWorkerJoin_def handleWorkerHeartbeat_def handleWorkerLeave_def handleWorkerNextJob_def
      handleWorkerModelCleanup_def Let_def split: option.split intro!: handlers kept_reachable)

lemma worker_routes [handlers]: "serving sv0 sv \<Longrightarrow> served w sv0 (handleWorkerRoutes e r sv)"
  by (auto simp: handleWorkerRoutes_def split: list.split intro!: handlers)

lemma served_complete [handlers]: "serving sv0 sv \<Longrightarrow> served True sv0 (complete_job i req e sv)"
  unfolding complete_job_def
  by (rule served_on_state) (auto split: completion.split intro!: handlers kept_reachable)

lemma job_handlers [handlers]:
  assumes "serving sv0 sv"
  shows "served w sv0 (handleJobCancel i e r sv)" "served True sv0 (handleJobComplete i e r sv)"
    "served w sv0 (handleJobProgress i e r sv)" "served w sv0 (show_job i r sv)" "served w sv0 (handleJobs e r sv)"
    "served w sv0 (handleDistributedRuns e r sv)"
  using assms
  by (auto simp: handleJobCancel_def handleJobComplete_def handleJobProgress_def show_job_def handleJobs_def handleDistributedRuns_def Let_def
      split: option.split bool.split intro!: handlers kept_reachable complete_stage_reachable decode_create_range)

lemma job_routes [handlers]: "serving sv0 sv \<Longrightarrow> served True sv0 (handleJob e r sv)"
  by (auto simp: handleJob_def Let_def split: list.split intro!: handlers)

subsection \<open>CDIP\<close>

lemma served_stage [handlers]: "serving sv0 sv \<Longrightarrow> served w sv0 (handleCDIPStage e r sv)"
  unfolding handleCDIPStage_def Let_def
  by (auto split: list.split option.split intro!: handlers kept_reachable)

lemma served_call [handlers]:
  assumes "serving sv0 sv" and "\<And>s. reachable s \<Longrightarrow> reachable (fst (f s))"
  shows "served w sv0 (coordinator_call f body sv)"
  using assms unfolding coordinator_call_def by (auto split: sum.split intro!: handlers)

lemma served_run [handlers]:
  assumes "serving sv0 sv" and "\<And>s b. reachable s \<Longrightarrow> reachable (fst (fst (f (s, b))))"
  shows "served True sv0 (coordinator_run f body sv)"
proof -
  obtain s' b' x where f: "f (sv_state sv, sv_bus sv) = ((s', b'), x)" by (metis prod.exhaust)
  with assms(2) [of "sv_state sv" "sv_bus sv"] assms(1) have "serving sv0 (sv\<lparr>sv_state := s', sv_bus := b'\<rparr>)"
    by (auto simp: serving_def config_def)
  then show ?thesis by (cases x) (auto simp: coordinator_run_def f served_def intro!: served_answer [unfolded served_def] served_nothing [unfolded served_def] status_codes)
qed

lemmas coordinator_kept = prepare_reachable prefill_reachable decode_reachable complete_reachable mock_reachable advance_reachable

lemma served_cdip_job [handlers]: "serving sv0 sv \<Longrightarrow> served True sv0 (handleCDIPJob e r sv)"
  unfolding handleCDIPJob_def
  by (auto split: list.split intro!: handlers coordinator_kept)

lemma served_relay [handlers]:
  assumes "serving sv0 sv"
  shows "served True sv0 (relay_post r stream j sv)" "served True sv0 (relay_get r stream sv)"
  using assms
  by (auto simp: relay_post_def relay_get_def split: option.split prod.split outcome.split intro!: handlers)

lemma served_activation [handlers]: "serving sv0 sv \<Longrightarrow> served True sv0 (handleCDIPActivation e r sv)"
  by (auto simp: handleCDIPActivation_def requireCDIPActivationAuth_def Let_def split: list.split option.split intro!: handlers)

subsection \<open>Nodes, benchmarks and endpoints\<close>

lemma cluster_handlers [handlers]:
  assumes "serving sv0 sv"
  shows "served w sv0 (handleNodes e r sv)" "served w sv0 (handleBenchmarks e r sv)" "served w sv0 (handleClusterBenchmarks e r sv)"
    "served w sv0 (handleRuntimeStageProbes e r sv)" "served w sv0 (handleRuntimeRPCPool e r sv)"
    "served w sv0 (handleRuntimeRPCPoolRefresh e r sv)" "served w sv0 (handleRuntimeRPCPoolSmoke e r sv)"
  using assms
  by (auto simp: handleNodes_def handleBenchmarks_def handleClusterBenchmarks_def handleRuntimeStageProbes_def handleRuntimeRPCPool_def
      handleRuntimeRPCPoolRefresh_def handleRuntimeRPCPoolSmoke_def Let_def list_all_iff split: option.split prod.split
      intro!: handlers kept_reachable)

subsection \<open>Models, conversations and memories\<close>

lemma model_views [handlers]:
  assumes "serving sv0 sv"
  shows "served w sv0 (handleModelDetail m e r sv)" "served w sv0 (handleModelPlacement m e r sv)"
    "served w sv0 (handleModelDistributedPlan m e r sv)" "served w sv0 (handleModelDistributedRPCPlan m e r sv)"
    "served w sv0 (handleModelDistributedRPCReadiness m e r sv)" "served w sv0 (handleModels e r sv)"
  using assms
  by (auto simp: handleModelDetail_def handleModelPlacement_def handleModelDistributedPlan_def handleModelDistributedRPCPlan_def
      handleModelDistributedRPCReadiness_def handleModels_def Let_def intro!: handlers kept_reachable)

lemma model_jobs [handlers]:
  assumes "serving sv0 sv"
  shows "served w sv0 (handleModelInstall m e r sv)" "served w sv0 (handleModelDelete m e r sv)" "served w sv0 (handleModelRepair m e r sv)"
  using assms
  by (auto simp: handleModelInstall_def handleModelDelete_def handleModelRepair_def on_installed_model_def Let_def
      split: option.split prod.split bool.split intro!: handlers kept_reachable)

lemma busy_served [handlers]: "serving sv0 sv \<Longrightarrow> served w sv0 (busy_conversation i sv)"
  by (simp add: busy_conversation_def handlers)

lemma generate_served [handlers]:
  assumes "serving sv0 sv"
  shows "served w sv0 (handleModelGenerate m e r sv)" "served w sv0 (handleModelDistributedRPCGenerate m e r sv)"
  using assms
  by (auto simp: handleModelGenerate_def handleModelDistributedRPCGenerate_def Let_def
      split: option.split intro!: handlers kept_reachable)

text \<open>The stage jobs of a plan have a limit of one attempt.\<close>

lemma stage_requests_range:
  "distributedStageJobRequests parent input = Inr reqs \<Longrightarrow> list_all (\<lambda>req. int64_range (cr_MaxAttempts req)) reqs"
  by (auto simp: distributedStageJobRequests_def stage_requests_loop_Inr stage_job_request_def Let_def list_all_iff int64_range_def
      split: if_splits)

lemma distributed_served [handlers]: "serving sv0 sv \<Longrightarrow> served w sv0 (handleModelDistributedGenerate m e r sv)"
  by (auto simp: handleModelDistributedGenerate_def Let_def split: option.split sum.split
      intro!: handlers kept_reachable stage_requests_range)

lemma model_routes [handlers]: "serving sv0 sv \<Longrightarrow> served w sv0 (handleModel e r sv)"
  by (auto simp: handleModel_def model_action_def Let_def split: option.split intro!: handlers)

lemma conversation_handlers [handlers]:
  assumes "serving sv0 sv"
  shows "served w sv0 (handleConversations e r sv)" "served w sv0 (handleConversation e r sv)"
  using assms
  by (auto simp: handleConversations_def handleConversation_def Let_def split: option.split intro!: handlers kept_reachable)

lemma memory_handlers [handlers]:
  assumes "serving sv0 sv"
  shows "served w sv0 (handleMemories e r sv)" "served w sv0 (handleMemory e r sv)"
proof -
  have save: "served w sv0 (save_memory i status e r sv)" if "serving sv0 sv" "status \<in> statuses" for i status sv
    using that by (auto simp: save_memory_def split: option.split sum.split intro!: handlers kept_reachable)
  have "served w sv0 (handleMemoryPreview e r sv)" if "serving sv0 sv" for sv
    using that by (simp add: handleMemoryPreview_def Let_def split: option.split prod.split) (auto intro!: handlers)
  note save = save this
  show "served w sv0 (handleMemories e r sv)" "served w sv0 (handleMemory e r sv)"
    using assms by (auto simp: handleMemories_def handleMemory_def Let_def intro!: save handlers kept_reachable)
qed

subsection \<open>Pages and capacity\<close>

lemma baseline_served [handlers]:
  "serving sv0 sv \<Longrightarrow> (\<And>c. served w sv0 (k c sv)) \<Longrightarrow> served w sv0 (with_baseline b msg cur k sv)"
  by (auto simp: with_baseline_def Let_def split: option.split intro!: handlers)

lemma save_serving:
  assumes "serving sv0 sv" and "saveCapacitySnapshot e label (sv_state sv, sv_snapshots sv) = ((s, snaps), sn)"
  shows "serving sv0 (sv\<lparr>sv_state := s, sv_snapshots := snaps\<rparr>)"
proof -
  have "s = fst (capacitySnapshot e label (sv_state sv))"
    using assms(2) by (auto simp: saveCapacitySnapshot_def split: prod.splits)
  with summary_kept(3) [of "sv_state sv" e label] assms(1) show ?thesis by (simp add: serving_def config_def)
qed

lemma snapshots_served [handlers]: "serving sv0 sv \<Longrightarrow> served w sv0 (handleCapacitySnapshots e r sv)"
  unfolding handleCapacitySnapshots_def Let_def
  by (rule served_operator) (auto split: prod.split intro!: handlers intro: save_serving)

lemma page_handlers [handlers]:
  assumes "serving sv0 sv"
  shows "served w sv0 (handleHealth e r sv)" "served w sv0 (handleCluster e r sv)" "served w sv0 (handleCapacity e r sv)"
    "served w sv0 (handleInvite v e r sv)"
  using assms
  by (auto simp: handleHealth_def handleCluster_def handleCapacity_def handleInvite_def
      Let_def intro!: handlers kept_reachable)

lemma dashboard_handlers [handlers]:
  assumes "serving sv0 sv"
  shows "served w sv0 (handleDashboardStatus e r sv)" "served w sv0 (handleDashboard e r sv)"
  using assms
  by (auto simp: handleDashboardStatus_def handleDashboard_def Let_def split: prod.split intro!: handlers kept_reachable)

subsection \<open>All requests\<close>

text \<open>The requests that may be left without an answer: the completion of a job, a command to the coordinator and the relay.\<close>

definition may_wait :: "string \<Rightarrow> bool" where
  "may_wait path \<longleftrightarrow> list_ex (\<lambda>p. strip_prefix p path \<noteq> None) [''/v1/jobs/'', ''/v1/cdip/jobs/'', ''/v1/cdip/activations/'']"

lemma exact_served: "serving sv0 sv \<Longrightarrow> (p, h) \<in> set (exact_routes v) \<Longrightarrow> served w sv0 (h e r sv)"
  by (auto simp: exact_routes_def intro!: handlers)

lemma prefix_served:
  assumes "serving sv0 sv" and "(p, h) \<in> set prefix_routes" and "strip_prefix p path \<noteq> None"
  shows "served (may_wait path) sv0 (h e r sv)"
  using assms by (auto simp: prefix_routes_def may_wait_def strip_prefix_Some intro!: handlers)

lemma route_served:
  assumes "serving sv0 sv"
  shows "served (may_wait path) sv0 (route v path e r sv)"
proof (cases "map_of (exact_routes v) path")
  case (Some h)
  with assms show ?thesis by (auto simp: route_def dest: map_of_SomeD intro: exact_served)
next
  case None
  show ?thesis
  proof (cases "List.find (\<lambda>(p, h). strip_prefix p path \<noteq> None) prefix_routes")
    case (Some x)
    then obtain p h where x: "x = (p, h)" "(p, h) \<in> set prefix_routes" "strip_prefix p path \<noteq> None"
      by (auto simp: find_Some_iff) (metis nth_mem)
    with prefix_served [OF assms x(2,3)] Some None show ?thesis by (simp add: route_def)
  qed (use None assms in \<open>simp add: route_def handlers\<close>)
qed

lemma ServeHTTP_served: "serving sv0 sv \<Longrightarrow> served (may_wait (rq_Path r)) sv0 (ServeHTTP v e r sv)"
  by (auto simp: ServeHTTP_def Let_def intro!: handlers route_served)

text \<open>The states that a server comes to by requests and by the ticks of its background loops.\<close>

inductive server_run :: "string \<Rightarrow> ServerOptions \<Rightarrow> server \<Rightarrow> bool" for v opts where
  start: "server_run v opts (NewServerWithOptions opts (NewState now))"
| request: "server_run v opts sv \<Longrightarrow> server_run v opts (fst (ServeHTTP v e r sv))"
| advance: "server_run v opts sv \<Longrightarrow> server_run v opts (cdip_tick e envs sv)"
| check: "server_run v opts sv \<Longrightarrow> server_run v opts (rpc_health_tick e sv)"

lemma cdip_tick_serving: "serving sv0 sv \<Longrightarrow> serving sv0 (cdip_tick e envs sv)"
  using advance_loop_reachable [of "(sv_state sv, sv_bus sv)" memory_transport envs "Jobs (se_jobs e 0) (sv_state sv)"]
  by (auto simp: cdip_tick_def serving_def config_def advanceActiveCDIPJobs_def split: prod.split)

lemma rpc_health_tick_serving: "serving sv0 sv \<Longrightarrow> serving sv0 (rpc_health_tick e sv)"
  by (simp add: rpc_health_tick_def serving_def config_def refresh_kept)

lemma server_run_serving: "server_run v opts sv \<Longrightarrow> serving (NewServerWithOptions opts (NewState 0)) sv"
proof (induction rule: server_run.induct)
  case (start now)
  show ?case by (simp add: serving_def config_def NewServerWithOptions_def reachable.init)
next
  case (request sv e r)
  then show ?case using ServeHTTP_served by (simp add: served_def)
qed (simp_all add: cdip_tick_serving rpc_health_tick_serving)

subsection \<open>A small run, for the examples\<close>

text \<open>A server with a join token and an operator token, which one worker has joined.\<close>

definition demo_options :: ServerOptions where
  "demo_options = \<lparr>op_Addr = '':8080'', op_JoinToken = ''join'', op_OperatorToken = ''secret'', op_PublicURL = ''http://m/'',
     op_BackgroundCDIPAdvance = True, op_CDIPAdvanceEvery = 0, op_BackgroundRPCHealth = False, op_RPCHealthEvery = 0, op_RPCHealthTimeout = 0\<rparr>"

definition demo_request :: "string \<Rightarrow> string \<Rightarrow> string \<Rightarrow> request" where
  "demo_request meth path body = \<lparr>rq_Method = meth, rq_Path = path, rq_Host = ''m'', rq_Query = [], rq_Header = [], rq_Cookies = [],
     rq_Body = body, rq_TLS = False, rq_Context = \<lparr>ctx_done = False, ctx_first = False\<rparr>\<rparr>"

definition demo_join_request :: request where
  "demo_join_request = demo_request ''POST'' ''/v1/workers/join'' ''{\"node_name\":\"w\",\"role\":\"worker\",\"join_token\":\"join\"}''"

definition demo_server :: server where
  "demo_server = fst (ServeHTTP ''v1'' demo_rpc_env demo_join_request (NewServerWithOptions demo_options (NewState 5)))"


lemma demo_join_decoded: "decode_join (rq_Body demo_join_request) = Some \<lparr>jr_NodeName = ''w'', jr_Role = NodeRoleWorker, jr_Endpoint = [],
   jr_JoinToken = ''join'', jr_Resources = zero_resources\<rparr>" by code_simp

lemma demo_paths: "cleanPath ''/v1/workers/join'' = ''/v1/workers/join''" "cleanPath ''/v1/nodes'' = ''/v1/nodes''" by code_simp+

lemma demo_route: "\<not> redirected v ''/v1/workers/join''" "route v ''/v1/workers/join'' = handleWorkerJoin"
  "\<not> redirected v ''/v1/nodes''" "route v ''/v1/nodes'' = handleNodes"
  by (simp_all add: redirected_def route_def exact_routes_def)

lemma demo_server_nodes: "map (n_Name \<circ> snd) (nodes (sv_state demo_server)) = [''w'']"
  by (simp add: demo_server_def ServeHTTP_def demo_paths demo_route handleWorkerJoin_def
      demo_join_decoded [unfolded demo_join_request_def demo_request_def, simplified] demo_join_request_def demo_request_def
      NewServerWithOptions_def demo_options_def on_state_def answer_with_def RegisterWorker_def NewState_def
      scheduleQueuedJobsLocked_def mput_def Let_def demo_rpc_env_def demo_rpc_queue_def put_node_def)

lemma demo_server_run: "server_run ''v1'' demo_options demo_server"
  unfolding demo_server_def by (intro server_run.intros)

text \<open>
  C36. Whatever requests a server gets and however its background loops run in between, its store is in a state that the
  manager's operations reach, so its invariant holds, its options are the configured ones, and every request gets one of the
  twelve status codes, unless it is a completion of a job, a command to the coordinator or a call of the relay.
\<close>

theorem server_runs_are_well_formed:
  assumes "server_run v opts sv"
  shows "reachable (sv_state sv) \<and> state_wf (sv_state sv) \<and> config sv = config (NewServerWithOptions opts (NewState 0))
    \<and> (case snd (ServeHTTP v e r sv) of
         Reply status a c \<Rightarrow> status \<in> {200, 201, 202, 204, 301, 400, 401, 403, 404, 405, 409, 500}
       | _ \<Rightarrow> may_wait (rq_Path r))"
proof -
  have "serving (NewServerWithOptions opts (NewState 0)) sv" using assms by (rule server_run_serving)
  moreover from this have "written (may_wait (rq_Path r)) (snd (ServeHTTP v e r sv))"
    using ServeHTTP_served unfolding served_def by blast
  ultimately show ?thesis by (auto simp: serving_def statuses_def intro: reachable_wf split: reply.split)
qed

theorem server_runs_are_well_formed_witness:
  "server_run ''v1'' demo_options demo_server \<and> map (n_Name \<circ> snd) (nodes (sv_state demo_server)) = [''w'']
   \<and> state_wf (sv_state demo_server)
   \<and> (case snd (ServeHTTP ''v1'' demo_rpc_env (demo_request ''GET'' ''/v1/nodes'' []) demo_server) of
        Reply status a c \<Rightarrow> status \<in> {200, 201, 202, 204, 301, 400, 401, 403, 404, 405, 409, 500} | _ \<Rightarrow> False)"
proof -
  have "\<not> may_wait (rq_Path (demo_request ''GET'' ''/v1/nodes'' []))" by (simp add: may_wait_def demo_request_def)
  then show ?thesis
    using server_runs_are_well_formed [OF demo_server_run, where e = demo_rpc_env and r = "demo_request ''GET'' ''/v1/nodes'' []"]
      demo_server_run
      demo_server_nodes by (auto split: reply.splits)
qed

end
