(* ===== verification/Access.thy ===== *)
theory Access
  imports Serving
begin

section \<open>The operator's token guards the manager\<close>

text \<open>
  What a client can do that does not know the operator's token: the calls of workers, and nothing else. The relay is open to the
  nodes of the stage and of its neighbours only.
\<close>

text \<open>The calls of a worker.\<close>

definition worker_call :: "State \<Rightarrow> request \<Rightarrow> bool" where
  "worker_call s r \<longleftrightarrow>
     rq_Path r \<in> {''/v1/workers/join'', ''/v1/workers/heartbeat'', ''/v1/workers/leave''}
     \<or> (\<exists>n. rq_Path r = ''/v1/workers/'' @ n \<and> drop 1 (Split (CHR ''/'') n) = [''jobs'', ''next''])
     \<or> (\<exists>i. rq_Path r = ''/v1/jobs/'' @ i \<and> drop 1 (Split (CHR ''/'') i) \<in> {[''complete''], [''progress'']})
     \<or> rq_Path r = ''/v1/benchmarks'' \<and> rq_Method r = ''POST''
     \<or> (\<exists>p i j. Split (CHR ''/'') (TrimSlashes (TrimPrefix (rq_Path r) ''/v1/cdip/activations/'')) = [p, i, ''frames'']
          \<and> validateCDIPActivationStream p i s = Some j
          \<and> (TrimSpace (header_get r ''X-CMesh-Node-ID'') \<in> set (cdipActivationAllowedNodes j)
             \<or> TrimSpace (query_get r ''node_id'') \<in> set (cdipActivationAllowedNodes j)))"

definition refused :: "server \<Rightarrow> server \<times> reply \<Rightarrow> bool" where
  "refused sv sr \<longleftrightarrow> (\<exists>status a. sr = (sv, Reply status a None) \<and> (status \<in> {301, 401, 403, 404, 405} \<or> status = 200 \<and> a = Healthy))"

named_theorems refusals

lemma refused_answers [refusals]:
  "status \<in> {301, 401, 403, 404, 405} \<Longrightarrow> refused sv (answer_with status a sv)"
  "status \<in> {301, 401, 403, 404, 405} \<Longrightarrow> refused sv (http_error status msg sv)"
  "refused sv (not_found sv)" "refused sv (method_not_allowed sv)" "refused sv (handleHealth e r sv)"
  by (auto simp: refused_def http_error_def not_found_def method_not_allowed_def answer_with_def handleHealth_def)

lemma refused_operator [refusals]:
  "\<not> hasOperatorAuth sv r \<Longrightarrow> refused sv (requireOperatorAuth html r k sv)"
  by (auto simp: requireOperatorAuth_def hasOperatorAuth_def intro!: refusals)

lemma guarded_handlers [refusals]:
  assumes "\<not> hasOperatorAuth sv r"
  shows "refused sv (handleInvite v e r sv)" "refused sv (handleCluster e r sv)" "refused sv (handleCapacitySnapshots e r sv)"
    "refused sv (handleCapacity e r sv)" "refused sv (handleDashboardStatus e r sv)" "refused sv (handleDistributedRuns e r sv)"
    "refused sv (handleRuntimeStageProbes e r sv)" "refused sv (handleRuntimeRPCPool e r sv)"
    "refused sv (handleRuntimeRPCPoolRefresh e r sv)" "refused sv (handleRuntimeRPCPoolSmoke e r sv)" "refused sv (handleNodes e r sv)"
    "refused sv (handleClusterBenchmarks e r sv)" "refused sv (handleModels e r sv)" "refused sv (handleConversations e r sv)"
    "refused sv (handleMemories e r sv)" "refused sv (handleJobs e r sv)" "refused sv (handleModel e r sv)"
    "refused sv (handleConversation e r sv)" "refused sv (handleMemory e r sv)" "refused sv (handleCDIPJob e r sv)"
    "refused sv (handleCDIPStage e r sv)" "refused sv (handleDashboard e r sv)"
    "rq_Method r \<noteq> ''POST'' \<Longrightarrow> refused sv (handleBenchmarks e r sv)"
    "refused sv (handleWorkerModelCleanup n e r sv)" "refused sv (handleJobCancel i e r sv)" "refused sv (show_job i r sv)"
  using assms
  by (auto simp: handleInvite_def handleCluster_def handleCapacitySnapshots_def handleCapacity_def handleDashboardStatus_def
      handleDistributedRuns_def handleRuntimeStageProbes_def handleRuntimeRPCPool_def handleRuntimeRPCPoolRefresh_def
      handleRuntimeRPCPoolSmoke_def handleNodes_def handleClusterBenchmarks_def handleModels_def handleConversations_def handleMemories_def
      handleJobs_def handleModel_def handleConversation_def handleMemory_def handleCDIPJob_def handleCDIPStage_def handleDashboard_def
      handleBenchmarks_def handleWorkerModelCleanup_def handleJobCancel_def show_job_def intro!: refusals)

lemma refused_worker:
  assumes "\<not> hasOperatorAuth sv r" and "\<not> worker_call (sv_state sv) r" and "rq_Path r = ''/v1/workers/'' @ t"
  shows "refused sv (handleWorkerRoutes e r sv)"
proof -
  have "drop 1 (Split (CHR ''/'') t) \<noteq> [''jobs'', ''next'']" using assms(2,3) by (auto simp: worker_call_def)
  then show ?thesis
    using assms(1,3) by (auto simp: handleWorkerRoutes_def TrimPrefix_def split: list.split intro!: refusals)
qed

lemma refused_job:
  assumes "\<not> hasOperatorAuth sv r" and "\<not> worker_call (sv_state sv) r" and "rq_Path r = ''/v1/jobs/'' @ t"
  shows "refused sv (handleJob e r sv)"
proof -
  have "drop 1 (Split (CHR ''/'') t) \<notin> {[''complete''], [''progress'']}" using assms(2,3) by (auto simp: worker_call_def)
  then show ?thesis
    using assms(1,3) by (auto simp: handleJob_def TrimPrefix_def split: list.split intro!: refusals)
qed

lemma refused_activation:
  assumes "\<not> hasOperatorAuth sv r" and "\<not> worker_call (sv_state sv) r"
  shows "refused sv (handleCDIPActivation e r sv)"
  using assms
  by (auto simp: handleCDIPActivation_def requireCDIPActivationAuth_def worker_call_def Let_def split: list.split option.split
      intro!: refusals)

lemma refused_prefix:
  assumes "\<not> hasOperatorAuth sv r" and "\<not> worker_call (sv_state sv) r" and "(p, h) \<in> set prefix_routes"
    and "strip_prefix p (rq_Path r) \<noteq> None"
  shows "refused sv (h e r sv)"
  using assms(3,4) refused_worker [OF assms(1,2)] refused_job [OF assms(1,2)]
  by (auto simp: prefix_routes_def strip_prefix_Some intro!: guarded_handlers refused_activation assms(1,2))

lemma refused_exact:
  assumes "\<not> hasOperatorAuth sv r" and "\<not> worker_call (sv_state sv) r" and "map_of (exact_routes v) (rq_Path r) = Some h"
  shows "refused sv (h e r sv)"
proof -
  have "(rq_Path r, h) \<in> set (exact_routes v)" using assms(3) by (rule map_of_SomeD)
  then show ?thesis
    using assms(1,2) by (auto simp: exact_routes_def worker_call_def intro!: guarded_handlers refused_answers)
qed

lemma refused_route:
  assumes "\<not> hasOperatorAuth sv r" and "\<not> worker_call (sv_state sv) r"
  shows "refused sv (route v (rq_Path r) e r sv)"
proof (cases "map_of (exact_routes v) (rq_Path r)")
  case (Some h)
  then show ?thesis using refused_exact [OF assms Some] by (simp add: route_def)
next
  case None
  show ?thesis
  proof (cases "List.find (\<lambda>(p, h). strip_prefix p (rq_Path r) \<noteq> None) prefix_routes")
    case (Some x)
    then obtain p h where x: "x = (p, h)" "(p, h) \<in> set prefix_routes" "strip_prefix p (rq_Path r) \<noteq> None"
      by (auto simp: find_Some_iff) (metis nth_mem)
    with refused_prefix [OF assms x(2,3)] Some None show ?thesis by (simp add: route_def)
  qed (use None assms(1) in \<open>simp add: route_def guarded_handlers\<close>)
qed

text \<open>
  C37. When an operator token is configured, a request that does not carry it changes nothing in the server, sets no cookie and gets nothing but a
  redirect, a refusal or the health message, unless it is a call of a worker: joining, heartbeat and leaving, fetching, progress and
  completion of jobs, posting a benchmark, or the relay of a stream for a node that belongs to it.
\<close>

theorem operator_token_guards_manager:
  assumes "\<not> hasOperatorAuth sv r" and "\<not> worker_call (sv_state sv) r"
  shows "\<exists>status a. ServeHTTP v e r sv = (sv, Reply status a None)
    \<and> (status \<in> {301, 401, 403, 404, 405} \<or> status = 200 \<and> a = Healthy)"
proof -
  have "refused sv (ServeHTTP v e r sv)"
    using refused_route [OF assms] by (auto simp: ServeHTTP_def Let_def intro!: refused_answers)
  then show ?thesis by (simp add: refused_def)
qed

theorem operator_token_guards_manager_witness:
  "sv_operatorToken demo_server = ''secret''
   \<and> fst (ServeHTTP ''v1'' demo_rpc_env (demo_request ''POST'' ''/v1/jobs'' ''{}'') demo_server) = demo_server"
proof -
  let ?r = "demo_request ''POST'' ''/v1/jobs'' ''{}''"
  have "config demo_server = config (NewServerWithOptions demo_options (NewState 0))"
    using server_run_serving [OF demo_server_run] by (simp add: serving_def)
  from arg_cong [OF this, of sv_operatorToken] have token: "sv_operatorToken demo_server = ''secret''"
    by (simp add: config_def NewServerWithOptions_def demo_options_def)
  then have "\<not> hasOperatorAuth demo_server ?r"
    by (simp add: hasOperatorAuth_def demo_request_def query_get_def header_get_def TrimPrefix_def)
  moreover have "\<not> worker_call (sv_state demo_server) ?r"
    by (auto simp: worker_call_def demo_request_def TrimPrefix_def TrimSlashes_def TrimRightSlash_def)
  ultimately show ?thesis
    using operator_token_guards_manager [of demo_server ?r "''v1''" demo_rpc_env] token by auto
qed

end
