(* ===== verification/Progress.thy ===== *)
theory Progress
  imports RpcHealth Guarantees
begin

section \<open>Stages come to an end\<close>

text \<open>
  The states of a stage are ranked by the steps that are left to them; every operation of the manager keeps the rank of a stage or
  lowers it. So in a run of any length a stage changes its state at most five times.
\<close>

fun steps_left :: "StageState \<Rightarrow> nat" where
  "steps_left StagePlanned = 5"
| "steps_left StagePreparing = 4"
| "steps_left StageReady = 3"
| "steps_left StagePrefill = 2"
| "steps_left StageDecode = 1"
| "steps_left _ = 0"

lemma steps_left_bound: "steps_left x \<le> 5"
  by (cases x) simp_all

lemma step_lowers: "stage_step x y \<Longrightarrow> x = y \<or> steps_left y < steps_left x"
  by (cases x) (auto simp: stage_step_simps)

lemma steps_lower: "stage_step\<^sup>*\<^sup>* x y \<Longrightarrow> x = y \<or> steps_left y < steps_left x"
  by (induction rule: rtranclp_induct) (use step_lowers in fastforce)+

lemma lowering_run:
  "successively (\<lambda>x y. x = y \<or> steps_left y < steps_left x) (x # xs) \<Longrightarrow> length (remdups_adj (x # xs)) \<le> Suc (steps_left x)"
proof (induction xs arbitrary: x)
  case (Cons y ys)
  then have "length (remdups_adj (y # ys)) \<le> Suc (steps_left y)" by simp
  with Cons.prems show ?case by auto
qed simp

subsection \<open>Runs\<close>

fun fresh_run :: "manager_op list \<Rightarrow> State \<Rightarrow> bool" where
  "fresh_run [] s = True"
| "fresh_run (op # ops) s = (op_ok op \<and> fresh_ids op s \<and> fresh_run ops (exec op s))"

definition stage_of :: "id \<Rightarrow> State \<Rightarrow> StageState" where
  "stage_of i s = (case mget (jobs s) i of None \<Rightarrow> StageUnset | Some j \<Rightarrow> current_stage j)"

fun stages_seen :: "id \<Rightarrow> manager_op list \<Rightarrow> State \<Rightarrow> StageState list" where
  "stages_seen i [] s = [stage_of i s]"
| "stages_seen i (op # ops) s = stage_of i s # stages_seen i ops (exec op s)"

lemma exec_stage:
  assumes "reachable s" and "op_ok op" and "fresh_ids op s" and "mget (jobs s) i = Some j"
  obtains k where "mget (jobs (exec op s)) i = Some k" "stage_step\<^sup>*\<^sup>* (current_stage j) (current_stage k)"
proof -
  have "job_ids_ok s" using assms(1) by (intro state_wf_ids reachable_wf)
  then show ?thesis
    using job_changes_get [OF stages.exec_all_changes [OF _ assms(2,3)] assms(4)] that by (auto simp: stage_moves_def)
qed

lemma stages_seen_hd: "\<exists>xs. stages_seen i ops s = stage_of i s # xs"
  by (cases ops) simp_all

lemma stages_seen_lower:
  assumes "reachable s" and "fresh_run ops s" and "mget (jobs s) i \<noteq> None"
  shows "successively (\<lambda>x y. x = y \<or> steps_left y < steps_left x) (stages_seen i ops s)"
  using assms
proof (induction ops arbitrary: s)
  case (Cons op ops)
  then obtain j where j: "mget (jobs s) i = Some j" by auto
  have op: "op_ok op" "fresh_ids op s" using Cons.prems(2) by simp_all
  obtain k where k: "mget (jobs (exec op s)) i = Some k" "stage_step\<^sup>*\<^sup>* (current_stage j) (current_stage k)"
    using exec_stage [OF Cons.prems(1) op j] .
  have "reachable (exec op s)" using Cons.prems(1) op(1) by (rule reachable.step)
  with Cons k(1) have "successively (\<lambda>x y. x = y \<or> steps_left y < steps_left x) (stages_seen i ops (exec op s))" by simp
  then show ?case
    using steps_lower [OF k(2)] stages_seen_hd [of i ops "exec op s"] j k(1) by (auto simp: stage_of_def)
qed simp

text \<open>
  C38. In a run of the manager, however long, the stage of a distributed job changes its state at most five times: it cannot be
  prepared, started or failed for ever.
\<close>

theorem stage_changes_terminate:
  assumes "reachable s" and "fresh_run ops s" and "mget (jobs s) i = Some j"
  shows "length (remdups_adj (stages_seen i ops s)) \<le> 6"
proof -
  obtain xs where xs: "stages_seen i ops s = stage_of i s # xs" using stages_seen_hd by blast
  have "length (remdups_adj (stages_seen i ops s)) \<le> Suc (steps_left (stage_of i s))"
    using lowering_run stages_seen_lower [OF assms(1,2), of i] assms(3) unfolding xs by simp
  with steps_left_bound [of "stage_of i s"] show ?thesis by simp
qed

text \<open>The bound is reached: a stage that goes through the whole pipeline, with an abort that comes too late.\<close>

definition demo_stage_ops :: "manager_op list" where
  "demo_stage_ops = map (\<lambda>st. OpStage 20 ''job-01'' st [])
     [StagePreparing, StageReady, StagePreparing, StagePrefill, StageDecode, StageCompleted, StageAborted]"

definition demo_stage_request :: CreateRequest where
  "demo_stage_request = demo_job_request\<lparr>cr_Type := JobGenerateStage, cr_CDIPState := StagePlanned, cr_NoAutoAssign := True\<rparr>"

definition demo_stage_state :: State where
  "demo_stage_state = exec (OpCreate (Some [1]) 15 (demo_env 15) demo_stage_request) demo_registered"

theorem stage_changes_terminate_witness:
  "length (stages_seen ''job-01'' demo_stage_ops demo_stage_state) = 8
   \<and> length (remdups_adj (stages_seen ''job-01'' demo_stage_ops demo_stage_state)) = 6"
proof -
  have "reachable demo_stage_state"
    unfolding demo_stage_state_def demo_registered_def
    by (intro reachable.intros) (simp_all add: demo_stage_request_def demo_request_ok)
  moreover have "fresh_run demo_stage_ops demo_stage_state" by (simp add: demo_stage_ops_def fresh_ids_def)
  moreover have "mget (jobs demo_stage_state) ''job-01'' \<noteq> None" by code_simp
  ultimately have "length (remdups_adj (stages_seen ''job-01'' demo_stage_ops demo_stage_state)) \<le> 6"
    using stage_changes_terminate by blast
  moreover have "6 \<le> length (remdups_adj (stages_seen ''job-01'' demo_stage_ops demo_stage_state))" by code_simp
  ultimately have "length (remdups_adj (stages_seen ''job-01'' demo_stage_ops demo_stage_state)) = 6" by (rule le_antisym)
  then show ?thesis by (simp add: demo_stage_ops_def)
qed

end
