(* ===== verification/Wire.thy ===== *)
theory Wire
  imports Serving Demo
begin

section \<open>The relay end to end: workers and manager over HTTP\<close>

text \<open>
  The HTTP transport of a worker (HttpTransport) put together with the handler of the manager that relays its frames
  (WorkerRequests): the client's requests are what \<open>ServeHTTP\<close> gets, and what \<open>writeJSON\<close> writes is what the client reads. A
  request that is not answered gives no response. Only the text of a frame is spelled out, that of the other answers is an argument.
\<close>

definition query_of :: "string \<Rightarrow> (string \<times> string) list" where
  "query_of q = (if q = [] then [] else map (\<lambda>p. (takeWhile (\<lambda>c. c \<noteq> CHR ''='') p, drop 1 (dropWhile (\<lambda>c. c \<noteq> CHR ''='') p)))
     (Split (CHR ''&'') q))"

definition request_of :: "string \<Rightarrow> http_request \<Rightarrow> request option" where
  "request_of base hq = map_option (\<lambda>gs.
     \<lparr>rq_Method = hq_Method hq, rq_Path = takeWhile (\<lambda>c. c \<noteq> CHR ''?'') gs, rq_Host = [],
      rq_Query = query_of (drop 1 (dropWhile (\<lambda>c. c \<noteq> CHR ''?'') gs)), rq_Header = hq_Header hq, rq_Cookies = [], rq_Body = hq_Body hq,
      rq_TLS = False, rq_Context = Background\<rparr>) (strip_prefix base (hq_URL hq))"

definition written_body :: "(answer \<Rightarrow> string) \<Rightarrow> answer \<Rightarrow> string" where
  "written_body other a = (case a of FrameBody f \<Rightarrow> marshal_frame f @ [CHR 0x0A] | _ \<Rightarrow> other a)"

definition client_of :: "string \<Rightarrow> string \<Rightarrow> server_env \<Rightarrow> (answer \<Rightarrow> string) \<Rightarrow> server http_client" where
  "client_of base v e other hq sv =
     (case request_of base hq of
        None \<Rightarrow> (sv, None)
      | Some r \<Rightarrow>
        (case ServeHTTP v e r sv of
           (sv', Reply status a c) \<Rightarrow> (sv', Some \<lparr>hp_StatusCode = status, hp_Body = written_body other a\<rparr>)
         | (sv', _) \<Rightarrow> (sv', None)))"

subsection \<open>Paths\<close>

text \<open>Identifiers that need no escaping in a path, as those that the manager makes.\<close>

definition plain :: "string \<Rightarrow> bool" where
  "plain i \<longleftrightarrow> i \<noteq> [] \<and> list_all unreserved i \<and> CHR ''.'' \<notin> set i"

lemma plain_chars:
  assumes "plain i"
  shows "i \<noteq> []" "CHR ''/'' \<notin> set i" "CHR ''?'' \<notin> set i" "i \<noteq> ''.''" "i \<noteq> ''..''"
proof -
  have "\<not> unreserved (CHR ''/'')" "\<not> unreserved (CHR ''?'')" by code_simp+
  with assms show "i \<noteq> []" "CHR ''/'' \<notin> set i" "CHR ''?'' \<notin> set i" "i \<noteq> ''.''" "i \<noteq> ''..''"
    by (auto simp: plain_def list_all_iff)
qed

lemma Split_last: "c \<notin> set xs \<Longrightarrow> Split c xs = [xs]"
  by (induction xs) auto

lemma Split_first: "c \<notin> set xs \<Longrightarrow> Split c (xs @ c # ys) = xs # Split c ys"
  by (induction xs) auto

definition relay_path :: "StreamID \<Rightarrow> string" where
  "relay_path stream = ''/v1/cdip/activations/'' @ sid_ParentJobID stream @ ''/'' @ sid_StageJobID stream @ ''/frames''"

definition plain_stream :: "StreamID \<Rightarrow> bool" where
  "plain_stream stream \<longleftrightarrow> plain (sid_ParentJobID stream) \<and> plain (sid_StageJobID stream)"

lemma relay_parts:
  assumes "plain_stream stream"
  shows "Split (CHR ''/'') (tl (relay_path stream))
      = [''v1'', ''cdip'', ''activations'', sid_ParentJobID stream, sid_StageJobID stream, ''frames'']"
    and "Split (CHR ''/'') (TrimSlashes (TrimPrefix (relay_path stream) ''/v1/cdip/activations/''))
      = [sid_ParentJobID stream, sid_StageJobID stream, ''frames'']"
proof -
  obtain p i where s: "plain p" "plain i" "sid_ParentJobID stream = p" "sid_StageJobID stream = i"
    using assms by (auto simp: plain_stream_def)
  note no = plain_chars [OF s(1)] plain_chars [OF s(2)]
  have parts: "Split (CHR ''/'') (p @ CHR ''/'' # i @ ''/frames'') = [p, i, ''frames'']"
    using Split_first [OF no(2)] Split_first [OF no(7), of "''frames''"] Split_last [of "CHR ''/''" "''frames''"] by simp
  then show "Split (CHR ''/'') (tl (relay_path stream)) = [''v1'', ''cdip'', ''activations'', sid_ParentJobID stream, sid_StageJobID stream, ''frames'']"
    by (simp add: relay_path_def s)
  obtain c cs where c: "p = c # cs" "c \<noteq> CHR ''/''" using no(1,2) by (cases p) auto
  then have "TrimSlashes (p @ CHR ''/'' # i @ ''/frames'') = p @ CHR ''/'' # i @ ''/frames''"
    by (simp add: TrimSlashes_def TrimRightSlash_def)
  with parts show "Split (CHR ''/'') (TrimSlashes (TrimPrefix (relay_path stream) ''/v1/cdip/activations/''))
      = [sid_ParentJobID stream, sid_StageJobID stream, ''frames'']"
    by (simp add: relay_path_def s TrimPrefix_def)
qed

lemma relay_path_clean: "plain_stream stream \<Longrightarrow> cleanPath (relay_path stream) = relay_path stream"
  using relay_parts(1) [of stream] plain_chars [of "sid_ParentJobID stream"] plain_chars [of "sid_StageJobID stream"]
  by (simp add: cleanPath_def plain_stream_def) (simp add: relay_path_def)

lemma relay_routed:
  assumes "plain_stream stream"
  shows "\<not> redirected v (relay_path stream)" "route v (relay_path stream) = handleCDIPActivation"
  using plain_chars [of "sid_ParentJobID stream"] assms
  by (simp_all add: redirected_def route_def exact_routes_def prefix_routes_def relay_path_def plain_stream_def)

lemma relay_dispatch:
  "plain_stream stream \<Longrightarrow> rq_Path r = relay_path stream \<Longrightarrow> ServeHTTP v e r sv = handleCDIPActivation e r sv"
  by (simp add: ServeHTTP_def relay_path_clean relay_routed Let_def)

subsection \<open>One frame\<close>

text \<open>The worker may use the stream: no token is configured, it has the operator's token, or its node belongs to the stream.\<close>

definition admitted :: "server \<Rightarrow> HTTPActivationTransport \<Rightarrow> Job \<Rightarrow> bool" where
  "admitted sv t j \<longleftrightarrow> sv_operatorToken sv = []
     \<or> \<not> blank (ht_operatorToken t) \<and> ht_operatorToken t = sv_operatorToken sv
     \<or> \<not> blank (ht_nodeID t) \<and> TrimSpace (ht_nodeID t) \<in> set (cdipActivationAllowedNodes j)"

definition relay_open :: "server \<Rightarrow> HTTPActivationTransport \<Rightarrow> StreamID \<Rightarrow> bool" where
  "relay_open sv t stream \<longleftrightarrow> plain_stream stream \<and> CHR ''?'' \<notin> set (relay_path stream)
     \<and> (\<exists>j. validateCDIPActivationStream (sid_ParentJobID stream) (sid_StageJobID stream) (sv_state sv) = Some j \<and> admitted sv t j)
     \<and> (\<forall>ch. mget (mt_streams (sv_bus sv)) stream = Some ch \<longrightarrow> \<not> ch_closed ch)"

lemma relay_path_query: "plain_stream stream \<Longrightarrow> CHR ''?'' \<notin> set (relay_path stream)"
  using plain_chars [of "sid_ParentJobID stream"] plain_chars [of "sid_StageJobID stream"]
  by (auto simp: plain_stream_def relay_path_def)

lemma admitted_headers:
  assumes "admitted sv t j" and "rq_Header r = hs @ authorize t" and "list_all (\<lambda>h. map lower_char (fst h) = ''content-type'') hs"
  shows "requireCDIPActivationAuth r j k sv = k sv"
proof -
  have lower: "map lower_char ''X-CMesh-Operator-Token'' = ''x-cmesh-operator-token''"
    "map lower_char ''X-CMesh-Node-ID'' = ''x-cmesh-node-id''" by code_simp+
  have skip: "header_get r n = (case List.find (\<lambda>(m, v). map lower_char m = map lower_char n) (authorize t) of None \<Rightarrow> [] | Some (m, v) \<Rightarrow> v)"
    if "map lower_char n \<noteq> ''content-type''" for n
    using assms(3) that unfolding header_get_def assms(2) by (induction hs) (auto simp: case_prod_beta)
  have "header_get r ''X-CMesh-Operator-Token'' = ht_operatorToken t" if "\<not> blank (ht_operatorToken t)"
    using that skip [of "''X-CMesh-Operator-Token''"] by (simp add: lower authorize_def)
  moreover have "header_get r ''X-CMesh-Node-ID'' = ht_nodeID t" if "\<not> blank (ht_nodeID t)"
    using that skip [of "''X-CMesh-Node-ID''"] by (simp add: lower authorize_def)
  ultimately show ?thesis
    using assms(1) by (auto simp: admitted_def requireCDIPActivationAuth_def hasOperatorAuth_def Let_def blank_def)
qed

lemma relay_request:
  assumes "plain_stream stream" and "hq_URL hq = ht_managerURL t @ relay_path stream @ q" and "q = [] \<or> hd q = CHR ''?''"
  obtains r where "request_of (ht_managerURL t) hq = Some r" "rq_Method r = hq_Method hq" "rq_Path r = relay_path stream"
    "rq_Header r = hq_Header hq" "rq_Body r = hq_Body hq" "rq_Context r = Background"
proof -
  have "strip_prefix (ht_managerURL t) (hq_URL hq) = Some (relay_path stream @ q)"
    using assms(2) by (simp add: strip_prefix_Some)
  moreover have "takeWhile (\<lambda>c. c \<noteq> CHR ''?'') (relay_path stream @ q) = relay_path stream"
    using relay_path_query [OF assms(1)] assms(3) by (cases q) (auto simp: takeWhile_append)
  ultimately show ?thesis using that by (auto simp: request_of_def)
qed

lemma relay_handled:
  assumes "plain_stream stream" and "rq_Path r = relay_path stream"
    and "validateCDIPActivationStream (sid_ParentJobID stream) (sid_StageJobID stream) (sv_state sv) = Some j"
    and "\<And>k. requireCDIPActivationAuth r j k sv = k sv"
  shows "ServeHTTP v e r sv = (if rq_Method r = ''POST'' then relay_post r stream j sv
    else if rq_Method r = ''GET'' then relay_get r stream sv else method_not_allowed sv)"
proof -
  obtain p i where st: "stream = \<lparr>sid_ParentJobID = p, sid_StageJobID = i\<rparr>" by (cases stream)
  show ?thesis
    using plain_chars(1) [of p] plain_chars(1) [of i] assms relay_parts [OF assms(1)] relay_dispatch [OF assms(1,2), of v e sv]
    unfolding st by (simp add: handleCDIPActivation_def plain_stream_def)
qed

definition good_frame :: "StreamID \<Rightarrow> ActivationFrame \<Rightarrow> bool" where
  "good_frame stream f \<longleftrightarrow> ActivationFrame_Validate f = None \<and> clean_chunk (af_Header f) \<and> frame_of_stream f stream"

lemma good_stream: "good_frame stream f \<Longrightarrow> validateStreamID stream = None"
  by (auto simp: good_frame_def ActivationFrame_Validate_def ActivationChunk_Validate_def frame_of_stream_def validateStreamID_def
      err_seq_def split: option.splits if_splits)

lemma send_frame:
  assumes "relay_open sv t stream" and "good_frame stream f" and "int (length (queued (sv_bus sv) stream)) < mt_buffer (sv_bus sv)"
  obtains b where "http_Send (client_of (ht_managerURL t) v e other) t c stream f sv = (sv\<lparr>sv_bus := b\<rparr>, Returns ())"
    "queued b stream = queued (sv_bus sv) stream @ [f]" "mt_buffer b = mt_buffer (sv_bus sv)" "relay_open (sv\<lparr>sv_bus := b\<rparr>) t stream"
proof -
  from assms(1) obtain j where j: "plain_stream stream" "admitted sv t j"
      "validateCDIPActivationStream (sid_ParentJobID stream) (sid_StageJobID stream) (sv_state sv) = Some j"
      "\<And>ch. mget (mt_streams (sv_bus sv)) stream = Some ch \<Longrightarrow> \<not> ch_closed ch"
    by (auto simp: relay_open_def)
  define hq where "hq = \<lparr>hq_Method = ''POST'', hq_URL = streamURL t stream,
    hq_Header = (''Content-Type'', ''application/json'') # authorize t, hq_Body = marshal_frame f\<rparr>"
  obtain r where r: "request_of (ht_managerURL t) hq = Some r" "rq_Method r = ''POST''" "rq_Path r = relay_path stream"
      "rq_Header r = hq_Header hq" "rq_Body r = marshal_frame f" "rq_Context r = Background"
    using relay_request [OF j(1), of hq t "[]"] by (auto simp: hq_def streamURL_def relay_path_def)
  have f: "ActivationFrame_Validate f = None" "decode_frame (marshal_frame f) = Some f" "frame_of_stream f stream"
    using assms(2) by (simp_all add: good_frame_def decode_marshal_frame)
  obtain b1 where b1: "\<And>d. memory_OpenWriter Background stream d (sv_bus sv) = (b1, Returns ())"
      and ch: "mget (mt_streams b1) stream = Some \<lparr>ch_frames = queued (sv_bus sv) stream, ch_closed = False\<rparr>"
      and buf: "mt_buffer b1 = mt_buffer (sv_bus sv)"
  proof (cases "mget (mt_streams (sv_bus sv)) stream")
    case None
    then show ?thesis
      using that [of "put_stream stream \<lparr>ch_frames = [], ch_closed = False\<rparr> (sv_bus sv)"] good_stream [OF assms(2)]
      by (simp add: memory_OpenWriter_def open_stream_def Background_def queued_None)
  next
    case (Some ch)
    then show ?thesis
      using that [of "sv_bus sv"] good_stream [OF assms(2)] j(4) [OF Some]
      by (cases ch) (simp add: memory_OpenWriter_def open_stream_def Background_def queued_def)
  qed
  define b where "b = put_stream stream \<lparr>ch_frames = queued (sv_bus sv) stream @ [f], ch_closed = False\<rparr> b1"
  have "memory_Send Background stream f b1 = (b, Returns ())"
    using f(1) ch buf assms(3) by (simp add: memory_Send_def Background_def b_def)
  then have "relay_post r stream j sv = (sv\<lparr>sv_bus := b\<rparr>, Reply 202 (FrameAccepted stream (ac_Sequence (af_Header f)) (int (length (af_Payload f)))) None)"
    using f b1 r by (simp add: relay_post_def frame_of_stream_def answer_with_def)
  moreover have "map lower_char ''Content-Type'' = ''content-type''" by code_simp
  then have "requireCDIPActivationAuth r j k sv = k sv" for k
    by (intro admitted_headers [OF j(2), of r "[(''Content-Type'', ''application/json'')]"]) (simp_all add: r hq_def del: list.map)
  ultimately have "ServeHTTP v e r sv = (sv\<lparr>sv_bus := b\<rparr>, Reply 202 (FrameAccepted stream (ac_Sequence (af_Header f)) (int (length (af_Payload f)))) None)"
    using relay_handled [OF j(1) r(3) j(3)] r(2) by simp
  then have "http_Send (client_of (ht_managerURL t) v e other) t c stream f sv = (sv\<lparr>sv_bus := b\<rparr>, Returns ())"
    using f r(1) by (simp add: http_Send_def client_of_def hq_def [symmetric])
  moreover have "relay_open (sv\<lparr>sv_bus := b\<rparr>) t stream"
    using assms(1) j by (auto simp: relay_open_def admitted_def b_def)
  ultimately show ?thesis using that [of b] buf by (simp add: b_def)
qed

lemma receive_frame:
  assumes "relay_open sv t stream" and "good_frame stream f" and "queued (sv_bus sv) stream = f # fs"
  obtains b where "http_Receive (client_of (ht_managerURL t) v e other) t c stream sv = (sv\<lparr>sv_bus := b\<rparr>, Returns f)"
    "queued b stream = fs" "mt_buffer b = mt_buffer (sv_bus sv)" "relay_open (sv\<lparr>sv_bus := b\<rparr>) t stream"
proof -
  from assms(1) obtain j where j: "plain_stream stream" "admitted sv t j"
      "validateCDIPActivationStream (sid_ParentJobID stream) (sid_StageJobID stream) (sv_state sv) = Some j"
      "\<And>ch. mget (mt_streams (sv_bus sv)) stream = Some ch \<Longrightarrow> \<not> ch_closed ch"
    by (auto simp: relay_open_def)
  define q where "q = ''?timeout_ms='' @ show_int (maxInt64 1 (ht_pollTimeout t div 1000000))"
  define hq where "hq = \<lparr>hq_Method = ''GET'', hq_URL = streamURL t stream @ q, hq_Header = authorize t, hq_Body = []\<rparr>"
  obtain r where r: "request_of (ht_managerURL t) hq = Some r" "rq_Method r = ''GET''" "rq_Path r = relay_path stream"
      "rq_Header r = hq_Header hq" "rq_Context r = Background"
    using relay_request [OF j(1), of hq t q] by (auto simp: hq_def q_def streamURL_def relay_path_def)
  have f: "ActivationFrame_Validate f = None" "decode_frame (marshal_frame f @ [CHR 0x0A]) = Some f" "frame_of_stream f stream"
    using assms(2) by (simp_all add: good_frame_def decode_marshal_frame)
  obtain ch where ch: "mget (mt_streams (sv_bus sv)) stream = Some ch" "ch_frames ch = f # fs" "\<not> ch_closed ch"
    using assms(3) j(4) by (auto simp: queued_def split: option.splits)
  define b where "b = put_stream stream (ch\<lparr>ch_frames := fs\<rparr>) (sv_bus sv)"
  have "memory_OpenReader Background stream (sv_bus sv) = (sv_bus sv, Returns ())"
    using ch good_stream [OF assms(2)] by (simp add: memory_OpenReader_def open_stream_def Background_def)
  moreover have "memory_Receive Background stream (sv_bus sv) = (b, Returns f)"
    using ch by (simp add: memory_Receive_def Background_def b_def)
  ultimately have "relay_get r stream sv = (sv\<lparr>sv_bus := b\<rparr>, Reply 200 (FrameBody f) None)"
    using r by (simp add: relay_get_def relay_receive_def answer_with_def)
  moreover have "requireCDIPActivationAuth r j k sv = k sv" for k
    by (rule admitted_headers [OF j(2), of r "[]"]) (auto simp: r hq_def)
  ultimately have "ServeHTTP v e r sv = (sv\<lparr>sv_bus := b\<rparr>, Reply 200 (FrameBody f) None)"
    using relay_handled [OF j(1) r(3) j(3)] r(2) by simp
  then have "http_Receive (client_of (ht_managerURL t) v e other) t c stream sv = (sv\<lparr>sv_bus := b\<rparr>, Returns f)"
    using f r(1) by (simp add: http_Receive_def client_of_def hq_def q_def written_body_def)
  moreover have "relay_open (sv\<lparr>sv_bus := b\<rparr>) t stream"
    using assms(1) j ch(3) by (auto simp: relay_open_def admitted_def b_def)
  ultimately show ?thesis using that [of b] by (simp add: b_def)
qed

subsection \<open>A stream of frames\<close>

fun send_all :: "(ActivationFrame \<Rightarrow> 'w \<Rightarrow> 'w \<times> unit outcome) \<Rightarrow> ActivationFrame list \<Rightarrow> 'w \<Rightarrow> 'w \<times> unit outcome list" where
  "send_all send [] w = (w, [])"
| "send_all send (f # fs) w = (case send f w of (w', r) \<Rightarrow> (case send_all send fs w' of (w'', rs) \<Rightarrow> (w'', r # rs)))"

fun receive_all :: "('w \<Rightarrow> 'w \<times> ActivationFrame outcome) \<Rightarrow> nat \<Rightarrow> 'w \<Rightarrow> 'w \<times> ActivationFrame outcome list" where
  "receive_all rcv 0 w = (w, [])"
| "receive_all rcv (Suc n) w = (case rcv w of (w', r) \<Rightarrow> (case receive_all rcv n w' of (w'', rs) \<Rightarrow> (w'', r # rs)))"

lemma send_frames:
  assumes "relay_open sv t stream" and "list_all (good_frame stream) fs"
    and "int (length (queued (sv_bus sv) stream) + length fs) \<le> mt_buffer (sv_bus sv)"
  obtains b where "send_all (http_Send (client_of (ht_managerURL t) v e other) t c stream) fs sv = (sv\<lparr>sv_bus := b\<rparr>, map (\<lambda>f. Returns ()) fs)"
    "queued b stream = queued (sv_bus sv) stream @ fs" "relay_open (sv\<lparr>sv_bus := b\<rparr>) t stream"
  using assms
proof (induction fs arbitrary: sv thesis)
  case Nil
  from Nil(1) [of "sv_bus sv"] Nil(2) show ?case by simp
next
  case (Cons f fs)
  obtain b1 where b1: "http_Send (client_of (ht_managerURL t) v e other) t c stream f sv = (sv\<lparr>sv_bus := b1\<rparr>, Returns ())"
      "queued b1 stream = queued (sv_bus sv) stream @ [f]" "mt_buffer b1 = mt_buffer (sv_bus sv)" "relay_open (sv\<lparr>sv_bus := b1\<rparr>) t stream"
    using send_frame [OF Cons.prems(2), where f = f and v = v and e = e and other = other and c = c] Cons.prems(3,4) by auto
  obtain b2 where "send_all (http_Send (client_of (ht_managerURL t) v e other) t c stream) fs (sv\<lparr>sv_bus := b1\<rparr>)
        = (sv\<lparr>sv_bus := b2\<rparr>, map (\<lambda>f. Returns ()) fs)"
      "queued b2 stream = queued b1 stream @ fs" "relay_open (sv\<lparr>sv_bus := b2\<rparr>) t stream"
    using Cons.IH [OF _ b1(4)] Cons.prems(3,4) b1(2,3) by auto
  with Cons.prems(1) [of b2] b1 show ?case by simp
qed

lemma receive_frames:
  assumes "relay_open sv t stream" and "list_all (good_frame stream) fs" and "queued (sv_bus sv) stream = fs @ gs"
  obtains b where "receive_all (http_Receive (client_of (ht_managerURL t) v e other) t c stream) (length fs) sv = (sv\<lparr>sv_bus := b\<rparr>, map Returns fs)"
    "queued b stream = gs"
  using assms
proof (induction fs arbitrary: sv thesis)
  case Nil
  from Nil(1) [of "sv_bus sv"] Nil(4) show ?case by simp
next
  case (Cons f fs)
  obtain b1 where b1: "http_Receive (client_of (ht_managerURL t) v e other) t c stream sv = (sv\<lparr>sv_bus := b1\<rparr>, Returns f)"
      "queued b1 stream = fs @ gs" "relay_open (sv\<lparr>sv_bus := b1\<rparr>) t stream"
    using receive_frame [OF Cons.prems(2), where f = f and fs = "fs @ gs" and v = v and e = e and other = other and c = c]
      Cons.prems(3,4) by auto
  obtain b2 where "receive_all (http_Receive (client_of (ht_managerURL t) v e other) t c stream) (length fs) (sv\<lparr>sv_bus := b1\<rparr>)
        = (sv\<lparr>sv_bus := b2\<rparr>, map Returns fs)" "queued b2 stream = gs"
    using Cons.IH [OF _ b1(3)] Cons.prems(3) b1(2) by auto
  with Cons.prems(1) [of b2] b1 show ?case by simp
qed


text \<open>A worker of the first stage sends two frames, a client with the operator's token reads them.\<close>

definition demo_relay :: server where
  "demo_relay = NewServerWithOptions demo_options demo_distributed"

definition demo_stream :: StreamID where
  "demo_stream = \<lparr>sid_ParentJobID = ''job-01'', sid_StageJobID = ''job-02''\<rparr>"

definition demo_frames :: "ActivationFrame list" where
  "demo_frames = [demo_frame, demo_frame\<lparr>af_Header := (af_Header demo_frame)\<lparr>ac_Sequence := 8\<rparr>\<rparr>]"

definition demo_sender :: HTTPActivationTransport where
  "demo_sender = WithNodeID ''a'' (NewHTTPActivationTransport ''http://m/'' [])"

definition demo_reader :: HTTPActivationTransport where
  "demo_reader = NewHTTPActivationTransport ''http://m'' ''secret''"

lemma demo_relay_open:
  assumes "admitted demo_relay t (demo_stage_job ''job-02'' 0)"
  shows "relay_open demo_relay t demo_stream"
proof -
  have "plain ''job-01''" "plain ''job-02''" by code_simp+
  then have "plain_stream demo_stream" by (simp add: plain_stream_def demo_stream_def)
  moreover have "validateCDIPActivationStream ''job-01'' ''job-02'' demo_distributed = Some (demo_stage_job ''job-02'' 0)"
    by (simp add: validateCDIPActivationStream_def Job_lookup_def demo_distributed_jobs mget_def)
  ultimately show ?thesis
    using assms relay_path_query
    by (simp add: relay_open_def demo_relay_def demo_stream_def NewServerWithOptions_def NewMemoryActivationTransport_def)
qed

lemma demo_admitted: "admitted demo_relay demo_sender (demo_stage_job ''job-02'' 0)" "admitted demo_relay demo_reader j"
proof -
  have "TrimSpace ''a'' = ''a''" "\<not> blank ''secret''" by code_simp+
  then show "admitted demo_relay demo_sender (demo_stage_job ''job-02'' 0)" "admitted demo_relay demo_reader j"
    by (simp_all add: admitted_def demo_sender_def demo_reader_def NewHTTPActivationTransport_def WithNodeID_def demo_blank demo_nodes
        cdipActivationAllowedNodes_def demo_relay_def NewServerWithOptions_def demo_options_def)
qed


end
