(* ===== verification/Prompts.thy ===== *)
theory Prompts
  imports Serving
begin

section \<open>A prompt becomes a job\<close>

text \<open>
  The generation on one worker: which prompts \<open>handleModelGenerate\<close> accepts and what it does with them. The job is
  created for the chosen worker, but if that worker cannot take it at once (its slots are in use, or too little memory or disk is free)
  the job waits without a worker, and the scheduler may give it to any other one.
\<close>

lemma one_summary_of:
  "one_summary e model s = (case list_nodes e 0 s of (s1, ns) \<Rightarrow>
     (s1, model_summary ns (go_sort (\<lambda>a b. j_UpdatedAt a < j_UpdatedAt b) (Jobs (se_jobs e 0) s)) model))"
  by (simp add: one_summary_def modelSummaries_def split: prod.split)

lemma generatable_worker:
  assumes "modelGeneratableOn (model_summary ns js model) n"
  obtains node m where "node \<in> set ns" "n_ID node = n" "online_worker node" "nodeRuntimeReady node (m_Runtime model)"
    "m \<in> set (rs_Models (n_Resources node))" "mr_ID m = m_ID model" "mr_Ready m"
proof -
  obtain i where "i \<in> set (model_installs model js ns)" "mi_GenerateReady i" "mi_NodeID i = n"
    using assms by (auto simp: modelGeneratableOn_def list_ex_iff model_summary_fields)
  then show ?thesis using that by (auto simp: model_installs_iff model_install_ready)
qed

lemma append_prompt_effect:
  assumes "append_prompt e now model n req s = (s', g)"
  shows "jobs s' = jobs s \<and> nodes s' = nodes s
    \<and> (\<exists>conv. mget (conversations s') (request_conversation e req) = Some conv \<and> cv_ModelID conv = m_ID model \<and> cv_NodeID conv = n)"
  using assms by (auto simp: append_prompt_def AppendConversationMessage_def Let_def split: prod.splits)

lemma generate_job_effect:
  assumes "create_job e (generate_job_request model req g) s = (s', job)"
  shows "jobs s' = mput (j_ID job) job (jobs s) \<and> conversations s' = conversations s \<and> j_Type job = JobGenerate \<and> j_MaxAttempts job = 1
    \<and> (j_Status job = StatusScheduled \<and> j_AssignedTo job = gq_NodeID req \<or> j_Status job = StatusQueued \<and> j_AssignedTo job = []
       \<or> gq_NodeID req = [])"
  using assms
  by (auto simp: create_job_def CreateJob_def place_job_def new_job_def generate_job_request_def zero_create_def put_job_def
      normalizeMaxAttempts_def Let_def split: option.splits if_splits)

text \<open>
  C40. A prompt that is accepted for a worker has been checked: the worker is online with a ready runtime and the ready files of the model,
  and no generation is active in the conversation. It becomes exactly one job, all other jobs stay as the listing left them, and
  the conversation is the worker's. The job is scheduled on the chosen worker, or waits without any worker.
\<close>

theorem accepted_prompt_becomes_one_job:
  assumes "handleModelGenerate model e r sv = (sv', Reply 201 (JobBody job) c)"
  shows "\<exists>req s1 ns. decode_generate_request (rq_Body r) = Some req \<and> \<not> blank (gq_Prompt req) \<and> list_nodes e 0 (sv_state sv) = (s1, ns)
    \<and> (\<exists>node m. node \<in> set ns \<and> n_ID node = gq_NodeID req \<and> online_worker node \<and> nodeRuntimeReady node (m_Runtime model)
         \<and> m \<in> set (rs_Models (n_Resources node)) \<and> mr_ID m = m_ID model \<and> mr_Ready m)
    \<and> activeGenerateJobForConversation (Jobs (se_jobs e 1) s1) (request_conversation e req) = []
    \<and> jobs (sv_state sv') = mput (j_ID job) job (jobs s1) \<and> j_Type job = JobGenerate \<and> j_MaxAttempts job = 1
    \<and> (j_Status job = StatusScheduled \<and> j_AssignedTo job = gq_NodeID req \<or> j_Status job = StatusQueued \<and> j_AssignedTo job = [])
    \<and> (\<exists>conv. mget (conversations (sv_state sv')) (request_conversation e req) = Some conv \<and> cv_ModelID conv = m_ID model
         \<and> cv_NodeID conv = gq_NodeID req)"
proof -
  obtain s1 ns where ns: "list_nodes e 0 (sv_state sv) = (s1, ns)" by fastforce
  let ?js = "go_sort (\<lambda>a b. j_UpdatedAt a < j_UpdatedAt b) (Jobs (se_jobs e 0) (sv_state sv))"
  let ?e = "e\<lparr>se_clock := after 2 (se_clock e)\<rparr>"
  obtain req where req: "decode_generate_request (rq_Body r) = Some req" "\<not> blank (gq_Prompt req)" "gq_NodeID req \<noteq> []"
      "modelGeneratableOn (model_summary ns ?js model) (gq_NodeID req)"
      "activeGenerateJobForConversation (Jobs (se_jobs e 1) s1) (request_conversation e req) = []"
      "on_state (append_prompt e (se_clock e 1) model (gq_NodeID req) req) (\<lambda>g.
         on_state (create_job ?e (generate_job_request model req g)) (\<lambda>job. answer_with 201 (JobBody job))) (sv\<lparr>sv_state := s1\<rparr>)
         = (sv', Reply 201 (JobBody job) c)"
    using assms
    by (auto simp: handleModelGenerate_def on_state_def one_summary_of ns Let_def http_error_def method_not_allowed_def busy_conversation_def
        answer_with_def split: option.splits if_splits)
  obtain s2 g where g: "append_prompt e (se_clock e 1) model (gq_NodeID req) req s1 = (s2, g)" by fastforce
  obtain s3 where s3: "create_job ?e (generate_job_request model req g) s2 = (s3, job)" "sv_state sv' = s3"
    using req(6) by (auto simp: on_state_def g [simplified] answer_with_def split: prod.splits)
  obtain node m where "node \<in> set ns" "n_ID node = gq_NodeID req" "online_worker node" "nodeRuntimeReady node (m_Runtime model)"
      "m \<in> set (rs_Models (n_Resources node))" "mr_ID m = m_ID model" "mr_Ready m"
    using generatable_worker [OF req(4)] .
  then show ?thesis
    using req(1,2,3,5) ns generate_job_effect [OF s3(1)] append_prompt_effect [OF g] s3(2) by auto
qed

text \<open>A prompt for the first worker of the small cluster: it is accepted, and as that worker offers no memory, the job waits.\<close>

definition demo_prompt :: request where
  "demo_prompt = demo_request ''POST'' ''/v1/models/m/generate'' ''{\"node_id\":\"node-01\",\"prompt\":\"Hello\",\"conversation_id\":\"c\"}''"

definition demo_cluster :: server where
  "demo_cluster = NewServerWithOptions demo_options demo_rpc_state"

lemma demo_prompt_decoded: "decode_generate_request (rq_Body demo_prompt)
   = Some (zero_generate_request\<lparr>gq_NodeID := ''node-01'', gq_Prompt := ''Hello'', gq_ConversationID := ''c''\<rparr>)"
  by code_simp

lemma demo_prompt_accepted: "\<exists>sv' job. handleModelGenerate (hd Catalog) demo_rpc_env demo_prompt demo_cluster = (sv', Reply 201 (JobBody job) None)"
proof -
  have blank: "\<not> blank ''Hello''" by code_simp
  have idle: "activeGenerateJobForConversation [] x = []" for x by (simp add: activeGenerateJobForConversation_def)
  have summary: "one_summary demo_rpc_env (hd Catalog) (sv_state demo_cluster) = (demo_rpc_state, model_summary [alpha, beta] [] (hd Catalog))"
    by (simp add: one_summary_def demo_cluster_def NewServerWithOptions_def demo_list demo_no_jobs summary_without_jobs(1))
  have ok: "modelInstalledOn (model_summary [alpha, beta] [] (hd Catalog)) ''node-01''"
    "modelGeneratableOn (model_summary [alpha, beta] [] (hd Catalog)) ''node-01''"
    unfolding summary_without_jobs demo_installs by simp_all
  have post: "rq_Method demo_prompt = ''POST''" by (simp add: demo_prompt_def demo_request_def)
  show ?thesis
    unfolding handleModelGenerate_def post demo_prompt_decoded
    by (simp add: blank zero_generate_request_def on_state_def summary ok demo_no_jobs idle answer_with_def split: prod.split)
qed

theorem accepted_prompt_becomes_one_job_witness:
  "\<exists>sv' job. handleModelGenerate (hd Catalog) demo_rpc_env demo_prompt demo_cluster = (sv', Reply 201 (JobBody job) None)
     \<and> jobs (sv_state sv') = [(j_ID job, job)] \<and> j_Type job = JobGenerate"
proof -
  obtain sv' job where h: "handleModelGenerate (hd Catalog) demo_rpc_env demo_prompt demo_cluster = (sv', Reply 201 (JobBody job) None)"
    using demo_prompt_accepted by blast
  from accepted_prompt_becomes_one_job [OF h] obtain s1 ns where "list_nodes demo_rpc_env 0 demo_rpc_state = (s1, ns)"
      "jobs (sv_state sv') = mput (j_ID job) job (jobs s1)" "j_Type job = JobGenerate"
    by (auto simp: demo_cluster_def NewServerWithOptions_def)
  then have "jobs (sv_state sv') = [(j_ID job, job)] \<and> j_Type job = JobGenerate"
    using demo_list [of 0] by (simp add: demo_rpc_state_def mput_def)
  with h show ?thesis by blast
qed

subsection \<open>The choice of the worker is forgotten\<close>

text \<open>
  A job for the first worker, which cannot take it at the moment, is given to the second one with the next heartbeat, whatever the
  second one has installed: \<open>CreateJob\<close> does not keep \<open>AssignedTo\<close> for a job that has to wait.
\<close>

definition demo_free :: ResourceSnapshot where
  "demo_free = zero_resources\<lparr>rs_CPU := \<lparr>cpu_CoresTotal = 8, cpu_CoresAllowed = 4\<rparr>, rs_JobSlots := 1,
     rs_Memory := \<lparr>mem_TotalBytes = 8, mem_AllowedBytes = 8\<rparr>\<rparr>"

definition demo_pick :: "id list \<Rightarrow> jobs_env" where
  "demo_pick is = \<lparr>q_jobs = is, q_pick = \<lambda>_. \<lparr>p_now = 21, p_nodes = [''node-01'', ''node-02''], p_kinds = \<lambda>_. []\<rparr>\<rparr>"

definition demo_choice :: "manager_op list" where
  "demo_choice = [OpRegister (Some [1]) 10 (demo_pick []) (demo_rpc_join ''alpha'' [] [demo_installed]),
     OpRegister (Some [2]) 11 (demo_pick []) ((demo_rpc_join ''beta'' [] [])\<lparr>jr_Resources := demo_free\<rparr>),
     OpCreate (Some [9]) 20 (q_pick (demo_pick []) [])
       (zero_create\<lparr>cr_Type := JobGenerate, cr_AssignedTo := ''node-01'', cr_Requirements := no_requirements\<lparr>req_MemoryBytes := 4\<rparr>\<rparr>),
     OpHeartbeat 21 (demo_pick [''job-09'']) \<lparr>hb_NodeID = ''node-02'', hb_At = 21, hb_Resources = demo_free\<rparr>]"

lemma chosen_worker_is_forgotten:
  "map_option j_AssignedTo (mget (jobs (run_ops demo_choice (NewState 5))) ''job-09'') = Some ''node-02''"
  by code_simp

end
