(* ===== verification/Spec2Isabelle.thy ===== *)
theory Spec2Isabelle
  imports Recovery FileStore Findings RpcGuarantees Protocol Access Progress Wire Prompts
begin

text \<open>
  Verification of the manager of cmesh (Go, src/internal): a cluster of workers that run language models, one manager that keeps
  their state, schedules their jobs and coordinates generations that are spread over several workers.

  \<^bold>\<open>The program.\<close> The HTTP server (manager/server.go) decodes requests and calls a store. The store is \<open>State\<close>
  (manager/state.go), alone or inside \<open>FileStore\<close> (manager/file_store.go), which also writes a snapshot to a file. The state
  holds the nodes with their resources, the jobs, the benchmarks, the health of RPC endpoints, the conversations and the memories. Workers
  join, send heartbeats, fetch jobs and report progress and completion; a lost worker's jobs are given to others or fail. A
  distributed generation is planned over online workers (manager/distributed.go), becomes one parent job and one job for each pipeline stage,
  and is driven from stage boundary to stage boundary by the coordinator (manager/cdip.go, distributed.go) in the CDIP protocol
  (cdip/types.go); activations between stages go through the transport (transport/transport.go), in memory or relayed over HTTP. The
  other way to use several workers is llama.cpp's RPC: the manager checks and ranks endpoints and hands a plan to one worker
  (protocol/distributed_rpc.go).

  \<^bold>\<open>The theories\<close>, in the order in which they build on each other. A definition has the name of the function or type it models; a record
  field \<open>F\<close> of a Go struct is \<open>x_F\<close>.

  \<^item> The language and its library: \<open>Prelude\<close> (maps, strings, errors, time, sorting), \<open>Float64\<close>
    (binary64), \<open>Json\<close> (encoding/json on bytes), \<open>Strconv\<close> (ParseFloat, \<open>%.1f\<close>), \<open>JsonText\<close> (the parser reads
    what the printer writes).
  \<^item> The data: \<open>Cdip\<close> (cdip/types.go: messages, validation, stage states, shard manifests), \<open>Types\<close> (cluster/types.go,
    jobs/types.go, membership/types.go, resources/benchmark.go, manager/store.go, scheduler/scheduler.go), \<open>Protocol\<close>
    (protocol/distributed_rpc.go), \<open>Catalog\<close> (models/catalog.go), \<open>Codec\<close> (the JSON of stage inputs and frames).
  \<^item> The store: \<open>Conversations\<close> (manager/conversations.go), \<open>State\<close> (every method of state.go),
    \<open>Scheduling\<close> (the worker selection is a maximum over the eligible workers), \<open>Lifecycle\<close> (what one method does to every job, as
    a locale of job relations interpreted four times), \<open>Manager\<close> (the operations as a state machine, its invariant),
    \<open>Guarantees\<close> and \<open>Recovery\<close> (ended jobs, kept requests, job slots, evacuation, work conservation), \<open>Progress\<close>
    (stages end), \<open>FileStore\<close> (the file follows the state, a restart recovers it).
  \<^item> Distributed generation: \<open>Planning\<close> (the plan, the manifest, the stage jobs), \<open>Pipeline\<close> (when they are valid),
    \<open>Transport\<close>, \<open>HttpTransport\<close>, \<open>StageRuntime\<close> (runtimes/distributed_stage.go), \<open>Coordinator\<close>, \<open>Boundaries\<close>
    (a step moves all stages or none), \<open>Relay\<close> (a frame crosses every boundary), \<open>Drive\<close> (a run ends in success, and
    every coordinator operation is a sequence of operations of the store), \<open>Demo\<close> (the concrete run of their witnesses).
  \<^item> RPC generation: \<open>RpcPool\<close>, \<open>RpcHealth\<close> (ranking and quarantine), \<open>RpcPlan\<close>, \<open>RpcGuarantees\<close> (executable plans are
    accepted by the protocol and use free endpoints).
  \<^item> Views: \<open>Views\<close> and \<open>Placement\<close> (manager/models.go), \<open>Summaries\<close> (runs, cluster benchmarks, active generations) and
    \<open>Capacity\<close> (readiness, capacity reports) of server.go.
  \<^item> The server: \<open>Bodies\<close> (decoding of request bodies), \<open>Requests\<close> (requests, answers, the operator's token),
    \<open>WorkerRequests\<close>, \<open>ModelRequests\<close>, \<open>Server\<close> (the handlers, the routes, the ticks of the background loops),
    \<open>Serving\<close> (what every request keeps), \<open>Access\<close> (what the token guards), \<open>Wire\<close> (worker and manager over HTTP),
    \<open>Prompts\<close> (what becomes of a prompt).
  \<^item> \<open>Findings\<close>: behaviour that callers would not expect, as theorems.

  \<^bold>\<open>How the code is modelled.\<close>
  \<^item> A method of the store is one step, as it holds the mutex for its whole body. \<open>reachable\<close> are the states that some sequence of these
    steps leads to, with any clock readings, random bytes and map orders. An operation of the coordinator and an HTTP handler are functions on
    the state built from these steps; other requests are not interleaved with them. Since a handler keeps \<open>reachable\<close>
    step by step, the properties of all reachable states hold between its steps as well.
  \<^item> What the code reads from outside is an argument: \<open>time.Now\<close>, \<open>rand.Read\<close> (\<open>None\<close> for its error), the order of each map
    iteration, the outcome of dialling an endpoint, the HTTP client of a worker, whether a file can be read or written. Readings of one
    kind are numbered in the order of the calls (\<open>server_env\<close>).
  \<^item> An error is a value (\<open>option\<close>, a sum, or a datatype), a call that waits for ever or panics a constructor of \<open>outcome\<close> and
    \<open>run\<close>, or the replies \<open>NoReply\<close> and \<open>Aborted\<close>.
  \<^item> \<open>uint64\<close> is \<open>64 word\<close>; \<open>int\<close> is \<open>int\<close> with \<open>wrap64\<close> where a result can leave the range;
    \<open>float64\<close> is \<open>f64\<close>, rounded after every operation; the order of floating-point sums over a map is that of the argument.
  \<^item> Sorting is a stable insertion sort. Where elements with equal keys come from a map, its arbitrary order stands for every result of the
    unstable sort; the models that wait for capacity come from the catalog, and those that are equal in the
    comparison keep its order here.
  \<^item> \<open>ToLower\<close> on text that the code compares with ASCII words works on ASCII letters; the one use on arbitrary text (repeated memories) takes the
    function as an argument. Times are read from JSON by the strict RFC 3339 grammar.
  \<^item> Loops over lists are structural recursion. The JSON parser and \<open>TrimSpace\<close> use the length of the text as fuel; each
    step consumes a byte, and \<open>json_parse_print\<close> and \<open>trim_left_done\<close> show that it is enough. Other recursion has a proved measure.
  \<^item> \<open>http.ServeMux\<close> is modelled on the decoded path: cleaning and redirects, then the registered patterns. A page is the data that its
    template gets.

  \<^bold>\<open>What the properties say\<close> (the claims C1 to C40, each before its theorem). Messages: valid manifests partition the layers, completed stages ran
  the whole pipeline, accepted plans and results (C1 to C4). Catalog and prompts: lookups, the history that fits the context (C5, C6). The store: the
  selection is optimal, the invariant, ended jobs, kept requests, slots, evacuation, work conservation (C7 to C14), persistence (C15, C16).
  Transport and JSON: streams are queues, round trips (C17 to C19). Views: what is offered can be installed, planned and generated with (C20
  to C24). Distributed generation: manifests, stage jobs, preparation, boundaries, relay, completion (C25 to C31). RPC: ranking, quarantine, plans (C32
  to C35). The server: every request keeps the invariant and the configuration and gets a known status (C36), the token guards everything
  but the calls of workers (C37), stages end (C38), frames sent over HTTP arrive in order (C39), and an accepted prompt becomes one
  job on the chosen worker (C40).

  \<^bold>\<open>Not modelled.\<close> manager/postgres_store.go is SQL against a database outside the sources. The text of the HTML pages, and the label and formatting
  helpers that only their templates call (server.go from \<open>jobStatusLabel\<close> on), have no effect on the state. runtimes/llamacpp*.go,
  resources/discovery.go and runner.go, workercontrol and cmd/cmesh run external programs, read the operating system, or are command lines over the HTTP
  interface. Starting and stopping the listener and the timers of the background loops are not modelled; one tick of each loop is. The
  desktop application is in another language. The remaining packages hold interfaces and constants.
\<close>

end
